(* ===== verification/Rust_Prelude.thy ===== *)
theory Rust_Prelude
  imports Complex_Main "HOL-Library.Word" "HOL-Library.Monad_Syntax"
begin

text \<open>
  What the crate uses of Rust itself, shared by every other theory: fixed-width integers and
  their checked, saturating and casting operations; \<open>Result\<close> with the \<open>?\<close> operator, and the
  panics that \<open>expect\<close>, slicing and indexing can raise; little-endian byte conversion; slices of a
  byte buffer and \<open>copy_from_slice\<close>.  The collections \<open>checked\<close> and \<open>outcome\<close> hold the rewrite
  rules that the component proofs share.
\<close>

named_theorems checked \<open>when a checked operation succeeds, and its value as a natural number\<close>
named_theorems outcome \<open>when a chain of fallible steps succeeds\<close>

type_synonym u8 = "8 word"
type_synonym u16 = "16 word"
type_synonym u32 = "32 word"
type_synonym u64 = "64 word"
type_synonym u128 = "128 word"
type_synonym bytes = "u8 list"

section \<open>Integer operations of the standard library\<close>

definition checked_add :: "'a::len word \<Rightarrow> 'a word \<Rightarrow> 'a word option" where
  "checked_add a b = (if unat a + unat b < 2 ^ LENGTH('a) then Some (a + b) else None)"

definition checked_sub :: "'a::len word \<Rightarrow> 'a word \<Rightarrow> 'a word option" where
  "checked_sub a b = (if b \<le> a then Some (a - b) else None)"

definition checked_mul :: "'a::len word \<Rightarrow> 'a word \<Rightarrow> 'a word option" where
  "checked_mul a b = (if unat a * unat b < 2 ^ LENGTH('a) then Some (a * b) else None)"

definition checked_div :: "'a::len word \<Rightarrow> 'a word \<Rightarrow> 'a word option" where
  "checked_div a b = (if b = 0 then None else Some (a div b))"

definition saturating_sub :: "'a::len word \<Rightarrow> 'a word \<Rightarrow> 'a word" where
  "saturating_sub a b = (if b \<le> a then a - b else 0)"

definition u64_try_from :: "u128 \<Rightarrow> u64 option" where
  "u64_try_from x = (if unat x < 2 ^ 64 then Some (ucast x) else None)"

lemma unat_lt: "unat (x :: 'a::len word) < 2 ^ LENGTH('a)"
  by (rule unsigned_less)

lemma unat_u8 [simp]: "unat (x :: u8) < 256"
  using unat_lt [of x] by simp

lemma unat_u16: "unat (x :: u16) < 65536"
  using unat_lt [of x] by simp

lemma unat_u64: "unat (x :: u64) < 2 ^ 64"
  using unat_lt [of x] by simp

lemma unat_of_nat_small: "n < 2 ^ LENGTH('a) \<Longrightarrow> unat (word_of_nat n :: 'a::len word) = n"
  by (simp add: unat_of_nat)

lemma word_with_value: "n < 2 ^ LENGTH('a) \<Longrightarrow> \<exists>w :: 'a::len word. unat w = n"
  by (blast intro: unat_of_nat_small)

text \<open>A linear search finds the one element with the key.\<close>

lemma find_by_key: "distinct (map f xs) \<Longrightarrow> e \<in> set xs \<Longrightarrow> find (\<lambda>x. f x = f e) xs = Some e"
  by (induction xs) (auto simp: image_iff)

text \<open>Quotients compare as their fractions do.\<close>

lemma div_le_div_cross:
  assumes "0 < b" and "0 < d" and "a * d \<le> c * b"
  shows "a div b \<le> c div (d :: nat)"
proof -
  have "a div b * d * b \<le> a * d"
    by (metis div_times_less_eq_dividend mult.commute mult.left_commute mult_le_mono1)
  then have "a div b * d * b \<le> c * b" using assms(3) by (rule order_trans)
  then have "a div b * d \<le> c" using assms(1) by simp
  then show ?thesis using assms(2) by (simp add: less_eq_div_iff_mult_less_eq)
qed

lemma unat_ucast_up: "LENGTH('a::len) \<le> LENGTH('b::len) \<Longrightarrow> unat (ucast (x :: 'a word) :: 'b word) = unat x"
  by (simp add: unsigned_ucast_eq take_bit_nat_eq_self order_less_le_trans [OF unat_lt])

lemma unat_ucast_fits:
  "unat x < 2 ^ LENGTH('b) \<Longrightarrow> unat (ucast (x :: 'a::len word) :: 'b::len word) = unat x"
  by (simp add: unsigned_ucast_eq take_bit_nat_eq_self)

text \<open>The value of a checked operation, read as a natural number, is the exact value.\<close>

lemma checked_add_eq_Some [checked]:
  "checked_add a b = Some c \<longleftrightarrow> unat c = unat a + unat (b :: 'a::len word)"
  using unat_lt [of c]
  by (auto simp: checked_add_def word_unat_eq_iff unat_word_ariths simp del: unsigned_less)

lemma checked_mul_eq_Some [checked]:
  "checked_mul a b = Some c \<longleftrightarrow> unat c = unat a * unat (b :: 'a::len word)"
  using unat_lt [of c]
  by (auto simp: checked_mul_def word_unat_eq_iff unat_word_ariths simp del: unsigned_less)

lemma checked_sub_eq_Some [checked]:
  "checked_sub a b = Some c \<longleftrightarrow> unat b \<le> unat a \<and> unat c = unat a - unat (b :: 'a::len word)"
  by (auto simp: checked_sub_def word_le_nat_alt unat_sub word_unat_eq_iff)

lemma checked_div_eq_Some [checked]:
  "checked_div a b = Some c \<longleftrightarrow> b \<noteq> 0 \<and> unat c = unat a div unat (b :: 'a::len word)"
  by (auto simp: checked_div_def unat_div word_unat_eq_iff)

lemma u64_try_from_eq_Some [checked]:
  "u64_try_from x = Some y \<longleftrightarrow> unat x = unat y"
  using unat_u64 [of y]
  by (auto simp: u64_try_from_def word_unat_eq_iff unat_ucast_fits)

text \<open>A checked operation fails exactly when the exact value does not fit.\<close>

lemma checked_add_eq_None [checked]:
  "checked_add a b = None \<longleftrightarrow> 2 ^ LENGTH('a) \<le> unat a + unat (b :: 'a::len word)"
  by (auto simp: checked_add_def)

lemma checked_mul_eq_None [checked]:
  "checked_mul a b = None \<longleftrightarrow> 2 ^ LENGTH('a) \<le> unat a * unat (b :: 'a::len word)"
  by (auto simp: checked_mul_def)

lemma checked_sub_eq_None [checked]:
  "checked_sub a b = None \<longleftrightarrow> unat a < unat (b :: 'a::len word)"
  by (auto simp: checked_sub_def word_le_nat_alt)

lemma checked_div_eq_None [checked]:
  "checked_div a b = None \<longleftrightarrow> (b :: 'a::len word) = 0"
  by (auto simp: checked_div_def)

lemma u64_try_from_eq_None [checked]: "u64_try_from x = None \<longleftrightarrow> 2 ^ 64 \<le> unat x"
  by (auto simp: u64_try_from_def)

lemma unat_saturating_sub: "unat (saturating_sub a b) = unat a - unat (b :: 'a::len word)"
  by (auto simp: saturating_sub_def word_le_nat_alt unat_sub)

section \<open>Results, the question-mark operator and panics\<close>

text \<open>
  A call that returns \<open>anyhow::Result\<close> ends in one of three ways: a value, an error value, or a
  panic (\<open>expect\<close> on nothing, a slice or an index out of range).
\<close>

datatype ('a, 'e) outcome = Ok 'a | Err 'e | Panic

fun and_then :: "('a, 'e) outcome \<Rightarrow> ('a \<Rightarrow> ('b, 'e) outcome) \<Rightarrow> ('b, 'e) outcome" where
  "and_then (Ok x) f = f x"
| "and_then (Err e) f = Err e"
| "and_then Panic f = Panic"

fun ok_or :: "'a option \<Rightarrow> 'e \<Rightarrow> ('a, 'e) outcome" where
  "ok_or (Some x) e = Ok x"
| "ok_or None e = Err e"

fun expect :: "'a option \<Rightarrow> ('a, 'e) outcome" where
  "expect (Some x) = Ok x"
| "expect None = Panic"

text \<open>\<open>Result::expect\<close>: an error becomes a panic.\<close>

fun expect_ok :: "('a, 'e) outcome \<Rightarrow> ('a, 'e) outcome" where
  "expect_ok (Ok x) = Ok x"
| "expect_ok (Err e) = Panic"
| "expect_ok Panic = Panic"

text \<open>The \<open>?\<close> operator in a method that owns \<open>&mut self\<close>: what was assigned so far stays.\<close>

fun try_in :: "'s \<Rightarrow> ('a, 'e) outcome \<Rightarrow> ('a \<Rightarrow> 's \<times> ('b, 'e) outcome) \<Rightarrow> 's \<times> ('b, 'e) outcome" where
  "try_in s (Ok x) f = f x"
| "try_in s (Err e) f = (s, Err e)"
| "try_in s Panic f = (s, Panic)"

text \<open>A loop that pushes the value of a fallible step for each element, left to right.\<close>

fun collect_outcomes :: "('a \<Rightarrow> ('b, 'e) outcome) \<Rightarrow> 'a list \<Rightarrow> ('b list, 'e) outcome" where
  "collect_outcomes f [] = Ok []"
| "collect_outcomes f (x # xs) =
     and_then (f x) (\<lambda>y. and_then (collect_outcomes f xs) (\<lambda>ys. Ok (y # ys)))"

lemma and_then_eq_Ok [outcome]: "and_then m f = Ok y \<longleftrightarrow> (\<exists>x. m = Ok x \<and> f x = Ok y)"
  by (cases m) auto

lemma and_then_eq_Err [outcome]:
  "and_then m f = Err e \<longleftrightarrow> m = Err e \<or> (\<exists>x. m = Ok x \<and> f x = Err e)"
  by (cases m) auto

lemma and_then_eq_Panic [outcome]:
  "and_then m f = Panic \<longleftrightarrow> m = Panic \<or> (\<exists>x. m = Ok x \<and> f x = Panic)"
  by (cases m) auto

lemma ok_or_eq_Ok [outcome]: "ok_or m e = Ok x \<longleftrightarrow> m = Some x"
  by (cases m) auto

lemma ok_or_eq_Err [outcome]: "ok_or m e = Err e' \<longleftrightarrow> m = None \<and> e' = e"
  by (cases m) auto

lemma ok_or_not_Panic [simp]: "ok_or m e \<noteq> Panic"
  by (cases m) auto

lemma expect_eq_Ok [outcome]: "expect m = Ok x \<longleftrightarrow> m = Some x"
  by (cases m) auto

lemma expect_eq_Panic [outcome]: "expect m = Panic \<longleftrightarrow> m = None"
  by (cases m) auto

lemma expect_not_Err [simp]: "expect m \<noteq> Err e"
  by (cases m) auto

lemma expect_ok_eq_Ok [outcome]: "expect_ok m = Ok x \<longleftrightarrow> m = Ok x"
  by (cases m) auto

lemma try_in_cases:
  "try_in s m f = (case m of Ok x \<Rightarrow> f x | Err e \<Rightarrow> (s, Err e) | Panic \<Rightarrow> (s, Panic))"
  by (cases m) auto

end
