(* ===== verification/Amm_Math.thy ===== *)
theory Amm_Math
  imports Rust_Prelude
begin

text \<open>
  The swap arithmetic of \<open>math/amm_math.rs\<close>, at its widths: \<open>u64\<close> reserves and amounts, \<open>u128\<close>
  intermediate values, every multiplication, addition and division checked.  The \<open>_value\<close> lemmas
  say when each function returns and what; the nat-level lemmas about
  \<open>r_out * e div (r_in + e)\<close> carry the constant-product theorems.
\<close>

section \<open>Definitions\<close>

definition calculate_effective_input :: "u64 \<Rightarrow> u16 \<Rightarrow> u128 option" where
  "calculate_effective_input amount_in fee_bps = do {
     let amount = (ucast amount_in :: u128);
     fee_factor \<leftarrow> checked_sub 10000 (ucast fee_bps :: u128);
     product \<leftarrow> checked_mul amount fee_factor;
     checked_div product 10000
   }"

definition calculate_swap_output :: "u64 \<Rightarrow> u64 \<Rightarrow> u128 \<Rightarrow> u64 option" where
  "calculate_swap_output reserve_in reserve_out effective_input = do {
     let r_in = (ucast reserve_in :: u128);
     let r_out = (ucast reserve_out :: u128);
     numerator \<leftarrow> checked_mul r_out effective_input;
     denominator \<leftarrow> checked_add r_in effective_input;
     if denominator = 0 then None
     else do {
       output \<leftarrow> checked_div numerator denominator;
       u64_try_from output
     }
   }"

definition verify_k_invariant :: "u64 \<Rightarrow> u64 \<Rightarrow> u64 \<Rightarrow> u64 \<Rightarrow> bool option" where
  "verify_k_invariant reserve_in_before reserve_out_before reserve_in_after reserve_out_after = do {
     k_before \<leftarrow> checked_mul (ucast reserve_in_before :: u128) (ucast reserve_out_before);
     k_after \<leftarrow> checked_mul (ucast reserve_in_after :: u128) (ucast reserve_out_after);
     Some (k_after \<ge> k_before)
   }"

section \<open>Values\<close>

lemma unat_u64_u128 [simp]: "unat (ucast (x :: u64) :: u128) = unat x"
  by (rule unat_ucast_up) simp

lemma unat_u16_u128 [simp]: "unat (ucast (x :: u16) :: u128) = unat x"
  by (rule unat_ucast_up) simp

lemma unat_10000 [simp]: "unat (10000 :: u128) = 10000"
  by simp

text \<open>A product of two \<open>u64\<close> values, and of a \<open>u64\<close> and a fee factor, fits in \<open>u128\<close>.\<close>

lemma u64_product_fits: "unat (x :: u64) * unat (y :: u64) < 2 ^ 128"
proof -
  have "unat x * unat y < 2 ^ 64 * 2 ^ 64"
    using unat_u64 [of x] unat_u64 [of y] by (intro mult_strict_mono') auto
  then show ?thesis by simp
qed

lemma checked_mul_u64s:
  "checked_mul (ucast (x :: u64) :: u128) (ucast (y :: u64)) = Some (ucast x * ucast y)"
  using u64_product_fits [of x y] by (simp add: checked_mul_def)

lemma u64_times_factor_fits:
  assumes "k \<le> 10000"
  shows "unat (a :: u64) * k < 2 ^ 128"
proof -
  have "unat a * k \<le> 2 ^ 64 * 10000"
    using unat_u64 [of a] assms by (intro mult_le_mono) simp_all
  also have "\<dots> < (2 :: nat) ^ 128" by simp
  finally show ?thesis .
qed

lemma effective_input_Some:
  "calculate_effective_input a f = Some e \<longleftrightarrow>
     unat f \<le> 10000 \<and> unat e = unat a * (10000 - unat f) div 10000" (is "?l \<longleftrightarrow> ?r")
proof
  assume ?l
  then show ?r
    by (auto simp: calculate_effective_input_def bind_eq_Some_conv checked)
next
  assume r: ?r
  define d :: u128 where "d = word_of_nat (10000 - unat f)"
  define p :: u128 where "p = word_of_nat (unat a * (10000 - unat f))"
  have d: "unat d = 10000 - unat f"
    unfolding d_def by (rule unat_of_nat_small) simp
  have p: "unat p = unat a * (10000 - unat f)"
    unfolding p_def using u64_times_factor_fits [of "10000 - unat f" a]
    by (intro unat_of_nat_small) simp
  have "checked_sub 10000 (ucast f :: u128) = Some d"
    and "checked_mul (ucast a :: u128) d = Some p" and "checked_div p 10000 = Some e"
    using r d p by (simp_all add: checked)
  then show ?l
    by (simp add: calculate_effective_input_def Let_def)
qed

lemma swap_output_Some:
  "calculate_swap_output r_in r_out e = Some out \<longleftrightarrow>
     unat r_out * unat e < 2 ^ 128 \<and> unat r_in + unat e < 2 ^ 128 \<and> 0 < unat r_in + unat e \<and>
     unat out = unat r_out * unat e div (unat r_in + unat e)" (is "?l \<longleftrightarrow> ?r")
proof
  assume ?l
  then obtain n d q where "checked_mul (ucast r_out :: u128) e = Some n"
    and "checked_add (ucast r_in :: u128) e = Some d" and "d \<noteq> 0"
    and "checked_div n d = Some q" and "u64_try_from q = Some out"
    by (auto simp: calculate_swap_output_def Let_def bind_eq_Some_conv split: if_splits)
  then show ?r
    using unat_lt [of n] unat_lt [of d] by (auto simp: checked word_unat_eq_iff simp del: unsigned_less)
next
  assume r: ?r
  obtain n :: u128 where n: "unat n = unat r_out * unat e"
    using r word_with_value [where 'a = 128, of "unat r_out * unat e"] by auto
  obtain d :: u128 where d: "unat d = unat r_in + unat e"
    using r word_with_value [where 'a = 128, of "unat r_in + unat e"] by auto
  have "d \<noteq> 0" using r d by (auto simp: word_unat_eq_iff)
  then have "checked_div n d = Some (ucast out)" and "u64_try_from (ucast out) = Some out"
    using r n d by (simp_all add: checked)
  moreover have "checked_mul (ucast r_out :: u128) e = Some n" and "checked_add (ucast r_in :: u128) e = Some d"
    using n d by (simp_all add: checked)
  ultimately show ?l
    using \<open>d \<noteq> 0\<close> by (simp add: calculate_swap_output_def Let_def)
qed

lemma verify_k_Some:
  "verify_k_invariant a b c d = Some (unat a * unat b \<le> unat c * unat d)"
proof -
  have "unat (ucast x * ucast y :: u128) = unat (x :: u64) * unat (y :: u64)" for x y
    using checked_mul_u64s [of x y] by (simp only: checked unat_u64_u128)
  then show ?thesis
    by (simp add: verify_k_invariant_def checked_mul_u64s word_le_nat_alt)
qed

section \<open>The constant-product curve on natural numbers\<close>

text \<open>
  What \<open>calculate_swap_output\<close> computes where it returns, and the facts about it that the
  properties of the quotes rest on: it stays within the reserve, grows with the input, is the
  largest output that keeps the product of the reserves, and gains nothing by splitting a swap or
  by swapping back.
\<close>

definition curve_out :: "nat \<Rightarrow> nat \<Rightarrow> nat \<Rightarrow> nat" where
  "curve_out r_in r_out e = r_out * e div (r_in + e)"

lemma curve_out_times_le: "curve_out r_in r_out e * (r_in + e) \<le> r_out * e"
  by (simp add: curve_out_def div_times_less_eq_dividend)

lemma curve_out_le: "curve_out r_in r_out e \<le> r_out"
proof (cases "r_in + e = 0")
  case False
  have "r_out * e div (r_in + e) \<le> r_out * (r_in + e) div (r_in + e)"
    by (intro div_le_mono) simp
  also have "\<dots> = r_out" using False by (rule nonzero_mult_div_cancel_right)
  finally show ?thesis by (simp add: curve_out_def)
qed (simp add: curve_out_def)

lemma curve_out_less: "0 < r_in \<Longrightarrow> 0 < r_out \<Longrightarrow> curve_out r_in r_out e < r_out"
  by (simp add: curve_out_def less_mult_imp_div_less)

lemma curve_out_mono: "e \<le> e' \<Longrightarrow> 0 < r_in + e \<Longrightarrow> curve_out r_in r_out e \<le> curve_out r_in r_out e'"
  unfolding curve_out_def by (rule div_le_div_cross) (auto simp: algebra_simps mult_le_mono)

lemma curve_out_keeps_k:
  "r_in * r_out \<le> (r_in + e) * (r_out - curve_out r_in r_out e)"
  using curve_out_times_le [of r_in r_out e] by (simp add: diff_mult_distrib2 algebra_simps)

lemma curve_out_keeps_k_fee:
  "e \<le> a \<Longrightarrow> r_in * r_out \<le> (r_in + a) * (r_out - curve_out r_in r_out e)"
  using curve_out_keeps_k [of r_in r_out e]
    mult_le_mono1 [of "r_in + e" "r_in + a" "r_out - curve_out r_in r_out e"] by linarith

lemma curve_out_largest:
  assumes "r_in * r_out \<le> (r_in + e) * (r_out - out)" and "out \<le> r_out" and "0 < r_in + e"
  shows "out \<le> curve_out r_in r_out e"
proof -
  obtain rest where "r_out = out + rest" using assms(2) by (auto simp: le_iff_add)
  then have "out * (r_in + e) \<le> r_out * e"
    using assms(1) by (simp add: algebra_simps)
  then show ?thesis
    using assms(3) by (simp add: curve_out_def less_eq_div_iff_mult_less_eq)
qed

lemma curve_out_split:
  assumes "0 < r_in + e1" and o1: "o1 = curve_out r_in r_out e1"
  shows "o1 + curve_out (r_in + e1) (r_out - o1) e2 \<le> curve_out r_in r_out (e1 + e2)"
proof (rule curve_out_largest)
  let ?o2 = "curve_out (r_in + e1) (r_out - o1) e2"
  have "r_in * r_out \<le> (r_in + e1) * (r_out - o1)"
    unfolding o1 by (rule curve_out_keeps_k)
  also have "\<dots> \<le> (r_in + e1 + e2) * (r_out - o1 - ?o2)"
    by (rule curve_out_keeps_k)
  finally show "r_in * r_out \<le> (r_in + (e1 + e2)) * (r_out - (o1 + ?o2))"
    by (simp add: add.assoc)
  show "o1 + ?o2 \<le> r_out"
    using curve_out_le [of r_in r_out e1] curve_out_le [of "r_in + e1" "r_out - o1" e2]
    unfolding o1 by linarith
qed (use assms(1) in auto)

lemma curve_out_back:
  assumes "0 < r_in" and "0 < r_out" and "swapped \<le> curve_out r_in r_out e"
  shows "curve_out (r_out - curve_out r_in r_out e) (r_in + e) swapped \<le> e"
proof -
  let ?o = "curve_out r_in r_out e"
  have less: "?o < r_out" using assms by (intro curve_out_less)
  have "curve_out (r_out - ?o) (r_in + e) swapped \<le> curve_out (r_out - ?o) (r_in + e) ?o"
    using assms(3) less by (intro curve_out_mono) auto
  also have "\<dots> = (r_in + e) * ?o div r_out"
    using less by (simp add: curve_out_def)
  also have "\<dots> \<le> r_out * e div r_out"
    using curve_out_times_le [of r_in r_out e] by (intro div_le_mono) (simp add: mult.commute)
  also have "\<dots> = e" using assms(2) by simp
  finally show ?thesis .
qed

text \<open>The fee leaves no more than the input, and grows with it.\<close>

lemma effective_le: "k \<le> 10000 \<Longrightarrow> a * k div 10000 \<le> (a :: nat)"
  using div_le_mono [of "a * k" "a * 10000" 10000] by simp

lemma effective_input_bounds:
  assumes "calculate_effective_input a f = Some e"
  shows "unat e \<le> unat a" and "unat e < 2 ^ 64"
proof -
  show "unat e \<le> unat a"
    using assms by (auto simp: effective_input_Some intro: effective_le)
  then show "unat e < 2 ^ 64" using unat_u64 [of a] by linarith
qed

text \<open>Under a post-fee input that fits in \<open>u64\<close>, the only failing swap is the empty one.\<close>

lemma swap_output_u64:
  assumes "unat e < 2 ^ 64"
  shows "calculate_swap_output r_in r_out e = Some out \<longleftrightarrow>
    0 < unat r_in + unat e \<and> unat out = curve_out (unat r_in) (unat r_out) (unat e)"
proof -
  have "unat r_out * unat e \<le> 2 ^ 64 * 2 ^ 64"
    using unat_u64 [of r_out] assms by (intro mult_le_mono) simp_all
  moreover have "unat r_out * unat e \<noteq> 2 ^ 64 * 2 ^ 64"
  proof -
    have "unat r_out * unat e \<le> unat r_out * 2 ^ 64" using assms by simp
    also have "\<dots> < 2 ^ 64 * 2 ^ 64" using unat_u64 [of r_out] by simp
    finally show ?thesis by simp
  qed
  ultimately have "unat r_out * unat e < 2 ^ 128" by simp
  moreover have "unat r_in + unat e < 2 ^ 128" using unat_u64 [of r_in] assms by simp
  ultimately show ?thesis by (simp add: swap_output_Some curve_out_def)
qed

lemma swap_output_exists:
  assumes "0 < unat r_in + unat e" and "unat e < 2 ^ 64"
  shows "\<exists>out. calculate_swap_output r_in r_out e = Some out"
proof -
  have "curve_out (unat r_in) (unat r_out) (unat e) < 2 ^ 64"
    using curve_out_le unat_u64 [of r_out] by (rule order_le_less_trans)
  then show ?thesis
    using assms word_with_value [where 'a = 64] by (auto simp: swap_output_u64)
qed

section \<open>Properties\<close>

text \<open>The LP fee.  \<open>calculate_effective_input\<close> returns for every \<open>u64\<close> amount exactly when the
  fee is at most 10000 basis points (its checked multiplication never overflows), and then the
  result is the amount times the remaining basis points over 10000, rounded down, so never more
  than the amount.\<close>

lemma effective_input_spec:
  "(calculate_effective_input amount fee = None \<longleftrightarrow> 10000 < unat fee) \<and>
   (\<forall>e. calculate_effective_input amount fee = Some e \<longrightarrow>
      unat e = unat amount * (10000 - unat fee) div 10000 \<and> unat e \<le> unat amount)"
proof (intro conjI allI impI)
  have "unat amount * (10000 - unat fee) div 10000 < 2 ^ 128"
    using effective_le [of "10000 - unat fee" "unat amount"] unat_u64 [of amount] by simp
  then have "\<exists>e. calculate_effective_input amount fee = Some e" if "unat fee \<le> 10000"
    using that word_with_value [where 'a = 128] by (auto simp: effective_input_Some)
  then show "calculate_effective_input amount fee = None \<longleftrightarrow> 10000 < unat fee"
    by (metis effective_input_Some not_le option.exhaust option.distinct(1))
qed (auto simp: effective_input_Some intro: effective_le)

text \<open>C31: The swap output.  \<open>calculate_swap_output\<close> fails exactly when the product or the sum
  overflows \<open>u128\<close> or both the input reserve and the input are zero; the final conversion to
  \<open>u64\<close> never fails, because the output is the constant-product quotient rounded down, which is
  at most the output reserve, and strictly less than it when both reserves are positive.\<close>

theorem swap_output_spec:
  "(calculate_swap_output r_in r_out e = None \<longleftrightarrow>
      2 ^ 128 \<le> unat r_out * unat e \<or> 2 ^ 128 \<le> unat r_in + unat e \<or> unat r_in + unat e = 0) \<and>
   (\<forall>out. calculate_swap_output r_in r_out e = Some out \<longrightarrow>
      unat out = unat r_out * unat e div (unat r_in + unat e) \<and> out \<le> r_out \<and>
      (0 < r_in \<longrightarrow> 0 < r_out \<longrightarrow> out < r_out))"
proof (intro conjI allI impI)
  have "\<exists>out :: u64. unat out = unat r_out * unat e div (unat r_in + unat e)"
    using curve_out_le [of "unat r_in" "unat r_out" "unat e"] unat_u64 [of r_out]
    by (intro word_with_value) (simp add: curve_out_def)
  then show "calculate_swap_output r_in r_out e = None \<longleftrightarrow>
      2 ^ 128 \<le> unat r_out * unat e \<or> 2 ^ 128 \<le> unat r_in + unat e \<or> unat r_in + unat e = 0"
    by (metis swap_output_Some not_le neq0_conv option.exhaust option.distinct(1))
next
  fix out assume out: "calculate_swap_output r_in r_out e = Some out"
  then show v: "unat out = unat r_out * unat e div (unat r_in + unat e)"
    by (simp add: swap_output_Some)
  then show "out \<le> r_out"
    using curve_out_le [of "unat r_in" "unat r_out" "unat e"]
    by (simp add: curve_out_def word_le_nat_alt)
  show "out < r_out" if "0 < r_in" and "0 < r_out"
    using v that curve_out_less [of "unat r_in" "unat r_out" "unat e"]
    by (simp add: curve_out_def word_less_nat_alt)
qed

theorem swap_output_spec_witness:
  "calculate_swap_output 1000000 1000000 1000 = Some 999 \<and> (999 :: u64) \<le> 1000000"
proof -
  have c: "calculate_swap_output 1000000 1000000 1000 = Some 999"
    by (simp add: swap_output_Some)
  show ?thesis using swap_output_spec [of 1000000 1000000 1000] c by blast
qed

text \<open>C28: A swap never lowers the product of the reserves.  After any swap that the two functions
  price, with the whole input added to its reserve and the output taken from the other, the
  on-chain check \<open>verify_k_invariant\<close> returns true, whatever the fee.\<close>

theorem swap_passes_k_check:
  assumes "calculate_effective_input amount fee = Some e"
    and "calculate_swap_output r_in r_out e = Some out"
    and "unat r_in + unat amount < 2 ^ 64"
  shows "verify_k_invariant r_in r_out (r_in + amount) (r_out - out) = Some True"
proof -
  have out: "unat out = curve_out (unat r_in) (unat r_out) (unat e)"
    using assms(1,2) effective_input_bounds(2) by (simp add: swap_output_u64)
  then have "out \<le> r_out" by (simp add: word_le_nat_alt curve_out_le)
  then have "unat (r_out - out) = unat r_out - curve_out (unat r_in) (unat r_out) (unat e)"
    using out by (simp add: unat_sub word_le_nat_alt)
  moreover have "unat (r_in + amount) = unat r_in + unat amount"
    using assms(3) by (simp add: unat_word_ariths)
  ultimately show ?thesis
    using curve_out_keeps_k_fee [OF effective_input_bounds(1) [OF assms(1)], of "unat r_in" "unat r_out"]
    by (simp add: verify_k_Some)
qed

theorem swap_passes_k_check_witness:
  "verify_k_invariant 1000000 1000000 (1000000 + 1000) (1000000 - 989) = Some True"
  by (rule swap_passes_k_check [of 1000 100 990]) (simp_all add: effective_input_Some swap_output_Some)

text \<open>C29: The swap output is exactly the best the curve allows.  It is within the reserve, and an amount
  of that reserve could be paid out without lowering the product of the reserves, counting the
  post-fee input, just when it is at most the output: so the output itself keeps the product, and a
  single unit more would not.\<close>

theorem swap_output_is_largest:
  assumes "calculate_swap_output r_in r_out e = Some out"
  shows "out \<le> r_out \<and>
    (\<forall>out' \<le> r_out. unat r_in * unat r_out \<le> (unat r_in + unat e) * unat (r_out - out') \<longleftrightarrow> out' \<le> out)"
proof -
  have v: "unat out = curve_out (unat r_in) (unat r_out) (unat e)" and pos: "0 < unat r_in + unat e"
    using assms by (simp_all add: swap_output_Some curve_out_def)
  have le: "out \<le> r_out" using v curve_out_le by (simp add: word_le_nat_alt)
  have "unat r_in * unat r_out \<le> (unat r_in + unat e) * unat (r_out - out') \<longleftrightarrow> out' \<le> out"
    if "out' \<le> r_out" for out'
  proof
    assume "unat r_in * unat r_out \<le> (unat r_in + unat e) * unat (r_out - out')"
    then show "out' \<le> out"
      using curve_out_largest [of "unat r_in" "unat r_out" "unat e" "unat out'"] that pos v
      by (simp add: word_le_nat_alt unat_sub)
  next
    assume "out' \<le> out"
    then have "unat (r_out - out) \<le> unat (r_out - out')"
      using le that by (simp add: unat_sub word_le_nat_alt)
    then have "(unat r_in + unat e) * unat (r_out - out) \<le> (unat r_in + unat e) * unat (r_out - out')"
      by (rule mult_le_mono2)
    moreover have "unat r_in * unat r_out \<le> (unat r_in + unat e) * unat (r_out - out)"
      using curve_out_keeps_k [of "unat r_in" "unat r_out" "unat e"] le v by (simp add: unat_sub)
    ultimately show "unat r_in * unat r_out \<le> (unat r_in + unat e) * unat (r_out - out')" by (rule le_trans [rotated])
  qed
  then show ?thesis using le by blast
qed

theorem swap_output_is_largest_witness:
  "calculate_swap_output 1000000 1000000 1000 = Some 999 \<and>
   unat (1000000 :: u64) * unat (1000000 :: u64) \<le>
     (unat (1000000 :: u64) + unat (1000 :: u128)) * unat ((1000000 :: u64) - 999) \<and>
   \<not> unat (1000000 :: u64) * unat (1000000 :: u64) \<le>
     (unat (1000000 :: u64) + unat (1000 :: u128)) * unat ((1000000 :: u64) - 1000)"
proof -
  have c: "calculate_swap_output 1000000 1000000 1000 = Some 999" by (simp add: swap_output_Some)
  have largest: "unat (1000000 :: u64) * unat (1000000 :: u64) \<le>
      (unat (1000000 :: u64) + unat (1000 :: u128)) * unat ((1000000 :: u64) - out') \<longleftrightarrow> out' \<le> 999"
    if "out' \<le> 1000000" for out' :: u64
    using swap_output_is_largest [OF c] that by blast
  show ?thesis using c largest [of 999] largest [of 1000] by simp
qed

text \<open>C30: Splitting a swap gains nothing: paying \<open>e1\<close> and then \<open>e2\<close>, the second against the reserves
  that the first leaves, yields in total at most what paying \<open>e1 + e2\<close> at once yields.\<close>

theorem swap_split_gains_nothing:
  assumes "calculate_swap_output r_in r_out e1 = Some o1"
    and "unat r_in + unat e1 < 2 ^ 64" and "unat e2 < 2 ^ 64"
    and "calculate_swap_output (r_in + ucast e1) (r_out - o1) e2 = Some o2"
    and "unat e1 + unat e2 < 2 ^ 64" and "calculate_swap_output r_in r_out (e1 + e2) = Some o12"
  shows "unat o1 + unat o2 \<le> unat o12"
proof -
  have e1: "unat e1 < 2 ^ 64" using assms(2) by simp
  have sum: "unat (e1 + e2) = unat e1 + unat e2" using assms(5) by (simp add: unat_word_ariths)
  have r_in: "unat (r_in + ucast e1) = unat r_in + unat e1"
    using assms(2) e1 by (simp add: unat_word_ariths unat_ucast_fits)
  have o1: "unat o1 = curve_out (unat r_in) (unat r_out) (unat e1)" and "0 < unat r_in + unat e1"
    using assms(1) e1 by (simp_all add: swap_output_u64)
  moreover have "unat (r_out - o1) = unat r_out - unat o1"
    using o1 curve_out_le by (simp add: unat_sub word_le_nat_alt)
  ultimately show ?thesis
    using assms(3-6) e1 curve_out_split [of "unat r_in" "unat e1" "unat o1" "unat r_out" "unat e2"]
    by (simp add: swap_output_u64 sum r_in)
qed

theorem swap_split_gains_nothing_witness:
  "calculate_swap_output 1000000 1000000 500 = Some 499 \<and>
   calculate_swap_output (1000000 + ucast (500 :: u128)) (1000000 - 499) 500 = Some 499 \<and>
   calculate_swap_output 1000000 1000000 (500 + 500) = Some 999 \<and>
   unat (499 :: u64) + unat (499 :: u64) \<le> unat (999 :: u64)"
proof (intro conjI)
  show c1: "calculate_swap_output 1000000 1000000 500 = Some 499"
    and c2: "calculate_swap_output (1000000 + ucast (500 :: u128)) (1000000 - 499) 500 = Some 499"
    and c3: "calculate_swap_output 1000000 1000000 (500 + 500) = Some 999"
    by (simp_all add: swap_output_Some)
  show "unat (499 :: u64) + unat (499 :: u64) \<le> unat (999 :: u64)"
    by (rule swap_split_gains_nothing [OF c1 _ _ c2 _ c3]) simp_all
qed

text \<open>Swapping the whole output back never returns more than was paid in, even without fees: no
  round trip through one pool is profitable.\<close>

lemma swap_back_no_profit:
  assumes "0 < r_in" and "0 < r_out"
    and "calculate_swap_output r_in r_out e = Some out" and "unat r_in + unat e < 2 ^ 64"
    and "swapped \<le> out"
    and "calculate_swap_output (r_out - out) (r_in + ucast e) (ucast swapped) = Some returned"
  shows "unat returned \<le> unat e"
proof -
  have e: "unat e < 2 ^ 64" using assms(4) by simp
  have r_in: "unat (r_in + ucast e) = unat r_in + unat e"
    using assms(4) e by (simp add: unat_word_ariths unat_ucast_fits)
  have out: "unat out = curve_out (unat r_in) (unat r_out) (unat e)"
    using assms(3) e by (simp add: swap_output_u64)
  then have "unat (r_out - out) = unat r_out - unat out"
    using curve_out_le by (simp add: unat_sub word_le_nat_alt)
  then show ?thesis
    using assms(1,2,5,6) out curve_out_back [of "unat r_in" "unat r_out" "unat swapped" "unat e"] unat_u64 [of swapped]
    by (simp add: swap_output_u64 r_in word_less_nat_alt word_le_nat_alt)
qed

theorem swap_back_no_profit_witness:
  "calculate_swap_output 1000000 1000000 1000 = Some 999 \<and>
   calculate_swap_output (1000000 - 999) (1000000 + ucast (1000 :: u128)) (ucast (999 :: u64)) = Some 999 \<and>
   unat (999 :: u64) \<le> unat (1000 :: u128)"
proof (intro conjI)
  show c1: "calculate_swap_output 1000000 1000000 1000 = Some 999"
    and c2: "calculate_swap_output (1000000 - 999) (1000000 + ucast (1000 :: u128)) (ucast (999 :: u64)) = Some 999"
    by (simp_all add: swap_output_Some)
  show "unat (999 :: u64) \<le> unat (1000 :: u128)"
    by (rule swap_back_no_profit [OF _ _ c1 _ _ c2]) simp_all
qed

end
