(* ===== verification/Tax_Math.thy ===== *)
theory Tax_Math
  imports Rust_Prelude
begin

text \<open>
  The tax arithmetic of \<open>math/tax_math.rs\<close>: the tax on an amount, and its split between the
  staking escrow, the Carnage fund and the treasury.
\<close>

section \<open>Definitions\<close>

definition calculate_tax :: "u64 \<Rightarrow> u16 \<Rightarrow> u64 option" where
  "calculate_tax amount_lamports tax_bps =
     (if 10000 < tax_bps then None
      else do {
        let amount = (ucast amount_lamports :: u128);
        let bps = (ucast tax_bps :: u128);
        product \<leftarrow> checked_mul amount bps;
        tax \<leftarrow> checked_div product 10000;
        u64_try_from tax
      })"

definition STAKING_BPS :: u128 where "STAKING_BPS = 7100"
definition CARNAGE_BPS :: u128 where "CARNAGE_BPS = 2400"
definition BPS_DENOM :: u128 where "BPS_DENOM = 10000"

definition split_distribution :: "u64 \<Rightarrow> (u64 \<times> u64 \<times> u64) option" where
  "split_distribution total_tax =
     (if total_tax < 4 then Some (total_tax, 0, 0)
      else do {
        let total_u = (ucast total_tax :: u128);
        staking_product \<leftarrow> checked_mul total_u STAKING_BPS;
        staking_u128 \<leftarrow> checked_div staking_product BPS_DENOM;
        staking \<leftarrow> u64_try_from staking_u128;
        carnage_product \<leftarrow> checked_mul total_u CARNAGE_BPS;
        carnage_u128 \<leftarrow> checked_div carnage_product BPS_DENOM;
        carnage \<leftarrow> u64_try_from carnage_u128;
        rest \<leftarrow> checked_sub total_tax staking;
        treasury \<leftarrow> checked_sub rest carnage;
        Some (staking, carnage, treasury)
      })"

section \<open>A share of a 64-bit amount\<close>

text \<open>
  Both functions multiply a \<open>u64\<close> by at most 10000 in \<open>u128\<close>, divide by 10000 and convert back:
  no step of that can fail, and the value is the share rounded down.
\<close>

definition bps_share :: "u64 \<Rightarrow> u128 \<Rightarrow> u64 option" where
  "bps_share amount bps = do {
     product \<leftarrow> checked_mul (ucast amount) bps;
     share \<leftarrow> checked_div product 10000;
     u64_try_from share
   }"

lemma share_le: "k \<le> 10000 \<Longrightarrow> a * k div 10000 \<le> (a :: nat)"
  using div_le_mono [of "a * k" "a * 10000" 10000] by simp

lemma bps_share_Some:
  assumes "unat bps \<le> 10000"
  shows "bps_share amount bps = Some s \<longleftrightarrow> unat s = unat amount * unat bps div 10000" (is "?l \<longleftrightarrow> ?r")
proof
  assume ?l
  then show ?r by (auto simp: bps_share_def bind_eq_Some_conv checked unat_ucast_up)
next
  assume r: ?r
  have "unat amount * unat bps \<le> 2 ^ 64 * 10000"
    using unat_u64 [of amount] assms by (intro mult_le_mono) simp_all
  then have "unat amount * unat bps < 2 ^ 128"
    by (rule order_le_less_trans) simp
  then obtain p :: u128 where p: "unat p = unat amount * unat bps"
    using word_with_value [where 'a = 128, of "unat amount * unat bps"] by auto
  then have "checked_mul (ucast amount) bps = Some p" and "checked_div p 10000 = Some (ucast s)"
    and "u64_try_from (ucast s) = Some s"
    using r by (simp_all add: checked unat_ucast_up)
  then show ?l by (simp add: bps_share_def)
qed

lemma bps_share_exists:
  assumes "unat bps \<le> 10000"
  shows "\<exists>s. bps_share amount bps = Some s"
proof -
  have "unat amount * unat bps div 10000 < 2 ^ 64"
    using share_le [OF assms, of "unat amount"] unat_u64 [of amount] by linarith
  then show ?thesis
    using assms word_with_value [where 'a = 64] by (auto simp: bps_share_Some)
qed

lemma calculate_tax_share:
  "calculate_tax amount bps = (if 10000 < unat bps then None else bps_share amount (ucast bps))"
  by (simp add: calculate_tax_def bps_share_def Let_def word_less_nat_alt)

lemma unat_u16_u128_tax: "unat (ucast (x :: u16) :: u128) = unat x"
  by (rule unat_ucast_up) simp

lemma tax_Some:
  "calculate_tax amount bps = Some t \<longleftrightarrow>
     unat bps \<le> 10000 \<and> unat t = unat amount * unat bps div 10000"
  by (auto simp: calculate_tax_share bps_share_Some unat_u16_u128_tax)

lemma tax_None: "calculate_tax amount bps = None \<longleftrightarrow> 10000 < unat bps"
  using bps_share_exists [of "ucast bps" amount]
  by (auto simp: calculate_tax_share unat_u16_u128_tax)

lemma tax_le: "calculate_tax amount bps = Some t \<Longrightarrow> unat t \<le> unat amount"
  by (auto simp: tax_Some intro: share_le)

lemma split_distribution_shares:
  "split_distribution total_tax =
     (if total_tax < 4 then Some (total_tax, 0, 0)
      else do {
        staking \<leftarrow> bps_share total_tax STAKING_BPS;
        carnage \<leftarrow> bps_share total_tax CARNAGE_BPS;
        rest \<leftarrow> checked_sub total_tax staking;
        treasury \<leftarrow> checked_sub rest carnage;
        Some (staking, carnage, treasury)
      })"
  by (simp add: split_distribution_def bps_share_def BPS_DENOM_def Let_def)

lemma bps_values [simp]: "unat STAKING_BPS = 7100" "unat CARNAGE_BPS = 2400"
  by (simp_all add: STAKING_BPS_def CARNAGE_BPS_def)

section \<open>Properties\<close>

text \<open>The tax.  \<open>calculate_tax\<close> fails exactly on a rate above 10000 basis points; otherwise the
  tax is the amount times the rate over 10000, rounded down, never more than the amount, and all
  of it at 10000: no intermediate overflow is reachable.\<close>

lemma calculate_tax_spec:
  "(calculate_tax amount bps = None \<longleftrightarrow> 10000 < unat bps) \<and>
   (\<forall>t. calculate_tax amount bps = Some t \<longrightarrow>
      unat t = unat amount * unat bps div 10000 \<and> unat t \<le> unat amount \<and>
      (unat bps = 10000 \<longrightarrow> t = amount))"
  by (auto simp: tax_None tax_Some word_unat_eq_iff intro: share_le)

theorem calculate_tax_spec_witness:
  "calculate_tax 1000000000 400 = Some 40000000 \<and> unat (40000000 :: u64) \<le> unat (1000000000 :: u64)"
proof -
  have c: "calculate_tax 1000000000 400 = Some 40000000" by (simp add: tax_Some)
  show ?thesis using calculate_tax_spec [of 1000000000 400] c by blast
qed

text \<open>C32: The split of the tax loses nothing.  \<open>split_distribution\<close> returns for every total: its
  checked subtractions cannot fail.  Under 4 lamports all goes to staking; otherwise staking gets
  71% and Carnage 24%, both rounded down, and the treasury the rest: at least 5% rounded down and
  at most two lamports more.  The three parts add up to the total.\<close>

theorem split_distribution_conserves:
  "\<exists>s c t. split_distribution total_tax = Some (s, c, t) \<and>
     unat s + unat c + unat t = unat total_tax \<and>
     (if unat total_tax < 4 then s = total_tax \<and> c = 0 \<and> t = 0
      else unat s = unat total_tax * 7100 div 10000 \<and> unat c = unat total_tax * 2400 div 10000 \<and>
        unat total_tax * 500 div 10000 \<le> unat t \<and> unat t \<le> unat total_tax * 500 div 10000 + 2)"
proof (cases "unat total_tax < 4")
  case True
  then show ?thesis
    by (simp add: split_distribution_def word_less_nat_alt)
next
  case False
  obtain s c where s: "bps_share total_tax STAKING_BPS = Some s" and c: "bps_share total_tax CARNAGE_BPS = Some c"
    using bps_share_exists [of STAKING_BPS total_tax] bps_share_exists [of CARNAGE_BPS total_tax] by auto
  then have v: "unat s = unat total_tax * 7100 div 10000" "unat c = unat total_tax * 2400 div 10000"
    by (simp_all add: bps_share_Some)
  then have "unat s \<le> unat total_tax" and "unat c \<le> unat total_tax - unat s" by linarith+
  moreover from this have "unat (total_tax - s) = unat total_tax - unat s"
    and "unat (total_tax - s - c) = unat total_tax - unat s - unat c"
    by (simp_all add: unat_sub word_le_nat_alt)
  moreover from calculation have "split_distribution total_tax = Some (s, c, total_tax - s - c)"
    using False s c
    by (simp add: split_distribution_shares checked_sub_def word_less_nat_alt word_le_nat_alt)
  ultimately show ?thesis using False v by simp linarith
qed

end
