(* ===== verification/Byte_Codec.thy ===== *)
theory Byte_Codec
  imports Rust_Prelude
begin

text \<open>
  Byte buffers as the account parsers and the instruction encoders use them: range slices and
  indexing (which panic out of range), \<open>copy_from_slice\<close>, and the little-endian conversions
  \<open>to_le_bytes\<close> and \<open>from_le_bytes\<close>.  The locale \<open>fixed_codec\<close> is the contract of a fixed-width
  field encoding; it is interpreted for \<open>u16\<close> and \<open>u64\<close> here and for public keys in \<open>Pubkeys\<close>.
\<close>

section \<open>Slices\<close>

definition sub_slice :: "'a list \<Rightarrow> nat \<Rightarrow> nat \<Rightarrow> 'a list" where
  "sub_slice xs i j = take (j - i) (drop i xs)"

text \<open>\<open>&data[i..j]\<close> and \<open>data[i]\<close>.\<close>

definition slice_at :: "'a list \<Rightarrow> nat \<Rightarrow> nat \<Rightarrow> ('a list, 'e) outcome" where
  "slice_at xs i j = (if i \<le> j \<and> j \<le> length xs then Ok (sub_slice xs i j) else Panic)"

definition index_at :: "'a list \<Rightarrow> nat \<Rightarrow> ('a, 'e) outcome" where
  "index_at xs i = (if i < length xs then Ok (xs ! i) else Panic)"

text \<open>\<open>data[i..i + src.len()].copy_from_slice(src)\<close>, for a range inside the buffer.\<close>

definition copy_at :: "nat \<Rightarrow> 'a list \<Rightarrow> 'a list \<Rightarrow> 'a list" where
  "copy_at i src xs = take i xs @ src @ drop (i + length src) xs"

text \<open>A byte string literal \<open>b"..."\<close>.\<close>

definition ascii_bytes :: "string \<Rightarrow> bytes" where
  "ascii_bytes s = map of_char s"

lemma length_sub_slice [simp]: "j \<le> length xs \<Longrightarrow> length (sub_slice xs i j) = j - i"
  by (simp add: sub_slice_def)

lemma nth_sub_slice: "j \<le> length xs \<Longrightarrow> k < j - i \<Longrightarrow> sub_slice xs i j ! k = xs ! (i + k)"
  by (simp add: sub_slice_def)

lemma slice_at_in [simp]: "i \<le> j \<Longrightarrow> j \<le> length xs \<Longrightarrow> slice_at xs i j = Ok (sub_slice xs i j)"
  by (simp add: slice_at_def)

lemma index_at_in [simp]: "i < length xs \<Longrightarrow> index_at xs i = Ok (xs ! i)"
  by (simp add: index_at_def)

lemma length_copy_at [simp]: "i + length src \<le> length xs \<Longrightarrow> length (copy_at i src xs) = length xs"
  by (simp add: copy_at_def)

lemma nth_copy_at:
  "i + length src \<le> length xs \<Longrightarrow> k < length xs \<Longrightarrow>
     copy_at i src xs ! k = (if i \<le> k \<and> k < i + length src then src ! (k - i) else xs ! k)"
  by (auto simp: copy_at_def nth_append min_def)

lemma sub_slice_copy_same:
  assumes "i + length src \<le> length xs" and "j = i + length src"
  shows "sub_slice (copy_at i src xs) i j = src"
  using assms by (simp add: sub_slice_def copy_at_def)

lemma sub_slice_copy_other:
  assumes "i + length src \<le> length xs" and "b \<le> length xs"
    and "b \<le> i \<or> i + length src \<le> a"
  shows "sub_slice (copy_at i src xs) a b = sub_slice xs a b"
  using assms by (intro nth_equalityI) (auto simp: nth_sub_slice nth_copy_at)

lemma sub_slice_update_other:
  "b \<le> length xs \<Longrightarrow> k < a \<or> b \<le> k \<Longrightarrow> sub_slice (xs[k := v]) a b = sub_slice xs a b"
  by (intro nth_equalityI) (auto simp: nth_sub_slice nth_list_update)

lemma sub_slice_eq_nth:
  "b \<le> length xs \<Longrightarrow> b \<le> length ys \<Longrightarrow> sub_slice xs a b = sub_slice ys a b \<Longrightarrow>
     a \<le> k \<Longrightarrow> k < b \<Longrightarrow> xs ! k = ys ! k"
  using nth_sub_slice [of b xs "k - a" a] nth_sub_slice [of b ys "k - a" a] by simp

lemma sub_slice_cong:
  "b \<le> length xs \<Longrightarrow> b \<le> length ys \<Longrightarrow> (\<And>k. a \<le> k \<Longrightarrow> k < b \<Longrightarrow> xs ! k = ys ! k) \<Longrightarrow>
     sub_slice xs a b = sub_slice ys a b"
  by (intro nth_equalityI) (auto simp: nth_sub_slice)

section \<open>Little-endian conversion\<close>

fun le_bytes_of_nat :: "nat \<Rightarrow> nat \<Rightarrow> bytes" where
  "le_bytes_of_nat 0 v = []"
| "le_bytes_of_nat (Suc n) v = word_of_nat (v mod 256) # le_bytes_of_nat n (v div 256)"

fun le_nat_of_bytes :: "bytes \<Rightarrow> nat" where
  "le_nat_of_bytes [] = 0"
| "le_nat_of_bytes (b # bs) = unat b + 256 * le_nat_of_bytes bs"

definition to_le_bytes :: "'a::len word \<Rightarrow> bytes" where
  "to_le_bytes x = le_bytes_of_nat (LENGTH('a) div 8) (unat x)"

definition from_le_bytes :: "bytes \<Rightarrow> 'a::len word" where
  "from_le_bytes bs = word_of_nat (le_nat_of_bytes bs)"

lemma length_le_bytes_of_nat [simp]: "length (le_bytes_of_nat n v) = n"
  by (induction n arbitrary: v) auto

lemma le_nat_of_bytes_less: "le_nat_of_bytes bs < 256 ^ length bs"
proof (induction bs)
  case (Cons b bs)
  have "unat b + 256 * le_nat_of_bytes bs < 256 * Suc (le_nat_of_bytes bs)"
    using unat_u8 [of b] by simp
  also have "\<dots> \<le> 256 * 256 ^ length bs"
    using Cons.IH by (simp add: Suc_le_eq)
  finally show ?case by simp
qed simp

lemma le_nat_le_bytes: "le_nat_of_bytes (le_bytes_of_nat n v) = v mod 256 ^ n"
proof (induction n arbitrary: v)
  case (Suc n)
  have "unat (word_of_nat (v mod 256) :: u8) = v mod 256"
    by (rule unat_of_nat_small) simp
  then show ?case
    by (simp add: Suc.IH mod_mult2_eq add.commute)
qed simp

lemma le_bytes_le_nat: "le_bytes_of_nat (length bs) (le_nat_of_bytes bs) = bs"
proof (induction bs)
  case (Cons b bs)
  have "(unat b + 256 * le_nat_of_bytes bs) mod 256 = unat b"
    and "(unat b + 256 * le_nat_of_bytes bs) div 256 = le_nat_of_bytes bs"
    using unat_u8 [of b] by (simp_all add: div_add1_eq)
  then show ?case using Cons.IH by simp
qed simp

lemma length_to_le_bytes [simp]: "length (to_le_bytes (x :: 'a::len word)) = LENGTH('a) div 8"
  by (simp add: to_le_bytes_def)

lemma power_256_bytes: "8 dvd n \<Longrightarrow> (256 :: nat) ^ (n div 8) = 2 ^ n"
proof -
  assume "8 dvd n"
  then have "(2 :: nat) ^ n = 2 ^ (8 * (n div 8))" by simp
  also have "\<dots> = (2 ^ 8) ^ (n div 8)" by (rule power_mult)
  finally show ?thesis by simp
qed

lemma from_to_le_bytes:
  assumes "8 dvd LENGTH('a)"
  shows "from_le_bytes (to_le_bytes (x :: 'a::len word)) = x"
  using unat_lt [of x] power_256_bytes [OF assms]
  by (simp add: from_le_bytes_def to_le_bytes_def le_nat_le_bytes)

lemma to_from_le_bytes:
  assumes "8 dvd LENGTH('a)" and "length bs = LENGTH('a) div 8"
  shows "to_le_bytes (from_le_bytes bs :: 'a::len word) = bs"
proof -
  have "le_nat_of_bytes bs < 2 ^ LENGTH('a)"
    using le_nat_of_bytes_less [of bs] power_256_bytes [OF assms(1)] assms(2) by simp
  then have "unat (from_le_bytes bs :: 'a word) = le_nat_of_bytes bs"
    unfolding from_le_bytes_def by (rule unat_of_nat_small)
  then show ?thesis
    using le_bytes_le_nat [of bs] assms(2) by (simp add: to_le_bytes_def)
qed

section \<open>The contract of a fixed-width field\<close>

text \<open>
  An encoder and a decoder of values at a fixed number of bytes: what the parsers need from the
  integer conversions and from the 32-byte public keys.  Reading a field back after it was
  written, reading a field beside one that was written, and telling two buffers apart by a field
  are proved once for every such encoding.
\<close>

locale fixed_codec =
  fixes enc :: "'v \<Rightarrow> bytes" and dec :: "bytes \<Rightarrow> 'v" and width :: nat
  assumes length_enc: "length (enc v) = width"
    and dec_enc: "dec (enc v) = v"
    and enc_dec: "length bs = width \<Longrightarrow> enc (dec bs) = bs"
begin

lemma enc_eq_iff: "enc v = enc w \<longleftrightarrow> v = w"
  by (metis dec_enc)

lemma dec_eq_iff: "length bs = width \<Longrightarrow> length cs = width \<Longrightarrow> dec bs = dec cs \<longleftrightarrow> bs = cs"
  by (metis enc_dec)

lemma read_written:
  assumes "i + width \<le> length xs" and "j = i + width"
  shows "dec (sub_slice (copy_at i (enc v) xs) i j) = v"
  using assms by (simp add: sub_slice_copy_same length_enc dec_enc)

lemma read_beside:
  assumes "i + width \<le> length xs" and "b \<le> length xs" and "b \<le> i \<or> i + width \<le> a"
  shows "sub_slice (copy_at i (enc v) xs) a b = sub_slice xs a b"
  using assms by (intro sub_slice_copy_other) (auto simp: length_enc)

lemma field_determines_bytes:
  assumes "dec (sub_slice xs a b) = dec (sub_slice ys a b)" and "b - a = width"
    and "b \<le> length xs" and "b \<le> length ys" and "a \<le> k" and "k < b"
  shows "xs ! k = ys ! k"
proof -
  have "sub_slice xs a b = sub_slice ys a b"
    using assms dec_eq_iff [of "sub_slice xs a b" "sub_slice ys a b"] by simp
  then show ?thesis using assms by (auto intro: sub_slice_eq_nth)
qed

end

text \<open>\<open>u16::to_le_bytes\<close> and \<open>u64::to_le_bytes\<close> with their inverses meet the contract.\<close>

interpretation u16_le: fixed_codec "to_le_bytes :: u16 \<Rightarrow> bytes" from_le_bytes 2
  by unfold_locales (simp_all add: from_to_le_bytes to_from_le_bytes)

interpretation u64_le: fixed_codec "to_le_bytes :: u64 \<Rightarrow> bytes" from_le_bytes 8
  by unfold_locales (simp_all add: from_to_le_bytes to_from_le_bytes)

end
