(* ===== verification/Pubkeys.thy ===== *)
theory Pubkeys
  imports Byte_Codec "HOL-Library.List_Lexorder"
begin

text \<open>
  Solana public keys, \<open>Pubkey([u8; 32])\<close>: exactly the 32-byte lists, so that no length has to be
  assumed anywhere.  \<open>as_ref\<close> is the crate's \<open>.as_ref()\<close>, and the order (derived in Rust, byte by
  byte from the left) is the lexicographic one of \<open>HOL-Library.List_Lexorder\<close>.  The interface
  types that carry keys through every component, \<open>Account\<close>, \<open>AccountMap\<close> and \<open>AccountMeta\<close>,
  are here too.
\<close>

typedef pubkey = "{bs :: bytes. length bs = 32}"
  morphisms as_ref pubkey_of_ref
  by (rule exI [of _ "replicate 32 0"]) simp

lemma length_as_ref [simp]: "length (as_ref p) = 32"
  using as_ref [of p] by simp

lemma pubkey_eq_iff: "p = q \<longleftrightarrow> as_ref p = as_ref q"
  by (simp add: as_ref_inject)

text \<open>
  Building a key from bytes; \<open>Pubkey::try_from(&[u8])\<close> succeeds on exactly 32 of them.  The two
  code equations let closed terms with keys be evaluated.
\<close>

definition pubkey_of_bytes :: "bytes \<Rightarrow> pubkey" where
  "pubkey_of_bytes bs = pubkey_of_ref (if length bs = 32 then bs else replicate 32 0)"

lemma pubkey_abstype [code abstype]: "pubkey_of_ref (as_ref p) = p"
  by (rule as_ref_inverse)

lemma as_ref_pubkey_of_bytes_code [code abstract]:
  "as_ref (pubkey_of_bytes bs) = (if length bs = 32 then bs else replicate 32 0)"
  by (simp add: pubkey_of_bytes_def pubkey_of_ref_inverse)

definition pubkey_try_from :: "bytes \<Rightarrow> pubkey option" where
  "pubkey_try_from bs = (if length bs = 32 then Some (pubkey_of_bytes bs) else None)"

lemma as_ref_pubkey_of_bytes: "length bs = 32 \<Longrightarrow> as_ref (pubkey_of_bytes bs) = bs"
  by (simp add: as_ref_pubkey_of_bytes_code)

lemma pubkey_of_bytes_as_ref [simp]: "pubkey_of_bytes (as_ref p) = p"
  by (simp add: pubkey_eq_iff as_ref_pubkey_of_bytes_code)

lemma pubkey_try_from_32: "length bs = 32 \<Longrightarrow> pubkey_try_from bs = Some (pubkey_of_bytes bs)"
  by (simp add: pubkey_try_from_def)

interpretation pubkey_codec: fixed_codec as_ref pubkey_of_bytes 32
  by unfold_locales (simp_all add: as_ref_pubkey_of_bytes)

instantiation pubkey :: equal
begin

definition "HOL.equal p q \<longleftrightarrow> as_ref p = as_ref q"

instance
  by standard (simp add: equal_pubkey_def pubkey_eq_iff)

end

instantiation pubkey :: linorder
begin

definition "p \<le> q \<longleftrightarrow> as_ref p \<le> as_ref q"

definition "p < q \<longleftrightarrow> as_ref p < as_ref q"

instance
  by standard (auto simp: less_eq_pubkey_def less_pubkey_def pubkey_eq_iff)

end

section \<open>Accounts and account metas\<close>

text \<open>
  \<open>solana_sdk::account::Account\<close>, of which the crate reads \<open>data\<close> and \<open>owner\<close>; the
  \<open>AccountMap\<close> (a \<open>HashMap\<close> from keys to accounts) that Jupiter passes to \<open>update\<close>; and
  \<open>solana_sdk::instruction::AccountMeta\<close> with its two constructors.
\<close>

record account =
  acc_data :: bytes
  acc_owner :: pubkey

type_synonym account_map = "pubkey \<rightharpoonup> account"

record account_meta =
  meta_pubkey :: pubkey
  is_signer :: bool
  is_writable :: bool

definition meta_new :: "pubkey \<Rightarrow> bool \<Rightarrow> account_meta" where
  "meta_new k signer = \<lparr>meta_pubkey = k, is_signer = signer, is_writable = True\<rparr>"

definition meta_readonly :: "pubkey \<Rightarrow> bool \<Rightarrow> account_meta" where
  "meta_readonly k signer = \<lparr>meta_pubkey = k, is_signer = signer, is_writable = False\<rparr>"

lemma meta_sel [simp]:
  "meta_pubkey (meta_new k b) = k" "is_signer (meta_new k b) = b" "is_writable (meta_new k b)"
  "meta_pubkey (meta_readonly k b) = k" "is_signer (meta_readonly k b) = b"
  "\<not> is_writable (meta_readonly k b)"
  by (simp_all add: meta_new_def meta_readonly_def)

text \<open>
  \<open>Pubkey::find_program_address\<close> (a SHA-256 search off the curve) and the associated-token
  address derivation are library code: parameters of every definition that calls them.
\<close>

type_synonym pda_fn = "bytes list \<Rightarrow> pubkey \<Rightarrow> pubkey \<times> u8"
type_synonym ata_fn = "pubkey \<Rightarrow> pubkey \<Rightarrow> pubkey \<Rightarrow> pubkey"

end
