(* ===== verification/Addresses.thy ===== *)
theory Addresses
  imports Pubkeys
begin

text \<open>
  The hardcoded mainnet addresses of \<open>accounts/addresses.rs\<close> and the protocol constants of
  \<open>constants.rs\<close>.  The source writes an address as a Base58 literal that the \<open>pubkey!\<close> macro
  decodes at compile time; here each constant is its 32 bytes.  The lemmas \<open>literal_*\<close> decode the
  source's own literal (Bitcoin alphabet, big-endian, a leading \<open>1\<close> for each zero byte) and find
  those bytes.  The last part says which addresses differ.
\<close>

named_theorems address_bytes \<open>the 32 bytes of each address constant\<close>

section \<open>Addresses\<close>

definition AMM_PROGRAM_ID :: pubkey where
  "AMM_PROGRAM_ID = pubkey_of_bytes
   [64, 2, 165, 171, 119, 91, 59, 77, 147, 27, 43, 71, 192, 60, 119, 242,
    223, 134, 93, 200, 28, 54, 196, 171, 217, 186, 29, 126, 31, 138, 198, 186]"

definition TRANSFER_HOOK_PROGRAM_ID :: pubkey where
  "TRANSFER_HOOK_PROGRAM_ID = pubkey_of_bytes
   [174, 11, 207, 252, 211, 113, 63, 236, 103, 69, 51, 40, 94, 95, 95, 12,
    145, 13, 103, 229, 16, 95, 156, 216, 241, 31, 106, 215, 48, 236, 18, 50]"

definition TAX_PROGRAM_ID :: pubkey where
  "TAX_PROGRAM_ID = pubkey_of_bytes
   [45, 65, 209, 114, 183, 158, 14, 46, 96, 175, 143, 213, 174, 7, 234, 135,
    65, 158, 248, 30, 46, 242, 241, 38, 205, 30, 10, 29, 245, 82, 141, 128]"

definition EPOCH_PROGRAM_ID :: pubkey where
  "EPOCH_PROGRAM_ID = pubkey_of_bytes
   [48, 215, 35, 39, 92, 255, 252, 177, 255, 59, 215, 14, 138, 15, 252, 42,
    224, 251, 124, 63, 231, 83, 226, 150, 188, 103, 242, 205, 48, 27, 224, 209]"

definition STAKING_PROGRAM_ID :: pubkey where
  "STAKING_PROGRAM_ID = pubkey_of_bytes
   [0, 104, 20, 179, 179, 68, 143, 0, 241, 226, 89, 81, 248, 225, 107, 223,
    146, 8, 83, 115, 114, 175, 214, 74, 73, 69, 149, 93, 101, 252, 114, 58]"

definition CONVERSION_VAULT_PROGRAM_ID :: pubkey where
  "CONVERSION_VAULT_PROGRAM_ID = pubkey_of_bytes
   [1, 65, 200, 7, 24, 6, 122, 173, 27, 233, 184, 13, 186, 222, 123, 33,
    97, 71, 65, 53, 2, 148, 154, 123, 111, 241, 235, 19, 72, 180, 198, 85]"

definition CRIME_MINT :: pubkey where
  "CRIME_MINT = pubkey_of_bytes
   [9, 19, 69, 115, 173, 101, 170, 214, 136, 227, 165, 157, 186, 193, 2, 46,
    169, 21, 47, 62, 100, 230, 117, 60, 108, 139, 143, 76, 136, 216, 93, 39]"

definition FRAUD_MINT :: pubkey where
  "FRAUD_MINT = pubkey_of_bytes
   [220, 182, 237, 182, 158, 108, 85, 104, 64, 27, 92, 190, 78, 243, 159, 179,
    73, 242, 138, 33, 96, 10, 243, 255, 101, 112, 198, 78, 196, 21, 143, 16]"

definition PROFIT_MINT :: pubkey where
  "PROFIT_MINT = pubkey_of_bytes
   [12, 38, 86, 44, 251, 238, 253, 162, 240, 140, 94, 68, 79, 173, 75, 100,
    165, 114, 15, 95, 9, 139, 209, 211, 120, 234, 82, 64, 241, 171, 52, 72]"

definition NATIVE_MINT :: pubkey where
  "NATIVE_MINT = pubkey_of_bytes
   [6, 155, 136, 87, 254, 171, 129, 132, 251, 104, 127, 99, 70, 24, 192, 53,
    218, 196, 57, 220, 26, 235, 59, 85, 152, 160, 240, 0, 0, 0, 0, 1]"

definition EPOCH_STATE_PDA :: pubkey where
  "EPOCH_STATE_PDA = pubkey_of_bytes
   [218, 218, 49, 219, 109, 199, 216, 177, 103, 0, 108, 124, 18, 148, 116, 188,
    200, 138, 148, 197, 196, 0, 222, 154, 21, 141, 90, 82, 180, 54, 233, 107]"

definition SWAP_AUTHORITY_PDA :: pubkey where
  "SWAP_AUTHORITY_PDA = pubkey_of_bytes
   [175, 70, 108, 182, 176, 44, 131, 115, 109, 63, 16, 37, 57, 103, 62, 233,
    4, 55, 61, 171, 51, 69, 48, 121, 113, 152, 188, 45, 173, 233, 240, 34]"

definition TAX_AUTHORITY_PDA :: pubkey where
  "TAX_AUTHORITY_PDA = pubkey_of_bytes
   [118, 203, 25, 199, 128, 115, 95, 206, 60, 141, 62, 253, 166, 177, 125, 190,
    114, 229, 126, 43, 244, 91, 3, 76, 57, 186, 179, 154, 242, 112, 202, 43]"

definition STAKE_POOL_PDA :: pubkey where
  "STAKE_POOL_PDA = pubkey_of_bytes
   [62, 39, 188, 141, 72, 122, 67, 5, 108, 21, 56, 41, 81, 252, 37, 218,
    137, 153, 96, 201, 90, 204, 219, 208, 101, 138, 252, 112, 117, 38, 208, 7]"

definition ESCROW_VAULT_PDA :: pubkey where
  "ESCROW_VAULT_PDA = pubkey_of_bytes
   [3, 90, 92, 27, 12, 244, 217, 195, 151, 174, 124, 156, 138, 64, 33, 37,
    222, 83, 168, 140, 171, 229, 232, 58, 176, 37, 188, 87, 190, 14, 144, 9]"

definition CARNAGE_SOL_VAULT_PDA :: pubkey where
  "CARNAGE_SOL_VAULT_PDA = pubkey_of_bytes
   [61, 131, 115, 14, 236, 206, 61, 97, 36, 151, 192, 164, 206, 186, 199, 199,
    80, 118, 15, 186, 97, 120, 127, 57, 185, 162, 254, 204, 91, 178, 34, 200]"

definition TREASURY :: pubkey where
  "TREASURY = pubkey_of_bytes
   [226, 21, 100, 85, 184, 56, 40, 64, 202, 55, 190, 10, 28, 88, 73, 229,
    41, 33, 179, 134, 121, 120, 56, 13, 142, 123, 218, 99, 90, 68, 246, 67]"

definition WSOL_INTERMEDIARY_PDA :: pubkey where
  "WSOL_INTERMEDIARY_PDA = pubkey_of_bytes
   [19, 14, 70, 32, 101, 10, 19, 15, 101, 80, 42, 148, 161, 209, 60, 123,
    117, 168, 207, 29, 197, 210, 200, 46, 185, 251, 98, 225, 192, 80, 48, 126]"

definition VAULT_CONFIG_PDA :: pubkey where
  "VAULT_CONFIG_PDA = pubkey_of_bytes
   [117, 166, 88, 143, 153, 166, 117, 6, 55, 203, 15, 102, 62, 4, 176, 49,
    133, 28, 0, 38, 121, 109, 38, 60, 54, 80, 234, 91, 168, 50, 26, 206]"

definition VAULT_CRIME :: pubkey where
  "VAULT_CRIME = pubkey_of_bytes
   [233, 40, 9, 39, 254, 50, 193, 197, 55, 72, 110, 124, 44, 170, 167, 160,
    162, 168, 86, 92, 42, 79, 46, 127, 99, 245, 190, 43, 141, 55, 215, 65]"

definition VAULT_FRAUD :: pubkey where
  "VAULT_FRAUD = pubkey_of_bytes
   [183, 82, 167, 227, 175, 99, 230, 34, 156, 178, 40, 186, 116, 251, 4, 94,
    253, 6, 150, 146, 170, 254, 250, 148, 53, 67, 136, 26, 219, 113, 232, 239]"

definition VAULT_PROFIT :: pubkey where
  "VAULT_PROFIT = pubkey_of_bytes
   [180, 243, 81, 142, 247, 62, 254, 43, 52, 63, 194, 103, 119, 8, 48, 156,
    162, 52, 180, 202, 179, 121, 26, 210, 167, 41, 158, 107, 141, 6, 29, 120]"

definition WHITELIST_AUTHORITY :: pubkey where
  "WHITELIST_AUTHORITY = pubkey_of_bytes
   [253, 66, 62, 242, 130, 240, 183, 231, 97, 10, 193, 168, 255, 182, 211, 176,
    47, 112, 51, 248, 37, 101, 76, 172, 102, 250, 39, 200, 204, 72, 36, 227]"

definition CRIME_SOL_POOL :: pubkey where
  "CRIME_SOL_POOL = pubkey_of_bytes
   [8, 83, 233, 214, 84, 53, 108, 52, 170, 95, 245, 44, 147, 246, 70, 189,
    44, 78, 222, 177, 64, 7, 226, 140, 249, 218, 133, 123, 181, 113, 159, 210]"

definition CRIME_SOL_VAULT_A :: pubkey where
  "CRIME_SOL_VAULT_A = pubkey_of_bytes
   [0, 252, 109, 44, 111, 67, 178, 192, 2, 77, 72, 165, 64, 57, 41, 175,
    126, 237, 236, 248, 170, 182, 161, 170, 174, 12, 105, 114, 209, 32, 147, 106]"

definition CRIME_SOL_VAULT_B :: pubkey where
  "CRIME_SOL_VAULT_B = pubkey_of_bytes
   [87, 31, 211, 182, 192, 243, 227, 255, 158, 138, 51, 221, 81, 150, 199, 217,
    208, 213, 224, 70, 8, 190, 35, 151, 41, 55, 70, 89, 74, 8, 101, 66]"

definition FRAUD_SOL_POOL :: pubkey where
  "FRAUD_SOL_POOL = pubkey_of_bytes
   [145, 109, 117, 133, 103, 235, 115, 170, 220, 0, 82, 19, 13, 37, 48, 10,
    234, 47, 210, 165, 73, 52, 16, 221, 7, 200, 162, 27, 171, 134, 225, 184]"

definition FRAUD_SOL_VAULT_A :: pubkey where
  "FRAUD_SOL_VAULT_A = pubkey_of_bytes
   [42, 165, 50, 69, 214, 61, 224, 229, 53, 78, 225, 7, 251, 227, 194, 91,
    25, 107, 20, 210, 146, 169, 233, 36, 120, 12, 212, 66, 245, 136, 139, 112]"

definition FRAUD_SOL_VAULT_B :: pubkey where
  "FRAUD_SOL_VAULT_B = pubkey_of_bytes
   [26, 164, 56, 51, 194, 67, 185, 141, 183, 234, 96, 165, 206, 196, 37, 191,
    238, 57, 67, 108, 7, 206, 222, 6, 247, 173, 137, 59, 55, 151, 79, 178]"

definition CRIME_HOOK_META :: pubkey where
  "CRIME_HOOK_META = pubkey_of_bytes
   [170, 18, 68, 191, 99, 218, 41, 207, 190, 6, 184, 146, 22, 17, 78, 188,
    195, 71, 155, 164, 111, 183, 179, 24, 215, 49, 10, 200, 244, 28, 50, 183]"

definition FRAUD_HOOK_META :: pubkey where
  "FRAUD_HOOK_META = pubkey_of_bytes
   [95, 28, 89, 143, 198, 226, 19, 157, 171, 176, 74, 175, 227, 209, 215, 59,
    154, 234, 146, 171, 100, 137, 127, 232, 203, 82, 187, 138, 87, 172, 14, 206]"

definition PROFIT_HOOK_META :: pubkey where
  "PROFIT_HOOK_META = pubkey_of_bytes
   [253, 133, 38, 160, 176, 9, 90, 162, 183, 149, 64, 129, 69, 238, 225, 254,
    48, 42, 163, 223, 84, 1, 41, 182, 204, 14, 53, 235, 5, 14, 133, 28]"

definition SPL_TOKEN_PROGRAM_ID :: pubkey where
  "SPL_TOKEN_PROGRAM_ID = pubkey_of_bytes
   [6, 221, 246, 225, 215, 101, 161, 147, 217, 203, 225, 70, 206, 235, 121, 172,
    28, 180, 133, 237, 95, 91, 55, 145, 58, 140, 245, 133, 126, 255, 0, 169]"

definition TOKEN_2022_PROGRAM_ID :: pubkey where
  "TOKEN_2022_PROGRAM_ID = pubkey_of_bytes
   [6, 221, 246, 225, 238, 117, 143, 222, 24, 66, 93, 188, 228, 108, 205, 218,
    182, 26, 252, 77, 131, 185, 13, 39, 254, 189, 249, 40, 216, 161, 139, 252]"

definition SYSTEM_PROGRAM_ID :: pubkey where
  "SYSTEM_PROGRAM_ID = pubkey_of_bytes
   [0, 0, 0, 0, 0, 0, 0, 0, 0, 0, 0, 0, 0, 0, 0, 0,
    0, 0, 0, 0, 0, 0, 0, 0, 0, 0, 0, 0, 0, 0, 0, 0]"

lemma as_ref_AMM_PROGRAM_ID [address_bytes]: "as_ref AMM_PROGRAM_ID =
   [64, 2, 165, 171, 119, 91, 59, 77, 147, 27, 43, 71, 192, 60, 119, 242,
    223, 134, 93, 200, 28, 54, 196, 171, 217, 186, 29, 126, 31, 138, 198, 186]"
  by (simp add: AMM_PROGRAM_ID_def as_ref_pubkey_of_bytes_code)

lemma as_ref_TRANSFER_HOOK_PROGRAM_ID [address_bytes]: "as_ref TRANSFER_HOOK_PROGRAM_ID =
   [174, 11, 207, 252, 211, 113, 63, 236, 103, 69, 51, 40, 94, 95, 95, 12,
    145, 13, 103, 229, 16, 95, 156, 216, 241, 31, 106, 215, 48, 236, 18, 50]"
  by (simp add: TRANSFER_HOOK_PROGRAM_ID_def as_ref_pubkey_of_bytes_code)

lemma as_ref_TAX_PROGRAM_ID [address_bytes]: "as_ref TAX_PROGRAM_ID =
   [45, 65, 209, 114, 183, 158, 14, 46, 96, 175, 143, 213, 174, 7, 234, 135,
    65, 158, 248, 30, 46, 242, 241, 38, 205, 30, 10, 29, 245, 82, 141, 128]"
  by (simp add: TAX_PROGRAM_ID_def as_ref_pubkey_of_bytes_code)

lemma as_ref_EPOCH_PROGRAM_ID [address_bytes]: "as_ref EPOCH_PROGRAM_ID =
   [48, 215, 35, 39, 92, 255, 252, 177, 255, 59, 215, 14, 138, 15, 252, 42,
    224, 251, 124, 63, 231, 83, 226, 150, 188, 103, 242, 205, 48, 27, 224, 209]"
  by (simp add: EPOCH_PROGRAM_ID_def as_ref_pubkey_of_bytes_code)

lemma as_ref_STAKING_PROGRAM_ID [address_bytes]: "as_ref STAKING_PROGRAM_ID =
   [0, 104, 20, 179, 179, 68, 143, 0, 241, 226, 89, 81, 248, 225, 107, 223,
    146, 8, 83, 115, 114, 175, 214, 74, 73, 69, 149, 93, 101, 252, 114, 58]"
  by (simp add: STAKING_PROGRAM_ID_def as_ref_pubkey_of_bytes_code)

lemma as_ref_CONVERSION_VAULT_PROGRAM_ID [address_bytes]: "as_ref CONVERSION_VAULT_PROGRAM_ID =
   [1, 65, 200, 7, 24, 6, 122, 173, 27, 233, 184, 13, 186, 222, 123, 33,
    97, 71, 65, 53, 2, 148, 154, 123, 111, 241, 235, 19, 72, 180, 198, 85]"
  by (simp add: CONVERSION_VAULT_PROGRAM_ID_def as_ref_pubkey_of_bytes_code)

lemma as_ref_CRIME_MINT [address_bytes]: "as_ref CRIME_MINT =
   [9, 19, 69, 115, 173, 101, 170, 214, 136, 227, 165, 157, 186, 193, 2, 46,
    169, 21, 47, 62, 100, 230, 117, 60, 108, 139, 143, 76, 136, 216, 93, 39]"
  by (simp add: CRIME_MINT_def as_ref_pubkey_of_bytes_code)

lemma as_ref_FRAUD_MINT [address_bytes]: "as_ref FRAUD_MINT =
   [220, 182, 237, 182, 158, 108, 85, 104, 64, 27, 92, 190, 78, 243, 159, 179,
    73, 242, 138, 33, 96, 10, 243, 255, 101, 112, 198, 78, 196, 21, 143, 16]"
  by (simp add: FRAUD_MINT_def as_ref_pubkey_of_bytes_code)

lemma as_ref_PROFIT_MINT [address_bytes]: "as_ref PROFIT_MINT =
   [12, 38, 86, 44, 251, 238, 253, 162, 240, 140, 94, 68, 79, 173, 75, 100,
    165, 114, 15, 95, 9, 139, 209, 211, 120, 234, 82, 64, 241, 171, 52, 72]"
  by (simp add: PROFIT_MINT_def as_ref_pubkey_of_bytes_code)

lemma as_ref_NATIVE_MINT [address_bytes]: "as_ref NATIVE_MINT =
   [6, 155, 136, 87, 254, 171, 129, 132, 251, 104, 127, 99, 70, 24, 192, 53,
    218, 196, 57, 220, 26, 235, 59, 85, 152, 160, 240, 0, 0, 0, 0, 1]"
  by (simp add: NATIVE_MINT_def as_ref_pubkey_of_bytes_code)

lemma as_ref_EPOCH_STATE_PDA [address_bytes]: "as_ref EPOCH_STATE_PDA =
   [218, 218, 49, 219, 109, 199, 216, 177, 103, 0, 108, 124, 18, 148, 116, 188,
    200, 138, 148, 197, 196, 0, 222, 154, 21, 141, 90, 82, 180, 54, 233, 107]"
  by (simp add: EPOCH_STATE_PDA_def as_ref_pubkey_of_bytes_code)

lemma as_ref_SWAP_AUTHORITY_PDA [address_bytes]: "as_ref SWAP_AUTHORITY_PDA =
   [175, 70, 108, 182, 176, 44, 131, 115, 109, 63, 16, 37, 57, 103, 62, 233,
    4, 55, 61, 171, 51, 69, 48, 121, 113, 152, 188, 45, 173, 233, 240, 34]"
  by (simp add: SWAP_AUTHORITY_PDA_def as_ref_pubkey_of_bytes_code)

lemma as_ref_TAX_AUTHORITY_PDA [address_bytes]: "as_ref TAX_AUTHORITY_PDA =
   [118, 203, 25, 199, 128, 115, 95, 206, 60, 141, 62, 253, 166, 177, 125, 190,
    114, 229, 126, 43, 244, 91, 3, 76, 57, 186, 179, 154, 242, 112, 202, 43]"
  by (simp add: TAX_AUTHORITY_PDA_def as_ref_pubkey_of_bytes_code)

lemma as_ref_STAKE_POOL_PDA [address_bytes]: "as_ref STAKE_POOL_PDA =
   [62, 39, 188, 141, 72, 122, 67, 5, 108, 21, 56, 41, 81, 252, 37, 218,
    137, 153, 96, 201, 90, 204, 219, 208, 101, 138, 252, 112, 117, 38, 208, 7]"
  by (simp add: STAKE_POOL_PDA_def as_ref_pubkey_of_bytes_code)

lemma as_ref_ESCROW_VAULT_PDA [address_bytes]: "as_ref ESCROW_VAULT_PDA =
   [3, 90, 92, 27, 12, 244, 217, 195, 151, 174, 124, 156, 138, 64, 33, 37,
    222, 83, 168, 140, 171, 229, 232, 58, 176, 37, 188, 87, 190, 14, 144, 9]"
  by (simp add: ESCROW_VAULT_PDA_def as_ref_pubkey_of_bytes_code)

lemma as_ref_CARNAGE_SOL_VAULT_PDA [address_bytes]: "as_ref CARNAGE_SOL_VAULT_PDA =
   [61, 131, 115, 14, 236, 206, 61, 97, 36, 151, 192, 164, 206, 186, 199, 199,
    80, 118, 15, 186, 97, 120, 127, 57, 185, 162, 254, 204, 91, 178, 34, 200]"
  by (simp add: CARNAGE_SOL_VAULT_PDA_def as_ref_pubkey_of_bytes_code)

lemma as_ref_TREASURY [address_bytes]: "as_ref TREASURY =
   [226, 21, 100, 85, 184, 56, 40, 64, 202, 55, 190, 10, 28, 88, 73, 229,
    41, 33, 179, 134, 121, 120, 56, 13, 142, 123, 218, 99, 90, 68, 246, 67]"
  by (simp add: TREASURY_def as_ref_pubkey_of_bytes_code)

lemma as_ref_WSOL_INTERMEDIARY_PDA [address_bytes]: "as_ref WSOL_INTERMEDIARY_PDA =
   [19, 14, 70, 32, 101, 10, 19, 15, 101, 80, 42, 148, 161, 209, 60, 123,
    117, 168, 207, 29, 197, 210, 200, 46, 185, 251, 98, 225, 192, 80, 48, 126]"
  by (simp add: WSOL_INTERMEDIARY_PDA_def as_ref_pubkey_of_bytes_code)

lemma as_ref_VAULT_CONFIG_PDA [address_bytes]: "as_ref VAULT_CONFIG_PDA =
   [117, 166, 88, 143, 153, 166, 117, 6, 55, 203, 15, 102, 62, 4, 176, 49,
    133, 28, 0, 38, 121, 109, 38, 60, 54, 80, 234, 91, 168, 50, 26, 206]"
  by (simp add: VAULT_CONFIG_PDA_def as_ref_pubkey_of_bytes_code)

lemma as_ref_VAULT_CRIME [address_bytes]: "as_ref VAULT_CRIME =
   [233, 40, 9, 39, 254, 50, 193, 197, 55, 72, 110, 124, 44, 170, 167, 160,
    162, 168, 86, 92, 42, 79, 46, 127, 99, 245, 190, 43, 141, 55, 215, 65]"
  by (simp add: VAULT_CRIME_def as_ref_pubkey_of_bytes_code)

lemma as_ref_VAULT_FRAUD [address_bytes]: "as_ref VAULT_FRAUD =
   [183, 82, 167, 227, 175, 99, 230, 34, 156, 178, 40, 186, 116, 251, 4, 94,
    253, 6, 150, 146, 170, 254, 250, 148, 53, 67, 136, 26, 219, 113, 232, 239]"
  by (simp add: VAULT_FRAUD_def as_ref_pubkey_of_bytes_code)

lemma as_ref_VAULT_PROFIT [address_bytes]: "as_ref VAULT_PROFIT =
   [180, 243, 81, 142, 247, 62, 254, 43, 52, 63, 194, 103, 119, 8, 48, 156,
    162, 52, 180, 202, 179, 121, 26, 210, 167, 41, 158, 107, 141, 6, 29, 120]"
  by (simp add: VAULT_PROFIT_def as_ref_pubkey_of_bytes_code)

lemma as_ref_WHITELIST_AUTHORITY [address_bytes]: "as_ref WHITELIST_AUTHORITY =
   [253, 66, 62, 242, 130, 240, 183, 231, 97, 10, 193, 168, 255, 182, 211, 176,
    47, 112, 51, 248, 37, 101, 76, 172, 102, 250, 39, 200, 204, 72, 36, 227]"
  by (simp add: WHITELIST_AUTHORITY_def as_ref_pubkey_of_bytes_code)

lemma as_ref_CRIME_SOL_POOL [address_bytes]: "as_ref CRIME_SOL_POOL =
   [8, 83, 233, 214, 84, 53, 108, 52, 170, 95, 245, 44, 147, 246, 70, 189,
    44, 78, 222, 177, 64, 7, 226, 140, 249, 218, 133, 123, 181, 113, 159, 210]"
  by (simp add: CRIME_SOL_POOL_def as_ref_pubkey_of_bytes_code)

lemma as_ref_CRIME_SOL_VAULT_A [address_bytes]: "as_ref CRIME_SOL_VAULT_A =
   [0, 252, 109, 44, 111, 67, 178, 192, 2, 77, 72, 165, 64, 57, 41, 175,
    126, 237, 236, 248, 170, 182, 161, 170, 174, 12, 105, 114, 209, 32, 147, 106]"
  by (simp add: CRIME_SOL_VAULT_A_def as_ref_pubkey_of_bytes_code)

lemma as_ref_CRIME_SOL_VAULT_B [address_bytes]: "as_ref CRIME_SOL_VAULT_B =
   [87, 31, 211, 182, 192, 243, 227, 255, 158, 138, 51, 221, 81, 150, 199, 217,
    208, 213, 224, 70, 8, 190, 35, 151, 41, 55, 70, 89, 74, 8, 101, 66]"
  by (simp add: CRIME_SOL_VAULT_B_def as_ref_pubkey_of_bytes_code)

lemma as_ref_FRAUD_SOL_POOL [address_bytes]: "as_ref FRAUD_SOL_POOL =
   [145, 109, 117, 133, 103, 235, 115, 170, 220, 0, 82, 19, 13, 37, 48, 10,
    234, 47, 210, 165, 73, 52, 16, 221, 7, 200, 162, 27, 171, 134, 225, 184]"
  by (simp add: FRAUD_SOL_POOL_def as_ref_pubkey_of_bytes_code)

lemma as_ref_FRAUD_SOL_VAULT_A [address_bytes]: "as_ref FRAUD_SOL_VAULT_A =
   [42, 165, 50, 69, 214, 61, 224, 229, 53, 78, 225, 7, 251, 227, 194, 91,
    25, 107, 20, 210, 146, 169, 233, 36, 120, 12, 212, 66, 245, 136, 139, 112]"
  by (simp add: FRAUD_SOL_VAULT_A_def as_ref_pubkey_of_bytes_code)

lemma as_ref_FRAUD_SOL_VAULT_B [address_bytes]: "as_ref FRAUD_SOL_VAULT_B =
   [26, 164, 56, 51, 194, 67, 185, 141, 183, 234, 96, 165, 206, 196, 37, 191,
    238, 57, 67, 108, 7, 206, 222, 6, 247, 173, 137, 59, 55, 151, 79, 178]"
  by (simp add: FRAUD_SOL_VAULT_B_def as_ref_pubkey_of_bytes_code)

lemma as_ref_CRIME_HOOK_META [address_bytes]: "as_ref CRIME_HOOK_META =
   [170, 18, 68, 191, 99, 218, 41, 207, 190, 6, 184, 146, 22, 17, 78, 188,
    195, 71, 155, 164, 111, 183, 179, 24, 215, 49, 10, 200, 244, 28, 50, 183]"
  by (simp add: CRIME_HOOK_META_def as_ref_pubkey_of_bytes_code)

lemma as_ref_FRAUD_HOOK_META [address_bytes]: "as_ref FRAUD_HOOK_META =
   [95, 28, 89, 143, 198, 226, 19, 157, 171, 176, 74, 175, 227, 209, 215, 59,
    154, 234, 146, 171, 100, 137, 127, 232, 203, 82, 187, 138, 87, 172, 14, 206]"
  by (simp add: FRAUD_HOOK_META_def as_ref_pubkey_of_bytes_code)

lemma as_ref_PROFIT_HOOK_META [address_bytes]: "as_ref PROFIT_HOOK_META =
   [253, 133, 38, 160, 176, 9, 90, 162, 183, 149, 64, 129, 69, 238, 225, 254,
    48, 42, 163, 223, 84, 1, 41, 182, 204, 14, 53, 235, 5, 14, 133, 28]"
  by (simp add: PROFIT_HOOK_META_def as_ref_pubkey_of_bytes_code)

lemma as_ref_SPL_TOKEN_PROGRAM_ID [address_bytes]: "as_ref SPL_TOKEN_PROGRAM_ID =
   [6, 221, 246, 225, 215, 101, 161, 147, 217, 203, 225, 70, 206, 235, 121, 172,
    28, 180, 133, 237, 95, 91, 55, 145, 58, 140, 245, 133, 126, 255, 0, 169]"
  by (simp add: SPL_TOKEN_PROGRAM_ID_def as_ref_pubkey_of_bytes_code)

lemma as_ref_TOKEN_2022_PROGRAM_ID [address_bytes]: "as_ref TOKEN_2022_PROGRAM_ID =
   [6, 221, 246, 225, 238, 117, 143, 222, 24, 66, 93, 188, 228, 108, 205, 218,
    182, 26, 252, 77, 131, 185, 13, 39, 254, 189, 249, 40, 216, 161, 139, 252]"
  by (simp add: TOKEN_2022_PROGRAM_ID_def as_ref_pubkey_of_bytes_code)

lemma as_ref_SYSTEM_PROGRAM_ID [address_bytes]: "as_ref SYSTEM_PROGRAM_ID =
   [0, 0, 0, 0, 0, 0, 0, 0, 0, 0, 0, 0, 0, 0, 0, 0,
    0, 0, 0, 0, 0, 0, 0, 0, 0, 0, 0, 0, 0, 0, 0, 0]"
  by (simp add: SYSTEM_PROGRAM_ID_def as_ref_pubkey_of_bytes_code)

section \<open>The Base58 literals of the source\<close>

definition base58_alphabet :: string where
  "base58_alphabet = ''123456789ABCDEFGHJKLMNPQRSTUVWXYZabcdefghijkmnopqrstuvwxyz''"

fun base58_digit :: "string \<Rightarrow> int \<Rightarrow> char \<Rightarrow> int option" where
  "base58_digit [] n c = None"
| "base58_digit (a # as) n c = (if a = c then Some n else base58_digit as (n + 1) c)"

fun base58_value :: "int \<Rightarrow> string \<Rightarrow> int option" where
  "base58_value n [] = Some n"
| "base58_value n (c # cs) =
     (case base58_digit base58_alphabet 0 c of None \<Rightarrow> None | Some d \<Rightarrow> base58_value (58 * n + d) cs)"

fun be_value :: "int \<Rightarrow> bytes \<Rightarrow> int" where
  "be_value n [] = n"
| "be_value n (b # bs) = be_value (256 * n + uint b) bs"

text \<open>
  A literal names a 32-byte key when its value is the big-endian value of the bytes and it has as
  many leading \<open>1\<close>s as the bytes have leading zeros.
\<close>

definition base58_names :: "string \<times> pubkey \<Rightarrow> bool" where
  "base58_names = (\<lambda>(s, p).
     base58_value 0 s = Some (be_value 0 (as_ref p)) \<and>
     length (takeWhile (\<lambda>c. c = CHR ''1'') s) = length (takeWhile (\<lambda>b. b = 0) (as_ref p)))"

text \<open>Each constant with the literal the source writes for it.\<close>

lemma literal_AMM_PROGRAM_ID: "base58_names (''5JsSAL3kJDUWD4ZveYXYZmgm1eVqueesTZVdAvtZg8cR'', AMM_PROGRAM_ID)"
  unfolding base58_names_def as_ref_AMM_PROGRAM_ID by code_simp

lemma literal_TRANSFER_HOOK_PROGRAM_ID: "base58_names (''CiQPQrmQh6BPhb9k7dFnsEs5gKPgdrvNKFc5xie5xVGd'', TRANSFER_HOOK_PROGRAM_ID)"
  unfolding base58_names_def as_ref_TRANSFER_HOOK_PROGRAM_ID by code_simp

lemma literal_TAX_PROGRAM_ID: "base58_names (''43fZGRtmEsP7ExnJE1dbTbNjaP1ncvVmMPusSeksWGEj'', TAX_PROGRAM_ID)"
  unfolding base58_names_def as_ref_TAX_PROGRAM_ID by code_simp

lemma literal_EPOCH_PROGRAM_ID: "base58_names (''4Heqc8QEjJCspHR8y96wgZBnBfbe3Qb8N6JBZMQt9iw2'', EPOCH_PROGRAM_ID)"
  unfolding base58_names_def as_ref_EPOCH_PROGRAM_ID by code_simp

lemma literal_STAKING_PROGRAM_ID: "base58_names (''12b3t1cNiAUoYLiWFEnFa4w6qYxVAiqCWU7KZuzLPYtH'', STAKING_PROGRAM_ID)"
  unfolding base58_names_def as_ref_STAKING_PROGRAM_ID by code_simp

lemma literal_CONVERSION_VAULT_PROGRAM_ID: "base58_names (''5uawA6ehYTu69Ggvm3LSK84qFawPKxbWgfngwj15NRJ'', CONVERSION_VAULT_PROGRAM_ID)"
  unfolding base58_names_def as_ref_CONVERSION_VAULT_PROGRAM_ID by code_simp

lemma literal_CRIME_MINT: "base58_names (''cRiMEhAxoDhcEuh3Yf7Z2QkXUXUMKbakhcVqmDsqPXc'', CRIME_MINT)"
  unfolding base58_names_def as_ref_CRIME_MINT by code_simp

lemma literal_FRAUD_MINT: "base58_names (''FraUdp6YhtVJYPxC2w255yAbpTsPqd8Bfhy9rC56jau5'', FRAUD_MINT)"
  unfolding base58_names_def as_ref_FRAUD_MINT by code_simp

lemma literal_PROFIT_MINT: "base58_names (''pRoFiTj36haRD5sG2Neqib9KoSrtdYMGrM7SEkZetfR'', PROFIT_MINT)"
  unfolding base58_names_def as_ref_PROFIT_MINT by code_simp

lemma literal_NATIVE_MINT: "base58_names (''So11111111111111111111111111111111111111112'', NATIVE_MINT)"
  unfolding base58_names_def as_ref_NATIVE_MINT by code_simp

lemma literal_EPOCH_STATE_PDA: "base58_names (''FjJrLcmDjA8FtavGWdhJq3pdirAH889oWXc2bhEAMbDU'', EPOCH_STATE_PDA)"
  unfolding base58_names_def as_ref_EPOCH_STATE_PDA by code_simp

lemma literal_SWAP_AUTHORITY_PDA: "base58_names (''CoCdbornGtiZ8tLxF5HD2TdGidfgfwbbiDX79BaZGJ2D'', SWAP_AUTHORITY_PDA)"
  unfolding base58_names_def as_ref_SWAP_AUTHORITY_PDA by code_simp

lemma literal_TAX_AUTHORITY_PDA: "base58_names (''8zijSBnoiGQzwccQkdNuAwbZCieDZsxdn2GgKDErCemQ'', TAX_AUTHORITY_PDA)"
  unfolding base58_names_def as_ref_TAX_AUTHORITY_PDA by code_simp

lemma literal_STAKE_POOL_PDA: "base58_names (''5BdRPPwEDpHEtRgdp4MfywbwmZnrf6u23bXMnG1w8ViN'', STAKE_POOL_PDA)"
  unfolding base58_names_def as_ref_STAKE_POOL_PDA by code_simp

lemma literal_ESCROW_VAULT_PDA: "base58_names (''E68zPDgzMqnycj23g9T74ioHbDdvq3Npj5tT2yPd1SY'', ESCROW_VAULT_PDA)"
  unfolding base58_names_def as_ref_ESCROW_VAULT_PDA by code_simp

lemma literal_CARNAGE_SOL_VAULT_PDA: "base58_names (''5988CYMcvJpNtGbtCDnAMxrjrLxRCq3qPME7w2v36aNT'', CARNAGE_SOL_VAULT_PDA)"
  unfolding base58_names_def as_ref_CARNAGE_SOL_VAULT_PDA by code_simp

lemma literal_TREASURY: "base58_names (''GDY4Qu3xGNGZxXdLs1h6eoMXZgJ9aPpv7jtCaqzMoDcN'', TREASURY)"
  unfolding base58_names_def as_ref_TREASURY by code_simp

lemma literal_WSOL_INTERMEDIARY_PDA: "base58_names (''2HPNULWVVdTcRiAm2DkghLA6frXxA2Nsu4VRu8a4qQ1s'', WSOL_INTERMEDIARY_PDA)"
  unfolding base58_names_def as_ref_WSOL_INTERMEDIARY_PDA by code_simp

lemma literal_VAULT_CONFIG_PDA: "base58_names (''8vFpSBnCVt8dfX57FKrsGwy39TEo1TjVzrj9QYGxCkcD'', VAULT_CONFIG_PDA)"
  unfolding base58_names_def as_ref_VAULT_CONFIG_PDA by code_simp

lemma literal_VAULT_CRIME: "base58_names (''Gh9QHMY3J2NGyaHFH2XQCWxedf4G7kBfyu7Jonwn1bHA'', VAULT_CRIME)"
  unfolding base58_names_def as_ref_VAULT_CRIME by code_simp

lemma literal_VAULT_FRAUD: "base58_names (''DLciB9t3qEuRcndGyjRmu1Z34NCwTPvNwbv7eUsFxTZG'', VAULT_FRAUD)"
  unfolding base58_names_def as_ref_VAULT_FRAUD by code_simp

lemma literal_VAULT_PROFIT: "base58_names (''DBMaWgfUW8WBb8VVvqDFkrMpEkPkCPTcLpSpyzHAiwp3'', VAULT_PROFIT)"
  unfolding base58_names_def as_ref_VAULT_PROFIT by code_simp

lemma literal_WHITELIST_AUTHORITY: "base58_names (''J3cjg1HFPda9tfCFEUx1vqKqmeDeda8s76RVweLeYpJe'', WHITELIST_AUTHORITY)"
  unfolding base58_names_def as_ref_WHITELIST_AUTHORITY by code_simp

lemma literal_CRIME_SOL_POOL: "base58_names (''ZWUZ3PzGk6bg6g3BS3WdXKbdAecUgZxnruKXQkte7wf'', CRIME_SOL_POOL)"
  unfolding base58_names_def as_ref_CRIME_SOL_POOL by code_simp

lemma literal_CRIME_SOL_VAULT_A: "base58_names (''14rFLiXzXk7aXLnwAz2kwQUjG9vauS84AQLu6LH9idUM'', CRIME_SOL_VAULT_A)"
  unfolding base58_names_def as_ref_CRIME_SOL_VAULT_A by code_simp

lemma literal_CRIME_SOL_VAULT_B: "base58_names (''6s6cprCGxTAYCk9LiwCpCsdHzReW7CLZKqy3ZSCtmV1b'', CRIME_SOL_VAULT_B)"
  unfolding base58_names_def as_ref_CRIME_SOL_VAULT_B by code_simp

lemma literal_FRAUD_SOL_POOL: "base58_names (''AngvViTVGd2zxP8KoFUjGU3TyrQjqeM1idRWiKM8p3mq'', FRAUD_SOL_POOL)"
  unfolding base58_names_def as_ref_FRAUD_SOL_POOL by code_simp

lemma literal_FRAUD_SOL_VAULT_A: "base58_names (''3sUDyw1k61NSKgn2EA9CaS3FbSZAApGeCRNwNFQPwg8o'', FRAUD_SOL_VAULT_A)"
  unfolding base58_names_def as_ref_FRAUD_SOL_VAULT_A by code_simp

lemma literal_FRAUD_SOL_VAULT_B: "base58_names (''2nzqXn6FivXjPSgrUGTA58eeVUDjGhvn4QLfhXK1jbjP'', FRAUD_SOL_VAULT_B)"
  unfolding base58_names_def as_ref_FRAUD_SOL_VAULT_B by code_simp

lemma literal_CRIME_HOOK_META: "base58_names (''CStTzemevJvk8vnjw57Wjzk5EFwN12Nmniz6R7qXWykr'', CRIME_HOOK_META)"
  unfolding base58_names_def as_ref_CRIME_HOOK_META by code_simp

lemma literal_FRAUD_HOOK_META: "base58_names (''7QGodnZAYGgastQMXcitcQjraYCMMNDgbp2uL73qjGkd'', FRAUD_HOOK_META)"
  unfolding base58_names_def as_ref_FRAUD_HOOK_META by code_simp

lemma literal_PROFIT_HOOK_META: "base58_names (''J4dubfKw7vnZLhpPfMHqz8PcYWaChugnnSGUgGDzQ9AB'', PROFIT_HOOK_META)"
  unfolding base58_names_def as_ref_PROFIT_HOOK_META by code_simp

lemma literal_SPL_TOKEN_PROGRAM_ID: "base58_names (''TokenkegQfeZyiNwAJbNbGKPFXCWuBvf9Ss623VQ5DA'', SPL_TOKEN_PROGRAM_ID)"
  unfolding base58_names_def as_ref_SPL_TOKEN_PROGRAM_ID by code_simp

lemma literal_TOKEN_2022_PROGRAM_ID: "base58_names (''TokenzQdBNbLqP5VEhdkAS6EPFLC1PHnBqCXEpPxuEb'', TOKEN_2022_PROGRAM_ID)"
  unfolding base58_names_def as_ref_TOKEN_2022_PROGRAM_ID by code_simp

lemma literal_SYSTEM_PROGRAM_ID: "base58_names (''11111111111111111111111111111111'', SYSTEM_PROGRAM_ID)"
  unfolding base58_names_def as_ref_SYSTEM_PROGRAM_ID by code_simp

section \<open>The addresses the components compare are different\<close>

lemma mints_distinct [simp]:
  "CRIME_MINT \<noteq> FRAUD_MINT" "FRAUD_MINT \<noteq> CRIME_MINT"
  "CRIME_MINT \<noteq> PROFIT_MINT" "PROFIT_MINT \<noteq> CRIME_MINT"
  "FRAUD_MINT \<noteq> PROFIT_MINT" "PROFIT_MINT \<noteq> FRAUD_MINT"
  "CRIME_MINT \<noteq> NATIVE_MINT" "NATIVE_MINT \<noteq> CRIME_MINT"
  "FRAUD_MINT \<noteq> NATIVE_MINT" "NATIVE_MINT \<noteq> FRAUD_MINT"
  "PROFIT_MINT \<noteq> NATIVE_MINT" "NATIVE_MINT \<noteq> PROFIT_MINT"
  by (simp_all add: pubkey_eq_iff address_bytes)

lemma token_programs_distinct [simp]:
  "SPL_TOKEN_PROGRAM_ID \<noteq> TOKEN_2022_PROGRAM_ID" "TOKEN_2022_PROGRAM_ID \<noteq> SPL_TOKEN_PROGRAM_ID"
  by (simp_all add: pubkey_eq_iff address_bytes)

lemma vaults_distinct [simp]:
  "VAULT_CRIME \<noteq> VAULT_FRAUD" "VAULT_FRAUD \<noteq> VAULT_CRIME"
  "VAULT_CRIME \<noteq> VAULT_PROFIT" "VAULT_PROFIT \<noteq> VAULT_CRIME"
  "VAULT_FRAUD \<noteq> VAULT_PROFIT" "VAULT_PROFIT \<noteq> VAULT_FRAUD"
  "VAULT_CONFIG_PDA \<noteq> VAULT_CRIME" "VAULT_CONFIG_PDA \<noteq> VAULT_FRAUD"
  "VAULT_CONFIG_PDA \<noteq> VAULT_PROFIT"
  by (simp_all add: pubkey_eq_iff address_bytes)

section \<open>Protocol constants\<close>

definition LP_FEE_BPS :: u16 where "LP_FEE_BPS = 100"

definition CONVERSION_RATE :: u64 where "CONVERSION_RATE = 100"

definition EPOCH_STATE_DISCRIMINATOR :: bytes where
  "EPOCH_STATE_DISCRIMINATOR = [0xbf, 0x3f, 0x8b, 0xed, 0x90, 0x0c, 0xdf, 0xd2]"

definition POOL_STATE_DISCRIMINATOR :: bytes where
  "POOL_STATE_DISCRIMINATOR = [0xf7, 0xed, 0xe3, 0xf5, 0xd7, 0xc3, 0xde, 0x46]"

definition PAUSE_END_SLOT_OFFSET :: nat where "PAUSE_END_SLOT_OFFSET = 106"

definition TRADING_PAUSED_OFFSET :: nat where "TRADING_PAUSED_OFFSET = 114"

definition EPOCH_INITIALIZED_OFFSET :: nat where "EPOCH_INITIALIZED_OFFSET = 170"

definition SWAP_SOL_BUY_DISCRIMINATOR :: bytes where
  "SWAP_SOL_BUY_DISCRIMINATOR = [158, 213, 169, 65, 11, 116, 176, 25]"

definition SWAP_SOL_SELL_DISCRIMINATOR :: bytes where
  "SWAP_SOL_SELL_DISCRIMINATOR = [136, 242, 218, 149, 17, 222, 250, 240]"

definition SWAP_SPL_BUY_DISCRIMINATOR :: bytes where
  "SWAP_SPL_BUY_DISCRIMINATOR = [145, 254, 202, 19, 150, 31, 185, 146]"

definition SWAP_SPL_SELL_DISCRIMINATOR :: bytes where
  "SWAP_SPL_SELL_DISCRIMINATOR = [250, 17, 196, 68, 180, 202, 218, 155]"

definition SWAP_SOL_BUY_WSOL_DISCRIMINATOR :: bytes where
  "SWAP_SOL_BUY_WSOL_DISCRIMINATOR = [10, 131, 6, 8, 42, 57, 81, 88]"

definition CONVERT_V2_DISCRIMINATOR :: bytes where
  "CONVERT_V2_DISCRIMINATOR = [2, 169, 12, 141, 64, 38, 20, 20]"

lemma length_discriminators [simp]:
  "length EPOCH_STATE_DISCRIMINATOR = 8" "length POOL_STATE_DISCRIMINATOR = 8"
  "length SWAP_SOL_BUY_DISCRIMINATOR = 8" "length SWAP_SOL_SELL_DISCRIMINATOR = 8"
  "length SWAP_SPL_BUY_DISCRIMINATOR = 8" "length SWAP_SPL_SELL_DISCRIMINATOR = 8"
  "length SWAP_SOL_BUY_WSOL_DISCRIMINATOR = 8" "length CONVERT_V2_DISCRIMINATOR = 8"
  by (simp_all add: EPOCH_STATE_DISCRIMINATOR_def POOL_STATE_DISCRIMINATOR_def
      SWAP_SOL_BUY_DISCRIMINATOR_def SWAP_SOL_SELL_DISCRIMINATOR_def
      SWAP_SPL_BUY_DISCRIMINATOR_def SWAP_SPL_SELL_DISCRIMINATOR_def
      SWAP_SOL_BUY_WSOL_DISCRIMINATOR_def CONVERT_V2_DISCRIMINATOR_def)

lemmas offset_defs = PAUSE_END_SLOT_OFFSET_def TRADING_PAUSED_OFFSET_def EPOCH_INITIALIZED_OFFSET_def

end
