(* ===== verification/Errors.thy ===== *)
theory Errors
  imports Pubkeys
begin

text \<open>
  The error values of the crate.  Every \<open>anyhow!(...)\<close> site, and every library error that the code
  passes on, is one constructor, with the values the message prints that the model has; they are
  grouped by the module that raises them.  \<open>'a result\<close> is \<open>anyhow::Result\<close>.
\<close>

datatype pool_state_error =
    PoolLength nat
  | PoolDiscriminator bytes
  | PoolPubkey nat nat
  | PoolReserveA
  | PoolReserveB
  | PoolInitializedByte u8
  | PoolLockedByte u8

datatype epoch_state_error =
    EpochLength nat
  | EpochDiscriminator bytes
  | EpochBoolByte string u8
  | EpochPauseEndSlot

datatype token_account_error =
    TokenAccountShort nat
  | TokenAccountMintBytes
  | TokenAccountMint pubkey pubkey
  | TokenAccountAmount

datatype mint_error =
    MintOwnerMismatch pubkey pubkey
  | InvalidClassicMint
  | UnsupportedMintOwner pubkey
  | InvalidToken2022Mint
  | InvalidExtensions
  | InvalidTransferFee
  | NonzeroTransferFee
  | ArmedTransferHook
  | NonTransferableMint
  | InvalidDefaultState
  | DefaultStateBlocked
  | InvalidPausable
  | MintPaused

datatype accounts_error =
    NotSolQuoted pubkey pubkey
  | NotOneFactionMint pubkey pubkey
  | UnsupportedQuoteProgram pubkey pubkey

datatype sol_pool_error =
    NotAmmOwned pubkey pubkey
  | PoolUninitialized pubkey
  | MintsNotCanonical
  | NotCanonicalPda pubkey pubkey
  | UnsupportedTokenProgram string pubkey
  | NotExactlyOneFaction pubkey
  | FactionNotToken2022 pubkey
  | WsolQuoteNotSpl
  | RefreshedPoolOwner pubkey
  | PoolIdentityChanged pubkey
  | EpochStateOwner pubkey
  | ExactOutNotSupported
  | PoolInactive pubkey
  | PoolMintPair pubkey pubkey
  | UnsupportedSwapPair

datatype quote_error =
    TaxOverflow
  | TaxExceedsInput
  | EffectiveInputOverflow
  | SwapOutputOverflow
  | TaxExceedsOutput

datatype vault_error =
    ParamMissing string
  | ParamNotPubkey string
  | UnsupportedDirection pubkey pubkey
  | UnknownVaultKey pubkey
  | VaultConfigEmpty
  | VaultExactOut
  | ConversionFailed pubkey pubkey u64
  | InsufficientLiquidity u64 u64
  | VaultMintPair pubkey pubkey

datatype error =
    PoolStateError pool_state_error
  | EpochStateError epoch_state_error
  | TokenAccountError token_account_error
  | MintError mint_error
  | AccountsError accounts_error
  | SolPoolError sol_pool_error
  | QuoteError quote_error
  | VaultError vault_error
  | AccountMissing pubkey

type_synonym 'a result = "('a, error) outcome"

end
