(* ===== verification/Pool_State.thy ===== *)
theory Pool_State
  imports Addresses Errors
begin

text \<open>
  The parser of AMM \<open>PoolState\<close> accounts, \<open>state/pool_state.rs\<close>: 224 bytes at fixed offsets.
  The code's slices and indexes are modelled with their panics, so that "never panics" is a
  theorem and not an assumption; \<open>pool_view\<close> and \<open>pool_shape\<close> are the specification of the layout.
  \<open>mock_pool_state\<close> is the serialiser of the module's own tests.
\<close>

section \<open>Definitions\<close>

definition POOL_STATE_LEN :: nat where "POOL_STATE_LEN = 224"

record pool_state =
  mint_a :: pubkey
  mint_b :: pubkey
  vault_a :: pubkey
  vault_b :: pubkey
  reserve_a :: u64
  reserve_b :: u64
  lp_fee_bps :: u16
  initialized :: bool
  locked :: bool
  bump :: u8
  vault_a_bump :: u8
  vault_b_bump :: u8
  token_program_a :: pubkey
  token_program_b :: pubkey

text \<open>\<open>Pubkey::try_from(&data[i..j])\<close>, \<open>u64::from_le_bytes(data[i..i+8].try_into()?)\<close>,
  \<open>u16::from_le_bytes([data[i], data[i+1]])\<close> and a 0/1 byte.\<close>

definition pool_pubkey_at :: "bytes \<Rightarrow> nat \<Rightarrow> nat \<Rightarrow> pubkey result" where
  "pool_pubkey_at data i j =
     and_then (slice_at data i j) (\<lambda>s. ok_or (pubkey_try_from s) (PoolStateError (PoolPubkey i j)))"

definition u64_at :: "bytes \<Rightarrow> nat \<Rightarrow> error \<Rightarrow> u64 result" where
  "u64_at data i err =
     and_then (slice_at data i (i + 8)) (\<lambda>s. if length s = 8 then Ok (from_le_bytes s) else Err err)"

definition u16_at :: "bytes \<Rightarrow> nat \<Rightarrow> u16 result" where
  "u16_at data i =
     and_then (index_at data i) (\<lambda>lo. and_then (index_at data (i + 1)) (\<lambda>hi. Ok (from_le_bytes [lo, hi])))"

definition bool_at :: "bytes \<Rightarrow> nat \<Rightarrow> (u8 \<Rightarrow> error) \<Rightarrow> bool result" where
  "bool_at data i err =
     and_then (index_at data i) (\<lambda>v. if v = 0 then Ok False else if v = 1 then Ok True else Err (err v))"

definition pool_from_bytes :: "bytes \<Rightarrow> pool_state result" where
  "pool_from_bytes data =
     (if length data \<noteq> POOL_STATE_LEN then Err (PoolStateError (PoolLength (length data)))
      else and_then (slice_at data 0 8) (\<lambda>disc.
      if disc \<noteq> POOL_STATE_DISCRIMINATOR then Err (PoolStateError (PoolDiscriminator disc))
      else
        and_then (pool_pubkey_at data 9 41) (\<lambda>ma.
        and_then (pool_pubkey_at data 41 73) (\<lambda>mb.
        and_then (pool_pubkey_at data 73 105) (\<lambda>va.
        and_then (pool_pubkey_at data 105 137) (\<lambda>vb.
        and_then (u64_at data 137 (PoolStateError PoolReserveA)) (\<lambda>ra.
        and_then (u64_at data 145 (PoolStateError PoolReserveB)) (\<lambda>rb.
        and_then (u16_at data 153) (\<lambda>fee.
        and_then (bool_at data 155 (\<lambda>v. PoolStateError (PoolInitializedByte v))) (\<lambda>init.
        and_then (bool_at data 156 (\<lambda>v. PoolStateError (PoolLockedByte v))) (\<lambda>lock.
        and_then (index_at data 157) (\<lambda>bmp.
        and_then (index_at data 158) (\<lambda>va_bmp.
        and_then (index_at data 159) (\<lambda>vb_bmp.
        and_then (pool_pubkey_at data 160 192) (\<lambda>pa.
        and_then (pool_pubkey_at data 192 224) (\<lambda>pb.
          Ok \<lparr>mint_a = ma, mint_b = mb, vault_a = va, vault_b = vb,
              reserve_a = ra, reserve_b = rb, lp_fee_bps = fee,
              initialized = init, locked = lock,
              bump = bmp, vault_a_bump = va_bmp, vault_b_bump = vb_bmp,
              token_program_a = pa, token_program_b = pb\<rparr>))))))))))))))))"

definition is_sol_pool :: "pool_state \<Rightarrow> bool" where
  "is_sol_pool p \<longleftrightarrow> (mint_a p = NATIVE_MINT) \<noteq> (mint_b p = NATIVE_MINT)"

definition token_mint :: "pool_state \<Rightarrow> pubkey option" where
  "token_mint p =
     (if mint_a p = NATIVE_MINT \<and> mint_b p \<noteq> NATIVE_MINT then Some (mint_b p)
      else if mint_b p = NATIVE_MINT \<and> mint_a p \<noteq> NATIVE_MINT then Some (mint_a p)
      else None)"

definition sol_and_token_reserves :: "pool_state \<Rightarrow> u64 \<times> u64" where
  "sol_and_token_reserves p =
     (if mint_a p = NATIVE_MINT then (reserve_a p, reserve_b p) else (reserve_b p, reserve_a p))"

definition sol_and_token_vaults :: "pool_state \<Rightarrow> pubkey \<times> pubkey" where
  "sol_and_token_vaults p =
     (if mint_a p = NATIVE_MINT then (vault_a p, vault_b p) else (vault_b p, vault_a p))"

text \<open>The tests' serialiser: a zeroed buffer, overwritten range by range.\<close>

definition token_program_for :: "pubkey \<Rightarrow> pubkey" where
  "token_program_for mint = (if mint = NATIVE_MINT then SPL_TOKEN_PROGRAM_ID else TOKEN_2022_PROGRAM_ID)"

definition mock_pool_state ::
    "pubkey \<Rightarrow> pubkey \<Rightarrow> pubkey \<Rightarrow> pubkey \<Rightarrow> u64 \<Rightarrow> u64 \<Rightarrow> u16 \<Rightarrow> bytes" where
  "mock_pool_state ma mb va vb ra rb fee =
     (let data = replicate POOL_STATE_LEN 0;
          data = copy_at 0 POOL_STATE_DISCRIMINATOR data;
          data = data[8 := 0];
          data = copy_at 9 (as_ref ma) data;
          data = copy_at 41 (as_ref mb) data;
          data = copy_at 73 (as_ref va) data;
          data = copy_at 105 (as_ref vb) data;
          data = copy_at 137 (to_le_bytes ra) data;
          data = copy_at 145 (to_le_bytes rb) data;
          data = copy_at 153 (to_le_bytes fee) data;
          data = data[155 := 1];
          data = data[156 := 0];
          data = data[157 := 254];
          data = data[158 := 253];
          data = data[159 := 252];
          data = copy_at 160 (as_ref (token_program_for ma)) data
      in copy_at 192 (as_ref (token_program_for mb)) data)"

section \<open>The layout\<close>

text \<open>A well-shaped account, and the fields at their offsets.\<close>

definition pool_shape :: "bytes \<Rightarrow> bool" where
  "pool_shape data \<longleftrightarrow>
     length data = 224 \<and> sub_slice data 0 8 = POOL_STATE_DISCRIMINATOR \<and>
     data ! 155 \<in> {0, 1} \<and> data ! 156 \<in> {0, 1}"

definition pool_view :: "bytes \<Rightarrow> pool_state" where
  "pool_view data =
     \<lparr>mint_a = pubkey_of_bytes (sub_slice data 9 41), mint_b = pubkey_of_bytes (sub_slice data 41 73),
      vault_a = pubkey_of_bytes (sub_slice data 73 105), vault_b = pubkey_of_bytes (sub_slice data 105 137),
      reserve_a = from_le_bytes (sub_slice data 137 145), reserve_b = from_le_bytes (sub_slice data 145 153),
      lp_fee_bps = from_le_bytes (sub_slice data 153 155),
      initialized = (data ! 155 = 1), locked = (data ! 156 = 1),
      bump = data ! 157, vault_a_bump = data ! 158, vault_b_bump = data ! 159,
      token_program_a = pubkey_of_bytes (sub_slice data 160 192),
      token_program_b = pubkey_of_bytes (sub_slice data 192 224)\<rparr>"

text \<open>Reads inside the buffer neither fail nor panic.\<close>

lemma pool_pubkey_at_in:
  "j = i + 32 \<Longrightarrow> j \<le> length data \<Longrightarrow> pool_pubkey_at data i j = Ok (pubkey_of_bytes (sub_slice data i j))"
  by (simp add: pool_pubkey_at_def pubkey_try_from_32)

lemma u64_at_in: "i + 8 \<le> length data \<Longrightarrow> u64_at data i err = Ok (from_le_bytes (sub_slice data i (i + 8)))"
  by (simp add: u64_at_def)

lemma sub_slice_two: "i + 1 < length data \<Longrightarrow> sub_slice data i (i + 2) = [data ! i, data ! (i + 1)]"
  by (simp add: sub_slice_def numeral_2_eq_2 take_Suc_conv_app_nth flip: Cons_nth_drop_Suc)

lemma u16_at_in: "i + 1 < length data \<Longrightarrow> u16_at data i = Ok (from_le_bytes (sub_slice data i (i + 2)))"
  by (simp only: u16_at_def sub_slice_two) simp

lemma bool_at_in:
  "i < length data \<Longrightarrow> bool_at data i err =
     (if data ! i = 0 then Ok False else if data ! i = 1 then Ok True else Err (err (data ! i)))"
  by (simp add: bool_at_def)

lemmas reads_inside = pool_pubkey_at_in u64_at_in u16_at_in bool_at_in

lemma pool_from_bytes_full:
  assumes "length data = 224" and "sub_slice data 0 8 = POOL_STATE_DISCRIMINATOR"
  shows "pool_from_bytes data =
    (if data ! 155 \<notin> {0, 1} then Err (PoolStateError (PoolInitializedByte (data ! 155)))
     else if data ! 156 \<notin> {0, 1} then Err (PoolStateError (PoolLockedByte (data ! 156)))
     else Ok (pool_view data))"
  using assms by (simp add: pool_from_bytes_def POOL_STATE_LEN_def reads_inside pool_view_def)

lemma pool_from_bytes_Ok: "pool_from_bytes data = Ok p \<longleftrightarrow> pool_shape data \<and> p = pool_view data"
proof (cases "length data = 224 \<and> sub_slice data 0 8 = POOL_STATE_DISCRIMINATOR")
  case True
  then show ?thesis by (auto simp: pool_from_bytes_full pool_shape_def)
next
  case False
  then show ?thesis by (auto simp: pool_from_bytes_def POOL_STATE_LEN_def pool_shape_def)
qed

lemma pool_from_bytes_not_Panic: "pool_from_bytes data \<noteq> Panic"
proof (cases "length data = 224 \<and> sub_slice data 0 8 = POOL_STATE_DISCRIMINATOR")
  case True
  then show ?thesis by (simp add: pool_from_bytes_full)
next
  case False
  then show ?thesis by (auto simp: pool_from_bytes_def POOL_STATE_LEN_def)
qed

section \<open>Reading back what the serialiser wrote\<close>

lemmas slice_reads =
  sub_slice_copy_same sub_slice_copy_other sub_slice_update_other nth_copy_at

lemma length_mock [simp]: "length (mock_pool_state ma mb va vb ra rb fee) = 224"
  by (simp add: mock_pool_state_def POOL_STATE_LEN_def Let_def)

lemma mock_slices:
  shows "sub_slice (mock_pool_state ma mb va vb ra rb fee) 0 8 = POOL_STATE_DISCRIMINATOR"
    and "sub_slice (mock_pool_state ma mb va vb ra rb fee) 9 41 = as_ref ma" and "sub_slice (mock_pool_state ma mb va vb ra rb fee) 41 73 = as_ref mb"
    and "sub_slice (mock_pool_state ma mb va vb ra rb fee) 73 105 = as_ref va" and "sub_slice (mock_pool_state ma mb va vb ra rb fee) 105 137 = as_ref vb"
    and "sub_slice (mock_pool_state ma mb va vb ra rb fee) 137 145 = to_le_bytes ra" and "sub_slice (mock_pool_state ma mb va vb ra rb fee) 145 153 = to_le_bytes rb"
    and "sub_slice (mock_pool_state ma mb va vb ra rb fee) 153 155 = to_le_bytes fee"
    and "sub_slice (mock_pool_state ma mb va vb ra rb fee) 160 192 = as_ref (token_program_for ma)"
    and "sub_slice (mock_pool_state ma mb va vb ra rb fee) 192 224 = as_ref (token_program_for mb)"
  by (simp_all add: mock_pool_state_def POOL_STATE_LEN_def Let_def slice_reads)

lemma mock_bytes:
  shows "(mock_pool_state ma mb va vb ra rb fee) ! 155 = 1" and "(mock_pool_state ma mb va vb ra rb fee) ! 156 = 0" and "(mock_pool_state ma mb va vb ra rb fee) ! 157 = 254" and "(mock_pool_state ma mb va vb ra rb fee) ! 158 = 253"
    and "(mock_pool_state ma mb va vb ra rb fee) ! 159 = 252"
  by (simp_all add: mock_pool_state_def POOL_STATE_LEN_def Let_def slice_reads)

lemma mock_shape: "pool_shape (mock_pool_state ma mb va vb ra rb fee)"
  by (simp add: pool_shape_def mock_slices mock_bytes)

lemma mock_view:
  "pool_view (mock_pool_state ma mb va vb ra rb fee) =
     \<lparr>mint_a = ma, mint_b = mb, vault_a = va, vault_b = vb, reserve_a = ra, reserve_b = rb,
      lp_fee_bps = fee, initialized = True, locked = False, bump = 254, vault_a_bump = 253, vault_b_bump = 252,
      token_program_a = token_program_for ma, token_program_b = token_program_for mb\<rparr>"
  by (simp add: pool_view_def mock_slices mock_bytes u16_le.dec_enc u64_le.dec_enc)

lemma pool_view_determines:
  assumes "length xs = 224" and "length ys = 224" and "pool_view xs = pool_view ys"
    and "sub_slice xs 0 8 = sub_slice ys 0 8"
    and "xs ! 155 \<in> {0, 1}" "ys ! 155 \<in> {0, 1}" "xs ! 156 \<in> {0, 1}" "ys ! 156 \<in> {0, 1}"
    and "k < 224" and "k \<noteq> 8"
  shows "xs ! k = ys ! k"
proof -
  have keys: "xs ! k = ys ! k"
    if "pubkey_of_bytes (sub_slice xs a b) = pubkey_of_bytes (sub_slice ys a b)"
      and "b - a = 32" "b \<le> 224" "a \<le> k" "k < b" for a b
    by (rule pubkey_codec.field_determines_bytes [OF that(1)]) (use that assms(1,2) in auto)
  have u64s: "xs ! k = ys ! k"
    if "(from_le_bytes (sub_slice xs a b) :: u64) = from_le_bytes (sub_slice ys a b)"
      and "b - a = 8" "b \<le> 224" "a \<le> k" "k < b" for a b
    by (rule u64_le.field_determines_bytes [OF that(1)]) (use that assms(1,2) in auto)
  have u16s: "xs ! k = ys ! k"
    if "(from_le_bytes (sub_slice xs 153 155) :: u16) = from_le_bytes (sub_slice ys 153 155)"
      and "153 \<le> k" "k < 155"
    by (rule u16_le.field_determines_bytes [OF that(1)]) (use that assms(1,2) in auto)
  note field = arg_cong [OF assms(3), unfolded pool_view_def]
  consider "k < 105" | "105 \<le> k" "k < 155" | "155 \<le> k" by linarith
  then show ?thesis
  proof cases
    case 1
    then consider "k < 8" | "9 \<le> k" "k < 41" | "41 \<le> k" "k < 73" | "73 \<le> k" "k < 105"
      using assms(10) by linarith
    then show ?thesis
    proof cases
      case 1
      then show ?thesis
        using assms(1,2) by (intro sub_slice_eq_nth [OF _ _ assms(4)]) simp_all
    qed (use field [of mint_a] field [of mint_b] field [of vault_a]
        keys [of 9 41] keys [of 41 73] keys [of 73 105] in simp_all)
  next
    case 2
    then consider "105 \<le> k" "k < 137" | "137 \<le> k" "k < 145" | "145 \<le> k" "k < 153" | "153 \<le> k" "k < 155"
      by linarith
    then show ?thesis
      by cases (use field [of vault_b] field [of reserve_a] field [of reserve_b] field [of lp_fee_bps]
        keys [of 105 137] u64s [of 137 145] u64s [of 145 153] u16s in simp_all)
  next
    case 3
    then consider "k = 155" | "k = 156" | "k = 157" | "k = 158" | "k = 159"
      | "160 \<le> k" "k < 192" | "192 \<le> k" "k < 224"
      using assms(9) by linarith
    then show ?thesis
      by cases (use field [of initialized] field [of locked] field [of bump] field [of vault_a_bump]
        field [of vault_b_bump] field [of token_program_a] field [of token_program_b] assms(5-8)
        keys [of 160 192] keys [of 192 224] in auto)
  qed
qed

text \<open>The same pool with its two sides stored the other way round.\<close>

definition flip_sides :: "pool_state \<Rightarrow> pool_state" where
  "flip_sides p = p\<lparr>mint_a := mint_b p, mint_b := mint_a p, vault_a := vault_b p, vault_b := vault_a p,
     reserve_a := reserve_b p, reserve_b := reserve_a p,
     vault_a_bump := vault_b_bump p, vault_b_bump := vault_a_bump p,
     token_program_a := token_program_b p, token_program_b := token_program_a p\<rparr>"

section \<open>Properties\<close>

text \<open>C21: The PoolState parser accepts exactly the well-shaped accounts and never panics.  It
  returns the fields at their offsets when the account is 224 bytes long, starts with the Anchor
  discriminator and has 0 or 1 in its two flag bytes; otherwise it names the first of these checks
  that fails.  No slice or index of it can go out of range, on any bytes.\<close>

theorem pool_from_bytes_spec:
  "pool_from_bytes data =
    (if length data \<noteq> 224 then Err (PoolStateError (PoolLength (length data)))
     else if sub_slice data 0 8 \<noteq> POOL_STATE_DISCRIMINATOR
       then Err (PoolStateError (PoolDiscriminator (sub_slice data 0 8)))
     else if data ! 155 \<notin> {0, 1} then Err (PoolStateError (PoolInitializedByte (data ! 155)))
     else if data ! 156 \<notin> {0, 1} then Err (PoolStateError (PoolLockedByte (data ! 156)))
     else Ok (pool_view data))"
  by (cases "length data = 224 \<and> sub_slice data 0 8 = POOL_STATE_DISCRIMINATOR")
     (auto simp: pool_from_bytes_full, auto simp: pool_from_bytes_def POOL_STATE_LEN_def)

text \<open>Round trip.  Parsing what the serialiser wrote gives back the mints, vaults, reserves and
  fee it was given, an initialized and unlocked pool, its bumps and the token program of each
  mint, for all values of them.\<close>

lemma pool_mock_round_trip:
  "pool_from_bytes (mock_pool_state ma mb va vb ra rb fee) =
     Ok \<lparr>mint_a = ma, mint_b = mb, vault_a = va, vault_b = vb, reserve_a = ra, reserve_b = rb,
         lp_fee_bps = fee, initialized = True, locked = False,
         bump = 254, vault_a_bump = 253, vault_b_bump = 252,
         token_program_a = token_program_for ma, token_program_b = token_program_for mb\<rparr>"
  by (simp add: pool_from_bytes_Ok mock_shape mock_view)

text \<open>C38: The parser loses nothing but the pool type.  Two accounts that parse to the same pool
  agree in every byte except, possibly, byte 8 (the pool type, which the crate ignores).\<close>

theorem pool_parse_injective:
  assumes "pool_from_bytes xs = Ok p" and "pool_from_bytes ys = Ok p" and "k < 224" and "k \<noteq> 8"
  shows "xs ! k = ys ! k"
proof (rule pool_view_determines)
  show "pool_view xs = pool_view ys" using assms(1,2) by (auto simp: pool_from_bytes_Ok)
qed (use assms in \<open>auto simp: pool_from_bytes_Ok pool_shape_def\<close>)

theorem pool_parse_injective_witness:
  "(mock_pool_state CRIME_MINT NATIVE_MINT VAULT_CRIME VAULT_FRAUD 1 2 100) ! 155 =
   ((mock_pool_state CRIME_MINT NATIVE_MINT VAULT_CRIME VAULT_FRAUD 1 2 100)[8 := 7]) ! 155"
proof (rule pool_parse_injective)
  let ?m = "mock_pool_state CRIME_MINT NATIVE_MINT VAULT_CRIME VAULT_FRAUD 1 2 100"
  show "pool_from_bytes ?m = Ok (pool_view ?m)"
    by (simp add: pool_from_bytes_Ok mock_shape)
  show "pool_from_bytes (?m[8 := 7]) = Ok (pool_view ?m)"
    by (simp add: pool_from_bytes_Ok pool_shape_def pool_view_def mock_slices mock_bytes sub_slice_update_other)
qed simp_all

text \<open>Orientation does not matter.  A pool is a SOL pool exactly when it has a token mint, which
  is then its non-SOL side; and storing its two sides the other way round changes neither that
  mint nor the (SOL, token) reserves and vaults the crate computes.\<close>

lemma pool_orientation_independent:
  "(is_sol_pool p \<longleftrightarrow> token_mint p \<noteq> None) \<and>
   is_sol_pool (flip_sides p) = is_sol_pool p \<and> token_mint (flip_sides p) = token_mint p \<and>
   (is_sol_pool p \<longrightarrow>
      token_mint p \<noteq> Some NATIVE_MINT \<and>
      sol_and_token_reserves (flip_sides p) = sol_and_token_reserves p \<and>
      sol_and_token_vaults (flip_sides p) = sol_and_token_vaults p)"
  by (cases "mint_a p = NATIVE_MINT"; cases "mint_b p = NATIVE_MINT")
     (simp_all add: is_sol_pool_def token_mint_def flip_sides_def sol_and_token_reserves_def
      sol_and_token_vaults_def)

end
