(* ===== verification/Epoch_State.thy ===== *)
theory Epoch_State
  imports Pool_State
begin

text \<open>
  The parser of \<open>EpochState\<close> accounts, \<open>state/epoch_state.rs\<close>: the four tax rates, the two pause
  fields and the initialized flag.  \<open>compute_epoch_state_discriminator\<close> takes SHA-256 as a
  parameter.  \<open>mock_epoch_state\<close> is the serialiser of the module's tests.
\<close>

section \<open>Definitions\<close>

definition EPOCH_MIN_LEN :: nat where "EPOCH_MIN_LEN = 172"

record epoch_state =
  crime_buy_tax_bps :: u16
  crime_sell_tax_bps :: u16
  fraud_buy_tax_bps :: u16
  fraud_sell_tax_bps :: u16
  pause_end_slot :: u64
  trading_paused :: bool
  epoch_initialized :: bool

definition epoch_bool_at :: "bytes \<Rightarrow> nat \<Rightarrow> string \<Rightarrow> bool result" where
  "epoch_bool_at data offset name =
     and_then (index_at data offset) (\<lambda>value.
       if value = 0 then Ok False
       else if value = 1 then Ok True
       else Err (EpochStateError (EpochBoolByte name value)))"

definition epoch_from_bytes :: "bytes \<Rightarrow> epoch_state result" where
  "epoch_from_bytes data =
     (if length data \<noteq> EPOCH_MIN_LEN then Err (EpochStateError (EpochLength (length data)))
      else and_then (slice_at data 0 8) (\<lambda>disc.
      if disc \<noteq> EPOCH_STATE_DISCRIMINATOR then Err (EpochStateError (EpochDiscriminator disc))
      else
        and_then (u16_at data 33) (\<lambda>crime_buy.
        and_then (u16_at data 35) (\<lambda>crime_sell.
        and_then (u16_at data 37) (\<lambda>fraud_buy.
        and_then (u16_at data 39) (\<lambda>fraud_sell.
        and_then (u64_at data PAUSE_END_SLOT_OFFSET (EpochStateError EpochPauseEndSlot)) (\<lambda>pause_end.
        and_then (epoch_bool_at data TRADING_PAUSED_OFFSET ''trading_paused'') (\<lambda>paused.
        and_then (epoch_bool_at data EPOCH_INITIALIZED_OFFSET ''initialized'') (\<lambda>init.
          Ok \<lparr>crime_buy_tax_bps = crime_buy, crime_sell_tax_bps = crime_sell,
              fraud_buy_tax_bps = fraud_buy, fraud_sell_tax_bps = fraud_sell,
              pause_end_slot = pause_end, trading_paused = paused, epoch_initialized = init\<rparr>)))))))))"

definition get_tax_bps :: "epoch_state \<Rightarrow> bool \<Rightarrow> bool \<Rightarrow> u16" where
  "get_tax_bps s is_crime is_buy =
     (case (is_crime, is_buy) of
        (True, True) \<Rightarrow> crime_buy_tax_bps s
      | (True, False) \<Rightarrow> crime_sell_tax_bps s
      | (False, True) \<Rightarrow> fraud_buy_tax_bps s
      | (False, False) \<Rightarrow> fraud_sell_tax_bps s)"

text \<open>\<open>b"account:EpochState"\<close>, hashed; the first eight bytes are copied into the result.\<close>

definition compute_epoch_state_discriminator :: "(bytes \<Rightarrow> bytes) \<Rightarrow> bytes result" where
  "compute_epoch_state_discriminator sha256 =
     (let hash = sha256 (ascii_bytes ''account:EpochState'');
          disc = replicate 8 (0 :: u8)
      in and_then (slice_at hash 0 8) (\<lambda>s. Ok (copy_at 0 s disc)))"

definition mock_epoch_state :: "u16 \<Rightarrow> u16 \<Rightarrow> u16 \<Rightarrow> u16 \<Rightarrow> bytes" where
  "mock_epoch_state crime_buy crime_sell fraud_buy fraud_sell =
     (let data = replicate EPOCH_MIN_LEN 0;
          data = copy_at 0 EPOCH_STATE_DISCRIMINATOR data;
          data = copy_at 33 (to_le_bytes crime_buy) data;
          data = copy_at 35 (to_le_bytes crime_sell) data;
          data = copy_at 37 (to_le_bytes fraud_buy) data;
          data = copy_at 39 (to_le_bytes fraud_sell) data
      in data[EPOCH_INITIALIZED_OFFSET := 1])"

section \<open>The layout\<close>

definition epoch_shape :: "bytes \<Rightarrow> bool" where
  "epoch_shape data \<longleftrightarrow>
     length data = 172 \<and> sub_slice data 0 8 = EPOCH_STATE_DISCRIMINATOR \<and>
     data ! 114 \<in> {0, 1} \<and> data ! 170 \<in> {0, 1}"

definition epoch_view :: "bytes \<Rightarrow> epoch_state" where
  "epoch_view data =
     \<lparr>crime_buy_tax_bps = from_le_bytes (sub_slice data 33 35),
      crime_sell_tax_bps = from_le_bytes (sub_slice data 35 37),
      fraud_buy_tax_bps = from_le_bytes (sub_slice data 37 39),
      fraud_sell_tax_bps = from_le_bytes (sub_slice data 39 41),
      pause_end_slot = from_le_bytes (sub_slice data 106 114),
      trading_paused = (data ! 114 = 1), epoch_initialized = (data ! 170 = 1)\<rparr>"

lemma epoch_bool_at_in:
  "i < length data \<Longrightarrow> epoch_bool_at data i name =
     (if data ! i = 0 then Ok False else if data ! i = 1 then Ok True
      else Err (EpochStateError (EpochBoolByte name (data ! i))))"
  by (simp add: epoch_bool_at_def)

lemma epoch_from_bytes_full:
  assumes "length data = 172" and "sub_slice data 0 8 = EPOCH_STATE_DISCRIMINATOR"
  shows "epoch_from_bytes data =
    (if data ! 114 \<notin> {0, 1} then Err (EpochStateError (EpochBoolByte ''trading_paused'' (data ! 114)))
     else if data ! 170 \<notin> {0, 1} then Err (EpochStateError (EpochBoolByte ''initialized'' (data ! 170)))
     else Ok (epoch_view data))"
  using assms
  by (simp add: epoch_from_bytes_def EPOCH_MIN_LEN_def offset_defs reads_inside epoch_bool_at_in epoch_view_def)

lemma epoch_from_bytes_Ok: "epoch_from_bytes data = Ok s \<longleftrightarrow> epoch_shape data \<and> s = epoch_view data"
proof (cases "length data = 172 \<and> sub_slice data 0 8 = EPOCH_STATE_DISCRIMINATOR")
  case True
  then show ?thesis by (auto simp: epoch_from_bytes_full epoch_shape_def)
next
  case False
  then show ?thesis by (auto simp: epoch_from_bytes_def EPOCH_MIN_LEN_def epoch_shape_def)
qed

lemma epoch_from_bytes_not_Panic: "epoch_from_bytes data \<noteq> Panic"
proof (cases "length data = 172 \<and> sub_slice data 0 8 = EPOCH_STATE_DISCRIMINATOR")
  case True
  then show ?thesis by (simp add: epoch_from_bytes_full)
next
  case False
  then show ?thesis by (auto simp: epoch_from_bytes_def EPOCH_MIN_LEN_def)
qed

lemma length_mock_epoch [simp]: "length (mock_epoch_state a b c d) = 172"
  by (simp add: mock_epoch_state_def EPOCH_MIN_LEN_def Let_def)

lemma mock_epoch_reads:
  "sub_slice (mock_epoch_state a b c d) 0 8 = EPOCH_STATE_DISCRIMINATOR"
  "sub_slice (mock_epoch_state a b c d) 33 35 = to_le_bytes a"
  "sub_slice (mock_epoch_state a b c d) 35 37 = to_le_bytes b"
  "sub_slice (mock_epoch_state a b c d) 37 39 = to_le_bytes c"
  "sub_slice (mock_epoch_state a b c d) 39 41 = to_le_bytes d"
  "sub_slice (mock_epoch_state a b c d) 106 114 = replicate 8 0"
  "mock_epoch_state a b c d ! 114 = 0" "mock_epoch_state a b c d ! 170 = 1"
  by (simp_all add: mock_epoch_state_def EPOCH_MIN_LEN_def EPOCH_INITIALIZED_OFFSET_def Let_def slice_reads
      sub_slice_def [of "replicate _ _"])

lemma mock_epoch_parsed:
  "epoch_from_bytes (mock_epoch_state cb cs fb fs) =
     Ok \<lparr>crime_buy_tax_bps = cb, crime_sell_tax_bps = cs, fraud_buy_tax_bps = fb, fraud_sell_tax_bps = fs,
         pause_end_slot = 0, trading_paused = False, epoch_initialized = True\<rparr>"
proof -
  have "le_nat_of_bytes (replicate 8 0) = 0" by (simp add: numeral_eq_Suc)
  then have "(from_le_bytes (replicate 8 0) :: u64) = 0" by (simp add: from_le_bytes_def)
  then show ?thesis
    by (simp add: epoch_from_bytes_Ok epoch_shape_def epoch_view_def mock_epoch_reads u16_le.dec_enc)
qed

section \<open>Properties\<close>

text \<open>C22: The EpochState parser accepts exactly the 172-byte accounts with the Anchor discriminator
  and 0 or 1 in both flag bytes, reads each rate, the pause slot and the flags at their offsets,
  names the first check that fails otherwise, and never panics.  In particular byte 106, the low
  byte of the pause slot, may hold any value.\<close>

theorem epoch_from_bytes_spec:
  "epoch_from_bytes data =
    (if length data \<noteq> 172 then Err (EpochStateError (EpochLength (length data)))
     else if sub_slice data 0 8 \<noteq> EPOCH_STATE_DISCRIMINATOR
       then Err (EpochStateError (EpochDiscriminator (sub_slice data 0 8)))
     else if data ! 114 \<notin> {0, 1} then Err (EpochStateError (EpochBoolByte ''trading_paused'' (data ! 114)))
     else if data ! 170 \<notin> {0, 1} then Err (EpochStateError (EpochBoolByte ''initialized'' (data ! 170)))
     else Ok (epoch_view data))"
  by (cases "length data = 172 \<and> sub_slice data 0 8 = EPOCH_STATE_DISCRIMINATOR")
     (auto simp: epoch_from_bytes_full, auto simp: epoch_from_bytes_def EPOCH_MIN_LEN_def)

text \<open>Round trip of the rates: what the tests' serialiser wrote is what \<open>get_tax_bps\<close> returns
  after parsing, for each faction and direction, in an initialized and unpaused state.\<close>

lemma epoch_mock_round_trip:
  "\<exists>s. epoch_from_bytes (mock_epoch_state cb cs fb fs) = Ok s \<and>
     get_tax_bps s True True = cb \<and> get_tax_bps s True False = cs \<and>
     get_tax_bps s False True = fb \<and> get_tax_bps s False False = fs \<and>
     pause_end_slot s = 0 \<and> \<not> trading_paused s \<and> epoch_initialized s"
  by (simp add: mock_epoch_parsed get_tax_bps_def)

end
