(* ===== verification/Mint_State.thy ===== *)
theory Mint_State
  imports Addresses Errors
begin

text \<open>
  The quote-mint policy of \<open>state/mint_state.rs\<close>.  Unpacking a mint and reading its Token-2022
  extensions is done by the \<open>spl-token\<close> and \<open>spl-token-2022\<close> crates: the record \<open>mint_lib\<close> holds
  the functions the code calls, over an abstract type of unpacked mints, and is a parameter of
  \<open>validate_quote_mint\<close>.  Each field returns nothing where the library returns an error.
\<close>

section \<open>Definitions\<close>

datatype extension_type =
    TransferFeeConfigExt
  | NonTransferableExt
  | DefaultAccountStateExt
  | PausableExt
  | OtherExtension u16

record transfer_fee =
  fee_epoch :: u64
  transfer_fee_basis_points :: u16
  maximum_fee :: u64

record transfer_fee_config =
  older_transfer_fee :: transfer_fee
  newer_transfer_fee :: transfer_fee

record 'm mint_lib =
  spl_mint_unpacks :: "bytes \<Rightarrow> bool"
  t22_unpack :: "bytes \<Rightarrow> 'm option"
  get_extension_types :: "'m \<Rightarrow> extension_type list option"
  get_transfer_fee_config :: "'m \<Rightarrow> transfer_fee_config option"
  hook_program_id :: "'m \<Rightarrow> pubkey option"
  get_default_account_state :: "'m \<Rightarrow> u8 option"
  get_pausable_paused :: "'m \<Rightarrow> bool option"

text \<open>\<open>AccountState::Initialized as u8\<close> of \<open>spl-token-2022\<close>.\<close>

definition ACCOUNT_STATE_INITIALIZED :: u8 where "ACCOUNT_STATE_INITIALIZED = 1"

definition schedule_is_zero :: "transfer_fee \<Rightarrow> bool" where
  "schedule_is_zero schedule \<longleftrightarrow> transfer_fee_basis_points schedule = 0 \<and> maximum_fee schedule = 0"

definition validate_quote_mint :: "'m mint_lib \<Rightarrow> bytes \<Rightarrow> pubkey \<Rightarrow> pubkey \<Rightarrow> unit result" where
  "validate_quote_mint lib data owner expected_program =
     (if owner \<noteq> expected_program then Err (MintError (MintOwnerMismatch owner expected_program))
      else if owner = SPL_TOKEN_PROGRAM_ID then
        (if spl_mint_unpacks lib data then Ok () else Err (MintError InvalidClassicMint))
      else if owner \<noteq> TOKEN_2022_PROGRAM_ID then Err (MintError (UnsupportedMintOwner owner))
      else
        and_then (ok_or (t22_unpack lib data) (MintError InvalidToken2022Mint)) (\<lambda>mint.
        and_then (ok_or (get_extension_types lib mint) (MintError InvalidExtensions)) (\<lambda>extensions.
        and_then
          (if TransferFeeConfigExt \<in> set extensions then
             and_then (ok_or (get_transfer_fee_config lib mint) (MintError InvalidTransferFee)) (\<lambda>fees.
               if \<not> schedule_is_zero (older_transfer_fee fees) \<or> \<not> schedule_is_zero (newer_transfer_fee fees)
               then Err (MintError NonzeroTransferFee) else Ok ())
           else Ok ()) (\<lambda>_.
        if hook_program_id lib mint \<noteq> None then Err (MintError ArmedTransferHook)
        else if NonTransferableExt \<in> set extensions then Err (MintError NonTransferableMint)
        else
        and_then
          (if DefaultAccountStateExt \<in> set extensions then
             and_then (ok_or (get_default_account_state lib mint) (MintError InvalidDefaultState)) (\<lambda>state.
               if state \<noteq> ACCOUNT_STATE_INITIALIZED then Err (MintError DefaultStateBlocked) else Ok ())
           else Ok ()) (\<lambda>_.
        and_then
          (if PausableExt \<in> set extensions then
             and_then (ok_or (get_pausable_paused lib mint) (MintError InvalidPausable)) (\<lambda>paused.
               if paused then Err (MintError MintPaused) else Ok ())
           else Ok ()) (\<lambda>_.
        Ok ()))))))"

section \<open>The policy\<close>

text \<open>
  What the quote arithmetic needs of a Token-2022 mint: transfers move the nominal amount, to any
  account, now and after the scheduled fee change, with no extra hook accounts.
\<close>

definition moves_nominal :: "'m mint_lib \<Rightarrow> 'm \<Rightarrow> bool" where
  "moves_nominal lib mint \<longleftrightarrow>
     (case get_extension_types lib mint of
        None \<Rightarrow> False
      | Some extensions \<Rightarrow>
          hook_program_id lib mint = None \<and>
          NonTransferableExt \<notin> set extensions \<and>
          (TransferFeeConfigExt \<in> set extensions \<longrightarrow>
             (case get_transfer_fee_config lib mint of
                None \<Rightarrow> False
              | Some fees \<Rightarrow> schedule_is_zero (older_transfer_fee fees) \<and> schedule_is_zero (newer_transfer_fee fees))) \<and>
          (DefaultAccountStateExt \<in> set extensions \<longrightarrow>
             get_default_account_state lib mint = Some ACCOUNT_STATE_INITIALIZED) \<and>
          (PausableExt \<in> set extensions \<longrightarrow> get_pausable_paused lib mint = Some False))"

definition quote_mint_admitted :: "'m mint_lib \<Rightarrow> bytes \<Rightarrow> pubkey \<Rightarrow> bool" where
  "quote_mint_admitted lib data owner \<longleftrightarrow>
     owner = SPL_TOKEN_PROGRAM_ID \<and> spl_mint_unpacks lib data \<or>
     owner = TOKEN_2022_PROGRAM_ID \<and> (\<exists>mint. t22_unpack lib data = Some mint \<and> moves_nominal lib mint)"

lemma validate_t22_Ok:
  "validate_quote_mint lib data TOKEN_2022_PROGRAM_ID TOKEN_2022_PROGRAM_ID = Ok () \<longleftrightarrow>
     (\<exists>mint. t22_unpack lib data = Some mint \<and> moves_nominal lib mint)"
  by (cases "t22_unpack lib data")
     (auto simp: validate_quote_mint_def moves_nominal_def outcome split: option.splits if_splits)

lemma validate_quote_mint_Ok:
  "validate_quote_mint lib data owner program = Ok () \<longleftrightarrow>
     owner = program \<and> quote_mint_admitted lib data owner"
proof (cases "owner = program \<and> owner = TOKEN_2022_PROGRAM_ID")
  case True
  then have e: "owner = TOKEN_2022_PROGRAM_ID" "program = TOKEN_2022_PROGRAM_ID" by auto
  show ?thesis unfolding e by (simp add: validate_t22_Ok quote_mint_admitted_def)
next
  case False
  then show ?thesis by (auto simp: validate_quote_mint_def quote_mint_admitted_def)
qed

lemma validate_quote_mint_not_Panic: "validate_quote_mint lib data owner program \<noteq> Panic"
  by (auto simp: validate_quote_mint_def outcome split: if_splits)

text \<open>C20: The quote-mint policy.  \<open>validate_quote_mint\<close> accepts exactly a mint owned by the pool's
  token program that is either a classic SPL mint that unpacks, or a Token-2022 mint that moves
  nominal amounts: both fee schedules zero, no armed hook, transferable, new accounts initialized
  and not paused, each read from the mint.  It never panics, whatever the library returns.\<close>

theorem quote_mint_policy:
  "(validate_quote_mint lib data owner program = Ok () \<longleftrightarrow>
      owner = program \<and> quote_mint_admitted lib data owner) \<and>
   validate_quote_mint lib data owner program \<noteq> Panic"
  using validate_quote_mint_Ok validate_quote_mint_not_Panic by blast

end
