(* ===== verification/Instruction.thy ===== *)
theory Instruction
  imports Addresses
begin

text \<open>
  The instruction encoders of \<open>instruction.rs\<close>: which Tax entry point an ordered mint pair selects,
  and the byte layout of the Tax and Conversion Vault instructions.  \<open>decode_tax\<close> and
  \<open>decode_convert_v2\<close> are the specification's readers of those layouts.
\<close>

section \<open>Definitions\<close>

datatype tax_swap_lane = SolBuy | SolBuyWsol | SolSell | SplBuy | SplSell

definition for_mints :: "pubkey \<Rightarrow> pubkey \<Rightarrow> pubkey \<Rightarrow> pubkey \<Rightarrow> tax_swap_lane option" where
  "for_mints quote_mint faction_mint input_mint output_mint =
     (let is_sol = (quote_mint = NATIVE_MINT) in
      case (input_mint = quote_mint, output_mint = faction_mint) of
        (True, True) \<Rightarrow> Some (if is_sol then SolBuyWsol else SplBuy)
      | (False, False) \<Rightarrow>
          (if input_mint = faction_mint \<and> output_mint = quote_mint
           then Some (if is_sol then SolSell else SplSell) else None)
      | _ \<Rightarrow> None)"

fun has_faction_witness :: "tax_swap_lane \<Rightarrow> bool" where
  "has_faction_witness SolBuy = True"
| "has_faction_witness SolSell = True"
| "has_faction_witness _ = False"

fun discriminator :: "tax_swap_lane \<Rightarrow> bytes" where
  "discriminator SolBuy = SWAP_SOL_BUY_DISCRIMINATOR"
| "discriminator SolBuyWsol = SWAP_SOL_BUY_WSOL_DISCRIMINATOR"
| "discriminator SolSell = SWAP_SOL_SELL_DISCRIMINATOR"
| "discriminator SplBuy = SWAP_SPL_BUY_DISCRIMINATOR"
| "discriminator SplSell = SWAP_SPL_SELL_DISCRIMINATOR"

definition encode :: "tax_swap_lane \<Rightarrow> u64 \<Rightarrow> u64 \<Rightarrow> bool \<Rightarrow> bytes" where
  "encode lane amount_in minimum_output is_crime =
     (let data = discriminator lane @ to_le_bytes amount_in @ to_le_bytes minimum_output
      in if has_faction_witness lane then data @ [of_bool is_crime] else data)"

definition encode_convert_v2 :: "u64 \<Rightarrow> u64 \<Rightarrow> u64 \<Rightarrow> bytes" where
  "encode_convert_v2 amount_in minimum_output pre_balance =
     CONVERT_V2_DISCRIMINATOR @ to_le_bytes amount_in @ to_le_bytes minimum_output @ to_le_bytes pre_balance"

definition encode_exact :: "u64 \<Rightarrow> u64 \<Rightarrow> bytes" where
  "encode_exact amount_in minimum_output = encode_convert_v2 amount_in minimum_output 0"

definition encode_delta :: "u64 \<Rightarrow> u64 \<Rightarrow> bytes" where
  "encode_delta minimum_output pre_balance = encode_convert_v2 0 minimum_output pre_balance"

section \<open>Reading the layouts\<close>

definition lanes :: "tax_swap_lane list" where
  "lanes = [SolBuy, SolBuyWsol, SolSell, SplBuy, SplSell]"

text \<open>
  The Anchor dispatch: the first eight bytes select the entry point, two little-endian \<open>u64\<close>
  follow, and the lanes with a witness byte end with it.
\<close>

definition decode_tax :: "bytes \<Rightarrow> (tax_swap_lane \<times> u64 \<times> u64 \<times> bool option) option" where
  "decode_tax data =
     (case find (\<lambda>l. discriminator l = take 8 data) lanes of
        None \<Rightarrow> None
      | Some l \<Rightarrow>
          if length data = (if has_faction_witness l then 25 else 24)
          then Some (l, from_le_bytes (sub_slice data 8 16), from_le_bytes (sub_slice data 16 24),
                 if has_faction_witness l then Some (data ! 24 = 1) else None)
          else None)"

definition decode_convert_v2 :: "bytes \<Rightarrow> (u64 \<times> u64 \<times> u64) option" where
  "decode_convert_v2 data =
     (if length data = 32 \<and> take 8 data = CONVERT_V2_DISCRIMINATOR
      then Some (from_le_bytes (sub_slice data 8 16), from_le_bytes (sub_slice data 16 24),
             from_le_bytes (sub_slice data 24 32))
      else None)"

lemmas discriminator_defs =
  SWAP_SOL_BUY_DISCRIMINATOR_def SWAP_SOL_SELL_DISCRIMINATOR_def SWAP_SPL_BUY_DISCRIMINATOR_def
  SWAP_SPL_SELL_DISCRIMINATOR_def SWAP_SOL_BUY_WSOL_DISCRIMINATOR_def CONVERT_V2_DISCRIMINATOR_def

lemma length_discriminator [simp]: "length (discriminator l) = 8"
  by (cases l) simp_all

lemma discriminator_inject [simp]: "discriminator l = discriminator l' \<longleftrightarrow> l = l'"
  by (cases l; cases l') (simp_all add: discriminator_defs)

lemma discriminator_not_convert [simp]: "discriminator l \<noteq> CONVERT_V2_DISCRIMINATOR"
  by (cases l) (simp_all add: discriminator_defs)

lemma find_lane: "find (\<lambda>l'. l' = l) lanes = Some l"
  by (cases l) (simp_all add: lanes_def)

lemma take_encode: "take 8 (encode l a m c) = discriminator l"
  by (simp add: encode_def Let_def)

lemma length_encode: "length (encode l a m c) = (if has_faction_witness l then 25 else 24)"
  by (simp add: encode_def Let_def)

lemma encode_fields:
  "sub_slice (encode l a m c) 8 16 = to_le_bytes a" "sub_slice (encode l a m c) 16 24 = to_le_bytes m"
  "has_faction_witness l \<Longrightarrow> encode l a m c ! 24 = of_bool c"
  by (simp_all add: encode_def Let_def sub_slice_def nth_append)

lemma encode_convert_fields:
  "length (encode_convert_v2 a m p) = 32" "take 8 (encode_convert_v2 a m p) = CONVERT_V2_DISCRIMINATOR"
  "sub_slice (encode_convert_v2 a m p) 8 16 = to_le_bytes a"
  "sub_slice (encode_convert_v2 a m p) 16 24 = to_le_bytes m"
  "sub_slice (encode_convert_v2 a m p) 24 32 = to_le_bytes p"
  by (simp_all add: encode_convert_v2_def sub_slice_def)

lemma decode_encode: "decode_tax (encode l a m c) = Some (l, a, m, if has_faction_witness l then Some c else None)"
  by (simp add: decode_tax_def take_encode find_lane length_encode encode_fields u64_le.dec_enc)

lemma decode_encode_convert: "decode_convert_v2 (encode_convert_v2 a m p) = Some (a, m, p)"
  by (simp add: decode_convert_v2_def encode_convert_fields u64_le.dec_enc)

section \<open>Properties\<close>

text \<open>Lane selection.  For a pool whose quote and faction mints differ, the lane is the buy lane
  exactly for quote to faction and the sell lane exactly for faction to quote, the SOL ones
  exactly for a WSOL quote; every other ordered pair selects nothing, and the legacy native-tax
  buy is never selected.\<close>

lemma for_mints_spec:
  assumes "q \<noteq> f"
  shows "for_mints q f i out =
      (if i = q \<and> out = f then Some (if q = NATIVE_MINT then SolBuyWsol else SplBuy)
       else if i = f \<and> out = q then Some (if q = NATIVE_MINT then SolSell else SplSell)
       else None) \<and>
    for_mints q f i out \<noteq> Some SolBuy"
  using assms by (auto simp: for_mints_def Let_def split: bool.splits)

text \<open>C33: Tax instructions decode to what was encoded.  Dispatching on the first eight bytes of the
  encoded data finds the lane, the two amounts and, on exactly the two lanes that carry it, the
  faction byte; so two encodings are equal only for the same lane and amounts, and no Tax
  instruction can be mistaken for a vault conversion.\<close>

theorem tax_encoding_round_trip:
  "decode_tax (encode lane a m c) = Some (lane, a, m, if has_faction_witness lane then Some c else None) \<and>
   decode_convert_v2 (encode lane a m c) = None \<and>
   (encode lane a m c = encode lane' a' m' c' \<longleftrightarrow>
      lane = lane' \<and> a = a' \<and> m = m' \<and> (has_faction_witness lane \<longrightarrow> c = c'))"
proof (intro conjI)
  show "decode_convert_v2 (encode lane a m c) = None"
    by (simp add: decode_convert_v2_def take_encode)
  show "encode lane a m c = encode lane' a' m' c' \<longleftrightarrow>
      lane = lane' \<and> a = a' \<and> m = m' \<and> (has_faction_witness lane \<longrightarrow> c = c')"
  proof
    assume "encode lane a m c = encode lane' a' m' c'"
    then have "decode_tax (encode lane a m c) = decode_tax (encode lane' a' m' c')" by simp
    then show "lane = lane' \<and> a = a' \<and> m = m' \<and> (has_faction_witness lane \<longrightarrow> c = c')"
      by (auto simp: decode_encode split: if_splits)
  qed (auto simp: encode_def)
qed (rule decode_encode)

theorem tax_encoding_round_trip_witness:
  "decode_tax (encode SolSell 1000 900 True) = Some (SolSell, 1000, 900, Some True) \<and>
   encode SplBuy 1 2 True = encode SplBuy 1 2 False"
  using tax_encoding_round_trip [of SolSell 1000 900 True SolSell 1000 900 True]
    tax_encoding_round_trip [of SplBuy 1 2 True SplBuy 1 2 False] by simp

text \<open>Vault instructions decode to what was encoded: exact mode carries the input amount and a
  zero pre-balance, delta mode a zero amount and the pre-balance, both 32 bytes behind the
  \<open>convert_v2\<close> discriminator, and neither decodes as a Tax instruction.  The two modes coincide
  only where amount and pre-balance are both zero.\<close>

lemma convert_v2_round_trip:
  "decode_convert_v2 (encode_exact a m) = Some (a, m, 0) \<and>
   decode_convert_v2 (encode_delta m p) = Some (0, m, p) \<and>
   decode_tax (encode_exact a m) = None \<and> decode_tax (encode_delta m p) = None \<and>
   (encode_exact a m = encode_delta m' p \<longleftrightarrow> a = 0 \<and> m = m' \<and> p = 0)"
proof -
  have "find (\<lambda>l. discriminator l = CONVERT_V2_DISCRIMINATOR) lanes = None"
    by (simp add: find_None_iff)
  then have no_tax: "decode_tax (encode_convert_v2 x y z) = None" for x y z
    by (simp add: decode_tax_def encode_convert_fields)
  have "encode_convert_v2 a m 0 = encode_convert_v2 0 m' p \<longleftrightarrow> a = 0 \<and> m = m' \<and> p = 0"
  proof
    assume "encode_convert_v2 a m 0 = encode_convert_v2 0 m' p"
    then have "Some (a, m, 0) = Some (0, m', p)" by (metis decode_encode_convert)
    then show "a = 0 \<and> m = m' \<and> p = 0" by auto
  qed simp
  then show ?thesis
    by (simp add: encode_exact_def encode_delta_def decode_encode_convert no_tax)
qed

end
