(* ===== verification/Hook_Accounts.thy ===== *)
theory Hook_Accounts
  imports Addresses
begin

text \<open>
  The transfer-hook accounts of \<open>accounts/hook_accounts.rs\<close>: four extra account metas for each
  Token-2022 mint of the protocol.  The whitelist addresses come from \<open>find_program_address\<close>,
  the parameter \<open>pda\<close>.  Also the vocabulary in which the account lists are specified.
\<close>

definition hook_metas_for_mint :: "pda_fn \<Rightarrow> pubkey \<Rightarrow> pubkey \<Rightarrow> pubkey \<Rightarrow> account_meta list" where
  "hook_metas_for_mint pda mint source_token_account dest_token_account =
     (if mint = NATIVE_MINT then []
      else
        case (if mint = CRIME_MINT then Some CRIME_HOOK_META
              else if mint = FRAUD_MINT then Some FRAUD_HOOK_META
              else if mint = PROFIT_MINT then Some PROFIT_HOOK_META
              else None) of
          None \<Rightarrow> []
        | Some meta_list \<Rightarrow>
            (let (wl_source, _) = pda [ascii_bytes ''whitelist'', as_ref source_token_account] TRANSFER_HOOK_PROGRAM_ID;
                 (wl_dest, _) = pda [ascii_bytes ''whitelist'', as_ref dest_token_account] TRANSFER_HOOK_PROGRAM_ID
             in [meta_readonly meta_list False,
                 meta_readonly wl_source False,
                 meta_readonly wl_dest False,
                 meta_readonly TRANSFER_HOOK_PROGRAM_ID False]))"

section \<open>Specification of account lists\<close>

definition protocol_mint :: "pubkey \<Rightarrow> bool" where
  "protocol_mint m \<longleftrightarrow> m = CRIME_MINT \<or> m = FRAUD_MINT \<or> m = PROFIT_MINT"

definition whitelist_of :: "pda_fn \<Rightarrow> pubkey \<Rightarrow> pubkey" where
  "whitelist_of pda k = fst (pda [ascii_bytes ''whitelist'', as_ref k] TRANSFER_HOOK_PROGRAM_ID)"

text \<open>Accounts a transaction may only read: neither signers nor writable.\<close>

definition plain :: "account_meta \<Rightarrow> bool" where
  "plain m \<longleftrightarrow> \<not> is_signer m \<and> \<not> is_writable m"

text \<open>The first account is the user, who signs; nobody else signs.\<close>

definition signed_by_only :: "pubkey \<Rightarrow> account_meta list \<Rightarrow> bool" where
  "signed_by_only user ms \<longleftrightarrow>
     (\<exists>m rest. ms = m # rest \<and> meta_pubkey m = user \<and> is_signer m \<and> (\<forall>x \<in> set rest. \<not> is_signer x))"

lemma plain_readonly [simp]: "plain (meta_readonly k False)"
  by (simp add: plain_def)

lemma signed_by_only_Cons [simp]:
  "signed_by_only user (m # rest) \<longleftrightarrow>
     meta_pubkey m = user \<and> is_signer m \<and> (\<forall>x \<in> set rest. \<not> is_signer x)"
  by (simp add: signed_by_only_def)

lemma hook_metas_protocol:
  "protocol_mint m \<Longrightarrow> hook_metas_for_mint pda m s d =
     [meta_readonly (if m = CRIME_MINT then CRIME_HOOK_META
        else if m = FRAUD_MINT then FRAUD_HOOK_META else PROFIT_HOOK_META) False,
      meta_readonly (whitelist_of pda s) False, meta_readonly (whitelist_of pda d) False,
      meta_readonly TRANSFER_HOOK_PROGRAM_ID False]"
  by (auto simp: protocol_mint_def hook_metas_for_mint_def whitelist_of_def split_beta Let_def)

lemma hook_metas_other: "\<not> protocol_mint m \<Longrightarrow> hook_metas_for_mint pda m s d = []"
  by (simp add: protocol_mint_def hook_metas_for_mint_def)

lemma length_hook_metas [simp]:
  "length (hook_metas_for_mint pda m s d) = (if protocol_mint m then 4 else 0)"
  by (simp add: hook_metas_protocol hook_metas_other)

lemma hook_metas_plain: "x \<in> set (hook_metas_for_mint pda m s d) \<Longrightarrow> plain x"
  by (cases "protocol_mint m") (auto simp: hook_metas_protocol hook_metas_other)

lemma hook_metas_not_signer [simp]:
  "x \<in> set (hook_metas_for_mint pda m s d) \<Longrightarrow> \<not> is_signer x"
  using hook_metas_plain by (auto simp: plain_def)

lemma protocol_mints [simp]:
  "protocol_mint CRIME_MINT" "protocol_mint FRAUD_MINT" "protocol_mint PROFIT_MINT" "\<not> protocol_mint NATIVE_MINT"
  by (simp_all add: protocol_mint_def)

end
