(* ===== verification/Sol_Pool_Accounts.thy ===== *)
theory Sol_Pool_Accounts
  imports Hook_Accounts Pool_State "HOL-Library.Multiset"
begin

text \<open>
  The account lists of the SOL lanes, \<open>accounts/sol_pool_accounts.rs\<close>.  The locale \<open>lane_builder\<close>
  is the contract that every lane's builder (here and in \<open>Spl_Pool_Accounts\<close>) meets and that
  \<open>get_swap_and_account_metas\<close> relies on; it is interpreted for each of them.
\<close>

section \<open>Definitions\<close>

record pool_sides =
  side_token_mint :: pubkey
  side_token_vault :: pubkey
  token_on_a :: bool

definition resolve_sides :: "pool_state \<Rightarrow> pool_sides result" where
  "resolve_sides pool =
     and_then (ok_or (token_mint pool) (AccountsError (NotSolQuoted (mint_a pool) (mint_b pool)))) (\<lambda>tm.
       let (_, tv) = sol_and_token_vaults pool
       in Ok \<lparr>side_token_mint = tm, side_token_vault = tv, token_on_a = (mint_a pool \<noteq> NATIVE_MINT)\<rparr>)"

definition build_buy_account_metas_generic ::
    "pda_fn \<Rightarrow> pubkey \<Rightarrow> pubkey \<Rightarrow> pubkey \<Rightarrow> pubkey \<Rightarrow> pool_state \<Rightarrow> account_meta list result" where
  "build_buy_account_metas_generic pda user user_sol_ata user_token_ata pool_key pool =
     and_then (resolve_sides pool) (\<lambda>sides.
       let (user_ata_a, user_ata_b) =
             (if token_on_a sides then (user_token_ata, user_sol_ata) else (user_sol_ata, user_token_ata));
           (tp_a, tp_b) = (token_program_a pool, token_program_b pool);
           metas =
             [meta_new user True,
              meta_readonly EPOCH_STATE_PDA False,
              meta_readonly SWAP_AUTHORITY_PDA False,
              meta_readonly TAX_AUTHORITY_PDA False,
              meta_new pool_key False,
              meta_new (vault_a pool) False,
              meta_new (vault_b pool) False,
              meta_readonly (mint_a pool) False,
              meta_readonly (mint_b pool) False,
              meta_new user_ata_a False,
              meta_new user_ata_b False,
              meta_new STAKE_POOL_PDA False,
              meta_new ESCROW_VAULT_PDA False,
              meta_new CARNAGE_SOL_VAULT_PDA False,
              meta_new TREASURY False,
              meta_readonly AMM_PROGRAM_ID False,
              meta_readonly tp_a False,
              meta_readonly tp_b False,
              meta_readonly SYSTEM_PROGRAM_ID False,
              meta_readonly STAKING_PROGRAM_ID False];
           hook_metas = hook_metas_for_mint pda (side_token_mint sides) (side_token_vault sides) user_token_ata
       in Ok (metas @ hook_metas))"

definition build_wsol_intermediary_metas ::
    "pda_fn \<Rightarrow> pubkey \<Rightarrow> pubkey \<Rightarrow> pubkey \<Rightarrow> pubkey \<Rightarrow> pool_state \<Rightarrow> bool \<Rightarrow> account_meta list result" where
  "build_wsol_intermediary_metas pda user user_token_ata user_sol_ata pool_key pool is_buy =
     and_then (resolve_sides pool) (\<lambda>sides.
       let (user_ata_a, user_ata_b) =
             (if token_on_a sides then (user_token_ata, user_sol_ata) else (user_sol_ata, user_token_ata));
           (tp_a, tp_b) = (token_program_a pool, token_program_b pool);
           metas =
             [meta_readonly user True,
              meta_readonly EPOCH_STATE_PDA False,
              meta_new SWAP_AUTHORITY_PDA False,
              meta_readonly TAX_AUTHORITY_PDA False,
              meta_new pool_key False,
              meta_new (vault_a pool) False,
              meta_new (vault_b pool) False,
              meta_readonly (mint_a pool) False,
              meta_readonly (mint_b pool) False,
              meta_new user_ata_a False,
              meta_new user_ata_b False,
              meta_new STAKE_POOL_PDA False,
              meta_new ESCROW_VAULT_PDA False,
              meta_new CARNAGE_SOL_VAULT_PDA False,
              meta_new TREASURY False,
              meta_new WSOL_INTERMEDIARY_PDA False,
              meta_readonly AMM_PROGRAM_ID False,
              meta_readonly tp_a False,
              meta_readonly tp_b False,
              meta_readonly SYSTEM_PROGRAM_ID False,
              meta_readonly STAKING_PROGRAM_ID False];
           hook_metas =
             (if is_buy
              then hook_metas_for_mint pda (side_token_mint sides) (side_token_vault sides) user_token_ata
              else hook_metas_for_mint pda (side_token_mint sides) user_token_ata (side_token_vault sides))
       in Ok (metas @ hook_metas))"

definition build_sell_account_metas_generic ::
    "pda_fn \<Rightarrow> pubkey \<Rightarrow> pubkey \<Rightarrow> pubkey \<Rightarrow> pubkey \<Rightarrow> pool_state \<Rightarrow> account_meta list result" where
  "build_sell_account_metas_generic pda user user_token_ata user_sol_ata pool_key pool =
     build_wsol_intermediary_metas pda user user_token_ata user_sol_ata pool_key pool False"

definition build_buy_wsol_account_metas_generic ::
    "pda_fn \<Rightarrow> pubkey \<Rightarrow> pubkey \<Rightarrow> pubkey \<Rightarrow> pubkey \<Rightarrow> pool_state \<Rightarrow> account_meta list result" where
  "build_buy_wsol_account_metas_generic pda user user_sol_ata user_token_ata pool_key pool =
     build_wsol_intermediary_metas pda user user_token_ata user_sol_ata pool_key pool True"

definition pool_addresses :: "bool \<Rightarrow> pubkey \<times> pubkey \<times> pubkey \<times> pubkey" where
  "pool_addresses is_crime =
     (if is_crime then (CRIME_SOL_POOL, CRIME_SOL_VAULT_A, CRIME_SOL_VAULT_B, CRIME_MINT)
      else (FRAUD_SOL_POOL, FRAUD_SOL_VAULT_A, FRAUD_SOL_VAULT_B, FRAUD_MINT))"

definition known_pool_state :: "bool \<Rightarrow> pubkey \<times> pool_state" where
  "known_pool_state is_crime =
     (let (pool, va, vb, tm) = pool_addresses is_crime
      in (pool,
          \<lparr>mint_a = NATIVE_MINT, mint_b = tm, vault_a = va, vault_b = vb,
           reserve_a = 0, reserve_b = 0, lp_fee_bps = LP_FEE_BPS,
           initialized = True, locked = False, bump = 0, vault_a_bump = 0, vault_b_bump = 0,
           token_program_a = SPL_TOKEN_PROGRAM_ID, token_program_b = TOKEN_2022_PROGRAM_ID\<rparr>))"

text \<open>The constant-based wrappers end in \<open>expect\<close>.\<close>

definition build_buy_account_metas ::
    "pda_fn \<Rightarrow> pubkey \<Rightarrow> pubkey \<Rightarrow> pubkey \<Rightarrow> bool \<Rightarrow> account_meta list result" where
  "build_buy_account_metas pda user user_wsol_ata user_token_ata is_crime =
     (let (pool_key, pool) = known_pool_state is_crime
      in expect_ok (build_buy_account_metas_generic pda user user_wsol_ata user_token_ata pool_key pool))"

definition build_buy_wsol_account_metas ::
    "pda_fn \<Rightarrow> pubkey \<Rightarrow> pubkey \<Rightarrow> pubkey \<Rightarrow> bool \<Rightarrow> account_meta list result" where
  "build_buy_wsol_account_metas pda user user_wsol_ata user_token_ata is_crime =
     (let (pool_key, pool) = known_pool_state is_crime
      in expect_ok (build_buy_wsol_account_metas_generic pda user user_wsol_ata user_token_ata pool_key pool))"

definition build_sell_account_metas ::
    "pda_fn \<Rightarrow> pubkey \<Rightarrow> pubkey \<Rightarrow> pubkey \<Rightarrow> bool \<Rightarrow> account_meta list result" where
  "build_sell_account_metas pda user user_token_ata user_wsol_ata is_crime =
     (let (pool_key, pool) = known_pool_state is_crime
      in expect_ok (build_sell_account_metas_generic pda user user_token_ata user_wsol_ata pool_key pool))"

section \<open>The contract of a lane's builder\<close>

text \<open>
  \<open>build user source destination pool_key pool\<close>: a fixed number of named accounts, then the hook
  accounts of the pool's faction side; the user first and alone in signing; the user's two token
  accounts and the pool writable.
\<close>

locale lane_builder =
  fixes build :: "pubkey \<Rightarrow> pubkey \<Rightarrow> pubkey \<Rightarrow> pubkey \<Rightarrow> pool_state \<Rightarrow> account_meta list result"
    and named :: nat
  assumes build_not_Panic: "build user src dst key pool \<noteq> Panic"
    and build_named: "build user src dst key pool = Ok ms \<Longrightarrow>
      \<exists>ns hs. ms = ns @ hs \<and> length ns = named \<and> length hs \<le> 4 \<and> list_all plain hs"
    and build_signer: "build user src dst key pool = Ok ms \<Longrightarrow> signed_by_only user ms"
    and build_writable: "build user src dst key pool = Ok ms \<Longrightarrow>
      meta_new key False \<in> set ms \<and> meta_new src False \<in> set ms \<and> meta_new dst False \<in> set ms"
begin

lemma build_length: "build user src dst key pool = Ok ms \<Longrightarrow> named \<le> length ms \<and> length ms \<le> named + 4"
  using build_named [of user src dst key pool ms] by auto

lemma build_signers:
  assumes "build user src dst key pool = Ok ms"
  shows "map meta_pubkey (filter is_signer ms) = [user]"
proof -
  obtain m rest where "ms = m # rest" "meta_pubkey m = user" "is_signer m" "\<forall>x \<in> set rest. \<not> is_signer x"
    using build_signer [OF assms] by (auto simp: signed_by_only_def)
  then show ?thesis by simp
qed

end

section \<open>The SOL lanes meet it\<close>

lemma resolve_sides_Ok [outcome]:
  "resolve_sides p = Ok sides \<longleftrightarrow>
     (\<exists>tm. token_mint p = Some tm \<and>
        sides = \<lparr>side_token_mint = tm, side_token_vault = snd (sol_and_token_vaults p),
                 token_on_a = (mint_a p \<noteq> NATIVE_MINT)\<rparr>)"
  by (auto simp: resolve_sides_def outcome split_beta)

lemma resolve_sides_Err:
  "token_mint p = None \<Longrightarrow> resolve_sides p = Err (AccountsError (NotSolQuoted (mint_a p) (mint_b p)))"
  by (simp add: resolve_sides_def)

lemma resolve_sides_not_Panic [simp]: "resolve_sides p \<noteq> Panic"
  by (simp add: resolve_sides_def outcome split_beta)

lemma hook_metas_bound [simp]: "length (hook_metas_for_mint pda m s d) \<le> 4"
  by simp

lemma hook_metas_all_plain [simp]: "list_all plain (hook_metas_for_mint pda m s d)"
  by (simp add: list_all_iff hook_metas_plain)

text \<open>A list that is \<open>n\<close> explicit metas and then hook accounts.\<close>

lemma named_then_hooks:
  assumes "length ns = n"
  shows "\<exists>ns' hs. ns @ hook_metas_for_mint pda m s d = ns' @ hs \<and> length ns' = n \<and>
    length hs \<le> 4 \<and> list_all plain hs"
  using assms hook_metas_bound hook_metas_all_plain by blast

text \<open>What the two layouts return, as one list over the resolved sides.\<close>

definition user_slots :: "pool_state \<Rightarrow> pubkey \<Rightarrow> pubkey \<Rightarrow> account_meta list" where
  "user_slots p sol_ata token_ata =
     (if mint_a p = NATIVE_MINT then [meta_new sol_ata False, meta_new token_ata False]
      else [meta_new token_ata False, meta_new sol_ata False])"

definition pool_slots :: "pubkey \<Rightarrow> pool_state \<Rightarrow> account_meta list" where
  "pool_slots key p =
     [meta_new key False, meta_new (vault_a p) False, meta_new (vault_b p) False,
      meta_readonly (mint_a p) False, meta_readonly (mint_b p) False]"

definition tax_slots :: "account_meta list" where
  "tax_slots = [meta_new STAKE_POOL_PDA False, meta_new ESCROW_VAULT_PDA False,
     meta_new CARNAGE_SOL_VAULT_PDA False, meta_new TREASURY False]"

definition program_slots :: "pool_state \<Rightarrow> account_meta list" where
  "program_slots p = [meta_readonly AMM_PROGRAM_ID False,
     meta_readonly (token_program_a p) False, meta_readonly (token_program_b p) False,
     meta_readonly SYSTEM_PROGRAM_ID False, meta_readonly STAKING_PROGRAM_ID False]"

lemmas lane_slots = user_slots_def pool_slots_def tax_slots_def program_slots_def

lemma buy_metas_eq:
  assumes "token_mint p = Some tm"
  shows "build_buy_account_metas_generic pda user sol_ata token_ata key p =
    Ok ([meta_new user True, meta_readonly EPOCH_STATE_PDA False,
         meta_readonly SWAP_AUTHORITY_PDA False, meta_readonly TAX_AUTHORITY_PDA False] @
        pool_slots key p @ user_slots p sol_ata token_ata @ tax_slots @ program_slots p @
        hook_metas_for_mint pda tm (snd (sol_and_token_vaults p)) token_ata)"
  using assms
  by (simp add: build_buy_account_metas_generic_def resolve_sides_def split_beta lane_slots Let_def)

lemma wsol_metas_eq:
  assumes "token_mint p = Some tm"
  shows "build_wsol_intermediary_metas pda user token_ata sol_ata key p is_buy =
    Ok ([meta_readonly user True, meta_readonly EPOCH_STATE_PDA False,
         meta_new SWAP_AUTHORITY_PDA False, meta_readonly TAX_AUTHORITY_PDA False] @
        pool_slots key p @ user_slots p sol_ata token_ata @ tax_slots @
        [meta_new WSOL_INTERMEDIARY_PDA False] @ program_slots p @
        (if is_buy then hook_metas_for_mint pda tm (snd (sol_and_token_vaults p)) token_ata
         else hook_metas_for_mint pda tm token_ata (snd (sol_and_token_vaults p))))"
  using assms
  by (simp add: build_wsol_intermediary_metas_def resolve_sides_def split_beta lane_slots Let_def)

lemma lane_metas_Err:
  assumes "token_mint p = None"
  shows "build_buy_account_metas_generic pda user src dst key p =
      Err (AccountsError (NotSolQuoted (mint_a p) (mint_b p)))"
    and "build_wsol_intermediary_metas pda user src dst key p is_buy =
      Err (AccountsError (NotSolQuoted (mint_a p) (mint_b p)))"
  using assms
  by (simp_all add: build_buy_account_metas_generic_def build_wsol_intermediary_metas_def resolve_sides_Err)

lemma slots_not_signer [simp]:
  "x \<in> set (user_slots p s t) \<Longrightarrow> \<not> is_signer x" "x \<in> set (pool_slots key p) \<Longrightarrow> \<not> is_signer x"
  "x \<in> set tax_slots \<Longrightarrow> \<not> is_signer x" "x \<in> set (program_slots p) \<Longrightarrow> \<not> is_signer x"
  by (auto simp: lane_slots split: if_splits)

lemma length_slots [simp]:
  "length (user_slots p s t) = 2" "length (pool_slots key p) = 5" "length tax_slots = 4"
  "length (program_slots p) = 5"
  by (simp_all add: lane_slots)

lemma slots_members [simp]:
  "meta_new s False \<in> set (user_slots p s t)" "meta_new t False \<in> set (user_slots p s t)"
  "meta_new key False \<in> set (pool_slots key p)"
  by (simp_all add: lane_slots)

interpretation buy_lane: lane_builder "build_buy_account_metas_generic pda" 20 for pda
proof
  fix user src dst key pool ms
  show "build_buy_account_metas_generic pda user src dst key pool \<noteq> Panic"
    by (cases "token_mint pool") (simp_all add: buy_metas_eq lane_metas_Err)
  assume ok: "build_buy_account_metas_generic pda user src dst key pool = Ok ms"
  then obtain tm where tm: "token_mint pool = Some tm"
    by (cases "token_mint pool") (simp_all add: lane_metas_Err)
  note ms = ok [unfolded buy_metas_eq [OF tm] outcome.inject, symmetric]
  show "\<exists>ns hs. ms = ns @ hs \<and> length ns = 20 \<and> length hs \<le> 4 \<and> list_all plain hs"
    unfolding ms append_assoc [symmetric] by (rule named_then_hooks) simp
  show "signed_by_only user ms" by (auto simp: ms)
  show "meta_new key False \<in> set ms \<and> meta_new src False \<in> set ms \<and> meta_new dst False \<in> set ms"
    by (simp add: ms)
qed

lemma wsol_lane_contract:
  assumes "build_wsol_intermediary_metas pda user token_ata sol_ata key pool is_buy = Ok ms"
  shows "(\<exists>ns hs. ms = ns @ hs \<and> length ns = 21 \<and> length hs \<le> 4 \<and> list_all plain hs) \<and>
    signed_by_only user ms \<and> meta_new key False \<in> set ms \<and>
    meta_new token_ata False \<in> set ms \<and> meta_new sol_ata False \<in> set ms"
proof -
  obtain tm where tm: "token_mint pool = Some tm"
    using assms by (cases "token_mint pool") (simp_all add: lane_metas_Err)
  note ms = assms [unfolded wsol_metas_eq [OF tm] outcome.inject, symmetric]
  have "\<exists>ns hs. ms = ns @ hs \<and> length ns = 21 \<and> length hs \<le> 4 \<and> list_all plain hs"
    unfolding ms append_assoc [symmetric] by (cases is_buy) (simp_all only: if_True if_False, (rule named_then_hooks, simp)+)
  moreover have "signed_by_only user ms" by (auto simp: ms split: if_splits)
  ultimately show ?thesis by (simp add: ms)
qed

lemma wsol_metas_not_Panic [simp]: "build_wsol_intermediary_metas pda user token_ata sol_ata key pool is_buy \<noteq> Panic"
  by (cases "token_mint pool") (simp_all add: wsol_metas_eq lane_metas_Err)

interpretation buy_wsol_lane: lane_builder "build_buy_wsol_account_metas_generic pda" 21 for pda
  by unfold_locales (auto simp: build_buy_wsol_account_metas_generic_def dest: wsol_lane_contract)

interpretation sell_lane: lane_builder "build_sell_account_metas_generic pda" 21 for pda
  by unfold_locales (auto simp: build_sell_account_metas_generic_def dest: wsol_lane_contract)

section \<open>Properties\<close>

text \<open>C36: The SOL lanes' account lists.  A pool without exactly one WSOL side is refused by all three
  builders with the error that names its mints; for every other pool the buy list is 20 named
  accounts and the WSOL buy and sell lists are 21, each followed by four hook accounts exactly
  when the pool's token is a protocol mint, and the user is the only signer.\<close>

theorem sol_lane_lists:
  "list_all (\<lambda>(r, n). case token_mint p of
       None \<Rightarrow> r = Err (AccountsError (NotSolQuoted (mint_a p) (mint_b p)))
     | Some tm \<Rightarrow> (\<exists>ms. r = Ok ms \<and> length ms = n + (if protocol_mint tm then 4 else 0) \<and>
                     map meta_pubkey (filter is_signer ms) = [user]))
     [(build_buy_account_metas_generic pda user sol_ata token_ata key p, 20),
      (build_buy_wsol_account_metas_generic pda user sol_ata token_ata key p, 21),
      (build_sell_account_metas_generic pda user token_ata sol_ata key p, 21)]"
  using buy_lane.build_signers [of pda user sol_ata token_ata key p]
    buy_wsol_lane.build_signers [of pda user sol_ata token_ata key p]
    sell_lane.build_signers [of pda user token_ata sol_ata key p]
  by (cases "token_mint p")
     (simp_all add: buy_metas_eq wsol_metas_eq lane_metas_Err build_buy_wsol_account_metas_generic_def
       build_sell_account_metas_generic_def)

text \<open>The WSOL buy and the sell share their layout.  For a SOL pool the two lists have the same
  21 named accounts in the same places, and differ only in the direction of the hooked transfer:
  from the pool's token vault to the user, or from the user to the vault.\<close>

lemma wsol_lanes_share_layout:
  assumes "token_mint p = Some tm"
  shows "\<exists>named. length named = 21 \<and>
    build_buy_wsol_account_metas_generic pda user sol_ata token_ata key p =
      Ok (named @ hook_metas_for_mint pda tm (snd (sol_and_token_vaults p)) token_ata) \<and>
    build_sell_account_metas_generic pda user token_ata sol_ata key p =
      Ok (named @ hook_metas_for_mint pda tm token_ata (snd (sol_and_token_vaults p)))"
  unfolding build_buy_wsol_account_metas_generic_def build_sell_account_metas_generic_def
    wsol_metas_eq [OF assms] if_True if_False append_assoc [symmetric]
  by (simp only: outcome.inject append_same_eq) simp

lemma flip_slots:
  "mint_a p \<noteq> mint_b p \<Longrightarrow> mint_a p = NATIVE_MINT \<or> mint_b p = NATIVE_MINT \<Longrightarrow>
     mset (user_slots (flip_sides p) s t) = mset (user_slots p s t)"
  "mset (pool_slots key (flip_sides p)) = mset (pool_slots key p)"
  "mset (program_slots (flip_sides p)) = mset (program_slots p)"
  by (auto simp: lane_slots flip_sides_def)

lemma flip_token:
  assumes "token_mint p = Some tm"
  shows "token_mint (flip_sides p) = Some tm"
    and "sol_and_token_vaults (flip_sides p) = sol_and_token_vaults p"
    and "mset (user_slots (flip_sides p) s t) = mset (user_slots p s t)"
  using assms
  by (auto simp: token_mint_def sol_and_token_vaults_def flip_sides_def lane_slots split: if_splits)

text \<open>The account lists do not depend on the stored orientation.  Storing the two sides of a
  SOL pool the other way round permutes each of the three lists: the same accounts with the same
  flags, the pairs of sides exchanged.\<close>

lemma sol_lists_orientation:
  assumes "is_sol_pool p"
  shows "list_all (\<lambda>build. \<exists>ms ms'. build p = Ok ms \<and> build (flip_sides p) = Ok ms' \<and> mset ms' = mset ms)
    [build_buy_account_metas_generic pda user sol_ata token_ata key,
     build_buy_wsol_account_metas_generic pda user sol_ata token_ata key,
     build_sell_account_metas_generic pda user token_ata sol_ata key]"
proof -
  obtain tm where tm: "token_mint p = Some tm"
    using assms by (auto simp: is_sol_pool_def token_mint_def split: if_splits)
  note flipped = flip_token [OF tm]
  show ?thesis
    by (simp add: buy_metas_eq [OF tm] wsol_metas_eq [OF tm] buy_metas_eq [OF flipped(1)]
        wsol_metas_eq [OF flipped(1)] flipped(2,3) flip_slots(2,3)
        build_buy_wsol_account_metas_generic_def build_sell_account_metas_generic_def)
qed

lemma known_pool:
  "token_mint (snd (known_pool_state is_crime)) = Some (if is_crime then CRIME_MINT else FRAUD_MINT)"
  "is_sol_pool (snd (known_pool_state is_crime))"
  by (simp_all add: known_pool_state_def pool_addresses_def token_mint_def is_sol_pool_def)

theorem sol_lists_orientation_witness:
  "\<exists>ms ms'. build_buy_account_metas_generic (\<lambda>_ p. (p, 255)) TREASURY VAULT_CRIME VAULT_FRAUD FRAUD_SOL_POOL
       (snd (known_pool_state False)) = Ok ms \<and>
     build_buy_account_metas_generic (\<lambda>_ p. (p, 255)) TREASURY VAULT_CRIME VAULT_FRAUD FRAUD_SOL_POOL
       (flip_sides (snd (known_pool_state False))) = Ok ms' \<and> mset ms' = mset ms"
  using sol_lists_orientation [OF known_pool(2)] by simp

text \<open>The constant-based wrappers never panic.  Their \<open>expect\<close> meets a SOL pool for both known
  pools, so each wrapper returns the generic builder's list for the known pool state, 24, 25 and
  25 accounts long.\<close>

lemma known_pool_lists:
  "list_all (\<lambda>(wrapped, generic, n). \<exists>ms. wrapped = Ok ms \<and> generic = Ok ms \<and> length ms = n)
    [(build_buy_account_metas pda user src dst is_crime,
      case known_pool_state is_crime of (key, p) \<Rightarrow> build_buy_account_metas_generic pda user src dst key p, 24),
     (build_buy_wsol_account_metas pda user src dst is_crime,
      case known_pool_state is_crime of (key, p) \<Rightarrow> build_buy_wsol_account_metas_generic pda user src dst key p, 25),
     (build_sell_account_metas pda user src dst is_crime,
      case known_pool_state is_crime of (key, p) \<Rightarrow> build_sell_account_metas_generic pda user src dst key p, 25)]"
  by (simp add: build_buy_account_metas_def build_buy_wsol_account_metas_def build_sell_account_metas_def
      build_buy_wsol_account_metas_generic_def build_sell_account_metas_generic_def split_beta
      buy_metas_eq [OF known_pool(1)] wsol_metas_eq [OF known_pool(1)])

end
