(* ===== verification/Spl_Pool_Accounts.thy ===== *)
theory Spl_Pool_Accounts
  imports Sol_Pool_Accounts
begin

text \<open>
  The account lists of the SPL lanes, \<open>accounts/spl_pool_accounts.rs\<close>, for pools whose quote side is
  not WSOL.  Their builders carry the prefix \<open>spl\<close>, since the module gives them the names of the SOL
  lanes' builders.  They meet the same contract \<open>lane_builder\<close>, with 17 and 18 named accounts.
\<close>

section \<open>Definitions\<close>

definition SWEEP_AUTHORITY_SEED :: bytes where
  "SWEEP_AUTHORITY_SEED = ascii_bytes ''sweep_authority''"

record faction_pool_sides =
  sides_faction_mint :: pubkey
  sides_quote_mint :: pubkey
  sides_faction_vault :: pubkey
  sides_faction_is_a :: bool
  sides_quote_token_program :: pubkey

definition resolve_faction_sides :: "pool_state \<Rightarrow> faction_pool_sides result" where
  "resolve_faction_sides pool =
     (let a_is_faction = (mint_a pool = CRIME_MINT \<or> mint_a pool = FRAUD_MINT);
          b_is_faction = (mint_b pool = CRIME_MINT \<or> mint_b pool = FRAUD_MINT)
      in if a_is_faction = b_is_faction
         then Err (AccountsError (NotOneFactionMint (mint_a pool) (mint_b pool)))
         else
           (let (fm, qm, fv, is_a, qp) =
                  (if a_is_faction
                   then (mint_a pool, mint_b pool, vault_a pool, True, token_program_b pool)
                   else (mint_b pool, mint_a pool, vault_b pool, False, token_program_a pool))
            in if qp \<noteq> SPL_TOKEN_PROGRAM_ID \<and> qp \<noteq> TOKEN_2022_PROGRAM_ID
               then Err (AccountsError (UnsupportedQuoteProgram qp qm))
               else Ok \<lparr>sides_faction_mint = fm, sides_quote_mint = qm, sides_faction_vault = fv,
                        sides_faction_is_a = is_a, sides_quote_token_program = qp\<rparr>))"

definition sweep_accounts :: "pda_fn \<Rightarrow> ata_fn \<Rightarrow> pool_state \<Rightarrow> (pubkey \<times> pubkey) result" where
  "sweep_accounts pda ata pool =
     and_then (resolve_faction_sides pool) (\<lambda>sides.
       let (authority, _) = pda [SWEEP_AUTHORITY_SEED] TAX_PROGRAM_ID;
           sweep_ata = ata authority (sides_quote_mint sides) (sides_quote_token_program sides)
       in Ok (authority, sweep_ata))"

definition spl_build_buy_account_metas_generic ::
    "pda_fn \<Rightarrow> ata_fn \<Rightarrow> pubkey \<Rightarrow> pubkey \<Rightarrow> pubkey \<Rightarrow> pubkey \<Rightarrow> pool_state \<Rightarrow> account_meta list result" where
  "spl_build_buy_account_metas_generic pda ata user user_quote user_faction pool_key pool =
     and_then (resolve_faction_sides pool) (\<lambda>sides.
     and_then (sweep_accounts pda ata pool) (\<lambda>(sweep_authority, sweep_ata).
       let (user_a, user_b) =
             (if sides_faction_is_a sides then (user_faction, user_quote) else (user_quote, user_faction));
           metas =
             [meta_readonly user True,
              meta_readonly EPOCH_STATE_PDA False,
              meta_new pool_key False,
              meta_new (vault_a pool) False,
              meta_new (vault_b pool) False,
              meta_readonly (mint_a pool) False,
              meta_readonly (mint_b pool) False,
              meta_new user_a False,
              meta_new user_b False,
              meta_readonly SWAP_AUTHORITY_PDA False,
              meta_readonly sweep_authority False,
              meta_readonly (sides_quote_mint sides) False,
              meta_new sweep_ata False,
              meta_readonly (sides_quote_token_program sides) False,
              meta_readonly (token_program_a pool) False,
              meta_readonly (token_program_b pool) False,
              meta_readonly AMM_PROGRAM_ID False]
       in Ok (metas @ hook_metas_for_mint pda (sides_faction_mint sides) (sides_faction_vault sides)
                        user_faction)))"

definition spl_build_sell_account_metas_generic ::
    "pda_fn \<Rightarrow> ata_fn \<Rightarrow> pubkey \<Rightarrow> pubkey \<Rightarrow> pubkey \<Rightarrow> pubkey \<Rightarrow> pool_state \<Rightarrow> account_meta list result" where
  "spl_build_sell_account_metas_generic pda ata user user_faction user_quote pool_key pool =
     and_then (resolve_faction_sides pool) (\<lambda>sides.
     and_then (sweep_accounts pda ata pool) (\<lambda>(sweep_authority, sweep_ata).
       let (user_a, user_b) =
             (if sides_faction_is_a sides then (user_faction, sweep_ata) else (sweep_ata, user_faction));
           metas =
             [meta_readonly user True,
              meta_readonly EPOCH_STATE_PDA False,
              meta_new pool_key False,
              meta_new (vault_a pool) False,
              meta_new (vault_b pool) False,
              meta_readonly (mint_a pool) False,
              meta_readonly (mint_b pool) False,
              meta_new user_a False,
              meta_new user_b False,
              meta_readonly SWAP_AUTHORITY_PDA False,
              meta_readonly sweep_authority False,
              meta_readonly (sides_quote_mint sides) False,
              meta_new sweep_ata False,
              meta_new user_quote False,
              meta_readonly (sides_quote_token_program sides) False,
              meta_readonly (token_program_a pool) False,
              meta_readonly (token_program_b pool) False,
              meta_readonly AMM_PROGRAM_ID False]
       in Ok (metas @ hook_metas_for_mint pda (sides_faction_mint sides) user_faction
                        (sides_faction_vault sides))))"

section \<open>The sides of a faction pool\<close>

definition faction_mint :: "pubkey \<Rightarrow> bool" where
  "faction_mint m \<longleftrightarrow> m = CRIME_MINT \<or> m = FRAUD_MINT"

definition supported_token_program :: "pubkey \<Rightarrow> bool" where
  "supported_token_program p \<longleftrightarrow> p = SPL_TOKEN_PROGRAM_ID \<or> p = TOKEN_2022_PROGRAM_ID"

text \<open>The sides, when exactly one mint is a faction mint.\<close>

definition faction_sides_of :: "pool_state \<Rightarrow> faction_pool_sides" where
  "faction_sides_of p =
     (if faction_mint (mint_a p)
      then \<lparr>sides_faction_mint = mint_a p, sides_quote_mint = mint_b p, sides_faction_vault = vault_a p,
            sides_faction_is_a = True, sides_quote_token_program = token_program_b p\<rparr>
      else \<lparr>sides_faction_mint = mint_b p, sides_quote_mint = mint_a p, sides_faction_vault = vault_b p,
            sides_faction_is_a = False, sides_quote_token_program = token_program_a p\<rparr>)"

lemma faction_mints [simp]:
  "faction_mint CRIME_MINT" "faction_mint FRAUD_MINT" "\<not> faction_mint NATIVE_MINT" "\<not> faction_mint PROFIT_MINT"
  by (simp_all add: faction_mint_def)

lemma faction_is_protocol: "faction_mint m \<Longrightarrow> protocol_mint m"
  by (auto simp: faction_mint_def protocol_mint_def)

lemma supported_programs [simp]:
  "supported_token_program SPL_TOKEN_PROGRAM_ID" "supported_token_program TOKEN_2022_PROGRAM_ID"
  by (simp_all add: supported_token_program_def)

lemma resolve_faction_sides_eq:
  "resolve_faction_sides p =
     (if faction_mint (mint_a p) = faction_mint (mint_b p)
      then Err (AccountsError (NotOneFactionMint (mint_a p) (mint_b p)))
      else if supported_token_program (sides_quote_token_program (faction_sides_of p))
      then Ok (faction_sides_of p)
      else Err (AccountsError (UnsupportedQuoteProgram (sides_quote_token_program (faction_sides_of p))
             (sides_quote_mint (faction_sides_of p)))))"
  by (simp add: resolve_faction_sides_def faction_mint_def [symmetric] supported_token_program_def
      faction_sides_of_def Let_def)

lemma resolve_faction_sides_Ok [outcome]:
  "resolve_faction_sides p = Ok sides \<longleftrightarrow>
     faction_mint (mint_a p) \<noteq> faction_mint (mint_b p) \<and> sides = faction_sides_of p \<and>
     supported_token_program (sides_quote_token_program sides)"
  by (auto simp: resolve_faction_sides_eq)

lemma resolve_faction_sides_not_Panic [simp]: "resolve_faction_sides p \<noteq> Panic"
  by (simp add: resolve_faction_sides_eq)

definition sweep_authority :: "pda_fn \<Rightarrow> pubkey" where
  "sweep_authority pda = fst (pda [SWEEP_AUTHORITY_SEED] TAX_PROGRAM_ID)"

definition sweep_ata :: "pda_fn \<Rightarrow> ata_fn \<Rightarrow> faction_pool_sides \<Rightarrow> pubkey" where
  "sweep_ata pda ata sides =
     ata (sweep_authority pda) (sides_quote_mint sides) (sides_quote_token_program sides)"

lemma sweep_accounts_eq:
  "sweep_accounts pda ata p =
     and_then (resolve_faction_sides p) (\<lambda>sides. Ok (sweep_authority pda, sweep_ata pda ata sides))"
  by (simp add: sweep_accounts_def sweep_authority_def sweep_ata_def split_beta Let_def)

section \<open>The SPL lanes meet the contract\<close>

definition spl_head :: "pubkey \<Rightarrow> pubkey \<Rightarrow> pool_state \<Rightarrow> account_meta list" where
  "spl_head user key p = [meta_readonly user True, meta_readonly EPOCH_STATE_PDA False] @ pool_slots key p"

definition faction_slots :: "faction_pool_sides \<Rightarrow> pubkey \<Rightarrow> pubkey \<Rightarrow> account_meta list" where
  "faction_slots sides faction_acc quote_acc =
     (if sides_faction_is_a sides then [meta_new faction_acc False, meta_new quote_acc False]
      else [meta_new quote_acc False, meta_new faction_acc False])"

definition spl_tail :: "faction_pool_sides \<Rightarrow> pool_state \<Rightarrow> account_meta list" where
  "spl_tail sides p = [meta_readonly (sides_quote_token_program sides) False,
     meta_readonly (token_program_a p) False, meta_readonly (token_program_b p) False,
     meta_readonly AMM_PROGRAM_ID False]"

definition sweep_slots :: "pda_fn \<Rightarrow> ata_fn \<Rightarrow> faction_pool_sides \<Rightarrow> account_meta list" where
  "sweep_slots pda ata sides = [meta_readonly SWAP_AUTHORITY_PDA False,
     meta_readonly (sweep_authority pda) False, meta_readonly (sides_quote_mint sides) False,
     meta_new (sweep_ata pda ata sides) False]"

lemmas spl_slots = spl_head_def faction_slots_def spl_tail_def sweep_slots_def pool_slots_def

lemma spl_buy_metas_eq:
  "spl_build_buy_account_metas_generic pda ata user quote_acc faction_acc key p =
     and_then (resolve_faction_sides p) (\<lambda>sides.
       Ok (spl_head user key p @ faction_slots sides faction_acc quote_acc @ sweep_slots pda ata sides @
           spl_tail sides p @
           hook_metas_for_mint pda (sides_faction_mint sides) (sides_faction_vault sides) faction_acc))"
  by (cases "resolve_faction_sides p")
     (simp_all add: spl_build_buy_account_metas_generic_def sweep_accounts_eq spl_slots split_beta Let_def)

lemma spl_sell_metas_eq:
  "spl_build_sell_account_metas_generic pda ata user faction_acc quote_acc key p =
     and_then (resolve_faction_sides p) (\<lambda>sides.
       Ok (spl_head user key p @ faction_slots sides faction_acc (sweep_ata pda ata sides) @
           sweep_slots pda ata sides @ [meta_new quote_acc False] @ spl_tail sides p @
           hook_metas_for_mint pda (sides_faction_mint sides) faction_acc (sides_faction_vault sides)))"
  by (cases "resolve_faction_sides p")
     (simp_all add: spl_build_sell_account_metas_generic_def sweep_accounts_eq spl_slots split_beta Let_def)

lemma length_spl_slots [simp]:
  "length (spl_head user key p) = 7" "length (faction_slots sides f q) = 2"
  "length (sweep_slots pda ata sides) = 4" "length (spl_tail sides p) = 4"
  by (simp_all add: spl_slots)

lemma spl_slots_not_signer [simp]:
  "x \<in> set (faction_slots sides f q) \<Longrightarrow> \<not> is_signer x"
  "x \<in> set (sweep_slots pda ata sides) \<Longrightarrow> \<not> is_signer x"
  "x \<in> set (spl_tail sides p) \<Longrightarrow> \<not> is_signer x"
  by (auto simp: spl_slots split: if_splits)

lemma spl_slots_members [simp]:
  "meta_new f False \<in> set (faction_slots sides f q)" "meta_new q False \<in> set (faction_slots sides f q)"
  by (simp_all add: faction_slots_def)

lemma spl_head_append [simp]:
  "spl_head user key p @ xs =
     meta_readonly user True # meta_readonly EPOCH_STATE_PDA False # pool_slots key p @ xs"
  by (simp add: spl_head_def)

interpretation spl_buy_lane: lane_builder "spl_build_buy_account_metas_generic pda ata" 17 for pda ata
proof
  fix user src dst key pool ms
  show "spl_build_buy_account_metas_generic pda ata user src dst key pool \<noteq> Panic"
    by (simp add: spl_buy_metas_eq outcome)
  assume ok: "spl_build_buy_account_metas_generic pda ata user src dst key pool = Ok ms"
  then obtain sides where "ms = spl_head user key pool @ faction_slots sides dst src @
      sweep_slots pda ata sides @ spl_tail sides pool @
      hook_metas_for_mint pda (sides_faction_mint sides) (sides_faction_vault sides) dst"
    unfolding spl_buy_metas_eq and_then_eq_Ok by auto
  note ms = this
  show "\<exists>ns hs. ms = ns @ hs \<and> length ns = 17 \<and> length hs \<le> 4 \<and> list_all plain hs"
    unfolding ms append_assoc [symmetric] by (rule named_then_hooks) simp
  show "signed_by_only user ms" by (auto simp: ms)
  show "meta_new key False \<in> set ms \<and> meta_new src False \<in> set ms \<and> meta_new dst False \<in> set ms"
    by (simp add: ms)
qed

interpretation spl_sell_lane: lane_builder "spl_build_sell_account_metas_generic pda ata" 18 for pda ata
proof
  fix user src dst key pool ms
  show "spl_build_sell_account_metas_generic pda ata user src dst key pool \<noteq> Panic"
    by (simp add: spl_sell_metas_eq outcome)
  assume ok: "spl_build_sell_account_metas_generic pda ata user src dst key pool = Ok ms"
  then obtain sides where "ms = spl_head user key pool @ faction_slots sides src (sweep_ata pda ata sides) @
      sweep_slots pda ata sides @ [meta_new dst False] @ spl_tail sides pool @
      hook_metas_for_mint pda (sides_faction_mint sides) src (sides_faction_vault sides)"
    unfolding spl_sell_metas_eq and_then_eq_Ok by auto
  note ms = this
  show "\<exists>ns hs. ms = ns @ hs \<and> length ns = 18 \<and> length hs \<le> 4 \<and> list_all plain hs"
    unfolding ms append_assoc [symmetric] by (rule named_then_hooks) simp
  show "signed_by_only user ms" by (auto simp: ms)
  show "meta_new key False \<in> set ms \<and> meta_new src False \<in> set ms \<and> meta_new dst False \<in> set ms"
    by (simp add: ms)
qed

section \<open>Properties\<close>

text \<open>C35: The SPL lanes' account lists.  Both builders fail on exactly two kinds of pool: one without
  exactly one faction mint, and one whose quote side is owned by neither token program, with the
  errors that name the mints and the program.  For every other pool the buy list has 17 + 4 and the
  sell list 18 + 4 accounts, and the user is the only signer.\<close>

theorem spl_lane_lists:
  "let (quote_mint, quote_program) =
      (if faction_mint (mint_a p) then (mint_b p, token_program_b p) else (mint_a p, token_program_a p))
   in list_all (\<lambda>(r, n).
        if faction_mint (mint_a p) = faction_mint (mint_b p)
        then r = Err (AccountsError (NotOneFactionMint (mint_a p) (mint_b p)))
        else if quote_program \<noteq> SPL_TOKEN_PROGRAM_ID \<and> quote_program \<noteq> TOKEN_2022_PROGRAM_ID
        then r = Err (AccountsError (UnsupportedQuoteProgram quote_program quote_mint))
        else \<exists>ms. r = Ok ms \<and> length ms = n + 4 \<and> map meta_pubkey (filter is_signer ms) = [user])
     [(spl_build_buy_account_metas_generic pda ata user quote_acc faction_acc key p, 17),
      (spl_build_sell_account_metas_generic pda ata user faction_acc quote_acc key p, 18)]"
proof (cases "resolve_faction_sides p")
  case (Ok sides)
  then have pool: "faction_mint (mint_a p) \<noteq> faction_mint (mint_b p)" "sides = faction_sides_of p"
      "supported_token_program (sides_quote_token_program (faction_sides_of p))"
    by (auto simp: outcome)
  have "protocol_mint (sides_faction_mint sides)"
    using pool(1,2) by (auto simp: faction_sides_of_def intro: faction_is_protocol)
  then have "\<exists>ms. spl_build_buy_account_metas_generic pda ata user quote_acc faction_acc key p = Ok ms \<and>
      length ms = 21 \<and> map meta_pubkey (filter is_signer ms) = [user]"
    and "\<exists>ms. spl_build_sell_account_metas_generic pda ata user faction_acc quote_acc key p = Ok ms \<and>
      length ms = 22 \<and> map meta_pubkey (filter is_signer ms) = [user]"
    using Ok spl_buy_lane.build_signers [of pda ata user quote_acc faction_acc key p]
      spl_sell_lane.build_signers [of pda ata user faction_acc quote_acc key p]
    by (simp_all add: spl_buy_metas_eq spl_sell_metas_eq del: spl_head_append)
  then show ?thesis
    using pool(1,3) by (auto simp: faction_sides_of_def supported_token_program_def)
next
  case (Err e)
  then have "spl_build_buy_account_metas_generic pda ata user quote_acc faction_acc key p = Err e"
    and "spl_build_sell_account_metas_generic pda ata user faction_acc quote_acc key p = Err e"
    by (simp_all add: spl_buy_metas_eq spl_sell_metas_eq)
  then show ?thesis
    using Err by (auto simp: resolve_faction_sides_eq faction_sides_of_def supported_token_program_def split: if_splits)
qed simp

text \<open>C34: The sell lane pays through the sweep account.  For a pool with one faction mint and a supported
  quote program, whichever side the faction mint is stored on: both lists pass the user's faction
  account in the place of the faction mint's side; the buy list has the user's quote account in the
  place of the other side, while the sell list has the canonical sweep account of the quote mint
  there, and passes the user's quote account on its own in place 14.  The hook accounts at the end are
  those of a transfer of the faction mint, out of the pool's vault for a buy and into it for a sell.\<close>

theorem spl_sweep_slots:
  assumes "faction_mint (mint_a p) \<noteq> faction_mint (mint_b p)"
    and "(if faction_mint (mint_a p) then token_program_b p else token_program_a p)
           \<in> {SPL_TOKEN_PROGRAM_ID, TOKEN_2022_PROGRAM_ID}"
  shows "\<exists>buy sell. spl_build_buy_account_metas_generic pda ata user quote_acc faction_acc key p = Ok buy \<and>
    spl_build_sell_account_metas_generic pda ata user faction_acc quote_acc key p = Ok sell \<and>
    (let (f, q, mint, vault, quote_mint, quote_program) =
           (if faction_mint (mint_a p) then (7, 8, mint_a p, vault_a p, mint_b p, token_program_b p)
            else (8, 7, mint_b p, vault_b p, mint_a p, token_program_a p));
         authority = fst (pda [SWEEP_AUTHORITY_SEED] TAX_PROGRAM_ID);
         sweep = meta_new (ata authority quote_mint quote_program) False
     in buy ! f = meta_new faction_acc False \<and> buy ! q = meta_new quote_acc False \<and> buy ! 12 = sweep \<and>
        drop 17 buy = hook_metas_for_mint pda mint vault faction_acc \<and>
        sell ! f = meta_new faction_acc False \<and> sell ! q = sweep \<and> sell ! 12 = sweep \<and>
        sell ! 13 = meta_new quote_acc False \<and>
        drop 18 sell = hook_metas_for_mint pda mint faction_acc vault)"
proof -
  have sides: "resolve_faction_sides p = Ok (faction_sides_of p)"
    using assms by (auto simp: resolve_faction_sides_eq faction_sides_of_def)
  show ?thesis
    unfolding spl_buy_metas_eq spl_sell_metas_eq sides and_then.simps outcome.inject
    by (cases "faction_mint (mint_a p)")
       (rule exI, rule exI, rule conjI, rule refl, rule conjI, rule refl,
        simp only: if_True if_False prod.case Let_def,
        simp add: spl_slots faction_sides_of_def sweep_ata_def sweep_authority_def)+
qed

text \<open>Pools with a quote side that is not WSOL, the faction mint on either side.\<close>

definition example_spl_pool :: pool_state where
  "example_spl_pool = (snd (known_pool_state True))\<lparr>mint_a := PROFIT_MINT, token_program_a := TOKEN_2022_PROGRAM_ID\<rparr>"

definition example_spl_pool_a :: pool_state where
  "example_spl_pool_a = example_spl_pool\<lparr>mint_a := CRIME_MINT, mint_b := PROFIT_MINT\<rparr>"

lemma example_spl_pools:
  "mint_a example_spl_pool = PROFIT_MINT" "mint_b example_spl_pool = CRIME_MINT"
  "token_program_a example_spl_pool = TOKEN_2022_PROGRAM_ID"
  "mint_a example_spl_pool_a = CRIME_MINT" "mint_b example_spl_pool_a = PROFIT_MINT"
  "token_program_b example_spl_pool_a = TOKEN_2022_PROGRAM_ID"
  by (simp_all add: example_spl_pool_def example_spl_pool_a_def known_pool_state_def pool_addresses_def)

theorem spl_sweep_slots_witness:
  "\<exists>sell sell_a. spl_build_sell_account_metas_generic (\<lambda>_ _. (TREASURY, 255)) (\<lambda>_ _ _. ESCROW_VAULT_PDA)
       STAKE_POOL_PDA VAULT_CRIME VAULT_PROFIT CRIME_SOL_POOL example_spl_pool = Ok sell \<and>
     sell ! 7 = meta_new ESCROW_VAULT_PDA False \<and> sell ! 8 = meta_new VAULT_CRIME False \<and>
     sell ! 13 = meta_new VAULT_PROFIT False \<and>
     spl_build_sell_account_metas_generic (\<lambda>_ _. (TREASURY, 255)) (\<lambda>_ _ _. ESCROW_VAULT_PDA)
       STAKE_POOL_PDA VAULT_CRIME VAULT_PROFIT CRIME_SOL_POOL example_spl_pool_a = Ok sell_a \<and>
     sell_a ! 7 = meta_new VAULT_CRIME False \<and> sell_a ! 8 = meta_new ESCROW_VAULT_PDA False"
  using spl_sweep_slots [of example_spl_pool "\<lambda>_ _. (TREASURY, 255)" "\<lambda>_ _ _. ESCROW_VAULT_PDA"
      STAKE_POOL_PDA VAULT_PROFIT VAULT_CRIME CRIME_SOL_POOL]
    spl_sweep_slots [of example_spl_pool_a "\<lambda>_ _. (TREASURY, 255)" "\<lambda>_ _ _. ESCROW_VAULT_PDA"
      STAKE_POOL_PDA VAULT_PROFIT VAULT_CRIME CRIME_SOL_POOL]
  by (auto simp: example_spl_pools Let_def)

end
