(* ===== verification/Jupiter_Interface.thy ===== *)
theory Jupiter_Interface
  imports Errors
begin

text \<open>
  The \<open>Amm\<close> trait of \<open>jupiter_amm_interface\<close> as the crate implements and uses it: the values that
  pass through it, the clock that Jupiter shares with every instance, and the locales that state
  what Jupiter's routing relies on.  Both adapters of the crate interpret them.
\<close>

section \<open>Values of the interface\<close>

datatype swap_mode = ExactIn | ExactOut

text \<open>\<open>KeyedAccount\<close>; its optional JSON \<open>params\<close> are seen through \<open>get(name).and_then(as_str)\<close>.\<close>

record keyed_account =
  ka_key :: pubkey
  ka_account :: account
  ka_params :: "(string \<Rightarrow> string option) option"

record quote_params =
  q_amount :: u64
  q_input_mint :: pubkey
  q_output_mint :: pubkey
  q_swap_mode :: swap_mode

record quote =
  in_amount :: u64
  out_amount :: u64
  fee_amount :: u64
  fee_mint :: pubkey
  fee_pct :: rat

record swap_params =
  sp_swap_mode :: swap_mode
  source_mint :: pubkey
  destination_mint :: pubkey
  source_token_account :: pubkey
  destination_token_account :: pubkey
  token_transfer_authority :: pubkey

datatype swap_kind = TokenSwap

record swap_and_account_metas =
  swap :: swap_kind
  account_metas :: "account_meta list"

text \<open>
  \<open>ClockRef\<close> is a shared pointer: an instance keeps the address of a clock, and the slots that the
  clocks hold are a store that changes without the instance.
\<close>

type_synonym clock_ref = nat
type_synonym clocks = "clock_ref \<Rightarrow> u64"

text \<open>
  \<open>try_get_account_data_and_owner\<close> and \<open>try_get_account_data\<close>: the entry of an \<open>AccountMap\<close>, or an
  error where it has none.  The map is an argument of \<open>update\<close>; these two read all the crate reads of it.
\<close>

definition try_get_account_data_and_owner :: "account_map \<Rightarrow> pubkey \<Rightarrow> (bytes \<times> pubkey) result" where
  "try_get_account_data_and_owner account_map key =
     (case account_map key of
        None \<Rightarrow> Err (AccountMissing key)
      | Some a \<Rightarrow> Ok (acc_data a, acc_owner a))"

definition try_get_account_data :: "account_map \<Rightarrow> pubkey \<Rightarrow> bytes result" where
  "try_get_account_data account_map key =
     (case account_map key of None \<Rightarrow> Err (AccountMissing key) | Some a \<Rightarrow> Ok (acc_data a))"

lemma account_data_and_owner_Ok [outcome]:
  "try_get_account_data_and_owner m k = Ok (d, ow) \<longleftrightarrow> (\<exists>a. m k = Some a \<and> acc_data a = d \<and> acc_owner a = ow)"
  by (auto simp: try_get_account_data_and_owner_def split: option.splits)

lemma account_data_Ok [outcome]: "try_get_account_data m k = Ok d \<longleftrightarrow> (\<exists>a. m k = Some a \<and> acc_data a = d)"
  by (auto simp: try_get_account_data_def split: option.splits)

lemma account_reads_not_Panic [simp]:
  "try_get_account_data_and_owner m k \<noteq> Panic" "try_get_account_data m k \<noteq> Panic"
  by (simp_all add: try_get_account_data_and_owner_def try_get_account_data_def split: option.split)

lemma account_reads_cong:
  "m k = m' k \<Longrightarrow> try_get_account_data_and_owner m k = try_get_account_data_and_owner m' k"
  "m k = m' k \<Longrightarrow> try_get_account_data m k = try_get_account_data m' k"
  by (simp_all add: try_get_account_data_and_owner_def try_get_account_data_def)

section \<open>What routing relies on\<close>

text \<open>A history of refreshes, each with the account map of its moment, results discarded.\<close>

fun refresh_all :: "(account_map \<Rightarrow> 's \<Rightarrow> 's \<times> unit result) \<Rightarrow> account_map list \<Rightarrow> 's \<Rightarrow> 's" where
  "refresh_all update [] s = s"
| "refresh_all update (m # ms) s = refresh_all update ms (fst (update m s))"

text \<open>
  The contract of an \<open>Amm\<close> implementation with state invariant \<open>inv\<close>.  Jupiter caches the key, the
  mints and the accounts to fetch, so refreshes may not change them; it passes only the accounts
  asked for, so a refresh may look at no others; and it calls every method on every instance, so
  none may panic.  A quote is for the exact input asked and for a pair of the pool's mints.
\<close>

locale jupiter_amm =
  fixes inv :: "'s \<Rightarrow> bool"
    and key :: "'s \<Rightarrow> pubkey"
    and reserve_mints :: "'s \<Rightarrow> pubkey list"
    and accounts_to_update :: "'s \<Rightarrow> pubkey list"
    and accounts_len :: "'s \<Rightarrow> nat"
    and update :: "account_map \<Rightarrow> 's \<Rightarrow> 's \<times> unit result"
    and quote :: "clocks \<Rightarrow> 's \<Rightarrow> quote_params \<Rightarrow> quote result"
    and swap_metas :: "'s \<Rightarrow> swap_params \<Rightarrow> swap_and_account_metas result"
  assumes update_inv: "inv s \<Longrightarrow> inv (fst (update m s))"
    and update_key: "key (fst (update m s)) = key s"
    and update_mints: "reserve_mints (fst (update m s)) = reserve_mints s"
    and update_accounts: "accounts_to_update (fst (update m s)) = accounts_to_update s"
    and update_local: "(\<And>k. k \<in> set (accounts_to_update s) \<Longrightarrow> m k = m' k) \<Longrightarrow> update m s = update m' s"
    and update_not_Panic: "snd (update m s) \<noteq> Panic"
    and quote_not_Panic: "quote clk s q \<noteq> Panic"
    and quote_sound: "inv s \<Longrightarrow> quote clk s q = Ok r \<Longrightarrow>
      q_swap_mode q = ExactIn \<and> in_amount r = q_amount q \<and>
      {q_input_mint q, q_output_mint q} = set (reserve_mints s) \<and> q_input_mint q \<noteq> q_output_mint q"
    and metas_not_Panic: "inv s \<Longrightarrow> swap_metas s p \<noteq> Panic"
    and metas_sound: "inv s \<Longrightarrow> swap_metas s p = Ok sam \<Longrightarrow>
      length (account_metas sam) \<le> accounts_len s \<and>
      map meta_pubkey (filter is_signer (account_metas sam)) = [token_transfer_authority p] \<and>
      {source_mint p, destination_mint p} = set (reserve_mints s)"
begin

lemma history_inv: "inv s \<Longrightarrow> inv (refresh_all update ms s)"
  by (induction ms arbitrary: s) (simp_all add: update_inv)

lemma history_identity:
  "key (refresh_all update ms s) = key s \<and> reserve_mints (refresh_all update ms s) = reserve_mints s \<and>
   accounts_to_update (refresh_all update ms s) = accounts_to_update s"
  by (induction ms arbitrary: s) (simp_all add: update_key update_mints update_accounts)

text \<open>Histories that agree on the listed accounts lead to the same state.\<close>

lemma history_local:
  assumes "list_all2 (\<lambda>m m'. \<forall>k \<in> set (accounts_to_update s). m k = m' k) ms ms'"
  shows "refresh_all update ms s = refresh_all update ms' s"
  using assms
proof (induction ms arbitrary: s ms')
  case (Cons m ms)
  then obtain m' rest where ms': "ms' = m' # rest" and same: "\<forall>k \<in> set (accounts_to_update s). m k = m' k"
    and rest: "list_all2 (\<lambda>m m'. \<forall>k \<in> set (accounts_to_update s). m k = m' k) ms rest"
    by (auto simp: list_all2_Cons1)
  have "update m s = update m' s" using same by (intro update_local) blast
  moreover have "refresh_all update ms (fst (update m s)) = refresh_all update rest (fst (update m s))"
    using rest by (intro Cons.IH) (simp add: update_accounts)
  ultimately show ?case by (simp add: ms')
qed simp

text \<open>So only the entries of the listed accounts matter, and Jupiter may drop the rest.\<close>

lemma history_restrict:
  "refresh_all update (map (\<lambda>m. m |` set (accounts_to_update s)) ms) s = refresh_all update ms s"
  by (rule history_local) (simp add: list_all2_map1 list.rel_refl)

lemma history_quote_sound:
  assumes "inv s" and "quote clk (refresh_all update ms s) q = Ok r"
  shows "q_swap_mode q = ExactIn \<and> in_amount r = q_amount q \<and>
    {q_input_mint q, q_output_mint q} = set (reserve_mints s) \<and> q_input_mint q \<noteq> q_output_mint q"
  using quote_sound [OF history_inv [OF assms(1)] assms(2)] history_identity [of ms s] by simp

lemma history_metas_sound:
  assumes "inv s"
  shows "case swap_metas (refresh_all update ms s) p of
      Ok r \<Rightarrow> map meta_pubkey (filter is_signer (account_metas r)) = [token_transfer_authority p] \<and>
              {source_mint p, destination_mint p} = set (reserve_mints s)
    | Err e \<Rightarrow> True
    | Panic \<Rightarrow> False"
  using metas_sound [OF history_inv [OF assms]] metas_not_Panic [OF history_inv [OF assms]]
    history_identity [of ms s]
  by (auto split: outcome.split)

end

text \<open>
  An implementation whose quotes never promise more than a known liquidity, and never more for
  less: the laws that make its prices usable as the edges of a route.
\<close>

locale liquid_amm = jupiter_amm inv key reserve_mints accounts_to_update accounts_len update quote swap_metas
  for inv :: "'s \<Rightarrow> bool" and key reserve_mints accounts_to_update accounts_len update quote swap_metas +
  fixes liquidity :: "'s \<Rightarrow> pubkey \<Rightarrow> nat"
  assumes quote_liquid: "inv s \<Longrightarrow> quote clk s q = Ok r \<Longrightarrow> unat (out_amount r) \<le> liquidity s (q_output_mint q)"
    and quote_mono: "inv s \<Longrightarrow> quote clk s q = Ok r \<Longrightarrow> quote clk s (q\<lparr>q_amount := a\<rparr>) = Ok r' \<Longrightarrow>
      q_amount q \<le> a \<Longrightarrow> out_amount r \<le> out_amount r'"
begin

lemma history_liquid:
  assumes "inv s" and "quote clk (refresh_all update ms s) q = Ok r"
  shows "unat (out_amount r) \<le> liquidity (refresh_all update ms s) (q_output_mint q)"
  using quote_liquid [OF history_inv [OF assms(1)] assms(2)] .

text \<open>Equal inputs have equal outputs: two quotes for the same amount cannot differ.\<close>

lemma quote_amount_determines:
  assumes "inv s" and "quote clk s q = Ok r" and "quote clk s (q\<lparr>q_amount := a\<rparr>) = Ok r'"
    and "out_amount r' < out_amount r"
  shows "a < q_amount q"
  using quote_mono [OF assms(1-3)] assms(4) by (meson leD not_le)

end

section \<open>Stages of a price\<close>

text \<open>
  A price is a chain of partial integer functions, each monotone and not increasing the amount or
  bounded otherwise.  Monotone stages compose.
\<close>

locale mono_stage =
  fixes f :: "'a::linorder \<Rightarrow> 'b::linorder option"
  assumes mono: "f a = Some x \<Longrightarrow> f b = Some y \<Longrightarrow> a \<le> b \<Longrightarrow> x \<le> y"

locale two_stages = first: mono_stage f + second: mono_stage g
  for f :: "'a::linorder \<Rightarrow> 'b::linorder option" and g :: "'b \<Rightarrow> 'c::linorder option"

sublocale two_stages \<subseteq> chain: mono_stage "\<lambda>a. Option.bind (f a) g"
proof
  fix a b x y
  assume "Option.bind (f a) g = Some x" and "Option.bind (f b) g = Some y" and le: "a \<le> b"
  then obtain u v where "f a = Some u" "g u = Some x" "f b = Some v" "g v = Some y"
    by (auto simp: bind_eq_Some_conv)
  then show "x \<le> y" using first.mono [OF _ _ le] second.mono by blast
qed

end
