(* ===== verification/Sol_Pool_Amm.thy ===== *)
theory Sol_Pool_Amm
  imports Amm_Math Tax_Math Epoch_State Mint_State Instruction Spl_Pool_Accounts Jupiter_Interface
begin

text \<open>
  The faction-pool adapter \<open>SolPoolAmm\<close> of \<open>sol_pool_amm.rs\<close>: its state, constructor, refresh, quotes
  and account lists, as functions that take the instance and return the new one where the method
  takes \<open>&mut self\<close>.  The fields carry the prefix \<open>amm\<close>.  Parameters: \<open>pda\<close> and \<open>ata\<close> for the address
  derivations, \<open>lib\<close> for the mint libraries, \<open>clk\<close> for the shared clocks.
\<close>

section \<open>State and construction\<close>

datatype faction_role = Crime | Fraud

definition faction_from_mint :: "pubkey \<Rightarrow> faction_role option" where
  "faction_from_mint mint =
     (if mint = CRIME_MINT then Some Crime else if mint = FRAUD_MINT then Some Fraud else None)"

record sol_pool_amm =
  amm_key :: pubkey
  amm_pool :: pool_state
  amm_faction_mint :: pubkey
  amm_quote_mint :: pubkey
  amm_faction :: faction_role
  amm_buy_tax_bps :: u16
  amm_sell_tax_bps :: u16
  amm_pause_end_slot :: u64
  amm_trading_paused :: bool
  amm_epoch_initialized :: bool
  amm_state_refreshed :: bool
  amm_clock_ref :: clock_ref

definition PROGRAM_ID_TO_LABELS :: "(pubkey \<times> string) list" where
  "PROGRAM_ID_TO_LABELS = [(AMM_PROGRAM_ID, ''Dr Fraudsworth'')]"

text \<open>The loop over the two sides that rejects an unsupported token program.\<close>

fun check_token_programs :: "(string \<times> pubkey) list \<Rightarrow> unit result" where
  "check_token_programs [] = Ok ()"
| "check_token_programs ((side, program) # rest) =
     (if program \<noteq> SPL_TOKEN_PROGRAM_ID \<and> program \<noteq> TOKEN_2022_PROGRAM_ID
      then Err (SolPoolError (UnsupportedTokenProgram side program))
      else check_token_programs rest)"

definition pool_from_keyed_account :: "pda_fn \<Rightarrow> keyed_account \<Rightarrow> clock_ref \<Rightarrow> sol_pool_amm result" where
  "pool_from_keyed_account pda ka clock_ref =
     (if acc_owner (ka_account ka) \<noteq> AMM_PROGRAM_ID
      then Err (SolPoolError (NotAmmOwned (ka_key ka) (acc_owner (ka_account ka))))
      else
      and_then (pool_from_bytes (acc_data (ka_account ka))) (\<lambda>pool.
        if \<not> initialized pool then Err (SolPoolError (PoolUninitialized (ka_key ka)))
        else if as_ref (mint_b pool) \<le> as_ref (mint_a pool) then Err (SolPoolError MintsNotCanonical)
        else
          let (expected_key, _) =
                pda [ascii_bytes ''pool'', as_ref (mint_a pool), as_ref (mint_b pool)] AMM_PROGRAM_ID
          in if ka_key ka \<noteq> expected_key then Err (SolPoolError (NotCanonicalPda (ka_key ka) expected_key))
      else
      and_then (check_token_programs [(''A'', token_program_a pool), (''B'', token_program_b pool)]) (\<lambda>_.
      and_then
        (case (faction_from_mint (mint_a pool), faction_from_mint (mint_b pool)) of
           (Some role, None) \<Rightarrow> Ok (mint_a pool, mint_b pool, role, token_program_a pool)
         | (None, Some role) \<Rightarrow> Ok (mint_b pool, mint_a pool, role, token_program_b pool)
         | _ \<Rightarrow> Err (SolPoolError (NotExactlyOneFaction (ka_key ka)))) (\<lambda>(fm, qm, role, faction_program).
        if faction_program \<noteq> TOKEN_2022_PROGRAM_ID then Err (SolPoolError (FactionNotToken2022 fm))
        else if qm = NATIVE_MINT \<and>
                (if mint_a pool = qm then token_program_a pool else token_program_b pool) \<noteq> SPL_TOKEN_PROGRAM_ID
        then Err (SolPoolError WsolQuoteNotSpl)
        else
          Ok \<lparr>amm_key = ka_key ka, amm_pool = pool, amm_faction_mint = fm, amm_quote_mint = qm,
              amm_faction = role, amm_buy_tax_bps = 0, amm_sell_tax_bps = 0, amm_pause_end_slot = 0,
              amm_trading_paused = False, amm_epoch_initialized = False, amm_state_refreshed = False,
              amm_clock_ref = clock_ref\<rparr>))))"

text \<open>\<open>new_for_testing\<close>, with the address of the default clock it allocates as its last argument.\<close>

definition pool_new_for_testing :: "bool \<Rightarrow> u64 \<Rightarrow> u64 \<Rightarrow> u16 \<Rightarrow> u16 \<Rightarrow> clock_ref \<Rightarrow> sol_pool_amm result" where
  "pool_new_for_testing is_crime reserve_sol reserve_token buy_tax sell_tax default_clock =
     (let (key, pool) = known_pool_state is_crime;
          pool = pool\<lparr>reserve_a := reserve_sol\<rparr>;
          pool = pool\<lparr>reserve_b := reserve_token\<rparr>
      in and_then (expect (token_mint pool)) (\<lambda>fm.
         and_then (expect (faction_from_mint fm)) (\<lambda>role.
           Ok \<lparr>amm_key = key, amm_pool = pool, amm_faction_mint = fm, amm_quote_mint = NATIVE_MINT,
               amm_faction = role, amm_buy_tax_bps = buy_tax, amm_sell_tax_bps = sell_tax,
               amm_pause_end_slot = 0, amm_trading_paused = False, amm_epoch_initialized = True,
               amm_state_refreshed = True, amm_clock_ref = default_clock\<rparr>)))"

section \<open>Accessors\<close>

definition pool_label :: "sol_pool_amm \<Rightarrow> string" where "pool_label self = ''Dr Fraudsworth''"

definition pool_program_id :: "sol_pool_amm \<Rightarrow> pubkey" where "pool_program_id self = TAX_PROGRAM_ID"

definition pool_get_reserve_mints :: "sol_pool_amm \<Rightarrow> pubkey list" where
  "pool_get_reserve_mints self = [amm_quote_mint self, amm_faction_mint self]"

definition pool_get_accounts_to_update :: "sol_pool_amm \<Rightarrow> pubkey list" where
  "pool_get_accounts_to_update self =
     (let accounts = [amm_key self, EPOCH_STATE_PDA]
      in if amm_quote_mint self \<noteq> NATIVE_MINT then accounts @ [amm_quote_mint self] else accounts)"

definition pool_supports_exact_out :: "sol_pool_amm \<Rightarrow> bool" where "pool_supports_exact_out self = False"

definition pool_get_accounts_len :: "sol_pool_amm \<Rightarrow> nat" where "pool_get_accounts_len self = 25"

definition pool_program_dependencies :: "sol_pool_amm \<Rightarrow> (pubkey \<times> string) list" where
  "pool_program_dependencies self =
     [(AMM_PROGRAM_ID, ''amm''), (STAKING_PROGRAM_ID, ''staking''), (TRANSFER_HOOK_PROGRAM_ID, ''transfer-hook'')]"

definition is_crime :: "sol_pool_amm \<Rightarrow> bool" where "is_crime self \<longleftrightarrow> amm_faction self = Crime"

definition reserves :: "sol_pool_amm \<Rightarrow> u64 \<times> u64" where
  "reserves self =
     (if mint_a (amm_pool self) = amm_quote_mint self
      then (reserve_a (amm_pool self), reserve_b (amm_pool self))
      else (reserve_b (amm_pool self), reserve_a (amm_pool self)))"

definition quote_token_program :: "sol_pool_amm \<Rightarrow> pubkey" where
  "quote_token_program self =
     (if mint_a (amm_pool self) = amm_quote_mint self
      then token_program_a (amm_pool self) else token_program_b (amm_pool self))"

definition pool_is_active :: "clocks \<Rightarrow> sol_pool_amm \<Rightarrow> bool" where
  "pool_is_active clk self \<longleftrightarrow>
     initialized (amm_pool self) \<and> \<not> locked (amm_pool self) \<and> amm_epoch_initialized self \<and>
     amm_state_refreshed self \<and> \<not> amm_trading_paused self \<and>
     amm_pause_end_slot self \<le> clk (amm_clock_ref self)"

definition pool_validate_mint_pair :: "sol_pool_amm \<Rightarrow> pubkey \<Rightarrow> pubkey \<Rightarrow> bool \<Rightarrow> unit result" where
  "pool_validate_mint_pair self input output is_buy =
     (let okay = (if is_buy then input = amm_quote_mint self \<and> output = amm_faction_mint self
                  else input = amm_faction_mint self \<and> output = amm_quote_mint self)
      in if okay then Ok () else Err (SolPoolError (PoolMintPair input output)))"

section \<open>Refresh\<close>

definition pool_update :: "'m mint_lib \<Rightarrow> account_map \<Rightarrow> sol_pool_amm \<Rightarrow> sol_pool_amm \<times> unit result" where
  "pool_update lib account_map self0 =
     (let self = self0\<lparr>amm_state_refreshed := False\<rparr> in
      try_in self (try_get_account_data_and_owner account_map (amm_key self)) (\<lambda>(pool_data, pool_owner).
      if pool_owner \<noteq> AMM_PROGRAM_ID then (self, Err (SolPoolError (RefreshedPoolOwner pool_owner)))
      else
      try_in self (pool_from_bytes pool_data) (\<lambda>pool.
      if mint_a pool \<noteq> mint_a (amm_pool self) \<or> mint_b pool \<noteq> mint_b (amm_pool self) \<or>
         vault_a pool \<noteq> vault_a (amm_pool self) \<or> vault_b pool \<noteq> vault_b (amm_pool self) \<or>
         token_program_a pool \<noteq> token_program_a (amm_pool self) \<or>
         token_program_b pool \<noteq> token_program_b (amm_pool self)
      then (self, Err (SolPoolError (PoolIdentityChanged (amm_key self))))
      else
      try_in self (try_get_account_data_and_owner account_map EPOCH_STATE_PDA) (\<lambda>(epoch_data, epoch_owner).
      if epoch_owner \<noteq> EPOCH_PROGRAM_ID then (self, Err (SolPoolError (EpochStateOwner epoch_owner)))
      else
      try_in self (epoch_from_bytes epoch_data) (\<lambda>epoch.
      let self = self\<lparr>amm_buy_tax_bps := get_tax_bps epoch (is_crime self) True\<rparr>;
          self = self\<lparr>amm_sell_tax_bps := get_tax_bps epoch (is_crime self) False\<rparr>;
          self = self\<lparr>amm_pause_end_slot := pause_end_slot epoch\<rparr>;
          self = self\<lparr>amm_trading_paused := trading_paused epoch\<rparr>;
          self = self\<lparr>amm_epoch_initialized := epoch_initialized epoch\<rparr>
      in
      try_in self
        (if amm_quote_mint self \<noteq> NATIVE_MINT then
           (let quote_program = quote_token_program self
            in and_then (try_get_account_data_and_owner account_map (amm_quote_mint self))
                 (\<lambda>(mint_data, mint_owner). validate_quote_mint lib mint_data mint_owner quote_program))
         else Ok ()) (\<lambda>_.
      let self = self\<lparr>amm_pool := pool\<rparr>;
          self = self\<lparr>amm_state_refreshed := True\<rparr>
      in (self, Ok ())))))))"

section \<open>Quotes\<close>

definition fee_fraction :: "u16 \<Rightarrow> u16 \<Rightarrow> rat" where
  "fee_fraction lp_fee tax =
     (let total_bps = (ucast lp_fee :: u32) + (ucast tax :: u32) in rat_of_nat (unat total_bps) / 10000)"

definition total_buy_fee_pct :: "sol_pool_amm \<Rightarrow> rat" where
  "total_buy_fee_pct self = fee_fraction (lp_fee_bps (amm_pool self)) (amm_buy_tax_bps self)"

definition total_sell_fee_pct :: "sol_pool_amm \<Rightarrow> rat" where
  "total_sell_fee_pct self = fee_fraction (lp_fee_bps (amm_pool self)) (amm_sell_tax_bps self)"

definition quote_buy :: "sol_pool_amm \<Rightarrow> u64 \<Rightarrow> quote result" where
  "quote_buy self amount_in =
     (let (reserve_quote, reserve_faction) = reserves self in
      and_then (ok_or (calculate_tax amount_in (amm_buy_tax_bps self)) (QuoteError TaxOverflow)) (\<lambda>tax.
      and_then (ok_or (checked_sub amount_in tax) (QuoteError TaxExceedsInput)) (\<lambda>quote_to_swap.
      if quote_to_swap = 0 then
        Ok \<lparr>in_amount = amount_in, out_amount = 0, fee_amount = tax, fee_mint = amm_quote_mint self,
            fee_pct = total_buy_fee_pct self\<rparr>
      else
      and_then (ok_or (calculate_effective_input quote_to_swap (lp_fee_bps (amm_pool self)))
                  (QuoteError EffectiveInputOverflow)) (\<lambda>effective_input.
      and_then (ok_or (calculate_swap_output reserve_quote reserve_faction effective_input)
                  (QuoteError SwapOutputOverflow)) (\<lambda>out.
      let lp_fee_quote = saturating_sub quote_to_swap (ucast effective_input)
      in Ok \<lparr>in_amount = amount_in, out_amount = out,
             fee_amount = (case checked_add tax lp_fee_quote of Some s \<Rightarrow> s | None \<Rightarrow> tax),
             fee_mint = amm_quote_mint self, fee_pct = total_buy_fee_pct self\<rparr>)))))"

definition quote_sell :: "sol_pool_amm \<Rightarrow> u64 \<Rightarrow> quote result" where
  "quote_sell self amount_in =
     (let (reserve_quote, reserve_faction) = reserves self in
      and_then (ok_or (calculate_effective_input amount_in (lp_fee_bps (amm_pool self)))
                  (QuoteError EffectiveInputOverflow)) (\<lambda>effective_input.
      and_then (ok_or (calculate_swap_output reserve_faction reserve_quote effective_input)
                  (QuoteError SwapOutputOverflow)) (\<lambda>gross_quote.
      and_then (ok_or (calculate_tax gross_quote (amm_sell_tax_bps self)) (QuoteError TaxOverflow)) (\<lambda>tax.
      and_then (ok_or (checked_sub gross_quote tax) (QuoteError TaxExceedsOutput)) (\<lambda>net_quote.
      Ok \<lparr>in_amount = amount_in, out_amount = net_quote, fee_amount = tax,
          fee_mint = amm_quote_mint self, fee_pct = total_sell_fee_pct self\<rparr>)))))"

definition pool_quote :: "clocks \<Rightarrow> sol_pool_amm \<Rightarrow> quote_params \<Rightarrow> quote result" where
  "pool_quote clk self q =
     (if q_swap_mode q = ExactOut then Err (SolPoolError ExactOutNotSupported)
      else
        let is_buy = (q_input_mint q = amm_quote_mint self) in
        and_then (pool_validate_mint_pair self (q_input_mint q) (q_output_mint q) is_buy) (\<lambda>_.
        if \<not> pool_is_active clk self then Err (SolPoolError (PoolInactive (amm_key self)))
        else if is_buy then quote_buy self (q_amount q) else quote_sell self (q_amount q)))"

section \<open>Swap accounts\<close>

definition pool_get_swap_and_account_metas ::
    "pda_fn \<Rightarrow> ata_fn \<Rightarrow> sol_pool_amm \<Rightarrow> swap_params \<Rightarrow> swap_and_account_metas result" where
  "pool_get_swap_and_account_metas pda ata self p =
     (if sp_swap_mode p = ExactOut then Err (SolPoolError ExactOutNotSupported)
      else
        let is_buy = (source_mint p = amm_quote_mint self) in
        and_then (pool_validate_mint_pair self (source_mint p) (destination_mint p) is_buy) (\<lambda>_.
        and_then (ok_or (for_mints (amm_quote_mint self) (amm_faction_mint self)
                           (source_mint p) (destination_mint p)) (SolPoolError UnsupportedSwapPair)) (\<lambda>lane.
        and_then
          (case lane of
             SolBuyWsol \<Rightarrow> build_buy_wsol_account_metas_generic pda (token_transfer_authority p)
                 (source_token_account p) (destination_token_account p) (amm_key self) (amm_pool self)
           | SolBuy \<Rightarrow> build_buy_account_metas_generic pda (token_transfer_authority p)
                 (source_token_account p) (destination_token_account p) (amm_key self) (amm_pool self)
           | SolSell \<Rightarrow> build_sell_account_metas_generic pda (token_transfer_authority p)
                 (source_token_account p) (destination_token_account p) (amm_key self) (amm_pool self)
           | SplBuy \<Rightarrow> spl_build_buy_account_metas_generic pda ata (token_transfer_authority p)
                 (source_token_account p) (destination_token_account p) (amm_key self) (amm_pool self)
           | SplSell \<Rightarrow> spl_build_sell_account_metas_generic pda ata (token_transfer_authority p)
                 (source_token_account p) (destination_token_account p) (amm_key self) (amm_pool self))
          (\<lambda>metas. Ok \<lparr>swap = TokenSwap, account_metas = metas\<rparr>))))"

end
