(* ===== verification/Sol_Pool_State.thy ===== *)
theory Sol_Pool_State
  imports Sol_Pool_Amm
begin

text \<open>
  Construction and refresh of \<open>SolPoolAmm\<close>: the well-formedness of an instance, what the constructor
  admits, what a refresh reads, writes and leaves alone, and when an instance is active.
\<close>

section \<open>Well-formed instances\<close>

text \<open>
  What the constructor establishes: the role belongs to the faction mint, the pool's two mints are
  the quote mint and the faction mint, only one of them is a faction mint, and the token programs
  are those the lanes expect.
\<close>

definition amm_wf :: "sol_pool_amm \<Rightarrow> bool" where
  "amm_wf s \<longleftrightarrow>
     faction_from_mint (amm_faction_mint s) = Some (amm_faction s) \<and>
     faction_from_mint (amm_quote_mint s) = None \<and>
     (let p = amm_pool s; programs = (token_program_a p, token_program_b p);
          (fp, qp) = (if mint_a p = amm_quote_mint s then (snd programs, fst programs) else programs) in
      (mint_a p, mint_b p) \<in> {(amm_quote_mint s, amm_faction_mint s), (amm_faction_mint s, amm_quote_mint s)} \<and>
      fp = TOKEN_2022_PROGRAM_ID \<and> supported_token_program qp \<and>
      (amm_quote_mint s = NATIVE_MINT \<longrightarrow> qp = SPL_TOKEN_PROGRAM_ID))"

text \<open>The fields a refresh never writes.\<close>

definition amm_identity :: "sol_pool_amm \<Rightarrow> pubkey \<times> pubkey \<times> pubkey \<times> faction_role \<times> clock_ref" where
  "amm_identity s = (amm_key s, amm_faction_mint s, amm_quote_mint s, amm_faction s, amm_clock_ref s)"

text \<open>The fields of a pool account that never change on chain.\<close>

definition pool_identity :: "pool_state \<Rightarrow> pubkey \<times> pubkey \<times> pubkey \<times> pubkey \<times> pubkey \<times> pubkey" where
  "pool_identity p = (mint_a p, mint_b p, vault_a p, vault_b p, token_program_a p, token_program_b p)"

lemma faction_from_mint_iff:
  "faction_from_mint m = Some Crime \<longleftrightarrow> m = CRIME_MINT" "faction_from_mint m = Some Fraud \<longleftrightarrow> m = FRAUD_MINT"
  "faction_from_mint m = None \<longleftrightarrow> \<not> faction_mint m"
  by (auto simp: faction_from_mint_def faction_mint_def)

lemma faction_from_mint_simps [simp]:
  "faction_from_mint CRIME_MINT = Some Crime" "faction_from_mint FRAUD_MINT = Some Fraud"
  "faction_from_mint NATIVE_MINT = None"
  by (simp_all add: faction_from_mint_def)

lemma faction_from_mint_faction: "faction_from_mint m = Some r \<Longrightarrow> faction_mint m"
  by (cases r) (simp_all add: faction_from_mint_iff)

lemma amm_wf_mints:
  assumes "amm_wf s"
  shows "amm_faction_mint s \<noteq> amm_quote_mint s" and "faction_mint (amm_faction_mint s)"
    and "\<not> faction_mint (amm_quote_mint s)"
  using assms by (auto simp: amm_wf_def faction_from_mint_iff intro: faction_from_mint_faction)

lemma check_token_programs_Ok [outcome]:
  "check_token_programs sides = Ok u \<longleftrightarrow> (\<forall>(side, program) \<in> set sides. supported_token_program program)"
  by (induction sides rule: check_token_programs.induct) (auto simp: supported_token_program_def)

lemma check_token_programs_not_Panic [simp]: "check_token_programs sides \<noteq> Panic"
  by (induction sides rule: check_token_programs.induct) auto

section \<open>The constructor\<close>

text \<open>The pools the adapter admits, as one condition on the parsed account.\<close>

definition admissible_pool :: "pda_fn \<Rightarrow> pubkey \<Rightarrow> pool_state \<Rightarrow> bool" where
  "admissible_pool pda key p \<longleftrightarrow>
     initialized p \<and> mint_a p < mint_b p \<and>
     key = fst (pda [ascii_bytes ''pool'', as_ref (mint_a p), as_ref (mint_b p)] AMM_PROGRAM_ID) \<and>
     supported_token_program (token_program_a p) \<and> supported_token_program (token_program_b p) \<and>
     faction_mint (mint_a p) \<noteq> faction_mint (mint_b p) \<and>
     (faction_mint (mint_a p) \<longrightarrow> token_program_a p = TOKEN_2022_PROGRAM_ID) \<and>
     (faction_mint (mint_b p) \<longrightarrow> token_program_b p = TOKEN_2022_PROGRAM_ID) \<and>
     (mint_a p = NATIVE_MINT \<longrightarrow> token_program_a p = SPL_TOKEN_PROGRAM_ID) \<and>
     (mint_b p = NATIVE_MINT \<longrightarrow> token_program_b p = SPL_TOKEN_PROGRAM_ID)"

text \<open>The instance it makes of one.\<close>

definition fresh_amm :: "pubkey \<Rightarrow> pool_state \<Rightarrow> clock_ref \<Rightarrow> sol_pool_amm" where
  "fresh_amm key p clock =
     (let (fm, qm) = (if faction_mint (mint_a p) then (mint_a p, mint_b p) else (mint_b p, mint_a p)) in
      \<lparr>amm_key = key, amm_pool = p, amm_faction_mint = fm, amm_quote_mint = qm,
       amm_faction = (if fm = CRIME_MINT then Crime else Fraud),
       amm_buy_tax_bps = 0, amm_sell_tax_bps = 0, amm_pause_end_slot = 0,
       amm_trading_paused = False, amm_epoch_initialized = False, amm_state_refreshed = False,
       amm_clock_ref = clock\<rparr>)"

lemma role_of: "faction_from_mint m = Some r \<longleftrightarrow> faction_mint m \<and> r = (if m = CRIME_MINT then Crime else Fraud)"
  by (auto simp: faction_from_mint_def faction_mint_def)

lemma faction_from_mint_eq:
  "faction_from_mint m = (if faction_mint m then Some (if m = CRIME_MINT then Crime else Fraud) else None)"
  by (simp add: faction_from_mint_def faction_mint_def)

lemma as_ref_le_less: "as_ref p \<le> as_ref q \<longleftrightarrow> \<not> q < p"
  by (simp add: less_pubkey_def not_less)

lemma from_keyed_account_parsed:
  assumes "acc_owner (ka_account ka) = AMM_PROGRAM_ID" and "pool_from_bytes (acc_data (ka_account ka)) = Ok p"
  shows "pool_from_keyed_account pda ka clock = Ok s \<longleftrightarrow>
    admissible_pool pda (ka_key ka) p \<and> s = fresh_amm (ka_key ka) p clock"
proof (cases "initialized p \<and> mint_a p < mint_b p \<and>
     ka_key ka = fst (pda [ascii_bytes ''pool'', as_ref (mint_a p), as_ref (mint_b p)] AMM_PROGRAM_ID) \<and>
     supported_token_program (token_program_a p) \<and> supported_token_program (token_program_b p)")
  case True
  then have programs: "check_token_programs [(''A'', token_program_a p), (''B'', token_program_b p)] = Ok ()"
    unfolding check_token_programs_Ok by simp
  have reduced: "pool_from_keyed_account pda ka clock =
      and_then
        (case (faction_from_mint (mint_a p), faction_from_mint (mint_b p)) of
           (Some role, None) \<Rightarrow> Ok (mint_a p, mint_b p, role, token_program_a p)
         | (None, Some role) \<Rightarrow> Ok (mint_b p, mint_a p, role, token_program_b p)
         | _ \<Rightarrow> Err (SolPoolError (NotExactlyOneFaction (ka_key ka)))) (\<lambda>(fm, qm, role, faction_program).
        if faction_program \<noteq> TOKEN_2022_PROGRAM_ID then Err (SolPoolError (FactionNotToken2022 fm))
        else if qm = NATIVE_MINT \<and>
                (if mint_a p = qm then token_program_a p else token_program_b p) \<noteq> SPL_TOKEN_PROGRAM_ID
        then Err (SolPoolError WsolQuoteNotSpl)
        else
          Ok \<lparr>amm_key = ka_key ka, amm_pool = p, amm_faction_mint = fm, amm_quote_mint = qm,
              amm_faction = role, amm_buy_tax_bps = 0, amm_sell_tax_bps = 0, amm_pause_end_slot = 0,
              amm_trading_paused = False, amm_epoch_initialized = False, amm_state_refreshed = False,
              amm_clock_ref = clock\<rparr>)"
    using assms programs True
    by (simp add: pool_from_keyed_account_def split_beta as_ref_le_less del: check_token_programs.simps)
  have "mint_a p \<noteq> mint_b p" using True by auto
  then show ?thesis
    using True unfolding reduced admissible_pool_def fresh_amm_def
    by (cases "faction_mint (mint_a p)"; cases "faction_mint (mint_b p)")
       (auto simp: faction_from_mint_eq)
next
  case False
  have "\<not> admissible_pool pda (ka_key ka) p" using False by (auto simp: admissible_pool_def)
  moreover have "pool_from_keyed_account pda ka clock \<noteq> Ok s"
    using False assms
    by (auto simp: pool_from_keyed_account_def split_beta as_ref_le_less supported_token_program_def)
  ultimately show ?thesis by simp
qed

lemma from_keyed_account_Ok:
  "pool_from_keyed_account pda ka clock = Ok s \<longleftrightarrow>
     acc_owner (ka_account ka) = AMM_PROGRAM_ID \<and>
     (\<exists>p. pool_from_bytes (acc_data (ka_account ka)) = Ok p \<and> admissible_pool pda (ka_key ka) p \<and>
        s = fresh_amm (ka_key ka) p clock)"
proof (cases "acc_owner (ka_account ka) = AMM_PROGRAM_ID")
  case True
  show ?thesis
  proof (cases "pool_from_bytes (acc_data (ka_account ka))")
    case (Ok p)
    then show ?thesis using from_keyed_account_parsed [OF True Ok] True by simp
  qed (use True in \<open>simp_all add: pool_from_keyed_account_def\<close>)
qed (simp add: pool_from_keyed_account_def)

lemma from_keyed_account_not_Panic: "pool_from_keyed_account pda ka clock \<noteq> Panic"
  by (auto simp: pool_from_keyed_account_def outcome pool_from_bytes_not_Panic split_beta
      split: option.splits if_splits)

lemma fresh_amm_inactive [simp]: "\<not> pool_is_active clk (fresh_amm key p clock)"
  by (simp add: pool_is_active_def fresh_amm_def split_beta Let_def)

lemma fresh_amm_wf: "admissible_pool pda key p \<Longrightarrow> amm_wf (fresh_amm key p clock)"
  by (cases "faction_mint (mint_a p)")
     (auto simp: admissible_pool_def fresh_amm_def amm_wf_def Let_def role_of faction_from_mint_iff)

lemma constructed:
  assumes "pool_from_keyed_account pda ka clock = Ok s"
  shows "amm_wf s" and "amm_key s = ka_key ka" and "amm_clock_ref s = clock" and "\<not> pool_is_active clk s"
proof -
  have "amm_key (fresh_amm key p clock) = key" "amm_clock_ref (fresh_amm key p clock) = clock" for key p
    by (simp_all add: fresh_amm_def split_beta Let_def)
  then show "amm_wf s" and "amm_key s = ka_key ka" and "amm_clock_ref s = clock" and "\<not> pool_is_active clk s"
    using assms by (auto simp: from_keyed_account_Ok fresh_amm_wf)
qed

lemma new_for_testing_Ok:
  "pool_new_for_testing c rs rt bt st clock =
     Ok \<lparr>amm_key = (if c then CRIME_SOL_POOL else FRAUD_SOL_POOL),
         amm_pool = (snd (known_pool_state c))\<lparr>reserve_a := rs, reserve_b := rt\<rparr>,
         amm_faction_mint = (if c then CRIME_MINT else FRAUD_MINT), amm_quote_mint = NATIVE_MINT,
         amm_faction = (if c then Crime else Fraud), amm_buy_tax_bps = bt, amm_sell_tax_bps = st,
         amm_pause_end_slot = 0, amm_trading_paused = False, amm_epoch_initialized = True,
         amm_state_refreshed = True, amm_clock_ref = clock\<rparr>"
  by (cases c) (simp_all add: pool_new_for_testing_def known_pool_state_def pool_addresses_def token_mint_def)

lemma new_for_testing_wf: "pool_new_for_testing c rs rt bt st clock = Ok s \<Longrightarrow> amm_wf s"
  by (cases c) (auto simp: new_for_testing_Ok amm_wf_def known_pool_state_def pool_addresses_def Let_def)

section \<open>The refresh\<close>

text \<open>What a refresh reads, when it succeeds: the parsed pool and epoch accounts, under their owners,
  the pool with the identity it had, and the quote mint admitted by the policy.\<close>

definition refresh_reads :: "'m mint_lib \<Rightarrow> account_map \<Rightarrow> sol_pool_amm \<Rightarrow> pool_state \<Rightarrow> epoch_state \<Rightarrow> bool" where
  "refresh_reads lib m s p e \<longleftrightarrow>
     (\<exists>a. m (amm_key s) = Some a \<and> acc_owner a = AMM_PROGRAM_ID \<and> pool_from_bytes (acc_data a) = Ok p) \<and>
     pool_identity p = pool_identity (amm_pool s) \<and>
     (\<exists>a. m EPOCH_STATE_PDA = Some a \<and> acc_owner a = EPOCH_PROGRAM_ID \<and> epoch_from_bytes (acc_data a) = Ok e) \<and>
     (amm_quote_mint s = NATIVE_MINT \<or>
      (\<exists>a. m (amm_quote_mint s) = Some a \<and> acc_owner a = quote_token_program s \<and>
           quote_mint_admitted lib (acc_data a) (acc_owner a)))"

lemma refresh_reads_determines:
  "refresh_reads lib m s p e \<Longrightarrow> refresh_reads lib m s p' e' \<Longrightarrow> p' = p \<and> e' = e"
  by (auto simp: refresh_reads_def)

text \<open>The state it leaves: first the epoch's fields, last the pool and the flag.\<close>

definition with_epoch :: "epoch_state \<Rightarrow> sol_pool_amm \<Rightarrow> sol_pool_amm" where
  "with_epoch e s = s\<lparr>amm_buy_tax_bps := get_tax_bps e (is_crime s) True,
     amm_sell_tax_bps := get_tax_bps e (is_crime s) False, amm_pause_end_slot := pause_end_slot e,
     amm_trading_paused := trading_paused e, amm_epoch_initialized := epoch_initialized e\<rparr>"

definition refreshed :: "pool_state \<Rightarrow> epoch_state \<Rightarrow> sol_pool_amm \<Rightarrow> sol_pool_amm" where
  "refreshed p e s = (with_epoch e s)\<lparr>amm_pool := p, amm_state_refreshed := True\<rparr>"

definition check_quote_mint :: "'m mint_lib \<Rightarrow> account_map \<Rightarrow> sol_pool_amm \<Rightarrow> unit result" where
  "check_quote_mint lib m s =
     (if amm_quote_mint s \<noteq> NATIVE_MINT
      then and_then (try_get_account_data_and_owner m (amm_quote_mint s))
             (\<lambda>(d, ow). validate_quote_mint lib d ow (quote_token_program s))
      else Ok ())"

lemma check_quote_mint_Ok:
  "check_quote_mint lib m s = Ok u \<longleftrightarrow> amm_quote_mint s = NATIVE_MINT \<or>
     (\<exists>a. m (amm_quote_mint s) = Some a \<and> acc_owner a = quote_token_program s \<and>
          quote_mint_admitted lib (acc_data a) (acc_owner a))"
  by (auto simp: check_quote_mint_def outcome validate_quote_mint_Ok)

lemma check_quote_mint_not_Panic: "check_quote_mint lib m s \<noteq> Panic"
  by (auto simp: check_quote_mint_def outcome validate_quote_mint_not_Panic)

lemma pool_identity_neq:
  "pool_identity p \<noteq> pool_identity q \<longleftrightarrow> mint_a p \<noteq> mint_a q \<or> mint_b p \<noteq> mint_b q \<or>
     vault_a p \<noteq> vault_a q \<or> vault_b p \<noteq> vault_b q \<or>
     token_program_a p \<noteq> token_program_a q \<or> token_program_b p \<noteq> token_program_b q"
  by (simp add: pool_identity_def)

text \<open>The refresh in four steps, the first three of which leave the state inactive.\<close>

lemma pool_update_eq:
  "pool_update lib m s0 =
    (let s = s0\<lparr>amm_state_refreshed := False\<rparr> in
     try_in s (try_get_account_data_and_owner m (amm_key s)) (\<lambda>(d, ow).
     if ow \<noteq> AMM_PROGRAM_ID then (s, Err (SolPoolError (RefreshedPoolOwner ow)))
     else try_in s (pool_from_bytes d) (\<lambda>p.
     if pool_identity p \<noteq> pool_identity (amm_pool s) then (s, Err (SolPoolError (PoolIdentityChanged (amm_key s))))
     else try_in s (try_get_account_data_and_owner m EPOCH_STATE_PDA) (\<lambda>(d, ow).
     if ow \<noteq> EPOCH_PROGRAM_ID then (s, Err (SolPoolError (EpochStateOwner ow)))
     else try_in s (epoch_from_bytes d) (\<lambda>e.
     try_in (with_epoch e s) (check_quote_mint lib m s) (\<lambda>_. (refreshed p e s, Ok ())))))))"
  unfolding pool_identity_neq
  by (simp add: pool_update_def with_epoch_def check_quote_mint_def refreshed_def
      is_crime_def quote_token_program_def Let_def split del: if_split cong del: if_weak_cong)

lemma refreshed_inactive [simp]: "refreshed p e (s\<lparr>amm_state_refreshed := False\<rparr>) = refreshed p e s"
  by (simp add: refreshed_def with_epoch_def is_crime_def)

lemma check_quote_mint_inactive [simp]:
  "check_quote_mint lib m (s\<lparr>amm_state_refreshed := False\<rparr>) = check_quote_mint lib m s"
  by (simp add: check_quote_mint_def quote_token_program_def)

text \<open>Either every read succeeds and the state is the refreshed one, or the state is inactive and
  differs from the old one in the epoch's fields at most.\<close>

lemma pool_update_dichotomy:
  "(\<exists>p e. refresh_reads lib m s p e \<and> pool_update lib m s = (refreshed p e s, Ok ())) \<or>
   (\<nexists>p e. refresh_reads lib m s p e) \<and>
     (\<exists>err. snd (pool_update lib m s) = Err err) \<and>
     fst (pool_update lib m s) \<in>
       {s\<lparr>amm_state_refreshed := False\<rparr>} \<union> {with_epoch e (s\<lparr>amm_state_refreshed := False\<rparr>) | e. True}"
proof (cases "\<exists>p e. refresh_reads lib m s p e")
  case True
  then obtain p e where reads: "refresh_reads lib m s p e" by blast
  then have "check_quote_mint lib m s = Ok ()"
    by (auto simp: refresh_reads_def check_quote_mint_Ok)
  then have "pool_update lib m s = (refreshed p e s, Ok ())"
    using reads by (auto simp: refresh_reads_def pool_update_eq try_get_account_data_and_owner_def Let_def)
  with reads show ?thesis by blast
next
  case False
  have "\<not> (check_quote_mint lib m s = Ok () \<and>
      (\<exists>a p. m (amm_key s) = Some a \<and> acc_owner a = AMM_PROGRAM_ID \<and> pool_from_bytes (acc_data a) = Ok p \<and>
             pool_identity p = pool_identity (amm_pool s)) \<and>
      (\<exists>a e. m EPOCH_STATE_PDA = Some a \<and> acc_owner a = EPOCH_PROGRAM_ID \<and> epoch_from_bytes (acc_data a) = Ok e))"
    using False by (auto simp: refresh_reads_def check_quote_mint_Ok)
  then have "(\<exists>err. snd (pool_update lib m s) = Err err) \<and>
     fst (pool_update lib m s) \<in>
       {s\<lparr>amm_state_refreshed := False\<rparr>} \<union> {with_epoch e (s\<lparr>amm_state_refreshed := False\<rparr>) | e. True}"
    by (auto simp: pool_update_eq Let_def try_in_cases outcome pool_from_bytes_not_Panic
        epoch_from_bytes_not_Panic check_quote_mint_not_Panic split: outcome.split)
  with False show ?thesis by blast
qed

lemma with_epoch_simps [simp]:
  "amm_identity (with_epoch e s) = amm_identity s" "amm_pool (with_epoch e s) = amm_pool s"
  "amm_state_refreshed (with_epoch e s) = amm_state_refreshed s"
  by (simp_all add: with_epoch_def amm_identity_def)

lemma refreshed_simps [simp]:
  "amm_identity (refreshed p e s) = amm_identity s" "amm_pool (refreshed p e s) = p"
  "amm_state_refreshed (refreshed p e s)"
  by (simp_all add: refreshed_def amm_identity_def with_epoch_def)

lemma pool_update_Ok:
  "pool_update lib m s = (s', Ok ()) \<longleftrightarrow> (\<exists>p e. refresh_reads lib m s p e \<and> s' = refreshed p e s)"
  using pool_update_dichotomy [of lib m s] by (auto simp: refresh_reads_def)

lemma pool_update_failed:
  assumes "snd (pool_update lib m s) \<noteq> Ok ()"
  shows "amm_pool (fst (pool_update lib m s)) = amm_pool s"
    and "\<not> amm_state_refreshed (fst (pool_update lib m s))"
  using pool_update_dichotomy [of lib m s] assms by auto

lemma pool_update_not_Panic: "snd (pool_update lib m s) \<noteq> Panic"
  using pool_update_dichotomy [of lib m s] by auto

lemma pool_update_identity:
  "amm_identity (fst (pool_update lib m s)) = amm_identity s"
  "pool_identity (amm_pool (fst (pool_update lib m s))) = pool_identity (amm_pool s)"
proof -
  have inactive: "amm_identity (s\<lparr>amm_state_refreshed := False\<rparr>) = amm_identity s"
    by (simp add: amm_identity_def)
  show "amm_identity (fst (pool_update lib m s)) = amm_identity s"
    and "pool_identity (amm_pool (fst (pool_update lib m s))) = pool_identity (amm_pool s)"
    using pool_update_dichotomy [of lib m s] by (auto simp: refresh_reads_def inactive)
qed

lemma amm_wf_identity:
  "amm_identity s = amm_identity s' \<Longrightarrow> pool_identity (amm_pool s) = pool_identity (amm_pool s') \<Longrightarrow>
     amm_wf s \<longleftrightarrow> amm_wf s'"
  by (simp add: amm_wf_def amm_identity_def pool_identity_def Let_def)

lemma pool_update_wf: "amm_wf (fst (pool_update lib m s)) = amm_wf s"
  by (rule amm_wf_identity) (rule pool_update_identity)+

lemma pool_update_local:
  assumes "\<And>k. k \<in> set (pool_get_accounts_to_update s) \<Longrightarrow> m k = m' k"
  shows "pool_update lib m s = pool_update lib m' s"
proof -
  have "check_quote_mint lib m s = check_quote_mint lib m' s"
    using assms account_reads_cong(1) [of m "amm_quote_mint s" m']
    by (simp add: check_quote_mint_def pool_get_accounts_to_update_def)
  moreover have "try_get_account_data_and_owner m k = try_get_account_data_and_owner m' k"
    if "k \<in> {amm_key s, EPOCH_STATE_PDA}" for k
    by (rule account_reads_cong(1), rule assms) (use that in \<open>auto simp: pool_get_accounts_to_update_def Let_def\<close>)
  ultimately show ?thesis by (simp add: pool_update_eq Let_def cong del: if_weak_cong)
qed

lemma active_refreshed:
  "pool_is_active clk (refreshed p e s) \<longleftrightarrow>
     initialized p \<and> \<not> locked p \<and> epoch_initialized e \<and> \<not> trading_paused e \<and>
     pause_end_slot e \<le> clk (amm_clock_ref s)"
  by (simp add: pool_is_active_def refreshed_def with_epoch_def)

lemma active_needs_refresh: "pool_is_active clk s \<Longrightarrow> amm_state_refreshed s"
  by (simp add: pool_is_active_def)

section \<open>Properties\<close>

text \<open>C6: The constructor's admission.  \<open>from_keyed_account\<close> accepts exactly an AMM-owned account that
  parses to an initialized pool at its canonical address, with its mints in strict byte order, token
  programs on both sides, exactly one faction mint, under Token-2022, and WSOL only under classic SPL;
  it returns the inactive instance of that pool, which is well formed; and it never panics.\<close>

theorem constructor_spec:
  "case pool_from_keyed_account pda ka clock of
      Ok s \<Rightarrow> acc_owner (ka_account ka) = AMM_PROGRAM_ID \<and>
        (\<exists>p. pool_from_bytes (acc_data (ka_account ka)) = Ok p \<and> admissible_pool pda (ka_key ka) p \<and>
             s = fresh_amm (ka_key ka) p clock) \<and>
        amm_wf s \<and> (\<forall>clk. \<not> pool_is_active clk s)
    | Err e \<Rightarrow> \<not> (acc_owner (ka_account ka) = AMM_PROGRAM_ID \<and>
        (\<exists>p. pool_from_bytes (acc_data (ka_account ka)) = Ok p \<and> admissible_pool pda (ka_key ka) p))
    | Panic \<Rightarrow> False"
proof (cases "pool_from_keyed_account pda ka clock")
  case (Ok s)
  then obtain p where "acc_owner (ka_account ka) = AMM_PROGRAM_ID"
    and "pool_from_bytes (acc_data (ka_account ka)) = Ok p" and "admissible_pool pda (ka_key ka) p"
    and "s = fresh_amm (ka_key ka) p clock"
    by (auto simp: from_keyed_account_Ok)
  then show ?thesis by (simp add: Ok fresh_amm_wf)
next
  case (Err e)
  then have "\<forall>p. pool_from_keyed_account pda ka clock \<noteq> Ok (fresh_amm (ka_key ka) p clock)" by simp
  then show ?thesis unfolding from_keyed_account_Ok by (auto simp: Err)
qed (simp add: from_keyed_account_not_Panic)

text \<open>C5: The refresh is all or nothing for activity.  \<open>update\<close> succeeds exactly when the pool account,
  the epoch account and, for a quote mint other than WSOL, the mint account are there, under their
  owners, well formed, with the pool's identity unchanged and the mint admitted by the policy; the
  instance then holds exactly their data.  Otherwise it is inactive whatever the clock says, and keeps
  the old reserves.  It never panics and never changes the identity of the instance.\<close>

theorem refresh_spec:
  "(case snd (pool_update lib m s) of
      Ok _ \<Rightarrow> (\<exists>p e. refresh_reads lib m s p e \<and> fst (pool_update lib m s) = refreshed p e s)
    | Err _ \<Rightarrow> (\<nexists>p e. refresh_reads lib m s p e) \<and> amm_pool (fst (pool_update lib m s)) = amm_pool s \<and>
        (\<forall>clk. \<not> pool_is_active clk (fst (pool_update lib m s)))
    | Panic \<Rightarrow> False) \<and>
   amm_identity (fst (pool_update lib m s)) = amm_identity s"
proof (cases "\<exists>p e. refresh_reads lib m s p e")
  case True
  then obtain p e where reads: "refresh_reads lib m s p e" by blast
  then have upd: "pool_update lib m s = (refreshed p e s, Ok ())"
    using pool_update_dichotomy [of lib m s] refresh_reads_determines [OF reads] by blast
  show ?thesis unfolding upd using reads by simp blast
next
  case False
  then have fails: "\<exists>err. snd (pool_update lib m s) = Err err"
    using pool_update_dichotomy [of lib m s] by blast
  then have "snd (pool_update lib m s) \<noteq> Ok ()" by auto
  note failed = pool_update_failed [OF this]
  have "\<not> pool_is_active clk (fst (pool_update lib m s))" for clk
    using failed(2) active_needs_refresh by blast
  then show ?thesis using fails False failed(1) pool_update_identity(1) [of lib m s] by auto
qed

text \<open>C19: The pause boundary.  After a successful refresh the instance is active at exactly the slots
  from the epoch's pause end on, if the pool is initialized and unlocked and the epoch initialized and
  not paused by hand.  It reads the shared clock, so it reopens without another refresh, and no later
  slot closes it again.\<close>

theorem pause_boundary:
  assumes "pool_update lib m s = (s', Ok ())"
  shows "\<exists>p e. refresh_reads lib m s p e \<and>
    (\<forall>clk. pool_is_active clk s' \<longleftrightarrow>
       initialized p \<and> \<not> locked p \<and> epoch_initialized e \<and> \<not> trading_paused e \<and>
       pause_end_slot e \<le> clk (amm_clock_ref s)) \<and>
    (\<forall>clk clk'. clk (amm_clock_ref s) \<le> clk' (amm_clock_ref s) \<longrightarrow> pool_is_active clk s' \<longrightarrow> pool_is_active clk' s')"
proof -
  obtain p e where reads: "refresh_reads lib m s p e" and s': "s' = refreshed p e s"
    using assms by (auto simp: pool_update_Ok)
  show ?thesis
    by (rule exI [of _ p], rule exI [of _ e]) (auto simp: reads s' active_refreshed)
qed

section \<open>A concrete pool\<close>

text \<open>The CRIME/SOL pool with a small account map, for the witnesses; \<open>no_mints\<close> stands for the mint
  libraries, which a WSOL pool never calls.\<close>

definition no_mints :: "unit mint_lib" where
  "no_mints = \<lparr>spl_mint_unpacks = (\<lambda>_. False), t22_unpack = (\<lambda>_. None), get_extension_types = (\<lambda>_. None),
     get_transfer_fee_config = (\<lambda>_. None), hook_program_id = (\<lambda>_. None),
     get_default_account_state = (\<lambda>_. None), get_pausable_paused = (\<lambda>_. None)\<rparr>"

definition crime_pool_account :: account where
  "crime_pool_account = \<lparr>acc_data = mock_pool_state NATIVE_MINT CRIME_MINT CRIME_SOL_VAULT_A CRIME_SOL_VAULT_B 1000 5000 100,
     acc_owner = AMM_PROGRAM_ID\<rparr>"

definition epoch_account :: account where
  "epoch_account = \<lparr>acc_data = mock_epoch_state 400 1400 1400 400, acc_owner = EPOCH_PROGRAM_ID\<rparr>"

definition crime_map :: account_map where
  "crime_map = [CRIME_SOL_POOL \<mapsto> crime_pool_account, EPOCH_STATE_PDA \<mapsto> epoch_account]"

definition crime_amm :: sol_pool_amm where
  "crime_amm = fresh_amm CRIME_SOL_POOL (pool_view (acc_data crime_pool_account)) 0"

lemma crime_pool_parsed:
  "pool_from_bytes (acc_data crime_pool_account) =
     Ok \<lparr>mint_a = NATIVE_MINT, mint_b = CRIME_MINT, vault_a = CRIME_SOL_VAULT_A, vault_b = CRIME_SOL_VAULT_B,
         reserve_a = 1000, reserve_b = 5000, lp_fee_bps = 100, initialized = True, locked = False,
         bump = 254, vault_a_bump = 253, vault_b_bump = 252,
         token_program_a = SPL_TOKEN_PROGRAM_ID, token_program_b = TOKEN_2022_PROGRAM_ID\<rparr>"
  by (simp add: crime_pool_account_def pool_from_bytes_Ok mock_shape mock_view token_program_for_def)

lemma epoch_parsed:
  "epoch_from_bytes (acc_data epoch_account) =
     Ok \<lparr>crime_buy_tax_bps = 400, crime_sell_tax_bps = 1400, fraud_buy_tax_bps = 1400, fraud_sell_tax_bps = 400,
         pause_end_slot = 0, trading_paused = False, epoch_initialized = True\<rparr>"
  by (simp add: epoch_account_def mock_epoch_parsed)

lemma example_keys [simp]:
  "CRIME_SOL_POOL \<noteq> EPOCH_STATE_PDA" "EPOCH_STATE_PDA \<noteq> CRIME_SOL_POOL"
  by (simp_all add: pubkey_eq_iff address_bytes)

lemma wsol_before_crime: "NATIVE_MINT < CRIME_MINT"
  by (simp add: less_pubkey_def address_bytes)

lemma crime_admissible:
  "pool_from_bytes (acc_data crime_pool_account) = Ok p \<Longrightarrow>
     admissible_pool (\<lambda>_ _. (CRIME_SOL_POOL, 255)) CRIME_SOL_POOL p"
  by (auto simp: crime_pool_parsed admissible_pool_def wsol_before_crime)

lemma crime_amm_eq:
  "crime_amm = fresh_amm CRIME_SOL_POOL (pool_view (acc_data crime_pool_account)) 0"
  "amm_key crime_amm = CRIME_SOL_POOL" "amm_quote_mint crime_amm = NATIVE_MINT"
  "amm_faction_mint crime_amm = CRIME_MINT" "amm_faction crime_amm = Crime" "amm_clock_ref crime_amm = 0"
  by (simp_all add: crime_amm_def fresh_amm_def crime_pool_account_def mock_view)

lemma crime_amm_pool: "pool_from_bytes (acc_data crime_pool_account) = Ok (amm_pool crime_amm)"
  by (simp add: crime_amm_def fresh_amm_def crime_pool_account_def mock_view crime_pool_parsed
      pool_from_bytes_Ok mock_shape split_beta Let_def)

lemma crime_refreshes:
  "\<exists>e. refresh_reads no_mints crime_map crime_amm (amm_pool crime_amm) e"
  using crime_amm_pool epoch_parsed
  by (auto simp: refresh_reads_def crime_map_def crime_amm_eq(2,3) crime_pool_account_def epoch_account_def)

theorem pause_boundary_witness:
  "\<exists>s'. pool_update no_mints crime_map crime_amm = (s', Ok ()) \<and> pool_is_active (\<lambda>_. 7) s'"
proof -
  obtain e where reads: "refresh_reads no_mints crime_map crime_amm (amm_pool crime_amm) e"
    using crime_refreshes by blast
  have upd: "pool_update no_mints crime_map crime_amm = (refreshed (amm_pool crime_amm) e crime_amm, Ok ())"
    using reads pool_update_Ok by blast
  from pause_boundary [OF upd] obtain p e' where "refresh_reads no_mints crime_map crime_amm p e'"
    and active: "\<forall>clk. pool_is_active clk (refreshed (amm_pool crime_amm) e crime_amm) \<longleftrightarrow>
       initialized p \<and> \<not> locked p \<and> epoch_initialized e' \<and> \<not> trading_paused e' \<and>
       pause_end_slot e' \<le> clk (amm_clock_ref crime_amm)"
    by blast
  then have "pool_is_active (\<lambda>_. 7) (refreshed (amm_pool crime_amm) e crime_amm)"
    by (auto simp: refresh_reads_def crime_map_def crime_amm_eq(2) crime_pool_parsed epoch_parsed)
  then show ?thesis using upd by blast
qed

definition crime_keyed_account :: keyed_account where
  "crime_keyed_account = \<lparr>ka_key = CRIME_SOL_POOL, ka_account = crime_pool_account, ka_params = None\<rparr>"

lemma crime_constructed:
  "pool_from_keyed_account (\<lambda>_ _. (CRIME_SOL_POOL, 255)) crime_keyed_account 0 = Ok crime_amm"
proof -
  have parsed: "pool_from_bytes (acc_data (ka_account crime_keyed_account)) = Ok (pool_view (acc_data crime_pool_account))"
    using crime_pool_parsed by (simp add: crime_keyed_account_def pool_from_bytes_Ok)
  have "admissible_pool (\<lambda>_ _. (CRIME_SOL_POOL, 255)) CRIME_SOL_POOL (pool_view (acc_data crime_pool_account))"
    by (rule crime_admissible) (use parsed in \<open>simp add: crime_keyed_account_def\<close>)
  then show ?thesis
    using parsed unfolding from_keyed_account_Ok
    by (auto simp: crime_keyed_account_def crime_amm_def) (simp add: crime_pool_account_def)
qed

end
