(* ===== verification/Sol_Pool_Quotes.thy ===== *)
theory Sol_Pool_Quotes
  imports Sol_Pool_State
begin

text \<open>
  The prices of \<open>SolPoolAmm\<close>: the value of \<open>quote_buy\<close> and \<open>quote_sell\<close> in exact integers, their
  monotone stages, the comparison with the reference pipelines of the repository's quoting tests,
  and the interpretation of the interface locales.
\<close>

section \<open>The reference pipelines\<close>

text \<open>\<open>reference_buy_output\<close> and \<open>reference_sell_output\<close> of \<open>tests/test_quoting_extended.rs\<close>; their
  \<open>unwrap\<close> panics on nothing.\<close>

definition reference_buy_output :: "u64 \<Rightarrow> u64 \<Rightarrow> u64 \<Rightarrow> u16 \<Rightarrow> u16 \<Rightarrow> u64 result" where
  "reference_buy_output reserve_sol reserve_token amount_in buy_tax fee_bps =
     (if amount_in = 0 then Ok 0
      else
      and_then (expect (calculate_tax amount_in buy_tax)) (\<lambda>tax.
      and_then (expect (checked_sub amount_in tax)) (\<lambda>sol_to_swap.
      if sol_to_swap = 0 then Ok 0
      else
      and_then (expect (calculate_effective_input sol_to_swap fee_bps)) (\<lambda>effective.
      Ok (case calculate_swap_output reserve_sol reserve_token effective of Some x \<Rightarrow> x | None \<Rightarrow> 0)))))"

definition reference_sell_output :: "u64 \<Rightarrow> u64 \<Rightarrow> u64 \<Rightarrow> u16 \<Rightarrow> u16 \<Rightarrow> u64 result" where
  "reference_sell_output reserve_sol reserve_token amount_in sell_tax fee_bps =
     (if amount_in = 0 then Ok 0
      else
      and_then (expect (calculate_effective_input amount_in fee_bps)) (\<lambda>effective.
      let gross_sol = (case calculate_swap_output reserve_token reserve_sol effective of Some x \<Rightarrow> x | None \<Rightarrow> 0)
      in and_then (expect (calculate_tax gross_sol sell_tax)) (\<lambda>tax.
         Ok (saturating_sub gross_sol tax))))"

section \<open>Prices in exact integers\<close>

text \<open>What is left of \<open>a\<close> after \<open>bps\<close> of it, and the same as a stage on words.\<close>

definition net_of :: "nat \<Rightarrow> nat \<Rightarrow> nat" where
  "net_of bps a = a - a * bps div 10000"

definition lp_net :: "nat \<Rightarrow> nat \<Rightarrow> nat" where
  "lp_net fee a = a * (10000 - fee) div 10000"

definition after_tax :: "u16 \<Rightarrow> u64 \<Rightarrow> u64 option" where
  "after_tax bps a = Option.bind (calculate_tax a bps) (checked_sub a)"

lemma after_tax_Some: "after_tax bps a = Some n \<longleftrightarrow> unat bps \<le> 10000 \<and> unat n = net_of (unat bps) (unat a)"
proof
  assume "after_tax bps a = Some n"
  then show "unat bps \<le> 10000 \<and> unat n = net_of (unat bps) (unat a)"
    by (auto simp: after_tax_def bind_eq_Some_conv tax_Some checked net_of_def)
next
  assume r: "unat bps \<le> 10000 \<and> unat n = net_of (unat bps) (unat a)"
  then obtain t where t: "calculate_tax a bps = Some t"
    using tax_None [of a bps] by (cases "calculate_tax a bps") auto
  then have "checked_sub a t = Some n"
    using r tax_le [OF t] by (simp add: checked net_of_def tax_Some)
  then show "after_tax bps a = Some n" by (simp add: after_tax_def t)
qed

lemma net_of_mono: "bps \<le> 10000 \<Longrightarrow> a \<le> b \<Longrightarrow> net_of bps a \<le> net_of bps b"
proof -
  assume bps: "bps \<le> 10000" and "a \<le> b"
  then obtain c where b: "b = a + c" by (auto simp: le_iff_add)
  have "b * bps div 10000 \<le> (a * bps + c * 10000) div 10000"
    unfolding b using bps by (intro div_le_mono) (simp add: algebra_simps)
  also have "\<dots> = a * bps div 10000 + c" by simp
  finally show ?thesis by (simp add: net_of_def b)
qed

lemma lp_net_mono: "a \<le> b \<Longrightarrow> lp_net fee a \<le> lp_net fee b"
  by (simp add: lp_net_def div_le_mono)

lemma lp_net_le: "lp_net fee a \<le> a"
  unfolding lp_net_def by (rule effective_le) simp

lemma effective_lp: "calculate_effective_input a f = Some e \<longleftrightarrow> unat f \<le> 10000 \<and> unat e = lp_net (unat f) (unat a)"
  by (simp add: effective_input_Some lp_net_def)

interpretation tax_stage: mono_stage "after_tax bps" for bps
  by unfold_locales (auto simp: after_tax_Some word_le_nat_alt net_of_mono)

interpretation fee_stage: mono_stage "\<lambda>a. calculate_effective_input a fee" for fee
  by unfold_locales (auto simp: effective_lp word_le_nat_alt lp_net_mono)

lemma swap_output_curve:
  "calculate_swap_output r_in r_out e = Some out \<Longrightarrow>
     0 < unat r_in + unat e \<and> unat out = curve_out (unat r_in) (unat r_out) (unat e)"
  by (simp add: swap_output_Some curve_out_def)

interpretation curve_stage: mono_stage "calculate_swap_output r_in r_out" for r_in r_out
  by unfold_locales (auto simp: word_le_nat_alt dest!: swap_output_curve intro: curve_out_mono)

text \<open>The pool's own part of a price: the LP fee, then the curve.\<close>

definition pool_price :: "u16 \<Rightarrow> u64 \<Rightarrow> u64 \<Rightarrow> u64 \<Rightarrow> u64 option" where
  "pool_price fee r_in r_out a = Option.bind (calculate_effective_input a fee) (calculate_swap_output r_in r_out)"

interpretation fee_then_curve: two_stages "\<lambda>a. calculate_effective_input a fee" "calculate_swap_output r_in r_out"
  for fee r_in r_out ..

interpretation price_stage: mono_stage "pool_price fee r_in r_out" for fee r_in r_out
  unfolding pool_price_def by (rule fee_then_curve.chain.mono_stage_axioms)

interpretation price_then_tax: two_stages "pool_price fee r_in r_out" "after_tax bps" for fee r_in r_out bps ..

interpretation tax_then_price: two_stages "after_tax bps" "pool_price fee r_in r_out" for fee r_in r_out bps ..

lemma pool_price_Some:
  "pool_price fee r_in r_out a = Some out \<longleftrightarrow>
     unat fee \<le> 10000 \<and> 0 < unat r_in + lp_net (unat fee) (unat a) \<and>
     unat out = curve_out (unat r_in) (unat r_out) (lp_net (unat fee) (unat a))" (is "?l \<longleftrightarrow> ?r")
proof
  assume ?l
  then obtain e where "calculate_effective_input a fee = Some e" "calculate_swap_output r_in r_out e = Some out"
    by (auto simp: pool_price_def bind_eq_Some_conv)
  then show ?r using swap_output_curve [of r_in r_out e out] by (simp add: effective_lp)
next
  assume r: ?r
  have small: "lp_net (unat fee) (unat a) < 2 ^ 64"
    using lp_net_le [of "unat fee" "unat a"] unat_u64 [of a] by linarith
  then obtain e :: u128 where e: "unat e = lp_net (unat fee) (unat a)"
    using word_with_value [where 'a = 128, of "lp_net (unat fee) (unat a)"] by auto
  then have "calculate_effective_input a fee = Some e" using r by (simp add: effective_lp)
  moreover have "calculate_swap_output r_in r_out e = Some out"
    using r e small by (subst swap_output_u64) simp_all
  ultimately show ?l by (simp add: pool_price_def)
qed

section \<open>The two quotes\<close>

definition buy_out :: "nat \<Rightarrow> nat \<Rightarrow> nat \<Rightarrow> nat \<Rightarrow> nat \<Rightarrow> nat" where
  "buy_out r_quote r_faction fee tax a = curve_out r_quote r_faction (lp_net fee (net_of tax a))"

definition sell_gross :: "nat \<Rightarrow> nat \<Rightarrow> nat \<Rightarrow> nat \<Rightarrow> nat" where
  "sell_gross r_quote r_faction fee a = curve_out r_faction r_quote (lp_net fee a)"

definition sell_out :: "nat \<Rightarrow> nat \<Rightarrow> nat \<Rightarrow> nat \<Rightarrow> nat \<Rightarrow> nat" where
  "sell_out r_quote r_faction fee tax a = net_of tax (sell_gross r_quote r_faction fee a)"

lemma net_of_le: "net_of bps a \<le> a"
  by (simp add: net_of_def)

lemma fee_fraction_value: "fee_fraction fee tax = of_nat (unat fee + unat tax) / 10000"
proof -
  have u: "unat (ucast (x :: u16) :: u32) = unat x" for x by (rule unat_ucast_up) simp
  have "unat ((ucast fee :: u32) + ucast tax) = unat fee + unat tax"
    using unat_u16 [of fee] unat_u16 [of tax] by (simp add: unat_word_ariths u)
  then show ?thesis by (simp only: fee_fraction_def Let_def)
qed

text \<open>The whole of \<open>amount\<close> that is not priced is reported as the fee; the sum never overflows.\<close>

lemma buy_fee_amount:
  assumes "calculate_tax a tax = Some t" and "checked_sub a t = Some n"
    and "calculate_effective_input n fee = Some e"
  shows "unat (case checked_add t (saturating_sub n (ucast e)) of Some s \<Rightarrow> s | None \<Rightarrow> t) + unat e = unat a"
proof -
  have n: "unat t \<le> unat a" "unat n = unat a - unat t" using assms(2) by (simp_all add: checked)
  have e: "unat e \<le> unat n" "unat e < 2 ^ 64"
    using effective_input_bounds [OF assms(3)] by simp_all
  then have "unat (saturating_sub n (ucast e)) = unat n - unat e"
    by (simp add: unat_saturating_sub unat_ucast_fits)
  moreover have "unat t + (unat n - unat e) < 2 ^ 64"
    using n e unat_u64 [of a] by linarith
  ultimately obtain s where s: "checked_add t (saturating_sub n (ucast e)) = Some s"
    by (cases "checked_add t (saturating_sub n (ucast e))") (auto simp: checked)
  then have "unat s = unat t + (unat n - unat e)"
    using \<open>unat (saturating_sub n (ucast e)) = unat n - unat e\<close> by (simp add: checked)
  then show ?thesis using n e by (simp add: s)
qed

lemma quote_buy_steps:
  "quote_buy s a = Ok r \<longleftrightarrow>
    (\<exists>t n. calculate_tax a (amm_buy_tax_bps s) = Some t \<and> checked_sub a t = Some n \<and>
      in_amount r = a \<and> fee_mint r = amm_quote_mint s \<and> fee_pct r = total_buy_fee_pct s \<and>
      (if n = 0 then out_amount r = 0 \<and> fee_amount r = t
       else \<exists>e. calculate_effective_input n (lp_fee_bps (amm_pool s)) = Some e \<and>
         calculate_swap_output (fst (reserves s)) (snd (reserves s)) e = Some (out_amount r) \<and>
         fee_amount r = (case checked_add t (saturating_sub n (ucast e)) of Some s \<Rightarrow> s | None \<Rightarrow> t)))"
  by (cases r) (auto simp: quote_buy_def outcome split_beta Let_def split: if_splits)

lemma quote_sell_steps:
  "quote_sell s a = Ok r \<longleftrightarrow>
    (\<exists>g. pool_price (lp_fee_bps (amm_pool s)) (snd (reserves s)) (fst (reserves s)) a = Some g \<and>
      after_tax (amm_sell_tax_bps s) g = Some (out_amount r) \<and>
      calculate_tax g (amm_sell_tax_bps s) = Some (fee_amount r) \<and>
      in_amount r = a \<and> fee_mint r = amm_quote_mint s \<and> fee_pct r = total_sell_fee_pct s)"
  by (cases r) (auto simp: quote_sell_def outcome split_beta Let_def pool_price_def after_tax_def bind_eq_Some_conv)

lemma quotes_not_Panic [simp]: "quote_buy s a \<noteq> Panic" "quote_sell s a \<noteq> Panic"
  by (simp_all add: quote_buy_def quote_sell_def outcome split_beta Let_def)

lemma buy_zero [simp]: "lp_net fee 0 = 0" "curve_out r_in r_out 0 = 0"
  by (simp_all add: lp_net_def curve_out_def)

definition buy_priced :: "sol_pool_amm \<Rightarrow> u64 \<Rightarrow> bool" where
  "buy_priced s a \<longleftrightarrow> unat (amm_buy_tax_bps s) \<le> 10000 \<and>
     (let n = net_of (unat (amm_buy_tax_bps s)) (unat a); fee = unat (lp_fee_bps (amm_pool s)) in
      n = 0 \<or> fee \<le> 10000 \<and> 0 < unat (fst (reserves s)) + lp_net fee n)"

definition sell_priced :: "sol_pool_amm \<Rightarrow> u64 \<Rightarrow> bool" where
  "sell_priced s a \<longleftrightarrow> unat (amm_sell_tax_bps s) \<le> 10000 \<and>
     (let fee = unat (lp_fee_bps (amm_pool s)) in
      fee \<le> 10000 \<and> 0 < unat (snd (reserves s)) + lp_net fee (unat a))"

lemma quote_buy_values:
  assumes "quote_buy s a = Ok r"
  shows "buy_priced s a" and "in_amount r = a" and "fee_mint r = amm_quote_mint s"
    and "fee_pct r = of_nat (unat (lp_fee_bps (amm_pool s)) + unat (amm_buy_tax_bps s)) / 10000"
    and "unat (out_amount r) = buy_out (unat (fst (reserves s))) (unat (snd (reserves s)))
           (unat (lp_fee_bps (amm_pool s))) (unat (amm_buy_tax_bps s)) (unat a)"
    and "unat (fee_amount r) +
           lp_net (unat (lp_fee_bps (amm_pool s))) (net_of (unat (amm_buy_tax_bps s)) (unat a)) = unat a"
proof -
  obtain t n where t: "calculate_tax a (amm_buy_tax_bps s) = Some t" and n: "checked_sub a t = Some n"
    and shape: "in_amount r = a" "fee_mint r = amm_quote_mint s" "fee_pct r = total_buy_fee_pct s"
    and rest: "if n = 0 then out_amount r = 0 \<and> fee_amount r = t
       else \<exists>e. calculate_effective_input n (lp_fee_bps (amm_pool s)) = Some e \<and>
         calculate_swap_output (fst (reserves s)) (snd (reserves s)) e = Some (out_amount r) \<and>
         fee_amount r = (case checked_add t (saturating_sub n (ucast e)) of Some s \<Rightarrow> s | None \<Rightarrow> t)"
    using assms by (auto simp: quote_buy_steps)
  have net: "unat (amm_buy_tax_bps s) \<le> 10000" "unat n = net_of (unat (amm_buy_tax_bps s)) (unat a)"
    using t n after_tax_Some [of "amm_buy_tax_bps s" a n] by (auto simp: after_tax_def)
  show "in_amount r = a" "fee_mint r = amm_quote_mint s"
    and "fee_pct r = of_nat (unat (lp_fee_bps (amm_pool s)) + unat (amm_buy_tax_bps s)) / 10000"
    using shape by (simp_all add: total_buy_fee_pct_def fee_fraction_value)
  have "buy_priced s a \<and>
    unat (out_amount r) = buy_out (unat (fst (reserves s))) (unat (snd (reserves s)))
      (unat (lp_fee_bps (amm_pool s))) (unat (amm_buy_tax_bps s)) (unat a) \<and>
    unat (fee_amount r) +
      lp_net (unat (lp_fee_bps (amm_pool s))) (net_of (unat (amm_buy_tax_bps s)) (unat a)) = unat a"
  proof (cases "n = 0")
    case True
    then have "t = a" using n by (auto simp: checked word_unat_eq_iff)
    then show ?thesis using True rest net by (simp add: buy_priced_def buy_out_def)
  next
    case False
    then obtain e where e: "calculate_effective_input n (lp_fee_bps (amm_pool s)) = Some e"
      and out: "calculate_swap_output (fst (reserves s)) (snd (reserves s)) e = Some (out_amount r)"
      and fee: "fee_amount r = (case checked_add t (saturating_sub n (ucast e)) of Some s \<Rightarrow> s | None \<Rightarrow> t)"
      using rest by auto
    have ev: "unat (lp_fee_bps (amm_pool s)) \<le> 10000"
        "unat e = lp_net (unat (lp_fee_bps (amm_pool s))) (net_of (unat (amm_buy_tax_bps s)) (unat a))"
      using e net by (simp_all add: effective_lp)
    show ?thesis
      using swap_output_curve [OF out] buy_fee_amount [OF t n e] ev net
      by (simp add: buy_priced_def buy_out_def fee)
  qed
  then show "buy_priced s a"
    and "unat (out_amount r) = buy_out (unat (fst (reserves s))) (unat (snd (reserves s)))
      (unat (lp_fee_bps (amm_pool s))) (unat (amm_buy_tax_bps s)) (unat a)"
    and "unat (fee_amount r) +
      lp_net (unat (lp_fee_bps (amm_pool s))) (net_of (unat (amm_buy_tax_bps s)) (unat a)) = unat a"
    by blast+
qed

lemma quote_sell_values:
  assumes "quote_sell s a = Ok r"
  shows "sell_priced s a" and "in_amount r = a" and "fee_mint r = amm_quote_mint s"
    and "fee_pct r = of_nat (unat (lp_fee_bps (amm_pool s)) + unat (amm_sell_tax_bps s)) / 10000"
    and "unat (out_amount r) = sell_out (unat (fst (reserves s))) (unat (snd (reserves s)))
           (unat (lp_fee_bps (amm_pool s))) (unat (amm_sell_tax_bps s)) (unat a)"
    and "unat (out_amount r) + unat (fee_amount r) =
           sell_gross (unat (fst (reserves s))) (unat (snd (reserves s))) (unat (lp_fee_bps (amm_pool s))) (unat a)"
proof -
  obtain g where g: "pool_price (lp_fee_bps (amm_pool s)) (snd (reserves s)) (fst (reserves s)) a = Some g"
    and net: "after_tax (amm_sell_tax_bps s) g = Some (out_amount r)"
    and tax: "calculate_tax g (amm_sell_tax_bps s) = Some (fee_amount r)"
    and shape: "in_amount r = a" "fee_mint r = amm_quote_mint s" "fee_pct r = total_sell_fee_pct s"
    using assms by (auto simp: quote_sell_steps)
  show "in_amount r = a" "fee_mint r = amm_quote_mint s"
    and "fee_pct r = of_nat (unat (lp_fee_bps (amm_pool s)) + unat (amm_sell_tax_bps s)) / 10000"
    using shape by (simp_all add: total_sell_fee_pct_def fee_fraction_value)
  have "unat (out_amount r) + unat (fee_amount r) = unat g"
    using net tax by (auto simp: after_tax_def bind_eq_Some_conv checked)
  then show "sell_priced s a"
    and "unat (out_amount r) = sell_out (unat (fst (reserves s))) (unat (snd (reserves s)))
           (unat (lp_fee_bps (amm_pool s))) (unat (amm_sell_tax_bps s)) (unat a)"
    and "unat (out_amount r) + unat (fee_amount r) =
           sell_gross (unat (fst (reserves s))) (unat (snd (reserves s))) (unat (lp_fee_bps (amm_pool s))) (unat a)"
    using g net
    by (simp_all add: pool_price_Some after_tax_Some sell_priced_def sell_out_def sell_gross_def)
qed

text \<open>Whether a quote succeeds depends on the rates and, for an empty pool, on the input.\<close>

lemma quote_buy_exists:
  assumes "buy_priced s a"
  shows "\<exists>r. quote_buy s a = Ok r"
proof -
  let ?fee = "lp_fee_bps (amm_pool s)" and ?tax = "amm_buy_tax_bps s"
  have "net_of (unat ?tax) (unat a) < 2 ^ 64"
    using net_of_le [of "unat ?tax" "unat a"] unat_u64 [of a] by linarith
  then obtain n :: u64 where n: "unat n = net_of (unat ?tax) (unat a)"
    using word_with_value [where 'a = 64, of "net_of (unat ?tax) (unat a)"] by auto
  then have "after_tax ?tax a = Some n" using assms by (simp add: after_tax_Some buy_priced_def Let_def)
  then obtain t where t: "calculate_tax a ?tax = Some t" "checked_sub a t = Some n"
    by (auto simp: after_tax_def bind_eq_Some_conv)
  show ?thesis
  proof (cases "n = 0")
    case True
    then show ?thesis using t by (simp add: quote_buy_def split_beta)
  next
    case False
    then have price: "unat ?fee \<le> 10000 \<and> 0 < unat (fst (reserves s)) + lp_net (unat ?fee) (unat n)"
      using assms n by (auto simp: buy_priced_def Let_def unat_eq_zero)
    have "curve_out (unat (fst (reserves s))) (unat (snd (reserves s))) (lp_net (unat ?fee) (unat n)) < 2 ^ 64"
      using curve_out_le unat_u64 [of "snd (reserves s)"] by (rule order_le_less_trans)
    then obtain out :: u64 where "pool_price ?fee (fst (reserves s)) (snd (reserves s)) n = Some out"
      using price word_with_value [where 'a = 64] by (auto simp: pool_price_Some)
    then obtain e where "calculate_effective_input n ?fee = Some e"
      and "calculate_swap_output (fst (reserves s)) (snd (reserves s)) e = Some out"
      by (auto simp: pool_price_def bind_eq_Some_conv)
    then show ?thesis using t False by (simp add: quote_buy_def split_beta)
  qed
qed

lemma quote_sell_exists:
  assumes "sell_priced s a"
  shows "\<exists>r. quote_sell s a = Ok r"
proof -
  let ?fee = "lp_fee_bps (amm_pool s)" and ?tax = "amm_sell_tax_bps s"
  have "curve_out (unat (snd (reserves s))) (unat (fst (reserves s))) (lp_net (unat ?fee) (unat a)) < 2 ^ 64"
    using curve_out_le unat_u64 [of "fst (reserves s)"] by (rule order_le_less_trans)
  then obtain g where g: "pool_price ?fee (snd (reserves s)) (fst (reserves s)) a = Some g"
    using assms word_with_value [where 'a = 64] by (auto simp: pool_price_Some sell_priced_def Let_def)
  have "net_of (unat ?tax) (unat g) < 2 ^ 64"
    using net_of_le [of "unat ?tax" "unat g"] unat_u64 [of g] by linarith
  then obtain n where n: "after_tax ?tax g = Some n"
    using assms word_with_value [where 'a = 64] by (auto simp: after_tax_Some sell_priced_def Let_def)
  then obtain t where "calculate_tax g ?tax = Some t" and "checked_sub g t = Some n"
    by (auto simp: after_tax_def bind_eq_Some_conv)
  then show ?thesis
    using g by (auto simp: quote_sell_def split_beta Let_def pool_price_def bind_eq_Some_conv)
qed

text \<open>Agreement with the reference pipelines, step by step.\<close>

lemma saturating_sub_checked: "checked_sub a b = Some c \<Longrightarrow> saturating_sub a b = c"
  by (auto simp: checked_sub_def saturating_sub_def split: if_splits)

lemma saturating_sub_zero [simp]: "saturating_sub 0 t = (0 :: u64)"
  by (simp add: word_unat_eq_iff unat_saturating_sub)

lemma net_of_zero [simp]: "net_of bps 0 = 0"
  by (simp add: net_of_def)

lemma buy_matches:
  "case quote_buy s a of
     Ok r \<Rightarrow> reference_buy_output (fst (reserves s)) (snd (reserves s)) a
               (amm_buy_tax_bps s) (lp_fee_bps (amm_pool s)) = Ok (out_amount r)
   | _ \<Rightarrow> reference_buy_output (fst (reserves s)) (snd (reserves s)) a
               (amm_buy_tax_bps s) (lp_fee_bps (amm_pool s)) \<in> {Panic, Ok 0}"
proof (cases "a = 0")
  case True
  show ?thesis
  proof (cases "quote_buy s a")
    case (Ok r)
    then have "unat (out_amount r) = 0"
      using quote_buy_values(5) [OF Ok] True by (simp add: buy_out_def)
    then show ?thesis using Ok True by (simp add: reference_buy_output_def unat_eq_zero)
  qed (use True in \<open>simp_all add: reference_buy_output_def\<close>)
next
  case False
  show ?thesis
  proof (cases "calculate_tax a (amm_buy_tax_bps s)")
    case None
    then show ?thesis
      using False by (simp add: quote_buy_def reference_buy_output_def split_beta)
  next
    case (Some t)
    then obtain n where "checked_sub a t = Some n"
      using tax_le [OF Some] by (cases "checked_sub a t") (simp_all add: checked)
    note steps = this False Some
    show ?thesis
    proof (cases "calculate_effective_input n (lp_fee_bps (amm_pool s))")
      case None
      then show ?thesis
        using steps by (simp add: quote_buy_def reference_buy_output_def split_beta)
    next
      case (Some e)
      then show ?thesis
        using steps
        by (cases "calculate_swap_output (fst (reserves s)) (snd (reserves s)) e")
           (simp_all add: quote_buy_def reference_buy_output_def split_beta Let_def)
    qed
  qed
qed

lemma sell_matches:
  "case quote_sell s a of
     Ok r \<Rightarrow> reference_sell_output (fst (reserves s)) (snd (reserves s)) a
               (amm_sell_tax_bps s) (lp_fee_bps (amm_pool s)) = Ok (out_amount r)
   | _ \<Rightarrow> reference_sell_output (fst (reserves s)) (snd (reserves s)) a
               (amm_sell_tax_bps s) (lp_fee_bps (amm_pool s)) \<in> {Panic, Ok 0}"
proof (cases "a = 0")
  case True
  show ?thesis
  proof (cases "quote_sell s a")
    case (Ok r)
    then have "unat (out_amount r) = 0"
      using quote_sell_values(5) [OF Ok] True by (simp add: sell_out_def sell_gross_def)
    then show ?thesis using Ok True by (simp add: reference_sell_output_def unat_eq_zero)
  qed (use True in \<open>simp_all add: reference_sell_output_def\<close>)
next
  case False
  show ?thesis
  proof (cases "calculate_effective_input a (lp_fee_bps (amm_pool s))")
    case None
    then show ?thesis
      using False by (simp add: quote_sell_def reference_sell_output_def split_beta)
  next
    case (Some e)
    show ?thesis
    proof (cases "calculate_swap_output (snd (reserves s)) (fst (reserves s)) e")
      case None
      then show ?thesis
        using False Some
        by (cases "calculate_tax 0 (amm_sell_tax_bps s)")
           (simp_all add: quote_sell_def reference_sell_output_def split_beta Let_def)
    next
      case g: (Some g)
      show ?thesis
      proof (cases "calculate_tax g (amm_sell_tax_bps s)")
        case None
        then show ?thesis
          using False Some g by (simp add: quote_sell_def reference_sell_output_def split_beta Let_def)
      next
        case t: (Some t)
        then obtain n where "checked_sub g t = Some n"
          using tax_le [OF t] by (cases "checked_sub g t") (simp_all add: checked)
        then show ?thesis
          using False Some g t saturating_sub_checked [of g t n]
          by (simp add: quote_sell_def reference_sell_output_def split_beta Let_def)
      qed
    qed
  qed
qed

section \<open>Monotonicity and liquidity\<close>

lemma quote_buy_mono:
  assumes "quote_buy s a = Ok r" and "quote_buy s b = Ok r'" and le: "a \<le> b"
  shows "out_amount r \<le> out_amount r'"
proof -
  let ?price = "pool_price (lp_fee_bps (amm_pool s)) (fst (reserves s)) (snd (reserves s))"
  have stages: "\<exists>n. after_tax (amm_buy_tax_bps s) x = Some n \<and>
      (if n = 0 then out_amount q = 0 else ?price n = Some (out_amount q))"
    if q: "quote_buy s x = Ok q" for x q
  proof -
    obtain t n where n: "after_tax (amm_buy_tax_bps s) x = Some n"
      and rest: "if n = 0 then out_amount q = 0 \<and> fee_amount q = t
       else \<exists>e. calculate_effective_input n (lp_fee_bps (amm_pool s)) = Some e \<and>
         calculate_swap_output (fst (reserves s)) (snd (reserves s)) e = Some (out_amount q) \<and>
         fee_amount q = (case checked_add t (saturating_sub n (ucast e)) of Some s \<Rightarrow> s | None \<Rightarrow> t)"
      using q unfolding quote_buy_steps by (auto simp: after_tax_def)
    then have "if n = 0 then out_amount q = 0 else ?price n = Some (out_amount q)"
      by (cases "n = 0") (auto simp: pool_price_def)
    with n show ?thesis by blast
  qed
  obtain n n' where n: "after_tax (amm_buy_tax_bps s) a = Some n" "after_tax (amm_buy_tax_bps s) b = Some n'"
    and out: "if n = 0 then out_amount r = 0 else ?price n = Some (out_amount r)"
      "if n' = 0 then out_amount r' = 0 else ?price n' = Some (out_amount r')"
    using stages [OF assms(1)] stages [OF assms(2)] by blast
  have "n \<le> n'" using n le by (rule tax_stage.mono)
  show ?thesis
  proof (cases "n = 0")
    case False
    then have "n' \<noteq> 0" using \<open>n \<le> n'\<close> by auto
    then show ?thesis
      using out False tax_then_price.chain.mono [OF _ _ le, where bps = "amm_buy_tax_bps s"] n by simp
  qed (use out in simp)
qed

lemma quote_sell_mono:
  assumes "quote_sell s a = Ok r" and "quote_sell s b = Ok r'" and le: "a \<le> b"
  shows "out_amount r \<le> out_amount r'"
proof -
  have stages: "Option.bind (pool_price (lp_fee_bps (amm_pool s)) (snd (reserves s)) (fst (reserves s)) x)
      (after_tax (amm_sell_tax_bps s)) = Some (out_amount q)"
    if "quote_sell s x = Ok q" for x q
    using that by (auto simp: quote_sell_steps)
  show ?thesis
    by (rule price_then_tax.chain.mono [OF stages [OF assms(1)] stages [OF assms(2)] le])
qed

definition pool_liquidity :: "sol_pool_amm \<Rightarrow> pubkey \<Rightarrow> nat" where
  "pool_liquidity s mint = (if mint = amm_quote_mint s then unat (fst (reserves s)) else unat (snd (reserves s)))"

lemma quote_buy_liquid: "quote_buy s a = Ok r \<Longrightarrow> unat (out_amount r) \<le> unat (snd (reserves s))"
  by (simp add: quote_buy_values(5) buy_out_def curve_out_le)

lemma quote_sell_liquid: "quote_sell s a = Ok r \<Longrightarrow> unat (out_amount r) \<le> unat (fst (reserves s))"
  using order_trans [OF net_of_le curve_out_le] by (simp add: quote_sell_values(5) sell_out_def sell_gross_def)

section \<open>Properties of the prices\<close>

text \<open>C7: The price of a buy.  \<open>quote_buy\<close> fails exactly when the tax rate exceeds 10000 basis points,
  or something is left after tax and the LP fee does or the quote reserve and the post-fee input are
  both zero.  Otherwise the output is the curve's for the input less tax less LP fee; the reported fee
  and the input that reaches the curve add up to the whole input; the fee is in the quote mint and
  its rate is the two rates' sum.\<close>

theorem quote_buy_spec:
  "case quote_buy s a of
     Ok r \<Rightarrow> buy_priced s a \<and> in_amount r = a \<and> fee_mint r = amm_quote_mint s \<and>
       unat (out_amount r) = buy_out (unat (fst (reserves s))) (unat (snd (reserves s)))
         (unat (lp_fee_bps (amm_pool s))) (unat (amm_buy_tax_bps s)) (unat a) \<and>
       unat (fee_amount r) +
         lp_net (unat (lp_fee_bps (amm_pool s))) (net_of (unat (amm_buy_tax_bps s)) (unat a)) = unat a \<and>
       fee_pct r = of_nat (unat (lp_fee_bps (amm_pool s)) + unat (amm_buy_tax_bps s)) / 10000
   | Err e \<Rightarrow> \<not> buy_priced s a
   | Panic \<Rightarrow> False"
proof (cases "quote_buy s a")
  case (Ok r)
  then show ?thesis using quote_buy_values [OF Ok] by simp
next
  case (Err e)
  then show ?thesis using quote_buy_exists [of s a] by auto
qed simp

text \<open>C8: The price of a sell.  \<open>quote_sell\<close> fails exactly when one of the two rates exceeds 10000 basis
  points or the faction reserve and the post-fee input are both zero.  Otherwise the curve's gross
  output splits into the net output and the reported fee, the net being the gross less tax.\<close>

theorem quote_sell_spec:
  "case quote_sell s a of
     Ok r \<Rightarrow> sell_priced s a \<and> in_amount r = a \<and> fee_mint r = amm_quote_mint s \<and>
       unat (out_amount r) = sell_out (unat (fst (reserves s))) (unat (snd (reserves s)))
         (unat (lp_fee_bps (amm_pool s))) (unat (amm_sell_tax_bps s)) (unat a) \<and>
       unat (out_amount r) + unat (fee_amount r) =
         sell_gross (unat (fst (reserves s))) (unat (snd (reserves s))) (unat (lp_fee_bps (amm_pool s))) (unat a) \<and>
       fee_pct r = of_nat (unat (lp_fee_bps (amm_pool s)) + unat (amm_sell_tax_bps s)) / 10000
   | Err e \<Rightarrow> \<not> sell_priced s a
   | Panic \<Rightarrow> False"
proof (cases "quote_sell s a")
  case (Ok r)
  then show ?thesis using quote_sell_values [OF Ok] by simp
next
  case (Err e)
  then show ?thesis using quote_sell_exists [of s a] by auto
qed simp

text \<open>C9: The quotes equal the reference pipelines of the test-suite.  Whenever a quote succeeds, the
  reference function, on the instance's reserves and rates, returns the same output without a panic;
  and whenever a quote fails, the reference panics or returns zero.\<close>

theorem quotes_match_reference:
  "(case quote_buy s a of
      Ok r \<Rightarrow> reference_buy_output (fst (reserves s)) (snd (reserves s)) a
                (amm_buy_tax_bps s) (lp_fee_bps (amm_pool s)) = Ok (out_amount r)
    | _ \<Rightarrow> reference_buy_output (fst (reserves s)) (snd (reserves s)) a
                (amm_buy_tax_bps s) (lp_fee_bps (amm_pool s)) \<in> {Panic, Ok 0}) \<and>
   (case quote_sell s a of
      Ok r \<Rightarrow> reference_sell_output (fst (reserves s)) (snd (reserves s)) a
                (amm_sell_tax_bps s) (lp_fee_bps (amm_pool s)) = Ok (out_amount r)
    | _ \<Rightarrow> reference_sell_output (fst (reserves s)) (snd (reserves s)) a
                (amm_sell_tax_bps s) (lp_fee_bps (amm_pool s)) \<in> {Panic, Ok 0})"
  using buy_matches sell_matches by (rule conjI)

lemma strict_liquidity:
  assumes "0 < fst (reserves s)" and "0 < snd (reserves s)"
  shows "quote_buy s a = Ok r \<Longrightarrow> out_amount r < snd (reserves s)"
    and "quote_sell s a = Ok r \<Longrightarrow> out_amount r < fst (reserves s)"
proof -
  have pos: "0 < unat (fst (reserves s))" "0 < unat (snd (reserves s))"
    using assms by (simp_all add: word_less_nat_alt)
  then show "quote_buy s a = Ok r \<Longrightarrow> out_amount r < snd (reserves s)"
    by (simp add: word_less_nat_alt quote_buy_values(5) buy_out_def curve_out_less)
  have "net_of bps (curve_out (unat (snd (reserves s))) (unat (fst (reserves s))) e) < unat (fst (reserves s))" for bps e
    using net_of_le curve_out_less [OF pos(2,1)] by (rule order_le_less_trans)
  then show "quote_sell s a = Ok r \<Longrightarrow> out_amount r < fst (reserves s)"
    by (simp add: word_less_nat_alt quote_sell_values(5) sell_out_def sell_gross_def)
qed

text \<open>C10: More in never means less out.  For each direction, of two amounts that both have a quote
  from the same state, the larger has the output at least as large; and no quote reaches above the
  reserve it is paid from, nor reaches it when both reserves are nonzero.\<close>

theorem quotes_monotone_and_bounded:
  assumes "(if is_buy then quote_buy else quote_sell) s a = Ok r"
    and "(if is_buy then quote_buy else quote_sell) s b = Ok r'" and "a \<le> b"
  shows "out_amount r \<le> out_amount r' \<and>
    (let reserve = (if is_buy then snd (reserves s) else fst (reserves s)) in
     out_amount r' \<le> reserve \<and>
     (0 < fst (reserves s) \<longrightarrow> 0 < snd (reserves s) \<longrightarrow> out_amount r' < reserve))"
proof (cases is_buy)
  case True
  then show ?thesis
    using assms quote_buy_mono [of s a r b r'] quote_buy_liquid [of s b r'] strict_liquidity(1) [of s b r']
    by (simp add: word_le_nat_alt [of "out_amount r'"])
next
  case False
  then show ?thesis
    using assms quote_sell_mono [of s a r b r'] quote_sell_liquid [of s b r'] strict_liquidity(2) [of s b r']
    by (simp add: word_le_nat_alt [of "out_amount r'"])
qed

text \<open>A concrete instance for the witnesses: a CRIME pool with 1000 and 5000 units.\<close>

definition test_amm :: sol_pool_amm where
  "test_amm = (case pool_new_for_testing True 1000 5000 400 1400 0 of Ok s \<Rightarrow> s | _ \<Rightarrow> undefined)"

lemma test_amm_eq:
  "amm_pool test_amm = (snd (known_pool_state True))\<lparr>reserve_a := 1000, reserve_b := 5000\<rparr>"
  "amm_buy_tax_bps test_amm = 400" "amm_sell_tax_bps test_amm = 1400"
  "amm_quote_mint test_amm = NATIVE_MINT" "amm_faction_mint test_amm = CRIME_MINT"
  by (simp_all add: test_amm_def new_for_testing_Ok)

lemma test_amm_reserves: "reserves test_amm = (1000, 5000)" "lp_fee_bps (amm_pool test_amm) = 100"
  by (simp_all add: reserves_def test_amm_eq known_pool_state_def pool_addresses_def LP_FEE_BPS_def)

lemma test_amm_buys:
  "\<exists>r. quote_buy test_amm 100 = Ok r \<and> unat (out_amount r) = 433"
  "\<exists>r. quote_buy test_amm 200 = Ok r \<and> unat (out_amount r) = 798"
proof -
  have "buy_priced test_amm a" for a
    by (simp add: buy_priced_def test_amm_eq(2) test_amm_reserves Let_def)
  then obtain r1 r2 where r: "quote_buy test_amm 100 = Ok r1" "quote_buy test_amm 200 = Ok r2"
    using quote_buy_exists by blast
  show "\<exists>r. quote_buy test_amm 100 = Ok r \<and> unat (out_amount r) = 433"
    and "\<exists>r. quote_buy test_amm 200 = Ok r \<and> unat (out_amount r) = 798"
    using quote_buy_values(5) [OF r(1)] quote_buy_values(5) [OF r(2)] r
    by (simp_all add: test_amm_eq(2) test_amm_reserves buy_out_def lp_net_def net_of_def curve_out_def)
qed

theorem quotes_monotone_and_bounded_witness:
  "\<exists>r r'. quote_buy test_amm 100 = Ok r \<and> quote_buy test_amm 200 = Ok r' \<and>
     out_amount r \<le> out_amount r' \<and> out_amount r' < 5000"
proof -
  obtain r r' where r: "quote_buy test_amm 100 = Ok r" "quote_buy test_amm 200 = Ok r'"
    using test_amm_buys by blast
  show ?thesis
    using quotes_monotone_and_bounded [of True test_amm 100 r 200 r'] r by (simp add: test_amm_reserves Let_def)
qed

end
