(* ===== verification/Price_Accuracy.thy ===== *)
theory Price_Accuracy
  imports Sol_Pool_Quotes
begin

text \<open>
  How far the integer prices of \<open>SolPoolAmm\<close> are from the exact ones.  The code rounds at the tax, at
  the LP fee and at the curve; here the same pipeline is taken in rational numbers, without
  rounding, and the quotes are shown to stay within one unit and one unit of input at the pool's
  best rate of it.  The reported fee and fee rate are compared in the same way.
\<close>

section \<open>Exact prices\<close>

abbreviation rat_of :: "nat \<Rightarrow> rat" where "rat_of \<equiv> of_nat"

text \<open>The part of an amount that a rate of \<open>bps\<close> basis points leaves.\<close>

definition kept :: "nat \<Rightarrow> rat" where "kept bps = 1 - rat_of bps / 10000"

definition exact_curve :: "rat \<Rightarrow> rat \<Rightarrow> rat \<Rightarrow> rat" where
  "exact_curve r_in r_out x = r_out * x / (r_in + x)"

definition exact_buy :: "nat \<Rightarrow> nat \<Rightarrow> nat \<Rightarrow> nat \<Rightarrow> nat \<Rightarrow> rat" where
  "exact_buy r_quote r_faction fee tax a =
     exact_curve (rat_of r_quote) (rat_of r_faction) (rat_of a * kept tax * kept fee)"

definition exact_sell :: "nat \<Rightarrow> nat \<Rightarrow> nat \<Rightarrow> nat \<Rightarrow> nat \<Rightarrow> rat" where
  "exact_sell r_quote r_faction fee tax a =
     exact_curve (rat_of r_faction) (rat_of r_quote) (rat_of a * kept fee) * kept tax"

section \<open>One rounding at a time\<close>

lemma word_rat_nonneg [simp]: "0 \<le> (unsigned (w :: 'a::len word) :: rat)"
  by (metis of_nat_0_le_iff of_nat_unat)

text \<open>A quotient of natural numbers is the exact one, less than a unit too small.\<close>

lemma div_exact:
  assumes "0 < d"
  shows "rat_of (n div d) \<le> rat_of n / rat_of d" and "rat_of n / rat_of d < rat_of (n div d) + 1"
proof -
  have "\<lfloor>rat_of n / rat_of d\<rfloor> = int (n div d)" by (rule floor_divide_of_nat_eq)
  then show "rat_of (n div d) \<le> rat_of n / rat_of d" and "rat_of n / rat_of d < rat_of (n div d) + 1"
    using floor_correct [of "rat_of n / rat_of d"] by simp_all
qed

lemma kept_bounds: "bps \<le> 10000 \<Longrightarrow> 0 \<le> kept bps" "kept bps \<le> 1"
  by (simp_all add: kept_def)

lemma lp_net_exact:
  assumes "fee \<le> 10000"
  shows "rat_of (lp_net fee a) \<le> rat_of a * kept fee" and "rat_of a * kept fee < rat_of (lp_net fee a) + 1"
  using div_exact [of 10000 "a * (10000 - fee)"] assms
  by (simp_all add: lp_net_def kept_def of_nat_diff field_simps)

text \<open>The tax is rounded down, so what it leaves is rounded up.\<close>

lemma net_of_exact:
  assumes "tax \<le> 10000"
  shows "rat_of a * kept tax \<le> rat_of (net_of tax a)" and "rat_of (net_of tax a) < rat_of a * kept tax + 1"
proof -
  have "a * tax div 10000 \<le> a" using assms div_le_mono [of "a * tax" "a * 10000" 10000] by simp
  then have "rat_of (net_of tax a) = rat_of a - rat_of (a * tax div 10000)"
    by (simp add: net_of_def of_nat_diff)
  then show "rat_of a * kept tax \<le> rat_of (net_of tax a)" and "rat_of (net_of tax a) < rat_of a * kept tax + 1"
    using div_exact [of 10000 "a * tax"] by (simp_all add: kept_def field_simps)
qed

lemma curve_out_exact:
  assumes "0 < r_in"
  shows "rat_of (curve_out r_in r_out e) \<le> exact_curve (rat_of r_in) (rat_of r_out) (rat_of e)"
    and "exact_curve (rat_of r_in) (rat_of r_out) (rat_of e) < rat_of (curve_out r_in r_out e) + 1"
  using div_exact [of "r_in + e" "r_out * e"] assms by (simp_all add: curve_out_def exact_curve_def)

section \<open>What a unit of input is worth\<close>

text \<open>The curve is steepest at zero, where a unit of input is worth \<open>r_out / r_in\<close>.\<close>

lemma exact_curve_slope:
  assumes "0 < r_in" and "0 \<le> r_out" and "0 \<le> x" and "x \<le> y"
  shows "exact_curve r_in r_out x \<le> exact_curve r_in r_out y"
    and "exact_curve r_in r_out y \<le> exact_curve r_in r_out x + r_out / r_in * (y - x)"
proof -
  have pos: "0 < r_in + x" "0 < r_in + y" using assms by simp_all
  have gap: "exact_curve r_in r_out y - exact_curve r_in r_out x =
      r_out / r_in * (y - x) * (r_in / (r_in + x) * (r_in / (r_in + y)))"
    using pos assms(1) by (simp add: exact_curve_def divide_simps) (simp add: algebra_simps)
  have part: "0 \<le> r_in / (r_in + x) * (r_in / (r_in + y))" "r_in / (r_in + x) * (r_in / (r_in + y)) \<le> 1"
  proof -
    have unit: "0 \<le> r_in / (r_in + z)" "r_in / (r_in + z) \<le> 1" if "0 \<le> z" for z
      using that assms(1) by (simp_all add: divide_simps)
    have "0 \<le> y" using assms(3,4) by simp
    then show "0 \<le> r_in / (r_in + x) * (r_in / (r_in + y))" "r_in / (r_in + x) * (r_in / (r_in + y)) \<le> 1"
      using assms(3) unit by (blast intro: mult_nonneg_nonneg mult_le_one)+
  qed
  have worth: "0 \<le> r_out / r_in * (y - x)" using assms by simp
  show "exact_curve r_in r_out x \<le> exact_curve r_in r_out y"
    using gap mult_nonneg_nonneg [OF worth part(1)] by linarith
  show "exact_curve r_in r_out y \<le> exact_curve r_in r_out x + r_out / r_in * (y - x)"
    using gap mult_left_mono [OF part(2) worth] by simp
qed

text \<open>So inputs less than a unit apart are worth less than that much apart, or exactly the same.\<close>

lemma exact_curve_near:
  assumes "0 < r_in" and "0 < r_out" and "0 \<le> x" and "0 \<le> y" and "y < x + 1"
  shows "exact_curve r_in r_out y < exact_curve r_in r_out x + r_out / r_in"
proof (cases "x \<le> y")
  case True
  have "r_out / r_in * (y - x) < r_out / r_in * 1"
    using assms by (intro mult_strict_left_mono) auto
  then show ?thesis using exact_curve_slope(2) [of r_in r_out x y] True assms by simp
next
  case False
  have "0 < r_out / r_in" using assms by simp
  moreover have "exact_curve r_in r_out y \<le> exact_curve r_in r_out x"
    using exact_curve_slope(1) [of r_in r_out y x] False assms by simp
  ultimately show ?thesis by linarith
qed

section \<open>Properties\<close>

text \<open>What reaches the curve of a buy is within a unit of the exact amount, either way.\<close>

lemma net_zero_exact:
  assumes "tax \<le> 10000" and "net_of tax a = 0"
  shows "rat_of a * kept tax * k = 0"
proof -
  have "0 \<le> rat_of a * kept tax" using kept_bounds(1) [OF assms(1)] by simp
  then have "rat_of a * kept tax = 0" using net_of_exact(1) [OF assms(1), of a] assms(2) by simp
  then show ?thesis by simp
qed

lemma buy_input_exact:
  assumes "tax \<le> 10000" and "fee \<le> 10000 \<or> net_of tax a = 0"
  shows "rat_of (lp_net fee (net_of tax a)) < rat_of a * kept tax * kept fee + 1"
    and "rat_of a * kept tax * kept fee < rat_of (lp_net fee (net_of tax a)) + 1"
proof -
  let ?n = "rat_of (net_of tax a)"
  have n: "rat_of a * kept tax \<le> ?n" "?n < rat_of a * kept tax + 1" using net_of_exact [OF assms(1)] .
  have "rat_of (lp_net fee (net_of tax a)) < rat_of a * kept tax * kept fee + 1 \<and>
    rat_of a * kept tax * kept fee < rat_of (lp_net fee (net_of tax a)) + 1"
  proof (cases "fee \<le> 10000")
    case True
    have k: "0 \<le> kept fee" "kept fee \<le> 1" using kept_bounds True by simp_all
    have e: "rat_of (lp_net fee (net_of tax a)) \<le> ?n * kept fee" "?n * kept fee < rat_of (lp_net fee (net_of tax a)) + 1"
      using lp_net_exact [OF True] .
    have "?n * kept fee - rat_of a * kept tax * kept fee < 1"
    proof (cases "kept fee = 0")
      case False
      then have "(?n - rat_of a * kept tax) * kept fee < 1 * kept fee"
        using n k by (intro mult_strict_right_mono) auto
      then show ?thesis using k by (simp add: left_diff_distrib)
    qed simp
    moreover have "rat_of a * kept tax * kept fee \<le> ?n * kept fee"
      using n(1) k(1) by (rule mult_right_mono)
    ultimately show ?thesis using e by linarith
  next
    case False
    then have z: "net_of tax a = 0" using assms(2) by simp
    show ?thesis unfolding net_zero_exact [OF assms(1) z] z by simp
  qed
  then show "rat_of (lp_net fee (net_of tax a)) < rat_of a * kept tax * kept fee + 1"
    and "rat_of a * kept tax * kept fee < rat_of (lp_net fee (net_of tax a)) + 1" by blast+
qed

lemma buy_exact:
  assumes "0 < r_quote" and "0 < r_faction" and "tax \<le> 10000" and "fee \<le> 10000 \<or> net_of tax a = 0"
  shows "\<bar>rat_of (buy_out r_quote r_faction fee tax a) - exact_buy r_quote r_faction fee tax a\<bar>
    < 1 + rat_of r_faction / rat_of r_quote"
proof -
  let ?e = "lp_net fee (net_of tax a)" and ?x = "rat_of a * kept tax * kept fee"
  let ?curve = "exact_curve (rat_of r_quote) (rat_of r_faction)"
  have x: "0 \<le> ?x"
  proof (cases "fee \<le> 10000")
    case False
    then have "net_of tax a = 0" using assms(4) by simp
    then have zero: "?x = 0" by (rule net_zero_exact [OF assms(3)])
    show ?thesis unfolding zero by (rule order_refl)
  qed (use kept_bounds assms(3) in simp)
  have "?curve (rat_of ?e) < ?curve ?x + rat_of r_faction / rat_of r_quote"
    and "?curve ?x < ?curve (rat_of ?e) + rat_of r_faction / rat_of r_quote"
    using exact_curve_near [of "rat_of r_quote" "rat_of r_faction"] assms(1,2) x
      buy_input_exact [OF assms(3,4)] by simp_all
  then show ?thesis
    using curve_out_exact [OF assms(1), of r_faction ?e] unfolding buy_out_def exact_buy_def by linarith
qed

lemma sell_exact:
  assumes "0 < r_quote" and "0 < r_faction" and "tax \<le> 10000" and "fee \<le> 10000"
  shows "\<bar>rat_of (sell_out r_quote r_faction fee tax a) - exact_sell r_quote r_faction fee tax a\<bar>
    < 1 + rat_of r_quote / rat_of r_faction"
proof -
  let ?e = "lp_net fee a" and ?x = "rat_of a * kept fee"
  let ?curve = "exact_curve (rat_of r_faction) (rat_of r_quote)" and ?g = "sell_gross r_quote r_faction fee a"
  have x: "0 \<le> ?x" using kept_bounds assms(4) by simp
  have k: "0 \<le> kept tax" "kept tax \<le> 1" using kept_bounds assms(3) by simp_all
  have worth: "0 < rat_of r_quote / rat_of r_faction" using assms by simp
  have "?curve ?x < ?curve (rat_of ?e) + rat_of r_quote / rat_of r_faction"
    using exact_curve_near [of "rat_of r_faction" "rat_of r_quote"] assms(1,2) x
      lp_net_exact(2) [OF assms(4), of a] by simp
  moreover have "?curve (rat_of ?e) \<le> ?curve ?x"
    using exact_curve_slope(1) [of "rat_of r_faction" "rat_of r_quote"] assms(1,2)
      lp_net_exact(1) [OF assms(4), of a] by simp
  ultimately have gross: "rat_of ?g \<le> ?curve ?x" "?curve ?x < rat_of ?g + (1 + rat_of r_quote / rat_of r_faction)"
    using curve_out_exact [OF assms(2), of r_quote ?e] unfolding sell_gross_def by linarith+
  have "rat_of ?g * kept tax \<le> ?curve ?x * kept tax" using gross(1) k(1) by (rule mult_right_mono)
  moreover have "?curve ?x * kept tax < rat_of ?g * kept tax + (1 + rat_of r_quote / rat_of r_faction)"
  proof -
    have "?curve ?x * kept tax - rat_of ?g * kept tax \<le> (?curve ?x - rat_of ?g) * 1"
      using gross(1) k by (simp only: left_diff_distrib [symmetric]) (rule mult_left_mono, simp_all)
    then show ?thesis using gross(2) by simp
  qed
  ultimately show ?thesis
    using net_of_exact [OF assms(3), of ?g] worth unfolding sell_out_def exact_sell_def by linarith
qed

text \<open>C14: Rounding is worth next to nothing.  The code rounds at the tax, at the LP fee and at the curve,
  sometimes for the pool and sometimes for the user.  Still, when both reserves are nonzero, no quote
  of either direction differs from the exact rational price of the same amount by as much as one unit
  plus the price of one unit of input in the pool as it stands.\<close>

theorem quotes_accurate:
  assumes "(if is_buy then quote_buy else quote_sell) s a = Ok r"
    and "0 < fst (reserves s)" and "0 < snd (reserves s)"
  shows "let r_quote = unat (fst (reserves s)); r_faction = unat (snd (reserves s)); fee = unat (lp_fee_bps (amm_pool s));
      (exact, unit) =
        (if is_buy
         then (exact_buy r_quote r_faction fee (unat (amm_buy_tax_bps s)) (unat a), rat_of r_faction / rat_of r_quote)
         else (exact_sell r_quote r_faction fee (unat (amm_sell_tax_bps s)) (unat a), rat_of r_quote / rat_of r_faction))
    in \<bar>rat_of (unat (out_amount r)) - exact\<bar> < 1 + unit"
proof -
  have pos: "0 < unat (fst (reserves s))" "0 < unat (snd (reserves s))"
    using assms(2,3) by (simp_all add: word_less_nat_alt)
  show ?thesis
  proof (cases is_buy)
    case True
    then have buy: "quote_buy s a = Ok r" using assms(1) by simp
    show ?thesis
      using buy_exact [OF pos, of "unat (amm_buy_tax_bps s)" "unat (lp_fee_bps (amm_pool s))" "unat a"]
        quote_buy_values(1,5) [OF buy] True by (auto simp: buy_priced_def Let_def)
  next
    case False
    then have sell: "quote_sell s a = Ok r" using assms(1) by simp
    show ?thesis
      using sell_exact [OF pos, of "unat (amm_sell_tax_bps s)" "unat (lp_fee_bps (amm_pool s))" "unat a"]
        quote_sell_values(1,5) [OF sell] False by (auto simp: sell_priced_def Let_def)
  qed
qed

theorem quotes_accurate_witness:
  "\<exists>r. quote_buy test_amm 100 = Ok r \<and> \<bar>rat_of (unat (out_amount r)) - exact_buy 1000 5000 100 400 100\<bar> < 6"
proof -
  obtain r where r: "quote_buy test_amm 100 = Ok r" using test_amm_buys by blast
  then show ?thesis
    using quotes_accurate [of True test_amm 100 r] by (simp add: test_amm_reserves test_amm_eq(2) Let_def)
qed

text \<open>The fee amount of a buy, in the input's mint, is what does not reach the curve.\<close>

lemma buy_fee_exact:
  assumes buy: "quote_buy s a = Ok r"
  shows "rat_of (unat (fee_amount r)) < fee_pct r * rat_of (unat a) + 1"
    and "fee_pct r * rat_of (unat a) < rat_of (unat (fee_amount r)) + 1 +
      rat_of (unat a) * (rat_of (unat (lp_fee_bps (amm_pool s))) / 10000) * (rat_of (unat (amm_buy_tax_bps s)) / 10000)"
proof -
  let ?fee = "unat (lp_fee_bps (amm_pool s))" and ?tax = "unat (amm_buy_tax_bps s)"
  have priced: "?tax \<le> 10000" "?fee \<le> 10000 \<or> net_of ?tax (unat a) = 0"
    using quote_buy_values(1) [OF buy] by (auto simp: buy_priced_def Let_def)
  have amount: "rat_of (unat (fee_amount r)) + rat_of (lp_net ?fee (net_of ?tax (unat a))) = rat_of (unat a)"
    using quote_buy_values(6) [OF buy] by (metis of_nat_add)
  have split: "rat_of (unat a) - rat_of (unat a) * kept ?tax * kept ?fee =
      fee_pct r * rat_of (unat a) - rat_of (unat a) * (rat_of ?fee / 10000) * (rat_of ?tax / 10000)"
    by (simp add: quote_buy_values(4) [OF buy] kept_def field_simps)
  have extra: "0 \<le> rat_of (unat a) * (rat_of ?fee / 10000) * (rat_of ?tax / 10000)" by simp
  show "rat_of (unat (fee_amount r)) < fee_pct r * rat_of (unat a) + 1"
    using buy_input_exact(2) [OF priced] amount split extra by linarith
  show "fee_pct r * rat_of (unat a) < rat_of (unat (fee_amount r)) + 1 +
      rat_of (unat a) * (rat_of ?fee / 10000) * (rat_of ?tax / 10000)"
    using buy_input_exact(1) [OF priced] amount split by linarith
qed

text \<open>That of a sell is the tax on what the curve gives.\<close>

lemma sell_fee_exact:
  assumes sell: "quote_sell s a = Ok r"
  defines "gross \<equiv> rat_of (unat (out_amount r) + unat (fee_amount r))"
    and "tax \<equiv> rat_of (unat (amm_sell_tax_bps s)) / 10000"
  shows "rat_of (unat (fee_amount r)) \<le> tax * gross" and "tax * gross < rat_of (unat (fee_amount r)) + 1"
    and "rat_of (unat (fee_amount r)) \<le> fee_pct r * gross"
proof -
  let ?tax = "unat (amm_sell_tax_bps s)" and ?gross = "unat (out_amount r) + unat (fee_amount r)"
  have bound: "?tax \<le> 10000" using quote_sell_values(1) [OF sell] by (simp add: sell_priced_def)
  have "unat (out_amount r) = net_of ?tax ?gross"
    using quote_sell_values(5,6) [OF sell] by (simp add: sell_out_def)
  then have split: "rat_of (unat (fee_amount r)) + rat_of (net_of ?tax ?gross) = gross"
    unfolding gross_def by (metis add.commute of_nat_add)
  have kept: "gross * kept ?tax = gross - tax * gross"
    by (simp add: kept_def tax_def algebra_simps)
  note net = net_of_exact [OF bound, of ?gross, folded gross_def]
  show le: "rat_of (unat (fee_amount r)) \<le> tax * gross" and "tax * gross < rat_of (unat (fee_amount r)) + 1"
    using net split kept by linarith+
  have "tax \<le> fee_pct r" by (simp add: quote_sell_values(4) [OF sell] tax_def)
  then have "tax * gross \<le> fee_pct r * gross"
    by (rule mult_right_mono) (simp add: gross_def)
  then show "rat_of (unat (fee_amount r)) \<le> fee_pct r * gross" using le by simp
qed

text \<open>C27: What the reported fees mean.  For a buy, the fee rate times the input is less than a unit below
  the fee amount, and exceeds it by no more than the LP fee on the tax, the product of
  the two rates, and a unit: the two fees are charged one after the other, but their rates are
  added.  For a sell, the fee amount is the tax on the curve's gross output, less than a unit short,
  and leaves out the LP fee, so the fee rate times the gross output is never below it.\<close>

theorem fees_accurate:
  "(quote_buy s a = Ok r \<longrightarrow>
      rat_of (unat (fee_amount r)) < fee_pct r * rat_of (unat a) + 1 \<and>
      fee_pct r * rat_of (unat a) < rat_of (unat (fee_amount r)) + 1 +
        rat_of (unat a) * (rat_of (unat (lp_fee_bps (amm_pool s))) / 10000) * (rat_of (unat (amm_buy_tax_bps s)) / 10000)) \<and>
   (quote_sell s a = Ok r \<longrightarrow>
      (let gross = rat_of (unat (out_amount r) + unat (fee_amount r)); tax = rat_of (unat (amm_sell_tax_bps s)) / 10000
       in rat_of (unat (fee_amount r)) \<le> tax * gross \<and> tax * gross < rat_of (unat (fee_amount r)) + 1 \<and>
          rat_of (unat (fee_amount r)) \<le> fee_pct r * gross))"
  using buy_fee_exact [of s a r] sell_fee_exact [of s a r] by (simp add: Let_def)

theorem fees_accurate_witness:
  "\<exists>r. quote_buy test_amm 100 = Ok r \<and> rat_of (unat (fee_amount r)) < 6 \<and> 4 < rat_of (unat (fee_amount r)) + 1 + 1 / 25"
proof -
  obtain r where r: "quote_buy test_amm 100 = Ok r" using test_amm_buys by blast
  then have "fee_pct r = 5 / 100" using quote_buy_values(4) [OF r] by (simp add: test_amm_eq(2) test_amm_reserves)
  then show ?thesis
    using fees_accurate [of test_amm 100 r] r by (simp add: test_amm_reserves test_amm_eq(2))
qed

end
