(* ===== verification/Sol_Pool_Routing.thy ===== *)
theory Sol_Pool_Routing
  imports Sol_Pool_Quotes
begin

text \<open>
  \<open>SolPoolAmm\<close> as Jupiter sees it: its swap account lists, and the interpretation of the interface
  locales \<open>jupiter_amm\<close> and \<open>liquid_amm\<close> with the invariant \<open>amm_wf\<close>, from which the properties
  about whole histories of refreshes follow.
\<close>

section \<open>Swap account lists\<close>

lemma pool_validate_Ok [outcome]:
  "pool_validate_mint_pair s i out b = Ok u \<longleftrightarrow>
     (if b then i = amm_quote_mint s \<and> out = amm_faction_mint s
      else i = amm_faction_mint s \<and> out = amm_quote_mint s)"
  by (cases b) (simp_all add: pool_validate_mint_pair_def)

lemma pool_validate_not_Panic [simp]: "pool_validate_mint_pair s i out b \<noteq> Panic"
  by (simp add: pool_validate_mint_pair_def Let_def)

text \<open>The builder that a direction selects.\<close>

definition lane_metas :: "pda_fn \<Rightarrow> ata_fn \<Rightarrow> sol_pool_amm \<Rightarrow> bool \<Rightarrow> swap_params \<Rightarrow> account_meta list result" where
  "lane_metas pda ata s is_buy p =
     (if amm_quote_mint s = NATIVE_MINT
      then (if is_buy then build_buy_wsol_account_metas_generic pda else build_sell_account_metas_generic pda)
      else (if is_buy then spl_build_buy_account_metas_generic pda ata else spl_build_sell_account_metas_generic pda ata))
     (token_transfer_authority p) (source_token_account p) (destination_token_account p) (amm_key s) (amm_pool s)"

lemma swap_metas_eq:
  assumes "amm_wf s"
  shows "pool_get_swap_and_account_metas pda ata s p =
    (if sp_swap_mode p = ExactOut then Err (SolPoolError ExactOutNotSupported)
     else if source_mint p = amm_quote_mint s \<and> destination_mint p = amm_faction_mint s
     then and_then (lane_metas pda ata s True p) (\<lambda>ms. Ok \<lparr>swap = TokenSwap, account_metas = ms\<rparr>)
     else if source_mint p = amm_faction_mint s \<and> destination_mint p = amm_quote_mint s
     then and_then (lane_metas pda ata s False p) (\<lambda>ms. Ok \<lparr>swap = TokenSwap, account_metas = ms\<rparr>)
     else Err (SolPoolError (PoolMintPair (source_mint p) (destination_mint p))))"
proof -
  have ne: "amm_faction_mint s \<noteq> amm_quote_mint s" by (rule amm_wf_mints(1)) (rule assms)
  show ?thesis
    using ne
    by (cases "source_mint p = amm_quote_mint s"; cases "source_mint p = amm_faction_mint s";
        cases "destination_mint p = amm_faction_mint s"; cases "destination_mint p = amm_quote_mint s")
       (simp_all add: pool_get_swap_and_account_metas_def pool_validate_mint_pair_def for_mints_def lane_metas_def)
qed

text \<open>A well-formed instance's pool has the shape its lanes' builders accept.\<close>

lemma wf_sol_pool:
  assumes "amm_wf s" and "amm_quote_mint s = NATIVE_MINT"
  shows "token_mint (amm_pool s) = Some (amm_faction_mint s)"
  using assms amm_wf_mints(1) [OF assms(1)]
  by (auto simp: amm_wf_def token_mint_def Let_def)

lemma wf_spl_pool:
  assumes "amm_wf s"
  shows "\<exists>sides. resolve_faction_sides (amm_pool s) = Ok sides \<and>
    sides_faction_mint sides = amm_faction_mint s \<and> sides_quote_mint sides = amm_quote_mint s"
  using assms amm_wf_mints [OF assms]
  by (auto simp: amm_wf_def resolve_faction_sides_eq faction_sides_of_def Let_def split: if_splits)

lemma lane_metas_not_Panic: "lane_metas pda ata s is_buy p \<noteq> Panic"
  by (simp add: lane_metas_def buy_wsol_lane.build_not_Panic sell_lane.build_not_Panic
      spl_buy_lane.build_not_Panic spl_sell_lane.build_not_Panic)

lemma lane_metas_Ok:
  assumes "lane_metas pda ata s is_buy p = Ok ms"
  shows "length ms \<le> 25" and "map meta_pubkey (filter is_signer ms) = [token_transfer_authority p]"
    and "meta_new (source_token_account p) False \<in> set ms"
    and "meta_new (destination_token_account p) False \<in> set ms"
    and "meta_new (amm_key s) False \<in> set ms"
proof -
  consider (bw) "build_buy_wsol_account_metas_generic pda (token_transfer_authority p) (source_token_account p)
        (destination_token_account p) (amm_key s) (amm_pool s) = Ok ms"
    | (sl) "build_sell_account_metas_generic pda (token_transfer_authority p) (source_token_account p)
        (destination_token_account p) (amm_key s) (amm_pool s) = Ok ms"
    | (sb) "spl_build_buy_account_metas_generic pda ata (token_transfer_authority p) (source_token_account p)
        (destination_token_account p) (amm_key s) (amm_pool s) = Ok ms"
    | (ss) "spl_build_sell_account_metas_generic pda ata (token_transfer_authority p) (source_token_account p)
        (destination_token_account p) (amm_key s) (amm_pool s) = Ok ms"
    using assms by (auto simp: lane_metas_def split: if_splits)
  then have "length ms \<le> 25 \<and> map meta_pubkey (filter is_signer ms) = [token_transfer_authority p] \<and>
    meta_new (source_token_account p) False \<in> set ms \<and>
    meta_new (destination_token_account p) False \<in> set ms \<and> meta_new (amm_key s) False \<in> set ms"
  proof cases
    case bw
    then show ?thesis
      using buy_wsol_lane.build_length [OF bw] buy_wsol_lane.build_signers [OF bw]
        buy_wsol_lane.build_writable [OF bw] by auto
  next
    case sl
    then show ?thesis
      using sell_lane.build_length [OF sl] sell_lane.build_signers [OF sl] sell_lane.build_writable [OF sl] by auto
  next
    case sb
    then show ?thesis
      using spl_buy_lane.build_length [OF sb] spl_buy_lane.build_signers [OF sb]
        spl_buy_lane.build_writable [OF sb] by auto
  next
    case ss
    then show ?thesis
      using spl_sell_lane.build_length [OF ss] spl_sell_lane.build_signers [OF ss]
        spl_sell_lane.build_writable [OF ss] by auto
  qed
  then show "length ms \<le> 25" and "map meta_pubkey (filter is_signer ms) = [token_transfer_authority p]"
    and "meta_new (source_token_account p) False \<in> set ms"
    and "meta_new (destination_token_account p) False \<in> set ms"
    and "meta_new (amm_key s) False \<in> set ms"
    by blast+
qed

lemma lane_metas_exists:
  assumes "amm_wf s"
  shows "\<exists>ms. lane_metas pda ata s is_buy p = Ok ms"
proof (cases "amm_quote_mint s = NATIVE_MINT")
  case True
  then show ?thesis
    using wf_sol_pool [OF assms True]
    by (simp add: lane_metas_def build_buy_wsol_account_metas_generic_def build_sell_account_metas_generic_def wsol_metas_eq)
next
  case False
  then show ?thesis
    using wf_spl_pool [OF assms] by (auto simp: lane_metas_def spl_buy_metas_eq spl_sell_metas_eq)
qed

lemma swap_metas_not_Panic: "amm_wf s \<Longrightarrow> pool_get_swap_and_account_metas pda ata s p \<noteq> Panic"
  by (simp add: swap_metas_eq outcome lane_metas_not_Panic)

lemma swap_metas_Ok:
  assumes "amm_wf s"
  shows "pool_get_swap_and_account_metas pda ata s p = Ok sam \<longleftrightarrow>
    sp_swap_mode p = ExactIn \<and>
    (\<exists>is_buy ms. lane_metas pda ata s is_buy p = Ok ms \<and> sam = \<lparr>swap = TokenSwap, account_metas = ms\<rparr> \<and>
      (if is_buy then source_mint p = amm_quote_mint s \<and> destination_mint p = amm_faction_mint s
       else source_mint p = amm_faction_mint s \<and> destination_mint p = amm_quote_mint s))"
  using amm_wf_mints(1) [OF assms]
  by (cases "sp_swap_mode p"; cases sam) (auto simp: swap_metas_eq [OF assms] outcome)

section \<open>The interface contracts\<close>

lemma pool_quote_Ok:
  assumes "amm_wf s"
  shows "pool_quote clk s q = Ok r \<longleftrightarrow>
    q_swap_mode q = ExactIn \<and> pool_is_active clk s \<and>
    (q_input_mint q = amm_quote_mint s \<and> q_output_mint q = amm_faction_mint s \<and> quote_buy s (q_amount q) = Ok r \<or>
     q_input_mint q = amm_faction_mint s \<and> q_output_mint q = amm_quote_mint s \<and> quote_sell s (q_amount q) = Ok r)"
  using amm_wf_mints(1) [OF assms]
  by (cases "q_swap_mode q") (auto simp: pool_quote_def outcome Let_def split: if_splits)

lemma pool_quote_not_Panic: "pool_quote clk s q \<noteq> Panic"
  by (simp add: pool_quote_def outcome Let_def)

lemma identity_mints:
  assumes "amm_identity s = amm_identity s'"
  shows "amm_key s = amm_key s'" and "pool_get_reserve_mints s = pool_get_reserve_mints s'"
    and "pool_get_accounts_to_update s = pool_get_accounts_to_update s'"
  using assms
  by (simp_all add: amm_identity_def pool_get_reserve_mints_def pool_get_accounts_to_update_def Let_def)

interpretation pool_routing:
  liquid_amm amm_wf amm_key pool_get_reserve_mints pool_get_accounts_to_update pool_get_accounts_len
    "pool_update lib" pool_quote "pool_get_swap_and_account_metas pda ata" pool_liquidity
  for lib :: "'m mint_lib" and pda ata
proof
  fix s s' :: sol_pool_amm and m m' clk q r r' p sam a
  show "amm_wf (fst (pool_update lib m s))" if "amm_wf s"
    using that by (simp add: pool_update_wf)
  show "amm_key (fst (pool_update lib m s)) = amm_key s"
    and "pool_get_reserve_mints (fst (pool_update lib m s)) = pool_get_reserve_mints s"
    and "pool_get_accounts_to_update (fst (pool_update lib m s)) = pool_get_accounts_to_update s"
    by (rule identity_mints, rule pool_update_identity)+
  show "pool_update lib m s = pool_update lib m' s"
    if "\<And>k. k \<in> set (pool_get_accounts_to_update s) \<Longrightarrow> m k = m' k"
    using that by (rule pool_update_local)
  show "snd (pool_update lib m s) \<noteq> Panic" by (rule pool_update_not_Panic)
  show "pool_quote clk s q \<noteq> Panic" by (rule pool_quote_not_Panic)
  show "q_swap_mode q = ExactIn \<and> in_amount r = q_amount q \<and>
      {q_input_mint q, q_output_mint q} = set (pool_get_reserve_mints s) \<and> q_input_mint q \<noteq> q_output_mint q"
    if "amm_wf s" and "pool_quote clk s q = Ok r"
    using that(2) amm_wf_mints(1) [OF that(1)] quote_buy_values(2) quote_sell_values(2)
    by (auto simp: pool_quote_Ok [OF that(1)] pool_get_reserve_mints_def)
  show "pool_get_swap_and_account_metas pda ata s p \<noteq> Panic" if "amm_wf s"
    using that by (rule swap_metas_not_Panic)
  show "length (account_metas sam) \<le> pool_get_accounts_len s \<and>
      map meta_pubkey (filter is_signer (account_metas sam)) = [token_transfer_authority p] \<and>
      {source_mint p, destination_mint p} = set (pool_get_reserve_mints s)"
    if "amm_wf s" and "pool_get_swap_and_account_metas pda ata s p = Ok sam"
    using that(2) lane_metas_Ok
    by (auto simp: swap_metas_Ok [OF that(1)] pool_get_accounts_len_def pool_get_reserve_mints_def split: if_splits)
  show "unat (out_amount r) \<le> pool_liquidity s (q_output_mint q)"
    if "amm_wf s" and "pool_quote clk s q = Ok r"
    using that(2) amm_wf_mints(1) [OF that(1)] quote_buy_liquid quote_sell_liquid
    by (auto simp: pool_quote_Ok [OF that(1)] pool_liquidity_def)
  show "out_amount r \<le> out_amount r'"
    if "amm_wf s" and "pool_quote clk s q = Ok r" and "pool_quote clk s (q\<lparr>q_amount := a\<rparr>) = Ok r'" and "q_amount q \<le> a"
    using that(2,3) amm_wf_mints(1) [OF that(1)] quote_buy_mono [OF _ _ that(4)] quote_sell_mono [OF _ _ that(4)]
    by (auto simp: pool_quote_Ok [OF that(1)])
qed

section \<open>Properties\<close>

text \<open>C17: The swap accounts.  A well-formed instance answers an exact-in request for its own pair, in
  either direction, with a list that fits the length it advertises, is signed by the user alone and
  holds the pool and the two token accounts as writable; it refuses every other pair and exact-out,
  and never panics.  For a WSOL pool the lane is the WSOL buy or the sell, for any other quote mint
  the SPL buy or sell.\<close>

theorem swap_accounts_spec:
  assumes "amm_wf s"
  shows "case pool_get_swap_and_account_metas pda ata s p of
      Ok sam \<Rightarrow> sp_swap_mode p = ExactIn \<and>
        (\<exists>is_buy. lane_metas pda ata s is_buy p = Ok (account_metas sam) \<and>
          (source_mint p, destination_mint p) =
            (if is_buy then (amm_quote_mint s, amm_faction_mint s) else (amm_faction_mint s, amm_quote_mint s))) \<and>
        length (account_metas sam) \<le> pool_get_accounts_len s \<and>
        map meta_pubkey (filter is_signer (account_metas sam)) = [token_transfer_authority p] \<and>
        {meta_new (amm_key s) False, meta_new (source_token_account p) False,
         meta_new (destination_token_account p) False} \<subseteq> set (account_metas sam)
    | Err e \<Rightarrow> sp_swap_mode p = ExactOut \<or>
        (source_mint p, destination_mint p) \<notin>
          {(amm_quote_mint s, amm_faction_mint s), (amm_faction_mint s, amm_quote_mint s)}
    | Panic \<Rightarrow> False"
proof (cases "pool_get_swap_and_account_metas pda ata s p")
  case (Ok sam)
  then obtain is_buy where lane: "lane_metas pda ata s is_buy p = Ok (account_metas sam)"
    and pair: "if is_buy then source_mint p = amm_quote_mint s \<and> destination_mint p = amm_faction_mint s
       else source_mint p = amm_faction_mint s \<and> destination_mint p = amm_quote_mint s"
    and mode: "sp_swap_mode p = ExactIn"
    by (auto simp: swap_metas_Ok [OF assms])
  note list = lane_metas_Ok [OF lane]
  have "\<exists>is_buy. lane_metas pda ata s is_buy p = Ok (account_metas sam) \<and>
      (source_mint p, destination_mint p) =
        (if is_buy then (amm_quote_mint s, amm_faction_mint s) else (amm_faction_mint s, amm_quote_mint s))"
    by (rule exI [of _ is_buy]) (use lane pair in \<open>simp split: if_splits\<close>)
  then show ?thesis using Ok mode list by (simp add: pool_get_accounts_len_def)
next
  case (Err e)
  then show ?thesis
    using lane_metas_exists [OF assms, of pda ata True p] lane_metas_exists [OF assms, of pda ata False p]
    by (auto simp: swap_metas_eq [OF assms] split: if_splits)
next
  case Panic
  then show ?thesis using swap_metas_not_Panic [OF assms] by blast
qed

theorem swap_accounts_spec_witness:
  "\<exists>sam. pool_get_swap_and_account_metas (\<lambda>_ _. (TREASURY, 255)) (\<lambda>_ _ _. TREASURY) test_amm
      \<lparr>sp_swap_mode = ExactIn, source_mint = NATIVE_MINT, destination_mint = CRIME_MINT,
       source_token_account = VAULT_CRIME, destination_token_account = VAULT_FRAUD,
       token_transfer_authority = STAKE_POOL_PDA\<rparr> = Ok sam \<and>
    map meta_pubkey (filter is_signer (account_metas sam)) = [STAKE_POOL_PDA]"
proof -
  have "amm_wf test_amm" 
    by (rule new_for_testing_wf [of True 1000 5000 400 1400 0]) (simp add: test_amm_def new_for_testing_Ok)
  from swap_accounts_spec [OF this] show ?thesis
    by (fastforce simp: test_amm_eq split: outcome.splits)
qed

text \<open>C15: Refreshes never endanger a route.  After any history of refreshes, failed ones included, a
  constructed instance has the key, the mints and the account list it had; its quotes are for the
  exact input asked, between its two mints, and within the reserve they are paid from; its swap
  lists never panic; and only the accounts it listed have influenced it.\<close>

theorem history_safety:
  assumes "pool_from_keyed_account pda ka clock = Ok s" and "s' = refresh_all (pool_update lib) ms s"
  shows "amm_key s' = ka_key ka \<and> pool_get_reserve_mints s' = pool_get_reserve_mints s \<and>
    pool_get_accounts_to_update s' = pool_get_accounts_to_update s \<and>
    refresh_all (pool_update lib) (map (\<lambda>m. m |` set (pool_get_accounts_to_update s)) ms) s = s' \<and>
    (\<forall>clk q. case pool_quote clk s' q of
        Ok r \<Rightarrow> q_swap_mode q = ExactIn \<and> in_amount r = q_amount q \<and>
          {q_input_mint q, q_output_mint q} = set (pool_get_reserve_mints s) \<and>
          unat (out_amount r) \<le> pool_liquidity s' (q_output_mint q)
      | Err _ \<Rightarrow> True | Panic \<Rightarrow> False) \<and>
    (\<forall>p. pool_get_swap_and_account_metas pda' ata s' p \<noteq> Panic)"
proof -
  have wf: "amm_wf s" and key: "amm_key s = ka_key ka"
    using constructed(1,2) [OF assms(1)] by simp_all
  have wf': "amm_wf s'" unfolding assms(2) by (rule pool_routing.history_inv) (rule wf)
  have quotes: "case pool_quote clk s' q of
        Ok r \<Rightarrow> q_swap_mode q = ExactIn \<and> in_amount r = q_amount q \<and>
          {q_input_mint q, q_output_mint q} = set (pool_get_reserve_mints s) \<and>
          unat (out_amount r) \<le> pool_liquidity s' (q_output_mint q)
      | Err _ \<Rightarrow> True | Panic \<Rightarrow> False" for clk q
  proof (cases "pool_quote clk s' q")
    case (Ok r)
    then show ?thesis
      using pool_routing.history_quote_sound [OF wf, of clk lib ms q r]
        pool_routing.history_liquid [OF wf, of clk lib ms q r]
      by (simp add: assms(2))
  qed (simp_all add: pool_quote_not_Panic)
  show ?thesis
    using quotes pool_routing.history_identity [of lib ms s] pool_routing.history_restrict [of lib s ms]
      swap_metas_not_Panic [OF wf'] key
    by (simp add: assms(2))
qed

theorem history_safety_witness:
  "amm_key (refresh_all (pool_update no_mints) [Map.empty, crime_map] crime_amm) = CRIME_SOL_POOL \<and>
   (\<forall>p. pool_get_swap_and_account_metas (\<lambda>_ _. (TREASURY, 255)) (\<lambda>_ _ _. TREASURY)
     (refresh_all (pool_update no_mints) [Map.empty, crime_map] crime_amm) p \<noteq> Panic)"
  using history_safety [OF crime_constructed refl, of no_mints "[Map.empty, crime_map]"]
  by (simp add: crime_keyed_account_def)

end
