(* ===== verification/Vault_Math.thy ===== *)
theory Vault_Math
  imports Addresses
begin

text \<open>
  The fixed-rate conversion of \<open>math/vault_math.rs\<close>.
\<close>

definition compute_vault_output :: "pubkey \<Rightarrow> pubkey \<Rightarrow> u64 \<Rightarrow> u64 option" where
  "compute_vault_output input_mint output_mint amount_in =
     (if amount_in = 0 then None
      else if input_mint = output_mint then None
      else
        let is_input_crime_or_fraud = (input_mint = CRIME_MINT \<or> input_mint = FRAUD_MINT);
            is_output_profit = (output_mint = PROFIT_MINT);
            is_input_profit = (input_mint = PROFIT_MINT);
            is_output_crime_or_fraud = (output_mint = CRIME_MINT \<or> output_mint = FRAUD_MINT)
        in
          if is_input_crime_or_fraud \<and> is_output_profit then
            (let out = amount_in div CONVERSION_RATE in if out = 0 then None else Some out)
          else if is_input_profit \<and> is_output_crime_or_fraud then
            checked_mul amount_in CONVERSION_RATE
          else None)"

definition into_profit :: "pubkey \<Rightarrow> pubkey \<Rightarrow> bool" where
  "into_profit i out \<longleftrightarrow> (i = CRIME_MINT \<or> i = FRAUD_MINT) \<and> out = PROFIT_MINT"

definition from_profit :: "pubkey \<Rightarrow> pubkey \<Rightarrow> bool" where
  "from_profit i out \<longleftrightarrow> i = PROFIT_MINT \<and> (out = CRIME_MINT \<or> out = FRAUD_MINT)"

lemma unat_CONVERSION_RATE [simp]: "unat CONVERSION_RATE = 100"
  by (simp add: CONVERSION_RATE_def)

lemma vault_output_into:
  assumes "into_profit i out"
  shows "compute_vault_output i out a = Some x \<longleftrightarrow> 100 \<le> unat a \<and> unat x = unat a div 100"
  using assms
  by (auto simp: compute_vault_output_def into_profit_def Let_def word_unat_eq_iff unat_div
      div_greater_zero_iff not_less)

lemma vault_output_from:
  assumes "from_profit i out"
  shows "compute_vault_output i out a = Some x \<longleftrightarrow> a \<noteq> 0 \<and> unat x = unat a * 100"
  using assms
  by (auto simp: compute_vault_output_def from_profit_def Let_def checked)

lemma vault_output_other:
  "\<not> into_profit i out \<Longrightarrow> \<not> from_profit i out \<Longrightarrow> compute_vault_output i out a = None"
  by (auto simp: compute_vault_output_def into_profit_def from_profit_def Let_def)

lemma directions_exclusive: "into_profit i out \<Longrightarrow> \<not> from_profit i out"
  by (auto simp: into_profit_def from_profit_def)

text \<open>The conversion table.  A conversion is priced for the four CRIME/FRAUD to PROFIT and PROFIT
  to CRIME/FRAUD pairs only.  Into PROFIT it succeeds from 100 units on and divides by 100 rounded
  down; out of PROFIT it succeeds for a nonzero amount whose hundredfold fits in \<open>u64\<close> and
  multiplies by 100.\<close>

lemma compute_vault_output_spec:
  "compute_vault_output i out a =
     (if into_profit i out \<and> 100 \<le> unat a then Some (word_of_nat (unat a div 100))
      else if from_profit i out \<and> a \<noteq> 0 \<and> unat a * 100 < 2 ^ 64 then Some (word_of_nat (unat a * 100))
      else None)"
proof -
  have d: "unat (word_of_nat (unat a div 100) :: u64) = unat a div 100"
    using unat_u64 [of a] by (intro unat_of_nat_small) simp
  have m: "unat (word_of_nat (unat a * 100) :: u64) = unat a * 100" if "unat a * 100 < 2 ^ 64"
    using that by (intro unat_of_nat_small) simp
  have "compute_vault_output i out a = None" if "from_profit i out" "\<not> unat a * 100 < 2 ^ 64"
    using that vault_output_from [OF that(1), of a] unat_u64 by (metis option.exhaust)
  moreover have "compute_vault_output i out a = None" if "from_profit i out" "a = 0"
    using that by (simp add: compute_vault_output_def)
  moreover have "compute_vault_output i out a = None" if "into_profit i out" "\<not> 100 \<le> unat a"
    using that vault_output_into [OF that(1), of a] by (metis option.exhaust)
  ultimately show ?thesis
    using d m vault_output_into [of i out a] vault_output_from [of i out a]
      vault_output_other [of i out a] directions_exclusive [of i out] by auto
qed

text \<open>Conversions do not create value.  Into PROFIT and back out to either faction token returns
  the amount less its last two digits, and out of PROFIT and back in returns it exactly; so the
  cross-faction route through PROFIT costs fewer than 100 units.\<close>

lemma vault_round_trips:
  "(into_profit i p \<longrightarrow> from_profit p j \<longrightarrow> compute_vault_output i p a = Some b \<longrightarrow>
      compute_vault_output p j b = Some (word_of_nat (unat a - unat a mod 100))) \<and>
   (from_profit p j \<longrightarrow> into_profit j p \<longrightarrow> compute_vault_output p j a = Some b \<longrightarrow>
      compute_vault_output j p b = Some a)"
proof (intro conjI impI)
  assume d: "into_profit i p" "from_profit p j" and b: "compute_vault_output i p a = Some b"
  have v: "100 \<le> unat a" "unat b = unat a div 100" using b d(1) by (simp_all add: vault_output_into)
  have "unat b * 100 = unat a - unat a mod 100"
    using v(2) by (simp add: minus_mod_eq_div_mult)
  moreover have "unat (word_of_nat (unat a - unat a mod 100) :: u64) = unat a - unat a mod 100"
    using unat_u64 [of a] by (intro unat_of_nat_small) simp
  moreover have "b \<noteq> 0" using v by (auto simp: word_unat_eq_iff)
  ultimately show "compute_vault_output p j b = Some (word_of_nat (unat a - unat a mod 100))"
    using d(2) by (simp add: vault_output_from)
next
  assume d: "from_profit p j" "into_profit j p" and b: "compute_vault_output p j a = Some b"
  have "a \<noteq> 0" and "unat b = unat a * 100" using b d(1) by (simp_all add: vault_output_from)
  then show "compute_vault_output j p b = Some a"
    using d(2) by (simp add: vault_output_into unat_gt_0 Suc_le_eq)
qed

end
