(* ===== verification/Vault_Accounts.thy ===== *)
theory Vault_Accounts
  imports Hook_Accounts Errors
begin

text \<open>
  The account list of the conversion vault, \<open>accounts/vault_accounts.rs\<close>: 9 named accounts and the
  hook accounts of the two mints.  \<open>vault_token_account\<close> panics on a mint that is not the protocol's.
\<close>

definition vault_token_account :: "pubkey \<Rightarrow> pubkey result" where
  "vault_token_account mint =
     (if mint = CRIME_MINT then Ok VAULT_CRIME
      else if mint = FRAUD_MINT then Ok VAULT_FRAUD
      else if mint = PROFIT_MINT then Ok VAULT_PROFIT
      else Panic)"

definition build_vault_account_metas ::
    "pda_fn \<Rightarrow> pubkey \<Rightarrow> pubkey \<Rightarrow> pubkey \<Rightarrow> pubkey \<Rightarrow> pubkey \<Rightarrow> account_meta list result" where
  "build_vault_account_metas pda user user_input_ata user_output_ata input_mint output_mint =
     and_then (vault_token_account input_mint) (\<lambda>vault_input.
     and_then (vault_token_account output_mint) (\<lambda>vault_output.
       let metas =
             [meta_readonly user True,
              meta_readonly VAULT_CONFIG_PDA False,
              meta_new user_input_ata False,
              meta_new user_output_ata False,
              meta_readonly input_mint False,
              meta_readonly output_mint False,
              meta_new vault_input False,
              meta_new vault_output False,
              meta_readonly TOKEN_2022_PROGRAM_ID False];
           input_hooks = hook_metas_for_mint pda input_mint user_input_ata vault_input;
           output_hooks = hook_metas_for_mint pda output_mint vault_output user_output_ata
       in Ok (metas @ input_hooks @ output_hooks)))"

lemma vault_token_account_Ok: "protocol_mint m \<longleftrightarrow> (\<exists>v. vault_token_account m = Ok v)"
  by (simp add: protocol_mint_def vault_token_account_def)

lemma vault_token_account_Panic: "vault_token_account m = Panic \<longleftrightarrow> \<not> protocol_mint m"
  by (simp add: protocol_mint_def vault_token_account_def)

lemma vault_token_account_inj:
  "vault_token_account m = Ok v \<Longrightarrow> vault_token_account m' = Ok v \<Longrightarrow> m = m'"
  by (auto simp: vault_token_account_def split: if_splits)

lemma vault_list_Ok:
  assumes "protocol_mint mi" and "protocol_mint mo"
  shows "\<exists>ms vi vo. build_vault_account_metas pda user src dst mi mo = Ok ms \<and> length ms = 17 \<and>
    map meta_pubkey (filter is_signer ms) = [user] \<and>
    vault_token_account mi = Ok vi \<and> vault_token_account mo = Ok vo \<and>
    map meta_pubkey (filter is_writable ms) = [src, dst, vi, vo]"
proof -
  obtain vi vo where "vault_token_account mi = Ok vi" "vault_token_account mo = Ok vo"
    using assms by (auto simp: vault_token_account_Ok)
  then show ?thesis
    using assms by (simp add: build_vault_account_metas_def hook_metas_protocol)
qed

lemma vault_list_Panic:
  "\<not> (protocol_mint mi \<and> protocol_mint mo) \<Longrightarrow> build_vault_account_metas pda user src dst mi mo = Panic"
  unfolding build_vault_account_metas_def and_then_eq_Panic vault_token_account_Panic
  using vault_token_account_Ok [of mi] by blast

text \<open>The vault's account list.  It panics exactly when one of the mints is not a protocol mint.
  Otherwise it has 17 accounts; the user is the only signer; the four token accounts are the only
  writable ones, the user's before the vaults'; and the vault accounts are those of the two mints,
  different for different mints.\<close>

lemma vault_list_spec:
  "(case build_vault_account_metas pda user src dst mi mo of
      Panic \<Rightarrow> \<not> (protocol_mint mi \<and> protocol_mint mo)
    | Err e \<Rightarrow> False
    | Ok ms \<Rightarrow> protocol_mint mi \<and> protocol_mint mo \<and> length ms = 17 \<and>
        map meta_pubkey (filter is_signer ms) = [user] \<and>
        (\<exists>vi vo. vault_token_account mi = Ok vi \<and> vault_token_account mo = Ok vo \<and>
           (vi = vo \<longleftrightarrow> mi = mo) \<and> map meta_pubkey (filter is_writable ms) = [src, dst, vi, vo]))"
proof (cases "protocol_mint mi \<and> protocol_mint mo")
  case True
  then obtain ms vi vo where "build_vault_account_metas pda user src dst mi mo = Ok ms" "length ms = 17"
    "map meta_pubkey (filter is_signer ms) = [user]"
    and vaults: "vault_token_account mi = Ok vi" "vault_token_account mo = Ok vo"
    and "map meta_pubkey (filter is_writable ms) = [src, dst, vi, vo]"
    using vault_list_Ok [of mi mo pda user src dst] by auto
  moreover have "vi = vo \<longleftrightarrow> mi = mo" using vaults vault_token_account_inj by force
  ultimately show ?thesis using True by simp
qed (simp add: vault_list_Panic)

end
