(* ===== verification/Token_Account.thy ===== *)
theory Token_Account
  imports Pool_State
begin

text \<open>
  The balance parser of \<open>state/token_account.rs\<close>, with the mint check that guards it, and the
  token-account serialiser of its tests.
\<close>

definition TOKEN_MIN_LEN :: nat where "TOKEN_MIN_LEN = 72"

definition parse_token_account_amount :: "bytes \<Rightarrow> pubkey \<Rightarrow> u64 result" where
  "parse_token_account_amount data expected_mint =
     (if length data < TOKEN_MIN_LEN then Err (TokenAccountError (TokenAccountShort (length data)))
      else and_then (slice_at data 0 32) (\<lambda>s.
        and_then (ok_or (pubkey_try_from s) (TokenAccountError TokenAccountMintBytes)) (\<lambda>mint.
          if mint \<noteq> expected_mint then Err (TokenAccountError (TokenAccountMint expected_mint mint))
          else and_then (slice_at data 64 72) (\<lambda>amount.
            if length amount = 8 then Ok (from_le_bytes amount)
            else Err (TokenAccountError TokenAccountAmount)))))"

definition mock_token_account :: "pubkey \<Rightarrow> pubkey \<Rightarrow> u64 \<Rightarrow> bytes" where
  "mock_token_account mint owner amount =
     (let data = replicate 165 0;
          data = copy_at 0 (as_ref mint) data;
          data = copy_at 32 (as_ref owner) data;
          data = copy_at 64 (to_le_bytes amount) data
      in data[108 := 1])"

definition token_account_mint :: "bytes \<Rightarrow> pubkey" where
  "token_account_mint data = pubkey_of_bytes (sub_slice data 0 32)"

definition token_account_amount :: "bytes \<Rightarrow> u64" where
  "token_account_amount data = from_le_bytes (sub_slice data 64 72)"

lemma parse_token_account_eq:
  "parse_token_account_amount data mint =
    (if length data < 72 then Err (TokenAccountError (TokenAccountShort (length data)))
     else if token_account_mint data \<noteq> mint
       then Err (TokenAccountError (TokenAccountMint mint (token_account_mint data)))
     else Ok (token_account_amount data))"
  by (simp add: parse_token_account_amount_def TOKEN_MIN_LEN_def pubkey_try_from_32
      token_account_mint_def token_account_amount_def)

lemma mock_token_reads:
  "length (mock_token_account m ow a) = 165"
  "token_account_mint (mock_token_account m ow a) = m"
  "token_account_amount (mock_token_account m ow a) = a"
  by (simp_all add: mock_token_account_def Let_def token_account_mint_def token_account_amount_def
      slice_reads u64_le.dec_enc)

text \<open>The balance parser never panics.  It returns the little-endian amount at bytes 64 to 72 of
  any account of at least 72 bytes whose first 32 are the expected mint, so also of a Token-2022
  account with extension data behind it; a shorter account, or one of another mint, is refused,
  naming the two mints.  The tests' serialiser is read back exactly.\<close>

lemma parse_token_account_spec:
  "parse_token_account_amount data mint =
    (if length data < 72 then Err (TokenAccountError (TokenAccountShort (length data)))
     else if token_account_mint data \<noteq> mint
       then Err (TokenAccountError (TokenAccountMint mint (token_account_mint data)))
     else Ok (token_account_amount data)) \<and>
   parse_token_account_amount (mock_token_account mint owner amount @ extensions) mint = Ok amount"
proof -
  have "sub_slice (mock_token_account mint owner amount @ extensions) i j =
      sub_slice (mock_token_account mint owner amount) i j" if "j \<le> 72" for i j
    using that by (simp add: sub_slice_def mock_token_reads)
  then show ?thesis
    using mock_token_reads [of mint owner amount]
    by (simp add: parse_token_account_eq token_account_mint_def token_account_amount_def)
qed

end
