(* ===== verification/Vault_Amm.thy ===== *)
theory Vault_Amm
  imports Vault_Math Vault_Accounts Token_Account Jupiter_Interface
begin

text \<open>
  The conversion-vault adapter \<open>VaultAmm\<close> of \<open>vault_amm.rs\<close>: one instance per direction, with the
  balance of the vault it pays from; the factory of the four instances; the interpretation of the
  interface locales; and the properties of construction, refresh, quotes and multi-hop routes.
  Parameters: \<open>pda\<close> for the address derivation and \<open>parse_pubkey\<close> for \<open>str::parse::<Pubkey>\<close>.
\<close>

section \<open>State and construction\<close>

record vault_amm =
  vlt_key :: pubkey
  vlt_input_mint :: pubkey
  vlt_output_mint :: pubkey
  vlt_label_suffix :: string
  vlt_output_vault :: pubkey
  vlt_output_vault_balance :: u64

definition vault_for_mint :: "pubkey \<Rightarrow> pubkey option" where
  "vault_for_mint mint =
     (if mint = CRIME_MINT then Some VAULT_CRIME
      else if mint = FRAUD_MINT then Some VAULT_FRAUD
      else if mint = PROFIT_MINT then Some VAULT_PROFIT
      else None)"

text \<open>\<open>supported.then(|| ... expect ...)\<close>: nothing, a value or a panic.\<close>

definition conversion_output_vault :: "pubkey \<Rightarrow> pubkey \<Rightarrow> pubkey option result" where
  "conversion_output_vault input_mint output_mint =
     (let into_profit = (input_mint = CRIME_MINT \<or> input_mint = FRAUD_MINT) \<and> output_mint = PROFIT_MINT;
          from_profit = input_mint = PROFIT_MINT \<and> (output_mint = CRIME_MINT \<or> output_mint = FRAUD_MINT);
          supported = into_profit \<or> from_profit
      in if supported then and_then (expect (vault_for_mint output_mint)) (\<lambda>v. Ok (Some v)) else Ok None)"

definition derive_synthetic_key :: "pda_fn \<Rightarrow> pubkey \<Rightarrow> pubkey \<Rightarrow> pubkey" where
  "derive_synthetic_key pda input_mint output_mint =
     (let (key, _) = pda [ascii_bytes ''jup_vault'', as_ref input_mint, as_ref output_mint] CONVERSION_VAULT_PROGRAM_ID
      in key)"

definition mint_name :: "pubkey \<Rightarrow> string" where
  "mint_name mint =
     (if mint = CRIME_MINT then ''CRIME''
      else if mint = FRAUD_MINT then ''FRAUD''
      else if mint = PROFIT_MINT then ''PROFIT''
      else ''UNKNOWN'')"

definition format_label :: "pubkey \<Rightarrow> pubkey \<Rightarrow> string" where
  "format_label input_mint output_mint = mint_name input_mint @ ''/'' @ mint_name output_mint @ '' Vault''"

definition known_instances :: "pda_fn \<Rightarrow> (pubkey \<times> vault_amm) list result" where
  "known_instances pda =
     collect_outcomes (\<lambda>(input, output, label).
       let key = derive_synthetic_key pda input output in
       and_then (expect (vault_for_mint output)) (\<lambda>vault.
         Ok (key, \<lparr>vlt_key = key, vlt_input_mint = input, vlt_output_mint = output, vlt_label_suffix = label,
                   vlt_output_vault = vault, vlt_output_vault_balance = - 1\<rparr>)))
       [(CRIME_MINT, PROFIT_MINT, ''CRIME/PROFIT Vault''),
        (FRAUD_MINT, PROFIT_MINT, ''FRAUD/PROFIT Vault''),
        (PROFIT_MINT, CRIME_MINT, ''PROFIT/CRIME Vault''),
        (PROFIT_MINT, FRAUD_MINT, ''PROFIT/FRAUD Vault'')]"

definition known_sol_pool_keys :: "pubkey list" where
  "known_sol_pool_keys = [CRIME_SOL_POOL, FRAUD_SOL_POOL]"

definition all_pool_keys :: "pda_fn \<Rightarrow> pubkey list result" where
  "all_pool_keys pda = and_then (known_instances pda) (\<lambda>instances. Ok (known_sol_pool_keys @ map fst instances))"

definition vault_from_keyed_account ::
    "pda_fn \<Rightarrow> (string \<Rightarrow> pubkey option) \<Rightarrow> keyed_account \<Rightarrow> vault_amm result" where
  "vault_from_keyed_account pda parse_pubkey ka =
     (case ka_params ka of
        Some params \<Rightarrow>
          and_then (ok_or (params ''input_mint'') (VaultError (ParamMissing ''input_mint''))) (\<lambda>input_str.
          and_then (ok_or (params ''output_mint'') (VaultError (ParamMissing ''output_mint''))) (\<lambda>output_str.
          and_then (ok_or (parse_pubkey input_str) (VaultError (ParamNotPubkey ''input_mint''))) (\<lambda>input.
          and_then (ok_or (parse_pubkey output_str) (VaultError (ParamNotPubkey ''output_mint''))) (\<lambda>output.
          and_then (conversion_output_vault input output) (\<lambda>vault.
          and_then (ok_or vault (VaultError (UnsupportedDirection input output))) (\<lambda>output_vault.
          Ok \<lparr>vlt_key = ka_key ka, vlt_input_mint = input, vlt_output_mint = output,
              vlt_label_suffix = format_label input output, vlt_output_vault = output_vault,
              vlt_output_vault_balance = - 1\<rparr>))))))
      | None \<Rightarrow>
          and_then (known_instances pda) (\<lambda>instances.
          case find (\<lambda>(key, _). key = ka_key ka) instances of
            Some (key, v) \<Rightarrow> Ok v
          | None \<Rightarrow> Err (VaultError (UnknownVaultKey (ka_key ka)))))"

definition vault_new_for_testing :: "pda_fn \<Rightarrow> pubkey \<Rightarrow> pubkey \<Rightarrow> vault_amm result" where
  "vault_new_for_testing pda input_mint output_mint =
     (let key = derive_synthetic_key pda input_mint output_mint;
          label = format_label input_mint output_mint
      in and_then (conversion_output_vault input_mint output_mint) (\<lambda>vault.
         and_then (expect vault) (\<lambda>output_vault.
         Ok \<lparr>vlt_key = key, vlt_input_mint = input_mint, vlt_output_mint = output_mint, vlt_label_suffix = label,
             vlt_output_vault = output_vault, vlt_output_vault_balance = - 1\<rparr>)))"

section \<open>Methods\<close>

definition vault_label :: "vault_amm \<Rightarrow> string" where "vault_label self = ''Dr Fraudsworth Vault''"

definition vault_program_id :: "vault_amm \<Rightarrow> pubkey" where "vault_program_id self = CONVERSION_VAULT_PROGRAM_ID"

definition vault_get_reserve_mints :: "vault_amm \<Rightarrow> pubkey list" where
  "vault_get_reserve_mints self = [vlt_input_mint self, vlt_output_mint self]"

definition vault_get_accounts_to_update :: "vault_amm \<Rightarrow> pubkey list" where
  "vault_get_accounts_to_update self = [VAULT_CONFIG_PDA, vlt_output_vault self]"

definition vault_supports_exact_out :: "vault_amm \<Rightarrow> bool" where "vault_supports_exact_out self = False"

definition vault_get_accounts_len :: "vault_amm \<Rightarrow> nat" where "vault_get_accounts_len self = 17"

definition vault_unidirectional :: "vault_amm \<Rightarrow> bool" where "vault_unidirectional self = True"

definition vault_program_dependencies :: "vault_amm \<Rightarrow> (pubkey \<times> string) list" where
  "vault_program_dependencies self = [(TRANSFER_HOOK_PROGRAM_ID, ''transfer-hook'')]"

definition underlying_liquidities :: "vault_amm \<Rightarrow> pubkey set option" where
  "underlying_liquidities self = Some {vlt_output_vault self}"

definition vault_update :: "account_map \<Rightarrow> vault_amm \<Rightarrow> vault_amm \<times> unit result" where
  "vault_update account_map self =
     try_in self (try_get_account_data account_map VAULT_CONFIG_PDA) (\<lambda>data.
     if data = [] then (self, Err (VaultError VaultConfigEmpty))
     else
     try_in self (try_get_account_data account_map (vlt_output_vault self)) (\<lambda>vault_data.
     try_in self (parse_token_account_amount vault_data (vlt_output_mint self)) (\<lambda>balance.
     (self\<lparr>vlt_output_vault_balance := balance\<rparr>, Ok ()))))"

definition vault_validate_mint_pair :: "vault_amm \<Rightarrow> pubkey \<Rightarrow> pubkey \<Rightarrow> unit result" where
  "vault_validate_mint_pair self input output =
     (if input \<noteq> vlt_input_mint self \<or> output \<noteq> vlt_output_mint self
      then Err (VaultError (VaultMintPair input output)) else Ok ())"

definition vault_quote :: "vault_amm \<Rightarrow> quote_params \<Rightarrow> quote result" where
  "vault_quote self q =
     (if q_swap_mode q = ExactOut then Err (VaultError VaultExactOut)
      else
      and_then (vault_validate_mint_pair self (q_input_mint q) (q_output_mint q)) (\<lambda>_.
      and_then (ok_or (compute_vault_output (vlt_input_mint self) (vlt_output_mint self) (q_amount q))
                  (VaultError (ConversionFailed (vlt_input_mint self) (vlt_output_mint self) (q_amount q)))) (\<lambda>out.
      if vlt_output_vault_balance self < out
      then Err (VaultError (InsufficientLiquidity out (vlt_output_vault_balance self)))
      else Ok \<lparr>in_amount = q_amount q, out_amount = out, fee_amount = 0, fee_mint = vlt_input_mint self,
               fee_pct = 0\<rparr>)))"

definition vault_get_swap_and_account_metas ::
    "pda_fn \<Rightarrow> vault_amm \<Rightarrow> swap_params \<Rightarrow> swap_and_account_metas result" where
  "vault_get_swap_and_account_metas pda self p =
     and_then (vault_validate_mint_pair self (source_mint p) (destination_mint p)) (\<lambda>_.
     and_then (build_vault_account_metas pda (token_transfer_authority p) (source_token_account p)
                 (destination_token_account p) (vlt_input_mint self) (vlt_output_mint self)) (\<lambda>metas.
     Ok \<lparr>swap = TokenSwap, account_metas = metas\<rparr>))"

section \<open>Well-formed instances\<close>

definition supported_edge :: "pubkey \<Rightarrow> pubkey \<Rightarrow> bool" where
  "supported_edge i out \<longleftrightarrow> into_profit i out \<or> from_profit i out"

definition vault_wf :: "vault_amm \<Rightarrow> bool" where
  "vault_wf v \<longleftrightarrow> supported_edge (vlt_input_mint v) (vlt_output_mint v) \<and>
     vault_for_mint (vlt_output_mint v) = Some (vlt_output_vault v)"

lemma vault_for_mint_simps [simp]:
  "vault_for_mint CRIME_MINT = Some VAULT_CRIME" "vault_for_mint FRAUD_MINT = Some VAULT_FRAUD"
  "vault_for_mint PROFIT_MINT = Some VAULT_PROFIT"
  by (simp_all add: vault_for_mint_def)

lemma edge_mints:
  assumes "supported_edge i out"
  shows "i \<noteq> out" and "protocol_mint i" and "protocol_mint out" and "\<exists>v. vault_for_mint out = Some v"
  using assms by (auto simp: supported_edge_def into_profit_def from_profit_def)

lemma conversion_output_vault_eq:
  "conversion_output_vault i out = (if supported_edge i out then Ok (vault_for_mint out) else Ok None)"
  by (auto simp: conversion_output_vault_def supported_edge_def into_profit_def from_profit_def)

text \<open>The two maps from a mint to its vault, in the two modules, agree.\<close>

lemma vault_for_mint_token_account: "vault_token_account m = expect (vault_for_mint m)"
  by (simp add: vault_token_account_def vault_for_mint_def)

definition vault_instance :: "pubkey \<Rightarrow> pubkey \<Rightarrow> pubkey \<Rightarrow> vault_amm" where
  "vault_instance key i out =
     \<lparr>vlt_key = key, vlt_input_mint = i, vlt_output_mint = out, vlt_label_suffix = format_label i out,
      vlt_output_vault = the (vault_for_mint out), vlt_output_vault_balance = - 1\<rparr>"

lemma vault_instance_wf: "supported_edge i out \<Longrightarrow> vault_wf (vault_instance key i out)"
  using edge_mints(4) [of i out] by (auto simp: vault_wf_def vault_instance_def)

definition edges :: "(pubkey \<times> pubkey) list" where
  "edges = [(CRIME_MINT, PROFIT_MINT), (FRAUD_MINT, PROFIT_MINT), (PROFIT_MINT, CRIME_MINT), (PROFIT_MINT, FRAUD_MINT)]"

lemma set_edges: "(i, out) \<in> set edges \<longleftrightarrow> supported_edge i out"
  by (auto simp: edges_def supported_edge_def into_profit_def from_profit_def)

lemma known_instances_eq:
  "known_instances pda =
     Ok (map (\<lambda>(i, out). (derive_synthetic_key pda i out, vault_instance (derive_synthetic_key pda i out) i out)) edges)"
  by (simp add: known_instances_def edges_def vault_instance_def format_label_def mint_name_def Let_def)

lemma vault_from_keyed_account_Ok:
  "vault_from_keyed_account pda parse ka = Ok v \<longleftrightarrow>
    (case ka_params ka of
       Some params \<Rightarrow> (\<exists>i out. Option.bind (params ''input_mint'') parse = Some i \<and>
         Option.bind (params ''output_mint'') parse = Some out \<and>
         supported_edge i out \<and> v = vault_instance (ka_key ka) i out)
     | None \<Rightarrow> \<exists>e. find (\<lambda>(i, out). derive_synthetic_key pda i out = ka_key ka) edges = Some e \<and>
         v = vault_instance (ka_key ka) (fst e) (snd e))"
proof (cases "ka_params ka")
  case None
  show ?thesis
    by (auto simp: vault_from_keyed_account_def None known_instances_eq edges_def split: if_splits)
next
  case (Some params)
  then show ?thesis
    using edge_mints(4)
    by (auto simp: vault_from_keyed_account_def outcome conversion_output_vault_eq bind_eq_Some_conv
        vault_instance_def split: if_splits)
qed

lemma vault_from_keyed_account_not_Panic: "vault_from_keyed_account pda parse ka \<noteq> Panic"
  by (auto simp: vault_from_keyed_account_def outcome conversion_output_vault_eq known_instances_eq
      split: option.split if_splits)

lemma vault_constructed:
  assumes "vault_from_keyed_account pda parse ka = Ok v"
  shows "vault_wf v" and "vlt_key v = ka_key ka"
proof -
  have "supported_edge (fst e) (snd e)" if "find P edges = Some e" for P e
    using that set_edges [of "fst e" "snd e"] by (auto simp: find_Some_iff)
  then show "vault_wf v" and "vlt_key v = ka_key ka"
    using assms vault_instance_wf
    by (auto simp: vault_from_keyed_account_Ok vault_instance_def split: option.splits)
qed

section \<open>Refresh and quotes\<close>

lemma vault_update_eq:
  "vault_update m v =
    (case m VAULT_CONFIG_PDA of
       None \<Rightarrow> (v, Err (AccountMissing VAULT_CONFIG_PDA))
     | Some config \<Rightarrow>
         if acc_data config = [] then (v, Err (VaultError VaultConfigEmpty))
         else (case m (vlt_output_vault v) of
             None \<Rightarrow> (v, Err (AccountMissing (vlt_output_vault v)))
           | Some a \<Rightarrow> try_in v (parse_token_account_amount (acc_data a) (vlt_output_mint v))
                (\<lambda>b. (v\<lparr>vlt_output_vault_balance := b\<rparr>, Ok ()))))"
  by (simp add: vault_update_def try_get_account_data_def split: option.split)

lemma parse_token_account_not_Panic: "parse_token_account_amount data mint \<noteq> Panic"
  by (simp add: parse_token_account_eq)

text \<open>A refresh changes the balance or nothing.\<close>

lemma vault_update_cases:
  obtains b where "vault_update m v = (v\<lparr>vlt_output_vault_balance := b\<rparr>, Ok ())"
  | e where "vault_update m v = (v, Err e)"
  using parse_token_account_not_Panic
  by (fastforce simp: vault_update_eq try_in_cases split: option.splits if_splits outcome.splits)

lemma vault_update_frame:
  "vault_wf (fst (vault_update m v)) = vault_wf v" "vlt_key (fst (vault_update m v)) = vlt_key v"
  "vault_get_reserve_mints (fst (vault_update m v)) = vault_get_reserve_mints v"
  "vault_get_accounts_to_update (fst (vault_update m v)) = vault_get_accounts_to_update v"
  "snd (vault_update m v) \<noteq> Panic"
  by (rule vault_update_cases [of m v];
      simp add: vault_wf_def vault_get_reserve_mints_def vault_get_accounts_to_update_def)+

lemma vault_update_local:
  assumes "\<And>k. k \<in> set (vault_get_accounts_to_update v) \<Longrightarrow> m k = m' k"
  shows "vault_update m v = vault_update m' v"
  using assms [of VAULT_CONFIG_PDA] assms [of "vlt_output_vault v"]
  by (simp add: vault_update_eq vault_get_accounts_to_update_def split: option.split)

lemma vault_validate_Ok [outcome]:
  "vault_validate_mint_pair v i out = Ok u \<longleftrightarrow> i = vlt_input_mint v \<and> out = vlt_output_mint v"
  by (simp add: vault_validate_mint_pair_def)

lemma vault_quote_Ok:
  "vault_quote v q = Ok r \<longleftrightarrow>
     q_swap_mode q = ExactIn \<and> q_input_mint q = vlt_input_mint v \<and> q_output_mint q = vlt_output_mint v \<and>
     (\<exists>out. compute_vault_output (vlt_input_mint v) (vlt_output_mint v) (q_amount q) = Some out \<and>
        out \<le> vlt_output_vault_balance v \<and>
        r = \<lparr>in_amount = q_amount q, out_amount = out, fee_amount = 0, fee_mint = vlt_input_mint v, fee_pct = 0\<rparr>)"
  by (cases "q_swap_mode q") (auto simp: vault_quote_def outcome not_less split: if_splits)

lemma vault_quote_not_Panic: "vault_quote v q \<noteq> Panic"
  by (simp add: vault_quote_def outcome vault_validate_mint_pair_def)

interpretation vault_stage: mono_stage "compute_vault_output i out" for i out
proof
  fix a b x y
  assume ok: "compute_vault_output i out a = Some x" "compute_vault_output i out b = Some y" and le: "a \<le> b"
  consider "into_profit i out" | "from_profit i out"
    using ok(1) vault_output_other [of i out a] by fastforce
  then show "x \<le> y"
  proof cases
    case 1
    then show ?thesis using ok le by (simp add: vault_output_into word_le_nat_alt div_le_mono)
  next
    case 2
    then show ?thesis using ok le by (simp add: vault_output_from word_le_nat_alt)
  qed
qed

section \<open>The interface contracts\<close>

lemma vault_metas_Ok:
  assumes "vault_wf v"
  shows "vault_get_swap_and_account_metas pda v p =
    (if source_mint p = vlt_input_mint v \<and> destination_mint p = vlt_output_mint v
     then and_then (build_vault_account_metas pda (token_transfer_authority p) (source_token_account p)
            (destination_token_account p) (vlt_input_mint v) (vlt_output_mint v))
            (\<lambda>ms. Ok \<lparr>swap = TokenSwap, account_metas = ms\<rparr>)
     else Err (VaultError (VaultMintPair (source_mint p) (destination_mint p))))"
  by (simp add: vault_get_swap_and_account_metas_def vault_validate_mint_pair_def)

interpretation vault_routing:
  liquid_amm vault_wf vlt_key vault_get_reserve_mints vault_get_accounts_to_update vault_get_accounts_len
    vault_update "\<lambda>_. vault_quote" "vault_get_swap_and_account_metas pda"
    "\<lambda>v _. unat (vlt_output_vault_balance v)"
  for pda
proof
  fix v :: vault_amm and m m' q r r' p sam a
  show "vault_wf (fst (vault_update m v))" if "vault_wf v"
    using that by (simp add: vault_update_frame)
  show "vlt_key (fst (vault_update m v)) = vlt_key v"
    and "vault_get_reserve_mints (fst (vault_update m v)) = vault_get_reserve_mints v"
    and "vault_get_accounts_to_update (fst (vault_update m v)) = vault_get_accounts_to_update v"
    and "snd (vault_update m v) \<noteq> Panic"
    by (rule vault_update_frame)+
  show "vault_update m v = vault_update m' v"
    if "\<And>k. k \<in> set (vault_get_accounts_to_update v) \<Longrightarrow> m k = m' k"
    using that by (rule vault_update_local)
  show "vault_quote v q \<noteq> Panic" by (rule vault_quote_not_Panic)
  show "q_swap_mode q = ExactIn \<and> in_amount r = q_amount q \<and>
      {q_input_mint q, q_output_mint q} = set (vault_get_reserve_mints v) \<and> q_input_mint q \<noteq> q_output_mint q"
    if "vault_wf v" and "vault_quote v q = Ok r"
    using that edge_mints(1) [of "vlt_input_mint v" "vlt_output_mint v"]
    by (auto simp: vault_quote_Ok vault_get_reserve_mints_def vault_wf_def)
  have protocol: "protocol_mint (vlt_input_mint v) \<and> protocol_mint (vlt_output_mint v)" if "vault_wf v"
    using that edge_mints [of "vlt_input_mint v" "vlt_output_mint v"] by (simp add: vault_wf_def)
  show "vault_get_swap_and_account_metas pda v p \<noteq> Panic" if "vault_wf v"
    using vault_list_Ok [OF conjunct1 [OF protocol [OF that]] conjunct2 [OF protocol [OF that]], of pda
        "token_transfer_authority p" "source_token_account p" "destination_token_account p"]
    by (auto simp: vault_metas_Ok [OF that] outcome)
  show "length (account_metas sam) \<le> vault_get_accounts_len v \<and>
      map meta_pubkey (filter is_signer (account_metas sam)) = [token_transfer_authority p] \<and>
      {source_mint p, destination_mint p} = set (vault_get_reserve_mints v)"
    if "vault_wf v" and "vault_get_swap_and_account_metas pda v p = Ok sam"
    using that(2) vault_list_Ok [OF conjunct1 [OF protocol [OF that(1)]] conjunct2 [OF protocol [OF that(1)]], of pda
        "token_transfer_authority p" "source_token_account p" "destination_token_account p"]
    by (auto simp: vault_metas_Ok [OF that(1)] outcome vault_get_accounts_len_def vault_get_reserve_mints_def
        split: if_splits)
  show "unat (out_amount r) \<le> unat (vlt_output_vault_balance v)"
    if "vault_wf v" and "vault_quote v q = Ok r"
    using that(2) by (auto simp: vault_quote_Ok word_le_nat_alt)
  show "out_amount r \<le> out_amount r'"
    if "vault_wf v" and "vault_quote v q = Ok r" and "vault_quote v (q\<lparr>q_amount := a\<rparr>) = Ok r'" and "q_amount q \<le> a"
    using that(2,3) vault_stage.mono [OF _ _ that(4)] by (auto simp: vault_quote_Ok)
qed

end
