(* ===== verification/Vault_Properties.thy ===== *)
theory Vault_Properties
  imports Vault_Amm
begin

text \<open>
  The properties of \<open>VaultAmm\<close>: which instances can be constructed, what a refresh reads, the exact
  price and its cap, the account lists, whole histories of refreshes, and routes through PROFIT.
\<close>

section \<open>Prices in exact integers\<close>

definition vault_price :: "pubkey \<Rightarrow> nat \<Rightarrow> nat option" where
  "vault_price out a =
     (if out = PROFIT_MINT then (if 100 \<le> a then Some (a div 100) else None)
      else if 0 < a \<and> a * 100 < 2 ^ 64 then Some (a * 100) else None)"

lemma compute_vault_price:
  assumes "supported_edge i out"
  shows "map_option unat (compute_vault_output i out a) = vault_price out (unat a)"
proof -
  from assms consider "into_profit i out" "out = PROFIT_MINT" | "from_profit i out" "out \<noteq> PROFIT_MINT"
    by (auto simp: supported_edge_def into_profit_def from_profit_def)
  then show ?thesis
  proof cases
    case 1
    have "unat a div 100 < 2 ^ 64" using unat_u64 [of a] by simp
    then obtain x :: u64 where "unat x = unat a div 100"
      using word_with_value [where 'a = 64, of "unat a div 100"] by auto
    then show ?thesis
      using 1 vault_output_into [OF 1(1), of a x] vault_output_into [OF 1(1), of a]
      by (cases "compute_vault_output i out a") (auto simp: vault_price_def)
  next
    case 2
    show ?thesis
    proof (cases "compute_vault_output i out a")
      case (Some x)
      then have "a \<noteq> 0 \<and> unat x = unat a * 100" using vault_output_from [OF 2(1)] by simp
      moreover from this have "0 < unat a" by (simp add: unat_gt_0)
      ultimately show ?thesis using 2 Some unat_u64 [of x] by (simp add: vault_price_def)
    next
      case None
      have "\<not> (0 < unat a \<and> unat a * 100 < 2 ^ 64)"
      proof
        assume h: "0 < unat a \<and> unat a * 100 < 2 ^ 64"
        then obtain x :: u64 where "unat x = unat a * 100"
          using word_with_value [where 'a = 64, of "unat a * 100"] by auto
        then have "compute_vault_output i out a = Some x"
          using vault_output_from [OF 2(1), of a x] h by auto
        then show False using None by simp
      qed
      then show ?thesis using 2 None by (auto simp: vault_price_def)
    qed
  qed
qed

section \<open>Concrete instances for the witnesses\<close>

definition vault_config_account :: account where
  "vault_config_account = \<lparr>acc_data = [1], acc_owner = CONVERSION_VAULT_PROGRAM_ID\<rparr>"

definition vault_map :: "pubkey \<Rightarrow> u64 \<Rightarrow> account_map" where
  "vault_map mint balance =
     [VAULT_CONFIG_PDA \<mapsto> vault_config_account,
      the (vault_for_mint mint) \<mapsto>
        \<lparr>acc_data = mock_token_account mint TREASURY balance, acc_owner = TOKEN_2022_PROGRAM_ID\<rparr>]"

abbreviation crime_to_profit :: vault_amm where
  "crime_to_profit \<equiv> vault_instance TREASURY CRIME_MINT PROFIT_MINT"

abbreviation profit_to_fraud :: vault_amm where
  "profit_to_fraud \<equiv> vault_instance STAKE_POOL_PDA PROFIT_MINT FRAUD_MINT"

lemma example_edges [simp]:
  "supported_edge CRIME_MINT PROFIT_MINT" "supported_edge PROFIT_MINT FRAUD_MINT"
  by (simp_all add: supported_edge_def into_profit_def from_profit_def)

lemma vault_instance_sel [simp]:
  "vlt_input_mint (vault_instance k i out) = i" "vlt_output_mint (vault_instance k i out) = out"
  "vlt_output_vault_balance (vault_instance k i out) = - 1" "vlt_key (vault_instance k i out) = k"
  "vlt_output_vault (vault_instance k i out) = the (vault_for_mint out)"
  by (simp_all add: vault_instance_def)

lemma mock_token_parsed: "parse_token_account_amount (mock_token_account mint owner amount) mint = Ok amount"
  using mock_token_reads [of mint owner amount]
  by (simp add: parse_token_account_eq token_account_mint_def token_account_amount_def u64_le.dec_enc)

lemma crime_to_profit_refresh:
  "vault_update (vault_map PROFIT_MINT b) crime_to_profit =
     (crime_to_profit\<lparr>vlt_output_vault_balance := b\<rparr>, Ok ())"
  by (simp add: vault_update_eq vault_map_def vault_config_account_def mock_token_parsed)

definition quote_request :: "u64 \<Rightarrow> pubkey \<Rightarrow> pubkey \<Rightarrow> quote_params" where
  "quote_request a i out = \<lparr>q_amount = a, q_input_mint = i, q_output_mint = out, q_swap_mode = ExactIn\<rparr>"

section \<open>Properties\<close>

text \<open>C25: Only the four on-chain conversions can be constructed.  With parameters, the constructor
  accepts exactly the parsable pairs that are one of the four edges, under the given key; without, it
  accepts exactly the synthetic keys of the four known instances.  The instance has the edge's mints
  and pays from the vault of its output mint; every other input is an error, and none of the
  constructor's \<open>expect\<close> calls can panic.\<close>

theorem vault_constructor_spec:
  "case vault_from_keyed_account pda parse ka of
     Ok v \<Rightarrow> vault_wf v \<and>
       v = vault_instance (ka_key ka) (vlt_input_mint v) (vlt_output_mint v) \<and>
       (case ka_params ka of
          Some params \<Rightarrow> Option.bind (params ''input_mint'') parse = Some (vlt_input_mint v) \<and>
            Option.bind (params ''output_mint'') parse = Some (vlt_output_mint v)
        | None \<Rightarrow> ka_key ka = derive_synthetic_key pda (vlt_input_mint v) (vlt_output_mint v))
   | Err e \<Rightarrow>
       (case ka_params ka of
          Some params \<Rightarrow> (\<nexists>i out. Option.bind (params ''input_mint'') parse = Some i \<and>
            Option.bind (params ''output_mint'') parse = Some out \<and> (i, out) \<in> set edges)
        | None \<Rightarrow> ka_key ka \<notin> (\<lambda>(i, out). derive_synthetic_key pda i out) ` set edges)
   | Panic \<Rightarrow> False"
proof (cases "vault_from_keyed_account pda parse ka")
  case (Ok v)
  note built = Ok [unfolded vault_from_keyed_account_Ok]
  show ?thesis
  proof (cases "ka_params ka")
    case None
    then obtain e where "find (\<lambda>(i, out). derive_synthetic_key pda i out = ka_key ka) edges = Some e"
      and v: "v = vault_instance (ka_key ka) (fst e) (snd e)"
      using built by auto
    then have "derive_synthetic_key pda (fst e) (snd e) = ka_key ka"
      by (auto simp: find_Some_iff split_beta)
    then show ?thesis using Ok None v vault_constructed(1) [OF Ok] by simp
  qed (use Ok built vault_constructed(1) [OF Ok] in auto)
next
  case (Err e)
  then have fails: "\<forall>v. vault_from_keyed_account pda parse ka \<noteq> Ok v" by simp
  show ?thesis
  proof (cases "ka_params ka")
    case None
    then have "find (\<lambda>(i, out). derive_synthetic_key pda i out = ka_key ka) edges = None"
      using fails [unfolded vault_from_keyed_account_Ok]
      by (cases "find (\<lambda>(i, out). derive_synthetic_key pda i out = ka_key ka) edges") auto
    then show ?thesis using Err None by (fastforce simp: find_None_iff)
  next
    case (Some params)
    then show ?thesis
      using Err fails [unfolded vault_from_keyed_account_Ok] by (auto simp: set_edges)
  qed
qed (simp add: vault_from_keyed_account_not_Panic)

text \<open>C24: The refresh of a vault.  \<open>update\<close> succeeds exactly when the config account is there and not
  empty and the output vault's account is there, long enough and of the output mint; the balance then
  is the amount in that account.  When it fails, the instance is unchanged: the last balance stays in
  force.  It never panics.\<close>

theorem vault_refresh_spec:
  "case vault_update m v of (v', result) \<Rightarrow>
     (case result of
        Ok _ \<Rightarrow> (\<exists>config a. m VAULT_CONFIG_PDA = Some config \<and> acc_data config \<noteq> [] \<and>
            m (vlt_output_vault v) = Some a \<and> 72 \<le> length (acc_data a) \<and>
            token_account_mint (acc_data a) = vlt_output_mint v \<and>
            v' = v\<lparr>vlt_output_vault_balance := token_account_amount (acc_data a)\<rparr>)
      | Err _ \<Rightarrow> v' = v \<and> \<not> (\<exists>config a. m VAULT_CONFIG_PDA = Some config \<and> acc_data config \<noteq> [] \<and>
            m (vlt_output_vault v) = Some a \<and> 72 \<le> length (acc_data a) \<and>
            token_account_mint (acc_data a) = vlt_output_mint v)
      | Panic \<Rightarrow> False)"
  by (auto simp: vault_update_eq parse_token_account_eq not_less split: option.split)

text \<open>C23: The price of a conversion and its cap.  A well-formed instance, refreshed to a balance,
  quotes exactly the exact-in requests for its own pair whose converted amount exists (at least 100
  units into PROFIT, a hundredfold below \<open>2 ^ 64\<close> out of it) and does not exceed the balance; the
  output is exactly that amount, and there is no fee.\<close>

theorem vault_quote_spec:
  assumes "vault_wf v"
  shows "case vault_quote v q of
      Ok r \<Rightarrow> q_swap_mode q = ExactIn \<and>
        q_input_mint q = vlt_input_mint v \<and> q_output_mint q = vlt_output_mint v \<and>
        vault_price (vlt_output_mint v) (unat (q_amount q)) = Some (unat (out_amount r)) \<and>
        out_amount r \<le> vlt_output_vault_balance v \<and>
        in_amount r = q_amount q \<and> fee_amount r = 0 \<and> fee_pct r = 0
    | Err e \<Rightarrow> q_swap_mode q = ExactOut \<or>
        (q_input_mint q, q_output_mint q) \<noteq> (vlt_input_mint v, vlt_output_mint v) \<or>
        (case vault_price (vlt_output_mint v) (unat (q_amount q)) of
           None \<Rightarrow> True | Some out \<Rightarrow> unat (vlt_output_vault_balance v) < out)
    | Panic \<Rightarrow> False"
proof -
  have edge: "supported_edge (vlt_input_mint v) (vlt_output_mint v)" using assms by (simp add: vault_wf_def)
  note price = compute_vault_price [OF edge, of "q_amount q", symmetric]
  show ?thesis
  proof (cases "vault_quote v q")
    case (Ok r)
    from Ok [unfolded vault_quote_Ok] show ?thesis unfolding Ok by (auto simp: price)
  next
    case (Err e)
    then have "\<forall>r. vault_quote v q \<noteq> Ok r" by simp
    then show ?thesis
      unfolding vault_quote_Ok
      by (cases "q_swap_mode q"; cases "compute_vault_output (vlt_input_mint v) (vlt_output_mint v) (q_amount q)")
         (auto simp: Err price word_less_nat_alt not_le)
  qed (simp add: vault_quote_not_Panic)
qed

theorem vault_quote_spec_witness:
  "\<exists>r. vault_quote (crime_to_profit\<lparr>vlt_output_vault_balance := 7\<rparr>)
         (quote_request 799 CRIME_MINT PROFIT_MINT) = Ok r \<and> unat (out_amount r) = 7"
proof -
  let ?v = "crime_to_profit\<lparr>vlt_output_vault_balance := 7\<rparr>"
  have "vault_wf ?v"
    using vault_instance_wf [of CRIME_MINT PROFIT_MINT TREASURY] by (simp add: vault_wf_def)
  from vault_quote_spec [OF this, of "quote_request 799 CRIME_MINT PROFIT_MINT"] show ?thesis
    by (auto simp: quote_request_def vault_price_def split: outcome.splits)
qed

text \<open>C37: The vault's swap accounts.  For a constructed instance the builder's panic is out of reach:
  a request for the instance's pair is answered with 17 accounts signed by the user alone, in either
  swap mode, since \<open>get_swap_and_account_metas\<close> does not look at it; every other pair is refused.\<close>

theorem vault_swap_accounts:
  assumes "vault_from_keyed_account pda parse ka = Ok v"
  shows "case vault_get_swap_and_account_metas pda' v p of
      Ok sam \<Rightarrow> (source_mint p, destination_mint p) = (vlt_input_mint v, vlt_output_mint v) \<and>
        length (account_metas sam) = 17 \<and>
        map meta_pubkey (filter is_signer (account_metas sam)) = [token_transfer_authority p]
    | Err e \<Rightarrow> (source_mint p, destination_mint p) \<noteq> (vlt_input_mint v, vlt_output_mint v) \<and>
        e = VaultError (VaultMintPair (source_mint p) (destination_mint p))
    | Panic \<Rightarrow> False"
proof -
  have wf: "vault_wf v" using assms by (rule vault_constructed(1))
  then have edge: "supported_edge (vlt_input_mint v) (vlt_output_mint v)" by (simp add: vault_wf_def)
  from vault_list_Ok [OF edge_mints(2) [OF edge] edge_mints(3) [OF edge], of pda' "token_transfer_authority p"
      "source_token_account p" "destination_token_account p"]
  show ?thesis by (auto simp: vault_metas_Ok [OF wf])
qed

definition example_params :: "string \<Rightarrow> string option" where
  "example_params = [''input_mint'' \<mapsto> ''C'', ''output_mint'' \<mapsto> ''P'']"

definition example_parse :: "string \<Rightarrow> pubkey option" where
  "example_parse = [''C'' \<mapsto> CRIME_MINT, ''P'' \<mapsto> PROFIT_MINT]"

definition example_vault_account :: keyed_account where
  "example_vault_account = \<lparr>ka_key = TREASURY, ka_account = vault_config_account, ka_params = Some example_params\<rparr>"

lemma example_constructed: "vault_from_keyed_account pda example_parse example_vault_account = Ok crime_to_profit"
  by (simp add: vault_from_keyed_account_Ok example_vault_account_def example_params_def example_parse_def)

theorem vault_swap_accounts_witness:
  "\<exists>sam. vault_get_swap_and_account_metas (\<lambda>_ _. (TREASURY, 255)) crime_to_profit
      \<lparr>sp_swap_mode = ExactOut, source_mint = CRIME_MINT, destination_mint = PROFIT_MINT,
       source_token_account = VAULT_CRIME, destination_token_account = VAULT_FRAUD,
       token_transfer_authority = STAKE_POOL_PDA\<rparr> = Ok sam \<and> length (account_metas sam) = 17"
  using vault_swap_accounts [OF example_constructed [of "\<lambda>_ _. (TREASURY, 255)"]]
  by (fastforce split: outcome.splits)

text \<open>Refreshes never endanger a vault's route.  After any history of refreshes a constructed
  instance has the key, pair and account list it had and is still well formed, its quotes are for the
  exact input asked and within its balance, and only the two accounts it lists have influenced it.\<close>

lemma vault_history_safety:
  assumes "vault_from_keyed_account pda parse ka = Ok v" and "v' = refresh_all vault_update ms v"
  shows "vlt_key v' = ka_key ka \<and> vault_get_reserve_mints v' = vault_get_reserve_mints v \<and>
    vault_get_accounts_to_update v' = vault_get_accounts_to_update v \<and> vault_wf v' \<and>
    refresh_all vault_update (map (\<lambda>m. m |` {VAULT_CONFIG_PDA, vlt_output_vault v}) ms) v = v' \<and>
    (\<forall>q. case vault_quote v' q of
        Ok r \<Rightarrow> q_swap_mode q = ExactIn \<and> in_amount r = q_amount q \<and>
          {q_input_mint q, q_output_mint q} = set (vault_get_reserve_mints v) \<and>
          unat (out_amount r) \<le> unat (vlt_output_vault_balance v')
      | Err _ \<Rightarrow> True | Panic \<Rightarrow> False)"
proof -
  have wf: "vault_wf v" using assms(1) by (rule vault_constructed(1))
  have quotes: "case vault_quote v' q of
        Ok r \<Rightarrow> q_swap_mode q = ExactIn \<and> in_amount r = q_amount q \<and>
          {q_input_mint q, q_output_mint q} = set (vault_get_reserve_mints v) \<and>
          unat (out_amount r) \<le> unat (vlt_output_vault_balance v')
      | Err _ \<Rightarrow> True | Panic \<Rightarrow> False" for q
  proof (cases "vault_quote v' q")
    case (Ok r)
    then show ?thesis
      using vault_routing.history_quote_sound [OF wf, of ms q r] vault_routing.history_liquid [OF wf, of ms q r]
      by (simp add: assms(2))
  qed (simp_all add: vault_quote_not_Panic)
  show ?thesis
    using quotes vault_routing.history_identity [of ms v] vault_routing.history_restrict [of v ms]
      vault_routing.history_inv [OF wf, of ms] vault_constructed(2) [OF assms(1)]
    by (simp add: assms(2) vault_get_accounts_to_update_def)
qed

theorem vault_history_safety_witness:
  "vlt_key (refresh_all vault_update [vault_map PROFIT_MINT 7, Map.empty] crime_to_profit) = TREASURY"
  using vault_history_safety [OF example_constructed [of "\<lambda>_ _. (TREASURY, 255)"] refl,
      of "[vault_map PROFIT_MINT 7, Map.empty]"]
  by (simp add: example_vault_account_def)

text \<open>What each leg of a route through PROFIT answers.\<close>

lemma into_profit_leg:
  assumes "vault_wf v" and "vlt_output_mint v = PROFIT_MINT"
  shows "case vault_quote v (quote_request a (vlt_input_mint v) PROFIT_MINT) of
      Ok r \<Rightarrow> 100 \<le> unat a \<and> unat (out_amount r) = unat a div 100 \<and> out_amount r \<le> vlt_output_vault_balance v
    | Err e \<Rightarrow> unat a < 100 \<and> e = VaultError (ConversionFailed (vlt_input_mint v) PROFIT_MINT a) \<or>
        (\<exists>need. e = VaultError (InsufficientLiquidity need (vlt_output_vault_balance v)) \<and> 100 \<le> unat a \<and>
           unat need = unat a div 100 \<and> vlt_output_vault_balance v < need)
    | Panic \<Rightarrow> False"
proof -
  have edge: "into_profit (vlt_input_mint v) PROFIT_MINT"
    using assms by (auto simp: vault_wf_def supported_edge_def into_profit_def from_profit_def)
  note price = vault_output_into [OF edge, of a] compute_vault_output_spec [of "vlt_input_mint v" PROFIT_MINT a]
  show ?thesis
    using assms(2) edge price
    by (cases "compute_vault_output (vlt_input_mint v) PROFIT_MINT a")
       (auto simp: vault_quote_def quote_request_def vault_validate_mint_pair_def not_less not_le split: if_splits)
qed

lemma from_profit_leg:
  assumes "vault_wf w" and "vlt_input_mint w = PROFIT_MINT" and "b \<noteq> 0" and "unat b * 100 < 2 ^ 64"
  shows "case vault_quote w (quote_request b PROFIT_MINT (vlt_output_mint w)) of
      Ok r \<Rightarrow> unat (out_amount r) = unat b * 100 \<and> out_amount r \<le> vlt_output_vault_balance w
    | Err e \<Rightarrow> \<exists>need. e = VaultError (InsufficientLiquidity need (vlt_output_vault_balance w)) \<and>
        unat need = unat b * 100 \<and> vlt_output_vault_balance w < need
    | Panic \<Rightarrow> False"
proof -
  have w: "from_profit PROFIT_MINT (vlt_output_mint w)"
    using assms(1,2) by (auto simp: vault_wf_def supported_edge_def into_profit_def from_profit_def)
  obtain x :: u64 where x: "unat x = unat b * 100"
    using word_with_value [where 'a = 64, of "unat b * 100"] assms(4) by auto
  then have "compute_vault_output PROFIT_MINT (vlt_output_mint w) b = Some x"
    using vault_output_from [OF w] assms(3) by blast
  then show ?thesis
    using assms(2) x by (simp add: vault_quote_def quote_request_def vault_validate_mint_pair_def not_less)
qed

text \<open>C26: The cross-faction route through PROFIT, converting CRIME or FRAUD into PROFIT and the whole
  result on into a faction token.  It succeeds only with at least 100 units that both vaults can pay
  for, and returns the input rounded down to a multiple of 100: nothing is gained, and less than 100
  units are lost.  It fails, with the error that says so, exactly when there are fewer than 100 units
  to start with, when the PROFIT vault cannot pay the first leg, or when it can and the other vault
  cannot pay the second.  It never panics.\<close>

theorem cross_faction_route:
  assumes "vault_wf v" and "vlt_output_mint v = PROFIT_MINT" and "vault_wf w" and "vlt_input_mint w = PROFIT_MINT"
  shows "let kept = unat a - unat a mod 100;
      bal1 = vlt_output_vault_balance v; bal2 = vlt_output_vault_balance w
    in case and_then (vault_quote v (quote_request a (vlt_input_mint v) PROFIT_MINT)) (\<lambda>r.
           vault_quote w (quote_request (out_amount r) PROFIT_MINT (vlt_output_mint w))) of
      Ok r' \<Rightarrow> 100 \<le> unat a \<and> unat a div 100 \<le> unat bal1 \<and> kept \<le> unat bal2 \<and>
        unat (out_amount r') = kept \<and> out_amount r' \<le> a
    | Err e \<Rightarrow>
        unat a < 100 \<and> e = VaultError (ConversionFailed (vlt_input_mint v) PROFIT_MINT a) \<or>
        (\<exists>need. e = VaultError (InsufficientLiquidity need bal1) \<and> 100 \<le> unat a \<and>
           unat need = unat a div 100 \<and> unat bal1 < unat a div 100) \<or>
        (\<exists>need. e = VaultError (InsufficientLiquidity need bal2) \<and> 100 \<le> unat a \<and>
           unat a div 100 \<le> unat bal1 \<and> unat need = kept \<and> unat bal2 < kept)
    | Panic \<Rightarrow> False"
proof -
  have multiple: "unat a div 100 * 100 = unat a - unat a mod 100"
    by (simp add: minus_mod_eq_div_mult)
  note leg1 = into_profit_leg [OF assms(1,2), of a]
  show ?thesis
  proof (cases "vault_quote v (quote_request a (vlt_input_mint v) PROFIT_MINT)")
    case (Ok r)
    then have first: "100 \<le> unat a" "unat (out_amount r) = unat a div 100" "out_amount r \<le> vlt_output_vault_balance v"
      using leg1 by simp_all
    have amount: "out_amount r \<noteq> 0" "unat (out_amount r) * 100 < 2 ^ 64"
      using first(1,2) multiple unat_u64 [of a] by (auto simp: unat_eq_zero [symmetric] div_eq_0_iff)
    show ?thesis
      using from_profit_leg [OF assms(3,4) amount] first multiple
      by (auto simp: Ok Let_def word_le_nat_alt word_less_nat_alt split: outcome.splits)
  next
    case (Err e)
    then show ?thesis using leg1 by (auto simp: Let_def word_less_nat_alt)
  next
    case Panic
    then show ?thesis using leg1 by simp
  qed
qed

theorem cross_faction_route_witness:
  "\<exists>r r'. vault_quote crime_to_profit (quote_request 1234 CRIME_MINT PROFIT_MINT) = Ok r \<and>
     vault_quote profit_to_fraud (quote_request (out_amount r) PROFIT_MINT FRAUD_MINT) = Ok r' \<and>
     unat (out_amount r') = 1200"
proof -
  have wf: "vault_wf crime_to_profit" "vault_wf profit_to_fraud" by (simp_all add: vault_instance_wf)
  have balance: "12 \<le> unat (- 1 :: u64)" "1200 \<le> unat (- 1 :: u64)"
    using word_le_nat_alt [of "12 :: u64" "- 1"] word_le_nat_alt [of "1200 :: u64" "- 1"] by simp_all
  from cross_faction_route [OF wf(1) _ wf(2), of 1234]
  have "\<exists>r'. and_then (vault_quote crime_to_profit (quote_request 1234 CRIME_MINT PROFIT_MINT)) (\<lambda>r.
        vault_quote profit_to_fraud (quote_request (out_amount r) PROFIT_MINT FRAUD_MINT)) = Ok r' \<and>
      unat (out_amount r') = 1200"
    using balance by (auto simp: Let_def split: outcome.splits)
  then show ?thesis by (auto simp: and_then_eq_Ok)
qed

text \<open>The factory.  \<open>known_instances\<close> never panics and lists exactly one well-formed instance for
  each of the four edges; when the four synthetic keys differ, as program addresses of different seeds
  do, the constructor finds each instance again by its key.\<close>

lemma factory_spec:
  assumes "distinct (map (\<lambda>(i, out). derive_synthetic_key pda i out) edges)"
  shows "\<exists>instances. known_instances pda = Ok instances \<and> length instances = 4 \<and>
    map (\<lambda>(key, v). (vlt_input_mint v, vlt_output_mint v)) instances = edges \<and>
    list_all (\<lambda>(key, v). vault_wf v \<and> vlt_key v = key \<and>
      vault_from_keyed_account pda parse \<lparr>ka_key = key, ka_account = acc, ka_params = None\<rparr> = Ok v) instances \<and>
    all_pool_keys pda = Ok ([CRIME_SOL_POOL, FRAUD_SOL_POOL] @ map fst instances)"
proof -
  let ?key = "\<lambda>(i, out). derive_synthetic_key pda i out"
  let ?instance = "\<lambda>e. vault_instance (?key e) (fst e) (snd e)"
  have known: "known_instances pda = Ok (map (\<lambda>e. (?key e, ?instance e)) edges)"
    by (simp add: known_instances_eq split_beta)
  have "vault_from_keyed_account pda parse \<lparr>ka_key = ?key e, ka_account = acc, ka_params = None\<rparr> = Ok (?instance e)"
    if "e \<in> set edges" for e
  proof -
    have "find (\<lambda>(i, out). derive_synthetic_key pda i out = ?key e) edges = Some e"
      using find_by_key [OF assms that] by (simp add: case_prod_beta')
    then show ?thesis by (simp add: vault_from_keyed_account_Ok)
  qed
  moreover have "vault_wf (?instance e)" if "e \<in> set edges" for e
    using that set_edges [of "fst e" "snd e"] by (simp add: vault_instance_wf)
  ultimately have "list_all (\<lambda>(key, v). vault_wf v \<and> vlt_key v = key \<and>
      vault_from_keyed_account pda parse \<lparr>ka_key = key, ka_account = acc, ka_params = None\<rparr> = Ok v)
      (map (\<lambda>e. (?key e, ?instance e)) edges)"
    by (simp add: list_all_iff)
  moreover have "length edges = 4" by (simp add: edges_def)
  ultimately show ?thesis
    by (simp add: known all_pool_keys_def known_sol_pool_keys_def comp_def)
qed

text \<open>Program addresses for the witness that differ for the four edges.\<close>

definition example_pda :: pda_fn where
  "example_pda seeds program =
     (if seeds ! 1 = as_ref PROFIT_MINT then pubkey_of_bytes (seeds ! 2)
      else if seeds ! 1 = as_ref CRIME_MINT then PROFIT_MINT else NATIVE_MINT, 255)"

theorem factory_spec_witness:
  "\<exists>instances. known_instances example_pda = Ok instances \<and> length instances = 4"
proof -
  have "distinct (map (\<lambda>(i, out). derive_synthetic_key example_pda i out) edges)"
    by (simp add: edges_def derive_synthetic_key_def example_pda_def flip: pubkey_eq_iff)
  from factory_spec [OF this] show ?thesis by blast
qed

end
