(* ===== verification/Market_Spec.thy ===== *)
theory Market_Spec
  imports Sol_Pool_Routing Vault_Properties
begin

text \<open>
  The abstract specification of what the adapters promise: a market is what a pool or a vault offers
  at the moment, in natural numbers and with no history; a refresh replaces it by what the accounts
  say or closes it, and a price is a formula.  The locale \<open>simulation\<close> is the contract between a
  detailed system and an abstract one that answer the same events; \<open>Amm_Fleet\<close> interprets it on the
  model of the code.
\<close>

section \<open>Systems that answer events\<close>

fun run :: "('e \<Rightarrow> 's \<Rightarrow> 's \<times> 'o) \<Rightarrow> 'e list \<Rightarrow> 's \<Rightarrow> 's \<times> 'o list" where
  "run step [] s = (s, [])"
| "run step (e # es) s = (let (s', out) = step e s; (s'', outs) = run step es s' in (s'', out # outs))"

lemma run_append:
  "run step (es @ es') s = (let (s', outs) = run step es s; (s'', outs') = run step es' s' in (s'', outs @ outs'))"
  by (induction es arbitrary: s) (simp_all add: split_beta Let_def)

lemma length_run [simp]: "length (snd (run step es s)) = length es"
  by (induction es arbitrary: s) (simp_all add: split_beta Let_def)

text \<open>
  A functional refinement: on well-formed states, abstracting and then taking the abstract step is
  taking the detailed step and then abstracting, and both give the same answer.
\<close>

locale simulation =
  fixes wf :: "'s \<Rightarrow> bool" and abs :: "'s \<Rightarrow> 'a"
    and step :: "'e \<Rightarrow> 's \<Rightarrow> 's \<times> 'o" and spec :: "'e \<Rightarrow> 'a \<Rightarrow> 'a \<times> 'o"
  assumes step_wf: "wf s \<Longrightarrow> wf (fst (step e s))"
    and step_commutes: "wf s \<Longrightarrow> spec e (abs s) = (abs (fst (step e s)), snd (step e s))"
begin

lemma run_wf: "wf s \<Longrightarrow> wf (fst (run step es s))"
proof (induction es arbitrary: s)
  case (Cons e es)
  then show ?case using step_wf [of s e] by (simp add: split_beta Let_def)
qed simp

lemma run_commutes: "wf s \<Longrightarrow> run spec es (abs s) = (abs (fst (run step es s)), snd (run step es s))"
proof (induction es arbitrary: s)
  case (Cons e es)
  then show ?case using step_wf [of s e] step_commutes [of s e] by (simp add: split_beta Let_def)
qed simp

end

section \<open>Markets\<close>

text \<open>What never changes about a pool, and what it offers while it is open.\<close>

record curve_ident =
  ci_key :: pubkey
  ci_quote :: pubkey
  ci_faction :: pubkey
  ci_crime :: bool
  ci_account :: "pubkey \<times> pubkey \<times> pubkey \<times> pubkey \<times> pubkey \<times> pubkey"
  ci_quote_program :: pubkey
  ci_clock :: clock_ref

record curve =
  cv_quote_reserve :: nat
  cv_faction_reserve :: nat
  cv_fee :: nat
  cv_buy_tax :: nat
  cv_sell_tax :: nat
  cv_opens_at :: nat

text \<open>A curve market is closed or offers a curve; a rate market has a direction, a vault and its balance.\<close>

datatype market =
    CurveMarket curve_ident "curve option"
  | RateMarket pubkey pubkey pubkey nat

text \<open>An offer: output, fee, the mint of the fee and its rate.\<close>

type_synonym offer = "nat \<times> nat \<times> pubkey \<times> rat"

definition buy_offer :: "curve_ident \<Rightarrow> curve \<Rightarrow> nat \<Rightarrow> offer option" where
  "buy_offer i c a =
     (let net = net_of (cv_buy_tax c) a; priced_in = lp_net (cv_fee c) net in
      if cv_buy_tax c \<le> 10000 \<and> (net = 0 \<or> cv_fee c \<le> 10000 \<and> 0 < cv_quote_reserve c + priced_in)
      then Some (curve_out (cv_quote_reserve c) (cv_faction_reserve c) priced_in, a - priced_in, ci_quote i,
                 of_nat (cv_fee c + cv_buy_tax c) / 10000)
      else None)"

definition sell_offer :: "curve_ident \<Rightarrow> curve \<Rightarrow> nat \<Rightarrow> offer option" where
  "sell_offer i c a =
     (let gross = curve_out (cv_faction_reserve c) (cv_quote_reserve c) (lp_net (cv_fee c) a);
          net = net_of (cv_sell_tax c) gross in
      if cv_sell_tax c \<le> 10000 \<and> cv_fee c \<le> 10000 \<and> 0 < cv_faction_reserve c + lp_net (cv_fee c) a
      then Some (net, gross - net, ci_quote i, of_nat (cv_fee c + cv_sell_tax c) / 10000)
      else None)"

fun market_offer :: "(clock_ref \<Rightarrow> nat) \<Rightarrow> market \<Rightarrow> quote_params \<Rightarrow> offer option" where
  "market_offer slots (CurveMarket i None) q = None"
| "market_offer slots (CurveMarket i (Some c)) q =
     (if q_swap_mode q \<noteq> ExactIn \<or> slots (ci_clock i) < cv_opens_at c then None
      else if (q_input_mint q, q_output_mint q) = (ci_quote i, ci_faction i)
        then buy_offer i c (unat (q_amount q))
      else if (q_input_mint q, q_output_mint q) = (ci_faction i, ci_quote i)
        then sell_offer i c (unat (q_amount q))
      else None)"
| "market_offer slots (RateMarket input output vault balance) q =
     (if q_swap_mode q \<noteq> ExactIn \<or> (q_input_mint q, q_output_mint q) \<noteq> (input, output) then None
      else case vault_price output (unat (q_amount q)) of
             None \<Rightarrow> None
           | Some out \<Rightarrow> if out \<le> balance then Some (out, 0, input, 0) else None)"

text \<open>What the accounts of a refresh say about a pool, if they are all there and in order.\<close>

definition curve_accounts :: "'m mint_lib \<Rightarrow> account_map \<Rightarrow> curve_ident \<Rightarrow> (pool_state \<times> epoch_state) option" where
  "curve_accounts lib m i =
     (case (m (ci_key i), m EPOCH_STATE_PDA) of
        (Some pool, Some epoch) \<Rightarrow>
          if acc_owner pool = AMM_PROGRAM_ID \<and> pool_shape (acc_data pool) \<and>
             pool_identity (pool_view (acc_data pool)) = ci_account i \<and>
             acc_owner epoch = EPOCH_PROGRAM_ID \<and> epoch_shape (acc_data epoch) \<and>
             (ci_quote i = NATIVE_MINT \<or>
              (case m (ci_quote i) of
                 None \<Rightarrow> False
               | Some mint \<Rightarrow> acc_owner mint = ci_quote_program i \<and>
                   quote_mint_admitted lib (acc_data mint) (acc_owner mint)))
          then Some (pool_view (acc_data pool), epoch_view (acc_data epoch)) else None
      | _ \<Rightarrow> None)"

text \<open>The curve they open: none when the pool or the epoch does not allow trading.\<close>

definition opened_curve :: "curve_ident \<Rightarrow> pool_state \<Rightarrow> epoch_state \<Rightarrow> curve option" where
  "opened_curve i p e =
     (if initialized p \<and> \<not> locked p \<and> epoch_initialized e \<and> \<not> trading_paused e
      then Some \<lparr>cv_quote_reserve = unat (if mint_a p = ci_quote i then reserve_a p else reserve_b p),
                 cv_faction_reserve = unat (if mint_a p = ci_quote i then reserve_b p else reserve_a p),
                 cv_fee = unat (lp_fee_bps p),
                 cv_buy_tax = unat (get_tax_bps e (ci_crime i) True),
                 cv_sell_tax = unat (get_tax_bps e (ci_crime i) False),
                 cv_opens_at = unat (pause_end_slot e)\<rparr>
      else None)"

fun market_refresh :: "'m mint_lib \<Rightarrow> account_map \<Rightarrow> market \<Rightarrow> market \<times> bool" where
  "market_refresh lib m (CurveMarket i c) =
     (case curve_accounts lib m i of
        None \<Rightarrow> (CurveMarket i None, False)
      | Some (p, e) \<Rightarrow> (CurveMarket i (opened_curve i p e), True))"
| "market_refresh lib m (RateMarket input output vault balance) =
     (case (m VAULT_CONFIG_PDA, m vault) of
        (Some config, Some a) \<Rightarrow>
          if acc_data config \<noteq> [] \<and> 72 \<le> length (acc_data a) \<and> token_account_mint (acc_data a) = output
          then (RateMarket input output vault (unat (token_account_amount (acc_data a))), True)
          else (RateMarket input output vault balance, False)
      | _ \<Rightarrow> (RateMarket input output vault balance, False))"

end
