(* ===== verification/Sol_Pool_Lifecycle.thy ===== *)
theory Sol_Pool_Lifecycle
  imports Sol_Pool_Routing
begin

text \<open>
  The life of a \<open>SolPoolAmm\<close> instance under Jupiter, as a transition system: refreshes with arbitrary
  account maps, some of which fail, interleaved with slots of the shared clocks passing.  The last
  refresh is recorded beside the instance, so that "active" can be related to what was read.
\<close>

section \<open>The transition system\<close>

record pool_session =
  session_amm :: sol_pool_amm
  session_clocks :: clocks
  last_refresh :: "(account_map \<times> unit result) option"

inductive pool_step :: "'m mint_lib \<Rightarrow> pool_session \<Rightarrow> pool_session \<Rightarrow> bool" for lib where
  refresh: "pool_update lib m (session_amm s) = (amm', r) \<Longrightarrow>
     pool_step lib s (s\<lparr>session_amm := amm', last_refresh := Some (m, r)\<rparr>)"
| slot: "session_clocks s c \<le> now \<Longrightarrow>
     pool_step lib s (s\<lparr>session_clocks := (session_clocks s)(c := now)\<rparr>)"

inductive_cases pool_stepE: "pool_step lib s s'"

text \<open>Sessions start with the instance that the constructor returns.\<close>

inductive pool_reachable :: "pda_fn \<Rightarrow> 'm mint_lib \<Rightarrow> pool_session \<Rightarrow> bool" for pda lib where
  start: "pool_from_keyed_account pda ka clock = Ok a \<Longrightarrow>
     pool_reachable pda lib \<lparr>session_amm = a, session_clocks = clk, last_refresh = None\<rparr>"
| step: "pool_reachable pda lib s \<Longrightarrow> pool_step lib s s' \<Longrightarrow> pool_reachable pda lib s'"

section \<open>The invariant\<close>

text \<open>The instance agrees with what the last refresh read, if that succeeded, and is inactive otherwise.\<close>

definition current :: "'m mint_lib \<Rightarrow> account_map \<Rightarrow> sol_pool_amm \<Rightarrow> bool" where
  "current lib m a \<longleftrightarrow> (\<exists>p e. refresh_reads lib m a p e \<and> a = refreshed p e a)"

definition session_inv :: "'m mint_lib \<Rightarrow> pool_session \<Rightarrow> bool" where
  "session_inv lib s \<longleftrightarrow> amm_wf (session_amm s) \<and>
     (case last_refresh s of
        Some (m, Ok _) \<Rightarrow> current lib m (session_amm s)
      | _ \<Rightarrow> \<not> amm_state_refreshed (session_amm s))"

lemma refresh_reads_identity:
  assumes "amm_identity a = amm_identity b" and "pool_identity (amm_pool a) = pool_identity (amm_pool b)"
  shows "refresh_reads lib m a p e \<longleftrightarrow> refresh_reads lib m b p e"
  using assms by (simp add: refresh_reads_def amm_identity_def pool_identity_def quote_token_program_def)

lemma refreshed_twice: "refreshed p e (refreshed p e a) = refreshed p e a"
  by (simp add: refreshed_def with_epoch_def is_crime_def)

lemma refreshed_current:
  assumes "refresh_reads lib m a p e"
  shows "current lib m (refreshed p e a)"
proof -
  have "pool_identity p = pool_identity (amm_pool a)"
    using assms unfolding refresh_reads_def by blast
  then have "refresh_reads lib m (refreshed p e a) p e"
    using assms refresh_reads_identity [of "refreshed p e a" a lib m p e] by simp
  then show ?thesis unfolding current_def using refreshed_twice [of p e a] by metis
qed

lemma session_inv_step:
  assumes "session_inv lib s" and "pool_step lib s s'"
  shows "session_inv lib s'"
  using assms(2)
proof (cases rule: pool_step.cases)
  case (refresh m amm' r)
  have "amm_wf amm'"
    using assms(1) refresh(2) pool_update_wf [of lib m "session_amm s"] by (simp add: session_inv_def)
  moreover have "current lib m amm'" if "r = Ok u" for u
    using refresh(2) that by (auto simp: pool_update_Ok intro: refreshed_current)
  moreover have "\<not> amm_state_refreshed amm'" if "r \<noteq> Ok ()"
    using pool_update_failed(2) [of lib m "session_amm s"] refresh(2) that by simp
  ultimately show ?thesis
    unfolding refresh(1) by (cases r) (simp_all add: session_inv_def)
next
  case (slot c now)
  then have "session_amm s' = session_amm s" "last_refresh s' = last_refresh s" by simp_all
  then show ?thesis using assms(1) by (simp only: session_inv_def)
qed

lemma reachable_inv: "pool_reachable pda lib s \<Longrightarrow> session_inv lib s"
proof (induction rule: pool_reachable.induct)
  case (start ka clock a clk)
  have "\<not> amm_state_refreshed a"
    using start by (auto simp: from_keyed_account_Ok fresh_amm_def split_beta Let_def)
  then show ?case using constructed(1) [OF start] by (simp add: session_inv_def)
qed (rule session_inv_step)

text \<open>A slot never takes activity away, and only the instance's own clock can give it.\<close>

lemma active_after_slot:
  assumes "pool_is_active clk a" and "clk c \<le> now"
  shows "pool_is_active (clk(c := now)) a"
  using assms by (auto simp: pool_is_active_def)

text \<open>Slots passing, and nothing else.\<close>

inductive slots_pass :: "pool_session \<Rightarrow> pool_session \<Rightarrow> bool" where
  none: "slots_pass s s"
| more: "slots_pass s s' \<Longrightarrow> session_clocks s' c \<le> now \<Longrightarrow>
    slots_pass s (s'\<lparr>session_clocks := (session_clocks s')(c := now)\<rparr>)"

lemma active_while_slots_pass:
  "slots_pass s s' \<Longrightarrow> pool_is_active (session_clocks s) (session_amm s) \<Longrightarrow>
     pool_is_active (session_clocks s') (session_amm s')"
  by (induction rule: slots_pass.induct) (simp_all add: active_after_slot)

text \<open>What an instance will accept never changes, whatever happens to it.\<close>

lemma step_identity:
  assumes "pool_step lib s s'"
  shows "amm_identity (session_amm s') = amm_identity (session_amm s)"
    and "pool_identity (amm_pool (session_amm s')) = pool_identity (amm_pool (session_amm s))"
proof -
  consider m r where "pool_update lib m (session_amm s) = (session_amm s', r)" | "session_amm s' = session_amm s"
    using assms by (auto elim: pool_stepE)
  then show "amm_identity (session_amm s') = amm_identity (session_amm s)"
    and "pool_identity (amm_pool (session_amm s')) = pool_identity (amm_pool (session_amm s))"
    by (cases; simp; metis fst_conv pool_update_identity)+
qed

lemma steps_identity:
  "(pool_step lib)\<^sup>*\<^sup>* s s' \<Longrightarrow> amm_identity (session_amm s') = amm_identity (session_amm s)"
  "(pool_step lib)\<^sup>*\<^sup>* s s' \<Longrightarrow>
     pool_identity (amm_pool (session_amm s')) = pool_identity (amm_pool (session_amm s))"
  by (induction rule: rtranclp_induct) (simp_all add: step_identity)

lemma steps_accept:
  "(pool_step lib)\<^sup>*\<^sup>* s s' \<Longrightarrow>
     refresh_reads lib m (session_amm s') p e \<longleftrightarrow> refresh_reads lib m (session_amm s) p e"
  by (rule refresh_reads_identity) (rule steps_identity, assumption)+

lemma crime_session:
  "pool_reachable (\<lambda>_ _. (CRIME_SOL_POOL, 255)) no_mints
     \<lparr>session_amm = crime_amm, session_clocks = (\<lambda>_. 0), last_refresh = None\<rparr>"
  by (rule pool_reachable.start) (rule crime_constructed)

text \<open>The epoch of \<open>crime_map\<close>, and the session after one refresh with it.\<close>

lemma crime_refresh_epoch:
  obtains e where "refresh_reads no_mints crime_map crime_amm (amm_pool crime_amm) e"
    and "epoch_initialized e" "\<not> trading_paused e" "pause_end_slot e = 0"
    and "initialized (amm_pool crime_amm)" "\<not> locked (amm_pool crime_amm)"
proof -
  obtain e where reads: "refresh_reads no_mints crime_map crime_amm (amm_pool crime_amm) e"
    using crime_refreshes by blast
  moreover have "epoch_initialized e \<and> \<not> trading_paused e \<and> pause_end_slot e = 0"
    using reads by (auto simp: refresh_reads_def crime_map_def epoch_parsed)
  moreover have "initialized (amm_pool crime_amm) \<and> \<not> locked (amm_pool crime_amm)"
    using crime_amm_pool by (simp add: crime_pool_parsed) (metis pool_state.select_convs(8,9))
  ultimately show ?thesis using that by blast
qed

section \<open>Properties\<close>

text \<open>C1: An active instance is never stale.  In every reachable state in which the instance is active,
  the latest refresh, not just some earlier one, succeeded, and the reserves, fee, tax rates and
  gates in force are exactly those of the accounts in its map, whose pause has ended on the clock.\<close>

theorem active_is_current:
  assumes "pool_reachable pda lib s" and "pool_is_active (session_clocks s) (session_amm s)"
  shows "\<exists>m p e. last_refresh s = Some (m, Ok ()) \<and> refresh_reads lib m (session_amm s) p e \<and>
    amm_pool (session_amm s) = p \<and>
    amm_buy_tax_bps (session_amm s) = get_tax_bps e (is_crime (session_amm s)) True \<and>
    amm_sell_tax_bps (session_amm s) = get_tax_bps e (is_crime (session_amm s)) False \<and>
    initialized p \<and> \<not> locked p \<and> epoch_initialized e \<and> \<not> trading_paused e \<and>
    pause_end_slot e \<le> session_clocks s (amm_clock_ref (session_amm s))"
proof -
  have inv: "session_inv lib s" using assms(1) by (rule reachable_inv)
  have flag: "amm_state_refreshed (session_amm s)" using assms(2) by (rule active_needs_refresh)
  obtain m where last: "last_refresh s = Some (m, Ok ())" and "current lib m (session_amm s)"
    using inv flag by (auto simp: session_inv_def split: option.splits prod.splits outcome.splits)
  then obtain p e where reads: "refresh_reads lib m (session_amm s) p e"
    and same: "session_amm s = refreshed p e (session_amm s)"
    by (auto simp: current_def)
  have "amm_pool (session_amm s) = p"
    and "amm_buy_tax_bps (session_amm s) = get_tax_bps e (is_crime (session_amm s)) True"
    and "amm_sell_tax_bps (session_amm s) = get_tax_bps e (is_crime (session_amm s)) False"
    by (subst same, simp add: refreshed_def with_epoch_def)+
  moreover have "initialized p \<and> \<not> locked p \<and> epoch_initialized e \<and> \<not> trading_paused e \<and>
    pause_end_slot e \<le> session_clocks s (amm_clock_ref (session_amm s))"
    using assms(2) same active_refreshed [of "session_clocks s" p e "session_amm s"] by simp
  ultimately show ?thesis using last reads by blast
qed

theorem active_is_current_witness:
  "\<exists>(s :: pool_session) p e. last_refresh s = Some (crime_map, Ok ()) \<and>
     refresh_reads no_mints crime_map (session_amm s) p e \<and> amm_pool (session_amm s) = p"
proof -
  obtain e where reads: "refresh_reads no_mints crime_map crime_amm (amm_pool crime_amm) e"
    and ok: "epoch_initialized e" "\<not> trading_paused e" "pause_end_slot e = 0"
      "initialized (amm_pool crime_amm)" "\<not> locked (amm_pool crime_amm)"
    by (rule crime_refresh_epoch)
  let ?a = "refreshed (amm_pool crime_amm) e crime_amm"
  let ?s = "\<lparr>session_amm = ?a, session_clocks = (\<lambda>_. 0), last_refresh = Some (crime_map, Ok ())\<rparr>"
  have "pool_update no_mints crime_map crime_amm = (?a, Ok ())" using reads by (auto simp: pool_update_Ok)
  then have "pool_reachable (\<lambda>_ _. (CRIME_SOL_POOL, 255)) no_mints ?s"
    using pool_reachable.step [OF crime_session] pool_step.refresh [of no_mints crime_map
        "\<lparr>session_amm = crime_amm, session_clocks = (\<lambda>_. 0), last_refresh = None\<rparr>" ?a "Ok ()"]
    by simp
  moreover have "pool_is_active (session_clocks ?s) (session_amm ?s)"
    using ok by (simp add: active_refreshed)
  ultimately obtain m p e' where "last_refresh ?s = Some (m, Ok ())" "refresh_reads no_mints m (session_amm ?s) p e'"
    "amm_pool (session_amm ?s) = p"
    using active_is_current by blast
  then have "last_refresh ?s = Some (crime_map, Ok ()) \<and>
      refresh_reads no_mints crime_map (session_amm ?s) p e' \<and> amm_pool (session_amm ?s) = p"
    by simp
  then show ?thesis by blast
qed

text \<open>C18: A route always comes back.  Take accounts that an instance accepts, with the pool initialized and
  unlocked and the epoch initialized and not paused by hand, and let any refreshes, failed ones
  included, and any slots come first.  Refreshing with these very accounts succeeds then; if the
  instance's clock goes on to any slot \<open>now\<close>, the instance is active exactly when the epoch's pause
  ends at \<open>now\<close> or before; and once active, it stays so however many slots of any clocks pass.\<close>

theorem route_comes_back:
  assumes "(pool_step lib)\<^sup>*\<^sup>* s0 s" and "refresh_reads lib m (session_amm s0) p e"
    and "initialized p \<and> \<not> locked p \<and> epoch_initialized e \<and> \<not> trading_paused e"
  shows "let (a, r) = pool_update lib m (session_amm s);
      s1 = s\<lparr>session_amm := a, last_refresh := Some (m, r)\<rparr>;
      own = amm_clock_ref (session_amm s)
    in r = Ok () \<and> pool_step lib s s1 \<and>
      (\<forall>now \<ge> session_clocks s own.
         let s2 = s1\<lparr>session_clocks := (session_clocks s)(own := now)\<rparr>
         in pool_step lib s1 s2 \<and>
            (pool_is_active (session_clocks s2) (session_amm s2) \<longleftrightarrow> pause_end_slot e \<le> now) \<and>
            (\<forall>s3. slots_pass s2 s3 \<longrightarrow> pause_end_slot e \<le> now \<longrightarrow>
               pool_is_active (session_clocks s3) (session_amm s3)))"
proof -
  let ?a = "refreshed p e (session_amm s)" and ?own = "amm_clock_ref (session_amm s)"
  let ?s1 = "s\<lparr>session_amm := ?a, last_refresh := Some (m, Ok ())\<rparr>"
  have update: "pool_update lib m (session_amm s) = (?a, Ok ())"
    using assms(2) steps_accept [OF assms(1)] by (auto simp: pool_update_Ok)
  have "pool_step lib s ?s1" using update by (rule pool_step.refresh)
  moreover have "pool_step lib ?s1 (?s1\<lparr>session_clocks := (session_clocks s)(?own := now)\<rparr>)"
    if "session_clocks s ?own \<le> now" for now
    using pool_step.slot [of ?s1 ?own now] that by simp
  moreover have active: "pool_is_active ((session_clocks s)(?own := now)) ?a \<longleftrightarrow> pause_end_slot e \<le> now" for now
    using assms(3) by (simp add: active_refreshed)
  moreover have "pool_is_active (session_clocks s3) (session_amm s3)"
    if "slots_pass (?s1\<lparr>session_clocks := (session_clocks s)(?own := now)\<rparr>) s3" and "pause_end_slot e \<le> now" for s3 now
    using active_while_slots_pass [OF that(1)] active that(2) by simp
  ultimately show ?thesis by (simp add: update Let_def)
qed

theorem route_comes_back_witness:
  "let s0 = \<lparr>session_amm = crime_amm, session_clocks = (\<lambda>_. 0), last_refresh = None\<rparr>;
       failed = s0\<lparr>session_amm := fst (pool_update no_mints Map.empty crime_amm),
                   last_refresh := Some (Map.empty, snd (pool_update no_mints Map.empty crime_amm))\<rparr>;
       (a, r) = pool_update no_mints crime_map (session_amm failed)
   in r = Ok () \<and> pool_is_active ((session_clocks failed)(amm_clock_ref (session_amm failed) := 5)) a"
proof -
  let ?s0 = "\<lparr>session_amm = crime_amm, session_clocks = (\<lambda>_. 0), last_refresh = None\<rparr> :: pool_session"
  let ?r = "pool_update no_mints Map.empty crime_amm"
  let ?failed = "?s0\<lparr>session_amm := fst ?r, last_refresh := Some (Map.empty, snd ?r)\<rparr>"
  obtain e where reads: "refresh_reads no_mints crime_map crime_amm (amm_pool crime_amm) e"
    and ok: "epoch_initialized e" "\<not> trading_paused e" "pause_end_slot e = 0"
      "initialized (amm_pool crime_amm)" "\<not> locked (amm_pool crime_amm)"
    by (rule crime_refresh_epoch)
  have steps: "(pool_step no_mints)\<^sup>*\<^sup>* ?s0 ?failed"
    using pool_step.refresh [of no_mints Map.empty ?s0 "fst ?r" "snd ?r"] by (intro r_into_rtranclp) simp
  from route_comes_back [OF steps, of crime_map "amm_pool crime_amm" e] reads ok show ?thesis
    by (auto simp: Let_def split_beta dest!: spec [of _ 5])
qed

end
