(* ===== verification/Amm_Fleet.thy ===== *)
theory Amm_Fleet
  imports Market_Spec Sol_Pool_Lifecycle
begin

text \<open>
  What Jupiter runs: many instances of both adapters behind \<open>Box<dyn Amm>\<close>, cloned, refreshed and
  asked for quotes in any order, over clocks that they share.  The fleet is the detailed system; the
  markets of \<open>Market_Spec\<close> are its specification, and the locale \<open>simulation\<close> is interpreted on the two.
\<close>

section \<open>Trait objects\<close>

datatype dyn_amm = DynPool sol_pool_amm | DynVault vault_amm

text \<open>\<open>Box::new(self.clone())\<close>: a copy of the fields, the clock shared.\<close>

definition pool_clone_amm :: "sol_pool_amm \<Rightarrow> dyn_amm" where "pool_clone_amm self = DynPool self"

definition vault_clone_amm :: "vault_amm \<Rightarrow> dyn_amm" where "vault_clone_amm self = DynVault self"

fun dyn_clone_amm :: "dyn_amm \<Rightarrow> dyn_amm" where
  "dyn_clone_amm (DynPool s) = pool_clone_amm s"
| "dyn_clone_amm (DynVault v) = vault_clone_amm v"

fun dyn_update :: "'m mint_lib \<Rightarrow> account_map \<Rightarrow> dyn_amm \<Rightarrow> dyn_amm \<times> unit result" where
  "dyn_update lib m (DynPool s) = (let (s', r) = pool_update lib m s in (DynPool s', r))"
| "dyn_update lib m (DynVault v) = (let (v', r) = vault_update m v in (DynVault v', r))"

fun dyn_quote :: "clocks \<Rightarrow> dyn_amm \<Rightarrow> quote_params \<Rightarrow> quote result" where
  "dyn_quote clk (DynPool s) q = pool_quote clk s q"
| "dyn_quote clk (DynVault v) q = vault_quote v q"

fun dyn_key :: "dyn_amm \<Rightarrow> pubkey" where
  "dyn_key (DynPool s) = amm_key s"
| "dyn_key (DynVault v) = vlt_key v"

fun dyn_reserve_mints :: "dyn_amm \<Rightarrow> pubkey list" where
  "dyn_reserve_mints (DynPool s) = pool_get_reserve_mints s"
| "dyn_reserve_mints (DynVault v) = vault_get_reserve_mints v"

fun dyn_wf :: "dyn_amm \<Rightarrow> bool" where
  "dyn_wf (DynPool s) = amm_wf s"
| "dyn_wf (DynVault v) = vault_wf v"

lemma dyn_clone_same [simp]: "dyn_clone_amm a = a"
  by (cases a) (simp_all add: pool_clone_amm_def vault_clone_amm_def)

lemma dyn_update_wf: "dyn_wf (fst (dyn_update lib m a)) = dyn_wf a"
  by (cases a) (simp_all add: split_beta Let_def pool_update_wf vault_update_frame)

lemma dyn_update_frame:
  "dyn_key (fst (dyn_update lib m a)) = dyn_key a"
  "dyn_reserve_mints (fst (dyn_update lib m a)) = dyn_reserve_mints a"
  "snd (dyn_update lib m a) \<noteq> Panic"
proof -
  have "amm_key (fst (pool_update lib m s)) = amm_key s"
    "pool_get_reserve_mints (fst (pool_update lib m s)) = pool_get_reserve_mints s" for s
    by (rule identity_mints, rule pool_update_identity)+
  then show "dyn_key (fst (dyn_update lib m a)) = dyn_key a"
    and "dyn_reserve_mints (fst (dyn_update lib m a)) = dyn_reserve_mints a"
    and "snd (dyn_update lib m a) \<noteq> Panic"
    by (cases a; simp add: split_beta Let_def pool_update_not_Panic vault_update_frame)+
qed

section \<open>The fleet\<close>

record fleet =
  fl_amms :: "nat \<rightharpoonup> dyn_amm"
  fl_clocks :: clocks

datatype fleet_event =
    Refresh nat account_map
  | CloneTo nat nat
  | Tick clock_ref u64
  | Ask nat quote_params

datatype answer = Refreshed bool | Quoted "offer option" | Silent | Crashed

fun report :: "unit result \<Rightarrow> answer" where
  "report (Ok u) = Refreshed True"
| "report (Err e) = Refreshed False"
| "report Panic = Crashed"

fun quoted :: "quote result \<Rightarrow> answer" where
  "quoted (Ok r) = Quoted (Some (unat (out_amount r), unat (fee_amount r), fee_mint r, fee_pct r))"
| "quoted (Err e) = Quoted None"
| "quoted Panic = Crashed"

fun fleet_step :: "'m mint_lib \<Rightarrow> fleet_event \<Rightarrow> fleet \<Rightarrow> fleet \<times> answer" where
  "fleet_step lib (Refresh i m) F =
     (case fl_amms F i of
        None \<Rightarrow> (F, Silent)
      | Some a \<Rightarrow> (let (a', r) = dyn_update lib m a in (F\<lparr>fl_amms := (fl_amms F)(i \<mapsto> a')\<rparr>, report r)))"
| "fleet_step lib (CloneTo i j) F =
     (case fl_amms F i of
        None \<Rightarrow> (F, Silent)
      | Some a \<Rightarrow> (F\<lparr>fl_amms := (fl_amms F)(j \<mapsto> dyn_clone_amm a)\<rparr>, Silent))"
| "fleet_step lib (Tick c now) F = (F\<lparr>fl_clocks := (fl_clocks F)(c := now)\<rparr>, Silent)"
| "fleet_step lib (Ask i q) F =
     (F, case fl_amms F i of None \<Rightarrow> Silent | Some a \<Rightarrow> quoted (dyn_quote (fl_clocks F) a q))"

definition fleet_wf :: "fleet \<Rightarrow> bool" where
  "fleet_wf F \<longleftrightarrow> (\<forall>a \<in> ran (fl_amms F). dyn_wf a)"

section \<open>The board of markets\<close>

record board =
  bd_markets :: "nat \<rightharpoonup> market"
  bd_slots :: "clock_ref \<Rightarrow> nat"

fun board_step :: "'m mint_lib \<Rightarrow> fleet_event \<Rightarrow> board \<Rightarrow> board \<times> answer" where
  "board_step lib (Refresh i m) B =
     (case bd_markets B i of
        None \<Rightarrow> (B, Silent)
      | Some k \<Rightarrow> (let (k', okay) = market_refresh lib m k in (B\<lparr>bd_markets := (bd_markets B)(i \<mapsto> k')\<rparr>, Refreshed okay)))"
| "board_step lib (CloneTo i j) B =
     (case bd_markets B i of
        None \<Rightarrow> (B, Silent)
      | Some k \<Rightarrow> (B\<lparr>bd_markets := (bd_markets B)(j \<mapsto> k)\<rparr>, Silent))"
| "board_step lib (Tick c now) B = (B\<lparr>bd_slots := (bd_slots B)(c := unat now)\<rparr>, Silent)"
| "board_step lib (Ask i q) B =
     (B, case bd_markets B i of None \<Rightarrow> Silent | Some k \<Rightarrow> Quoted (market_offer (bd_slots B) k q))"

section \<open>Abstraction\<close>

definition ident_of :: "sol_pool_amm \<Rightarrow> curve_ident" where
  "ident_of s = \<lparr>ci_key = amm_key s, ci_quote = amm_quote_mint s, ci_faction = amm_faction_mint s,
     ci_crime = is_crime s, ci_account = pool_identity (amm_pool s), ci_quote_program = quote_token_program s,
     ci_clock = amm_clock_ref s\<rparr>"

definition curve_of :: "sol_pool_amm \<Rightarrow> curve option" where
  "curve_of s =
     (if amm_state_refreshed s \<and> initialized (amm_pool s) \<and> \<not> locked (amm_pool s) \<and>
         amm_epoch_initialized s \<and> \<not> amm_trading_paused s
      then Some \<lparr>cv_quote_reserve = unat (fst (reserves s)), cv_faction_reserve = unat (snd (reserves s)),
                 cv_fee = unat (lp_fee_bps (amm_pool s)), cv_buy_tax = unat (amm_buy_tax_bps s),
                 cv_sell_tax = unat (amm_sell_tax_bps s), cv_opens_at = unat (amm_pause_end_slot s)\<rparr>
      else None)"

fun market_of :: "dyn_amm \<Rightarrow> market" where
  "market_of (DynPool s) = CurveMarket (ident_of s) (curve_of s)"
| "market_of (DynVault v) =
     RateMarket (vlt_input_mint v) (vlt_output_mint v) (vlt_output_vault v) (unat (vlt_output_vault_balance v))"

definition board_of :: "fleet \<Rightarrow> board" where
  "board_of F = \<lparr>bd_markets = (\<lambda>i. map_option market_of (fl_amms F i)), bd_slots = (\<lambda>c. unat (fl_clocks F c))\<rparr>"

subsection \<open>Refreshes\<close>

lemma curve_accounts_Some:
  "curve_accounts lib m (ident_of s) = Some (p, e) \<longleftrightarrow> refresh_reads lib m s p e"
  by (auto simp: curve_accounts_def refresh_reads_def ident_of_def pool_from_bytes_Ok epoch_from_bytes_Ok
      split: option.splits)

lemma ident_of_update: "ident_of (fst (pool_update lib m s)) = ident_of s"
  using pool_update_identity [of lib m s]
  by (simp add: ident_of_def amm_identity_def is_crime_def pool_identity_def quote_token_program_def)

lemma curve_of_refreshed:
  "curve_of (refreshed p e s) = opened_curve (ident_of s) p e"
  by (simp add: curve_of_def opened_curve_def refreshed_def with_epoch_def ident_of_def reserves_def is_crime_def)

lemma pool_refresh_commutes:
  "market_refresh lib m (market_of (DynPool s)) =
     (market_of (fst (dyn_update lib m (DynPool s))), snd (dyn_update lib m (DynPool s)) = Ok ())"
proof (cases "curve_accounts lib m (ident_of s)")
  case None
  then have no: "\<nexists>p e. refresh_reads lib m s p e"
    using curve_accounts_Some [of lib m s] by (metis option.distinct(1))
  then have failed: "snd (pool_update lib m s) \<noteq> Ok ()"
    using pool_update_Ok [of lib m s "fst (pool_update lib m s)"] by (metis prod.collapse)
  have "curve_of (fst (pool_update lib m s)) = None"
    using pool_update_failed(2) [OF failed] by (simp add: curve_of_def)
  then show ?thesis using None failed ident_of_update [of lib m s] by (simp add: split_beta Let_def)
next
  case (Some pe)
  obtain p e where pe: "pe = (p, e)" by (cases pe)
  have upd: "pool_update lib m s = (refreshed p e s, Ok ())"
    using Some pe curve_accounts_Some pool_update_Ok by metis
  then show ?thesis
    using Some pe ident_of_update [of lib m s] by (simp add: curve_of_refreshed)
qed

lemma vault_refresh_commutes:
  "market_refresh lib m (market_of (DynVault v)) =
     (market_of (fst (dyn_update lib m (DynVault v))), snd (dyn_update lib m (DynVault v)) = Ok ())"
  by (auto simp: vault_update_eq parse_token_account_eq split: option.split)

lemma refresh_commutes:
  "market_refresh lib m (market_of a) = (market_of (fst (dyn_update lib m a)), snd (dyn_update lib m a) = Ok ())"
  by (cases a) (simp_all only: pool_refresh_commutes vault_refresh_commutes)

lemma report_update: "report (snd (dyn_update lib m a)) = Refreshed (snd (dyn_update lib m a) = Ok ())"
  using dyn_update_frame(3) [of lib m a] by (cases "snd (dyn_update lib m a)") simp_all

subsection \<open>Quotes\<close>

lemma buy_offer_quote:
  assumes "curve_of s = Some c"
  shows "quoted (quote_buy s a) = Quoted (buy_offer (ident_of s) c (unat a))"
proof -
  have c: "cv_quote_reserve c = unat (fst (reserves s))" "cv_faction_reserve c = unat (snd (reserves s))"
    "cv_fee c = unat (lp_fee_bps (amm_pool s))" "cv_buy_tax c = unat (amm_buy_tax_bps s)"
    using assms by (auto simp: curve_of_def split: if_splits)
  show ?thesis
  proof (cases "buy_priced s a")
    case True
    then obtain r where r: "quote_buy s a = Ok r" using quote_buy_exists by blast
    note v = quote_buy_values [OF r]
    have "buy_offer (ident_of s) c (unat a) =
        Some (unat (out_amount r), unat (fee_amount r), fee_mint r, fee_pct r)"
      using True v(3-5) v(6) [symmetric]
      by (simp add: buy_offer_def buy_priced_def c Let_def buy_out_def ident_of_def)
    then show ?thesis using r by simp
  next
    case False
    then have "\<nexists>r. quote_buy s a = Ok r" using quote_buy_values(1) by blast
    moreover have "buy_offer (ident_of s) c (unat a) = None"
      using False by (simp add: buy_offer_def buy_priced_def c Let_def)
    ultimately show ?thesis using quotes_not_Panic(1) [of s a] by (cases "quote_buy s a") simp_all
  qed
qed

lemma sell_offer_quote:
  assumes "curve_of s = Some c"
  shows "quoted (quote_sell s a) = Quoted (sell_offer (ident_of s) c (unat a))"
proof -
  have c: "cv_quote_reserve c = unat (fst (reserves s))" "cv_faction_reserve c = unat (snd (reserves s))"
    "cv_fee c = unat (lp_fee_bps (amm_pool s))" "cv_sell_tax c = unat (amm_sell_tax_bps s)"
    using assms by (auto simp: curve_of_def split: if_splits)
  show ?thesis
  proof (cases "sell_priced s a")
    case True
    then obtain r where r: "quote_sell s a = Ok r" using quote_sell_exists by blast
    note v = quote_sell_values [OF r]
    have "sell_offer (ident_of s) c (unat a) =
        Some (unat (out_amount r), unat (fee_amount r), fee_mint r, fee_pct r)"
      using True v(3-5) v(6) [symmetric]
      by (simp add: sell_offer_def sell_priced_def c Let_def sell_out_def sell_gross_def ident_of_def)
    then show ?thesis using r by simp
  next
    case False
    then have "\<nexists>r. quote_sell s a = Ok r" using quote_sell_values(1) by blast
    moreover have "sell_offer (ident_of s) c (unat a) = None"
      using False by (auto simp: sell_offer_def sell_priced_def c Let_def)
    ultimately show ?thesis using quotes_not_Panic(2) [of s a] by (cases "quote_sell s a") simp_all
  qed
qed

lemma active_iff_open:
  "pool_is_active clk s \<longleftrightarrow> (\<exists>c. curve_of s = Some c \<and> cv_opens_at c \<le> unat (clk (amm_clock_ref s)))"
  by (auto simp: pool_is_active_def curve_of_def word_le_nat_alt)

lemma pool_quote_lanes:
  assumes "amm_wf s"
  shows "quoted (pool_quote clk s q) =
    (if q_swap_mode q \<noteq> ExactIn \<or> \<not> pool_is_active clk s then Quoted None
     else if (q_input_mint q, q_output_mint q) = (amm_quote_mint s, amm_faction_mint s)
       then quoted (quote_buy s (q_amount q))
     else if (q_input_mint q, q_output_mint q) = (amm_faction_mint s, amm_quote_mint s)
       then quoted (quote_sell s (q_amount q))
     else Quoted None)"
proof -
  have ne: "amm_faction_mint s \<noteq> amm_quote_mint s" by (rule amm_wf_mints(1)) (rule assms)
  show ?thesis
    using ne
    by (cases "q_swap_mode q"; cases "q_input_mint q = amm_quote_mint s";
        cases "q_input_mint q = amm_faction_mint s"; cases "pool_is_active clk s")
       (simp_all add: pool_quote_def pool_validate_mint_pair_def)
qed

lemma pool_quote_commutes:
  assumes "amm_wf s"
  shows "quoted (pool_quote clk s q) = Quoted (market_offer (\<lambda>c. unat (clk c)) (market_of (DynPool s)) q)"
proof (cases "curve_of s")
  case None
  then show ?thesis by (simp add: pool_quote_lanes [OF assms] active_iff_open)
next
  case (Some c)
  have ident: "ci_clock (ident_of s) = amm_clock_ref s" "ci_quote (ident_of s) = amm_quote_mint s"
    "ci_faction (ident_of s) = amm_faction_mint s" by (simp_all add: ident_of_def)
  have active: "pool_is_active clk s \<longleftrightarrow> \<not> unat (clk (amm_clock_ref s)) < cv_opens_at c"
    using Some by (simp add: active_iff_open not_less)
  show ?thesis
    unfolding pool_quote_lanes [OF assms] active market_of.simps Some market_offer.simps ident
    by (simp add: buy_offer_quote [OF Some] sell_offer_quote [OF Some])
qed

lemma vault_quote_commutes:
  assumes "vault_wf v"
  shows "quoted (vault_quote v q) = Quoted (market_offer slots (market_of (DynVault v)) q)"
proof -
  have "supported_edge (vlt_input_mint v) (vlt_output_mint v)" using assms by (simp add: vault_wf_def)
  note price = compute_vault_price [OF this, of "q_amount q", symmetric]
  show ?thesis
    by (cases "q_swap_mode q";
        cases "compute_vault_output (vlt_input_mint v) (vlt_output_mint v) (q_amount q)")
       (auto simp: vault_quote_def vault_validate_mint_pair_def price word_less_nat_alt)
qed

lemma quote_commutes:
  "dyn_wf a \<Longrightarrow> quoted (dyn_quote clk a q) = Quoted (market_offer (\<lambda>c. unat (clk c)) (market_of a) q)"
  by (cases a) (simp_all only: dyn_wf.simps dyn_quote.simps pool_quote_commutes vault_quote_commutes)

section \<open>The simulation\<close>

lemma fleet_lookup_wf: "fleet_wf F \<Longrightarrow> fl_amms F i = Some a \<Longrightarrow> dyn_wf a"
  by (auto simp: fleet_wf_def ran_def)

lemma fleet_step_wf:
  assumes "fleet_wf F"
  shows "fleet_wf (fst (fleet_step lib e F))"
proof (cases e)
  case (Refresh i m)
  then show ?thesis
    using assms fleet_lookup_wf [OF assms, of i] dyn_update_wf [of lib m]
    by (auto simp: fleet_wf_def split_beta Let_def ran_def split: option.splits if_splits)
next
  case (CloneTo i j)
  then show ?thesis
    using assms fleet_lookup_wf [OF assms, of i]
    by (auto simp: fleet_wf_def ran_def split: option.splits if_splits)
qed (use assms in \<open>simp_all add: fleet_wf_def\<close>)

lemma fleet_step_commutes:
  assumes "fleet_wf F"
  shows "board_step lib e (board_of F) = (board_of (fst (fleet_step lib e F)), snd (fleet_step lib e F))"
proof (cases e)
  case (Refresh i m)
  show ?thesis
  proof (cases "fl_amms F i")
    case (Some a)
    then show ?thesis
      by (simp add: Refresh board_of_def split_beta Let_def refresh_commutes report_update fun_eq_iff)
  qed (simp add: Refresh board_of_def)
next
  case (CloneTo i j)
  then show ?thesis by (cases "fl_amms F i") (simp_all add: board_of_def fun_eq_iff)
next
  case (Tick c now)
  then show ?thesis by (simp add: board_of_def fun_eq_iff)
next
  case (Ask i q)
  show ?thesis
  proof (cases "fl_amms F i")
    case (Some a)
    then show ?thesis
      using quote_commutes [OF fleet_lookup_wf [OF assms Some], of "fl_clocks F" q]
      by (simp add: Ask board_of_def)
  qed (simp add: Ask board_of_def)
qed

interpretation fleet_sim: simulation fleet_wf board_of "fleet_step lib" "board_step lib" for lib :: "'m mint_lib"
  by unfold_locales (simp_all add: fleet_step_wf fleet_step_commutes)

section \<open>Fleets that were constructed\<close>

definition returned_by_constructor :: "pda_fn \<Rightarrow> (string \<Rightarrow> pubkey option) \<Rightarrow> dyn_amm \<Rightarrow> bool" where
  "returned_by_constructor pda parse a \<longleftrightarrow>
     (case a of
        DynPool s \<Rightarrow> \<exists>ka clock. pool_from_keyed_account pda ka clock = Ok s
      | DynVault v \<Rightarrow> \<exists>ka. vault_from_keyed_account pda parse ka = Ok v)"

definition constructed_fleet :: "pda_fn \<Rightarrow> (string \<Rightarrow> pubkey option) \<Rightarrow> fleet \<Rightarrow> bool" where
  "constructed_fleet pda parse F \<longleftrightarrow> (\<forall>a \<in> ran (fl_amms F). returned_by_constructor pda parse a)"

lemma constructed_fleet_wf: "constructed_fleet pda parse F \<Longrightarrow> fleet_wf F"
proof -
  have "dyn_wf a" if "returned_by_constructor pda parse a" for a
    using that constructed(1) vault_constructed(1)
    by (cases a) (auto simp: returned_by_constructor_def)
  then show "constructed_fleet pda parse F \<Longrightarrow> fleet_wf F"
    by (simp add: constructed_fleet_def fleet_wf_def)
qed

lemma board_never_crashes: "Crashed \<notin> set (snd (run (board_step lib) es B))"
proof (induction es arbitrary: B)
  case (Cons e es)
  have "snd (board_step lib e B) \<noteq> Crashed"
    by (cases e) (auto simp: split_beta Let_def split: option.split)
  then show ?case using Cons.IH [of "fst (board_step lib e B)"] by (auto simp: split_beta Let_def)
qed simp

text \<open>The identities in a fleet: refreshes keep them and clones copy them.\<close>

definition identities :: "fleet \<Rightarrow> (pubkey \<times> pubkey list) set" where
  "identities F = (\<lambda>a. (dyn_key a, dyn_reserve_mints a)) ` ran (fl_amms F)"

lemma identities_upd:
  "fl_amms F i = Some a \<Longrightarrow> (dyn_key b, dyn_reserve_mints b) = (dyn_key a, dyn_reserve_mints a) \<Longrightarrow>
     identities (F\<lparr>fl_amms := (fl_amms F)(j \<mapsto> b)\<rparr>) \<subseteq> identities F"
  by (auto simp: identities_def ran_def image_iff split: if_splits)

lemma identities_step: "identities (fst (fleet_step lib e F)) \<subseteq> identities F"
proof (cases e)
  case (Refresh i m)
  show ?thesis
  proof (cases "fl_amms F i")
    case (Some a)
    have "(dyn_key (fst (dyn_update lib m a)), dyn_reserve_mints (fst (dyn_update lib m a))) =
        (dyn_key a, dyn_reserve_mints a)"
      by (simp only: dyn_update_frame)
    from identities_upd [OF Some this] show ?thesis
      unfolding Refresh fleet_step.simps by (simp add: Some split_beta Let_def del: fun_upd_apply)
  qed (simp add: Refresh)
next
  case (CloneTo i j)
  then show ?thesis
    using identities_upd [of F i _ _ j] by (simp del: fun_upd_apply split: option.split)
next
  case (Tick c now)
  then show ?thesis by (simp add: identities_def)
qed simp

lemma identities_run: "identities (fst (run (fleet_step lib) es F)) \<subseteq> identities F"
proof (induction es arbitrary: F)
  case (Cons e es)
  then show ?case using identities_step [of lib e F] by (fastforce simp: split_beta Let_def)
qed simp

section \<open>One instance among the others\<close>

text \<open>What an instance is told and asked, and its answers in a run.\<close>

fun addressed :: "nat \<Rightarrow> fleet_event \<Rightarrow> bool" where
  "addressed i (Refresh j m) = (j = i)"
| "addressed i (Ask j q) = (j = i)"
| "addressed i _ = False"

fun relevant :: "nat \<Rightarrow> fleet_event \<Rightarrow> bool" where
  "relevant i (Tick c now) = True"
| "relevant i e = addressed i e"

fun replaces :: "nat \<Rightarrow> fleet_event \<Rightarrow> bool" where
  "replaces i (CloneTo j k) = (k = i)"
| "replaces i _ = False"

fun answers_of :: "'m mint_lib \<Rightarrow> nat \<Rightarrow> fleet_event list \<Rightarrow> fleet \<Rightarrow> answer list" where
  "answers_of lib i [] F = []"
| "answers_of lib i (e # es) F =
     (let (F', a) = fleet_step lib e F
      in if addressed i e then a # answers_of lib i es F' else answers_of lib i es F')"

definition same_for :: "nat \<Rightarrow> fleet \<Rightarrow> fleet \<Rightarrow> bool" where
  "same_for i F G \<longleftrightarrow> fl_amms F i = fl_amms G i \<and> fl_clocks F = fl_clocks G"

lemma same_for_relevant:
  assumes "same_for i F G" and "relevant i e"
  shows "same_for i (fst (fleet_step lib e F)) (fst (fleet_step lib e G))"
    and "addressed i e \<Longrightarrow> snd (fleet_step lib e F) = snd (fleet_step lib e G)"
  using assms by (cases e; auto simp: same_for_def split_beta Let_def split: option.split)+

lemma same_for_irrelevant:
  "same_for i F G \<Longrightarrow> \<not> relevant i e \<Longrightarrow> \<not> replaces i e \<Longrightarrow> same_for i (fst (fleet_step lib e F)) G"
  by (cases e) (auto simp: same_for_def split_beta Let_def split: option.split)

lemma irrelevant_not_addressed: "\<not> relevant i e \<Longrightarrow> \<not> addressed i e"
  by (cases e) auto

lemma answers_of_filter:
  "same_for i F G \<Longrightarrow> \<forall>e \<in> set es. \<not> replaces i e \<Longrightarrow>
     answers_of lib i es F = answers_of lib i (filter (relevant i) es) G"
proof (induction es arbitrary: F G)
  case (Cons e es)
  show ?case
  proof (cases "relevant i e")
    case True
    then show ?thesis
      using Cons.IH [OF same_for_relevant(1) [OF Cons.prems(1) True, of lib]]
        same_for_relevant(2) [OF Cons.prems(1) True, of lib] Cons.prems(2)
      by (simp add: split_beta Let_def)
  next
    case False
    then show ?thesis
      using Cons.IH [OF same_for_irrelevant [OF Cons.prems(1) False, of lib]] Cons.prems(2) irrelevant_not_addressed [OF False]
      by (simp add: split_beta Let_def)
  qed
qed simp

section \<open>Properties\<close>

text \<open>C3: The adapters refine their specification.  Take any fleet of instances that the constructors
  returned, and any sequence of refreshes with any account maps, clones, clock slots and quote
  requests, in any interleaving.  Every answer, and so every price, fee and refusal, is the one that
  the board of abstract markets gives, in which a refresh replaces a market or closes it and prices
  are formulas on natural numbers; no call panics; and the state at the end abstracts to the board's.\<close>

theorem fleet_refines_markets:
  assumes "constructed_fleet pda parse F"
  shows "run (board_step lib) es (board_of F) =
      (board_of (fst (run (fleet_step lib) es F)), snd (run (fleet_step lib) es F)) \<and>
    Crashed \<notin> set (snd (run (fleet_step lib) es F))"
proof
  show sim: "run (board_step lib) es (board_of F) =
      (board_of (fst (run (fleet_step lib) es F)), snd (run (fleet_step lib) es F))"
    using assms by (intro fleet_sim.run_commutes constructed_fleet_wf)
  show "Crashed \<notin> set (snd (run (fleet_step lib) es F))"
    using board_never_crashes [of lib es "board_of F"] by (simp add: sim)
qed

definition example_fleet :: fleet where
  "example_fleet = \<lparr>fl_amms = [0 \<mapsto> DynPool crime_amm, 1 \<mapsto> DynVault crime_to_profit], fl_clocks = (\<lambda>_. 0)\<rparr>"

lemma example_fleet_constructed:
  "constructed_fleet (\<lambda>_ _. (CRIME_SOL_POOL, 255)) example_parse example_fleet"
  using crime_constructed example_constructed
  by (auto simp: constructed_fleet_def returned_by_constructor_def example_fleet_def)

theorem fleet_refines_markets_witness:
  "snd (run (fleet_step no_mints) [Ask 0 (quote_request 100 NATIVE_MINT CRIME_MINT), CloneTo 1 2,
      Ask 2 (quote_request 799 CRIME_MINT PROFIT_MINT)] example_fleet) =
    [Quoted None, Silent, Quoted (Some (7, 0, CRIME_MINT, 0))]"
proof -
  have "curve_of crime_amm = None"
    by (simp add: curve_of_def crime_amm_def fresh_amm_def split_beta Let_def)
  moreover have "7 \<le> unat (- 1 :: u64)"
    using word_le_nat_alt [of "7 :: u64" "- 1"] by simp
  moreover note fleet_refines_markets [OF example_fleet_constructed, of no_mints
    "[Ask 0 (quote_request 100 NATIVE_MINT CRIME_MINT), CloneTo 1 2, Ask 2 (quote_request 799 CRIME_MINT PROFIT_MINT)]",
    THEN conjunct1, THEN arg_cong [of _ _ snd], simplified snd_conv, symmetric]
  ultimately show ?thesis
    by (simp add: board_of_def example_fleet_def quote_request_def vault_price_def)
qed

text \<open>Instances do not interfere.  In any run of any fleet, the answers of an instance, to its
  refreshes and to its quote requests, are those it gives when everything but its own events and
  the clock slots is left out, as long as no clone is put in its place: refreshing, cloning or
  asking others, even instances cloned from it, changes nothing for it.\<close>

lemma instances_do_not_interfere:
  assumes "\<forall>e \<in> set es. \<not> replaces i e"
  shows "answers_of lib i es F = answers_of lib i (filter (relevant i) es) F"
  by (rule answers_of_filter) (simp_all add: same_for_def assms)

theorem instances_do_not_interfere_witness:
  "answers_of no_mints 0 [CloneTo 0 5, Refresh 5 crime_map, Ask 1 (quote_request 799 CRIME_MINT PROFIT_MINT),
      Ask 0 (quote_request 100 NATIVE_MINT CRIME_MINT)] example_fleet =
   answers_of no_mints 0 [Ask 0 (quote_request 100 NATIVE_MINT CRIME_MINT)] example_fleet"
  using instances_do_not_interfere [of "[CloneTo 0 5, Refresh 5 crime_map, Ask 1 (quote_request 799 CRIME_MINT PROFIT_MINT),
      Ask 0 (quote_request 100 NATIVE_MINT CRIME_MINT)]" 0 no_mints example_fleet]
  by (simp del: answers_of.simps)

text \<open>C16: Every instance stays well typed.  From a fleet of constructed instances, whatever is refreshed,
  cloned, ticked or asked, every instance there is has the shape its constructor established (mints,
  role, token programs and vault that belong together), and no pool or conversion appears that was
  not constructed: key and mints are always those of an instance of the first fleet.\<close>

theorem fleet_stays_typed:
  assumes "constructed_fleet pda parse F" and "fl_amms (fst (run (fleet_step lib) es F)) i = Some a"
  shows "dyn_wf a \<and> (\<exists>b \<in> ran (fl_amms F). returned_by_constructor pda parse b \<and>
    dyn_key b = dyn_key a \<and> dyn_reserve_mints b = dyn_reserve_mints a)"
proof
  show "dyn_wf a"
    using fleet_sim.run_wf [OF constructed_fleet_wf [OF assms(1)], of lib es] assms(2)
    by (rule fleet_lookup_wf)
  have "(dyn_key a, dyn_reserve_mints a) \<in> identities (fst (run (fleet_step lib) es F))"
    using assms(2) by (auto simp: identities_def ran_def)
  then have "(dyn_key a, dyn_reserve_mints a) \<in> identities F"
    using identities_run by blast
  then show "\<exists>b \<in> ran (fl_amms F). returned_by_constructor pda parse b \<and>
      dyn_key b = dyn_key a \<and> dyn_reserve_mints b = dyn_reserve_mints a"
    using assms(1) by (auto simp: identities_def constructed_fleet_def)
qed

theorem fleet_stays_typed_witness:
  "\<exists>a. fl_amms (fst (run (fleet_step no_mints) [CloneTo 1 2] example_fleet)) 2 = Some a \<and> dyn_wf a"
proof -
  have "fl_amms (fst (run (fleet_step no_mints) [CloneTo 1 2] example_fleet)) 2 = Some (DynVault crime_to_profit)"
    by (simp add: example_fleet_def)
  from fleet_stays_typed [OF example_fleet_constructed this] this show ?thesis by blast
qed

end
