(* ===== verification/Test_Vectors_Math.thy ===== *)
theory Test_Vectors_Math
  imports Amm_Math Tax_Math Vault_Math
begin

text \<open>
  The unit tests of \<open>math/amm_math.rs\<close>, \<open>math/tax_math.rs\<close> and \<open>math/vault_math.rs\<close>, one
  executable predicate for each test function, under its name with \<open>test_\<close> in front, and the
  proofs that the model passes them all: a check of the definitions against the results that the
  crate's own authors expect.
\<close>

section \<open>Assertions\<close>

text \<open>
  A test passes when none of its assertions fails and nothing in it panics: \<open>unwrap\<close> on a value
  goes on with it and fails the test otherwise.
\<close>

definition is_some :: "'a option \<Rightarrow> bool" where "is_some m \<longleftrightarrow> m \<noteq> None"

fun unwrap_some :: "'a option \<Rightarrow> ('a \<Rightarrow> bool) \<Rightarrow> bool" where
  "unwrap_some (Some x) t = t x"
| "unwrap_some None t = False"

fun unwrap :: "('a, 'e) outcome \<Rightarrow> ('a \<Rightarrow> bool) \<Rightarrow> bool" where
  "unwrap (Ok x) t = t x"
| "unwrap (Err e) t = False"
| "unwrap Panic t = False"

fun unwrap_err :: "('a, 'e) outcome \<Rightarrow> ('e \<Rightarrow> bool) \<Rightarrow> bool" where
  "unwrap_err (Err e) t = t e"
| "unwrap_err (Ok x) t = False"
| "unwrap_err Panic t = False"

definition is_ok :: "('a, 'e) outcome \<Rightarrow> bool" where "is_ok r = unwrap r (\<lambda>x. True)"

definition is_err :: "('a, 'e) outcome \<Rightarrow> bool" where "is_err r = unwrap_err r (\<lambda>e. True)"

lemmas assertion_defs = is_some_def is_ok_def is_err_def

text \<open>\<open>u64::MAX\<close>.\<close>

abbreviation u64_MAX :: u64 where "u64_MAX \<equiv> 18446744073709551615"

section \<open>Evaluation\<close>

text \<open>The four functions at concrete arguments, as numerals that the simplifier can work out.\<close>

lemma effective_input_eval:
  "calculate_effective_input a f =
     (if unat f \<le> 10000 then Some (word_of_nat (unat a * (10000 - unat f) div 10000)) else None)"
proof (cases "calculate_effective_input a f")
  case None
  then show ?thesis using effective_input_spec [of a f] by simp
next
  case (Some e)
  then have f: "unat f \<le> 10000" and v: "unat e = unat a * (10000 - unat f) div 10000"
    by (simp_all add: effective_input_Some)
  have "e = word_of_nat (unat e)" by simp
  then show ?thesis using Some f unfolding v by simp
qed

lemma swap_output_eval:
  "calculate_swap_output r_in r_out e =
     (if unat r_out * unat e < 2 ^ 128 \<and> unat r_in + unat e < 2 ^ 128 \<and> 0 < unat r_in + unat e
      then Some (word_of_nat (unat r_out * unat e div (unat r_in + unat e))) else None)" (is "_ = (if ?c then _ else _)")
proof (cases ?c)
  case True
  have "unat r_out * unat e div (unat r_in + unat e) < 2 ^ 64"
    using curve_out_le [of "unat r_in" "unat r_out" "unat e"] unat_u64 [of r_out] by (simp add: curve_out_def)
  then show ?thesis using True by (simp add: swap_output_Some unat_of_nat_small)
next
  case False
  then have "calculate_swap_output r_in r_out e \<noteq> Some out" for out by (auto simp: swap_output_Some)
  then show ?thesis using False by (metis option.exhaust)
qed

lemma share_eval: "unat bps \<le> 10000 \<Longrightarrow> bps_share a bps = Some (word_of_nat (unat a * unat bps div 10000))"
  using share_le [of "unat bps" "unat a"] unat_u64 [of a] by (simp add: bps_share_Some unat_of_nat_small)

lemma tax_eval:
  "calculate_tax a bps =
     (if unat bps \<le> 10000 then Some (word_of_nat (unat a * unat bps div 10000)) else None)"
  by (simp add: calculate_tax_share share_eval unat_u16_u128_tax)

lemma split_eval:
  "split_distribution t =
     (if unat t < 4 then Some (t, 0, 0)
      else let staking = word_of_nat (unat t * 7100 div 10000); carnage = word_of_nat (unat t * 2400 div 10000)
           in Some (staking, carnage, t - staking - carnage))" (is "_ = ?r")
proof (cases "t < 4")
  case False
  let ?s = "word_of_nat (unat t * 7100 div 10000) :: u64" and ?c = "word_of_nat (unat t * 2400 div 10000) :: u64"
  have s: "unat ?s = unat t * 7100 div 10000" and c: "unat ?c = unat t * 2400 div 10000"
    using share_le [of 7100 "unat t"] share_le [of 2400 "unat t"] unat_u64 [of t]
    by (simp_all add: unat_of_nat_small)
  have "unat ?s + unat ?c \<le> unat t" unfolding s c by linarith
  then have "checked_sub t ?s = Some (t - ?s)" and "checked_sub (t - ?s) ?c = Some (t - ?s - ?c)"
    by (simp_all add: checked_sub_eq_Some unat_sub word_le_nat_alt)
  then show ?thesis
    using False by (simp add: split_distribution_shares share_eval word_less_nat_alt Let_def)
qed (simp add: split_distribution_def word_less_nat_alt)

lemmas evaluation = effective_input_eval swap_output_eval verify_k_Some tax_eval split_eval compute_vault_output_spec
  into_profit_def from_profit_def checked_add_def checked_mul_def

section \<open>The fee and the curve\<close>

definition test_fee_100bps_on_1000 :: bool where
  "test_fee_100bps_on_1000 \<longleftrightarrow> calculate_effective_input 1000 100 = Some 990"

definition test_fee_50bps_on_1000 :: bool where
  "test_fee_50bps_on_1000 \<longleftrightarrow> calculate_effective_input 1000 50 = Some 995"

definition test_fee_zero_bps :: bool where
  "test_fee_zero_bps \<longleftrightarrow> calculate_effective_input 1000 0 = Some 1000"

definition test_fee_10000_bps :: bool where
  "test_fee_10000_bps \<longleftrightarrow> calculate_effective_input 1000 10000 = Some 0"

definition test_fee_over_10000_bps :: bool where
  "test_fee_over_10000_bps \<longleftrightarrow> calculate_effective_input 1000 10001 = None"

definition test_fee_on_zero_amount :: bool where
  "test_fee_on_zero_amount \<longleftrightarrow> calculate_effective_input 0 100 = Some 0"

definition test_fee_on_one :: bool where
  "test_fee_on_one \<longleftrightarrow> calculate_effective_input 1 100 = Some 0"

definition test_fee_on_u64_max :: bool where
  "test_fee_on_u64_max \<longleftrightarrow>
    (let result = calculate_effective_input u64_MAX 100 in
     is_some result \<and>
     (let expected = (ucast u64_MAX :: u128) * 9900 div 10000 in result = Some expected))"

definition test_swap_equal_reserves_1m :: bool where
  "test_swap_equal_reserves_1m \<longleftrightarrow> calculate_swap_output 1000000 1000000 1000 = Some 999"

definition test_swap_zero_effective_input :: bool where
  "test_swap_zero_effective_input \<longleftrightarrow> calculate_swap_output 1000000 1000000 0 = Some 0"

definition test_swap_zero_reserve_out :: bool where
  "test_swap_zero_reserve_out \<longleftrightarrow> calculate_swap_output 1000000 0 1000 = Some 0"

definition test_swap_zero_reserve_in_zero_effective :: bool where
  "test_swap_zero_reserve_in_zero_effective \<longleftrightarrow> calculate_swap_output 0 1000000 0 = None"

definition test_swap_zero_reserve_in_nonzero_effective :: bool where
  "test_swap_zero_reserve_in_nonzero_effective \<longleftrightarrow> calculate_swap_output 0 1000000 1000 = Some 1000000"

definition test_swap_large_input_relative_to_reserve :: bool where
  "test_swap_large_input_relative_to_reserve \<longleftrightarrow>
    (let res = calculate_swap_output 1000 1000 1000000000 in
     is_some res \<and> unwrap_some res (\<lambda>v. v < 1000))"

definition test_swap_u64_max_reserves_small_input :: bool where
  "test_swap_u64_max_reserves_small_input \<longleftrightarrow>
    (let res = calculate_swap_output u64_MAX u64_MAX 1000 in
     is_some res \<and> unwrap_some res (\<lambda>v. v \<le> 1000))"

definition test_swap_output_cannot_exceed_u64 :: bool where
  "test_swap_output_cannot_exceed_u64 \<longleftrightarrow>
    (let effective = (ucast u64_MAX :: u128) + 1;
         res = calculate_swap_output 0 u64_MAX effective
     in res = Some u64_MAX)"

definition test_k_valid_swap :: bool where
  "test_k_valid_swap \<longleftrightarrow> verify_k_invariant 1000000 1000000 1001000 999001 = Some True"

definition test_k_invalid_swap :: bool where
  "test_k_invalid_swap \<longleftrightarrow> verify_k_invariant 1000000 1000000 1001000 998000 = Some False"

definition test_k_equal_reserves :: bool where
  "test_k_equal_reserves \<longleftrightarrow> verify_k_invariant 1000000 1000000 1000000 1000000 = Some True"

lemma amm_math_tests:
  "test_fee_100bps_on_1000" "test_fee_50bps_on_1000" "test_fee_zero_bps" "test_fee_10000_bps"
  "test_fee_over_10000_bps" "test_fee_on_zero_amount" "test_fee_on_one" "test_fee_on_u64_max"
  "test_swap_equal_reserves_1m" "test_swap_zero_effective_input" "test_swap_zero_reserve_out"
  "test_swap_zero_reserve_in_zero_effective" "test_swap_zero_reserve_in_nonzero_effective"
  "test_swap_large_input_relative_to_reserve" "test_swap_u64_max_reserves_small_input"
  "test_swap_output_cannot_exceed_u64" "test_k_valid_swap" "test_k_invalid_swap" "test_k_equal_reserves"
  by (simp_all add: evaluation assertion_defs
      test_fee_100bps_on_1000_def test_fee_50bps_on_1000_def test_fee_zero_bps_def test_fee_10000_bps_def
      test_fee_over_10000_bps_def test_fee_on_zero_amount_def test_fee_on_one_def test_fee_on_u64_max_def
      test_swap_equal_reserves_1m_def test_swap_zero_effective_input_def test_swap_zero_reserve_out_def
      test_swap_zero_reserve_in_zero_effective_def test_swap_zero_reserve_in_nonzero_effective_def
      test_swap_large_input_relative_to_reserve_def test_swap_u64_max_reserves_small_input_def
      test_swap_output_cannot_exceed_u64_def test_k_valid_swap_def test_k_invalid_swap_def
      test_k_equal_reserves_def)

section \<open>The tax and its split\<close>

definition test_tax_4pct_on_1_sol :: bool where
  "test_tax_4pct_on_1_sol \<longleftrightarrow> calculate_tax 1000000000 400 = Some 40000000"

definition test_tax_14pct_on_1_sol :: bool where
  "test_tax_14pct_on_1_sol \<longleftrightarrow> calculate_tax 1000000000 1400 = Some 140000000"

definition test_tax_4pct_on_100_lamports :: bool where
  "test_tax_4pct_on_100_lamports \<longleftrightarrow> calculate_tax 100 400 = Some 4"

definition test_tax_4pct_rounds_down :: bool where
  "test_tax_4pct_rounds_down \<longleftrightarrow> calculate_tax 10 400 = Some 0"

definition test_tax_100pct_on_max :: bool where
  "test_tax_100pct_on_max \<longleftrightarrow> calculate_tax u64_MAX 10000 = Some u64_MAX"

definition test_tax_invalid_bps_over_10000 :: bool where
  "test_tax_invalid_bps_over_10000 \<longleftrightarrow> calculate_tax 1000000000 10001 = None"

definition test_tax_zero_input :: bool where
  "test_tax_zero_input \<longleftrightarrow> calculate_tax 0 400 = Some 0"

definition test_tax_zero_bps :: bool where
  "test_tax_zero_bps \<longleftrightarrow> calculate_tax 1000000000 0 = Some 0"

definition test_tax_max_valid_bps :: bool where
  "test_tax_max_valid_bps \<longleftrightarrow> calculate_tax 1000 10000 = Some 1000"

definition test_tax_1_bps_on_large_amount :: bool where
  "test_tax_1_bps_on_large_amount \<longleftrightarrow> calculate_tax 1000000000000 1 = Some 100000000"

definition test_split_100_lamports :: bool where
  "test_split_100_lamports \<longleftrightarrow> split_distribution 100 = Some (71, 24, 5)"

definition test_split_1000_lamports :: bool where
  "test_split_1000_lamports \<longleftrightarrow> split_distribution 1000 = Some (710, 240, 50)"

definition test_split_10_lamports_with_remainder :: bool where
  "test_split_10_lamports_with_remainder \<longleftrightarrow> split_distribution 10 = Some (7, 2, 1)"

definition test_split_micro_tax_3_lamports :: bool where
  "test_split_micro_tax_3_lamports \<longleftrightarrow> split_distribution 3 = Some (3, 0, 0)"

definition test_split_micro_tax_1_lamport :: bool where
  "test_split_micro_tax_1_lamport \<longleftrightarrow> split_distribution 1 = Some (1, 0, 0)"

definition test_split_zero_tax :: bool where
  "test_split_zero_tax \<longleftrightarrow> split_distribution 0 = Some (0, 0, 0)"

definition test_split_max_u64 :: bool where
  "test_split_max_u64 \<longleftrightarrow>
    (let result = split_distribution u64_MAX in
     is_some result \<and>
     unwrap_some result (\<lambda>(staking, carnage, treasury).
       Option.bind (checked_add staking carnage) (\<lambda>s. checked_add s treasury) = Some u64_MAX))"

definition test_split_4_lamports_boundary :: bool where
  "test_split_4_lamports_boundary \<longleftrightarrow> split_distribution 4 = Some (2, 0, 2)"

definition test_split_5_lamports :: bool where
  "test_split_5_lamports \<longleftrightarrow> split_distribution 5 = Some (3, 1, 1)"

definition test_split_invariant_sum_equals_total :: bool where
  "test_split_invariant_sum_equals_total \<longleftrightarrow>
    (\<forall>tot \<in> set [0, 1, 2, 3, 4, 5, 10, 99, 100, 101, 1000, 10000, 1000000].
     let result = split_distribution tot in
     is_some result \<and>
     unwrap_some result (\<lambda>(staking, carnage, treasury).
       unwrap_some (Option.bind (checked_add staking carnage) (\<lambda>s. checked_add s treasury))
         (\<lambda>total_out. total_out = tot)))"

lemma tax_math_tests:
  "test_tax_4pct_on_1_sol" "test_tax_14pct_on_1_sol" "test_tax_4pct_on_100_lamports"
  "test_tax_4pct_rounds_down" "test_tax_100pct_on_max" "test_tax_invalid_bps_over_10000"
  "test_tax_zero_input" "test_tax_zero_bps" "test_tax_max_valid_bps" "test_tax_1_bps_on_large_amount"
  "test_split_100_lamports" "test_split_1000_lamports" "test_split_10_lamports_with_remainder"
  "test_split_micro_tax_3_lamports" "test_split_micro_tax_1_lamport" "test_split_zero_tax"
  "test_split_max_u64" "test_split_4_lamports_boundary" "test_split_5_lamports"
  "test_split_invariant_sum_equals_total"
  by (simp_all add: evaluation assertion_defs
      test_tax_4pct_on_1_sol_def test_tax_14pct_on_1_sol_def test_tax_4pct_on_100_lamports_def
      test_tax_4pct_rounds_down_def test_tax_100pct_on_max_def test_tax_invalid_bps_over_10000_def
      test_tax_zero_input_def test_tax_zero_bps_def test_tax_max_valid_bps_def
      test_tax_1_bps_on_large_amount_def test_split_100_lamports_def test_split_1000_lamports_def
      test_split_10_lamports_with_remainder_def test_split_micro_tax_3_lamports_def
      test_split_micro_tax_1_lamport_def test_split_zero_tax_def test_split_max_u64_def
      test_split_4_lamports_boundary_def test_split_5_lamports_def test_split_invariant_sum_equals_total_def)

section \<open>The vault conversion\<close>

definition test_crime_to_profit :: bool where
  "test_crime_to_profit \<longleftrightarrow> compute_vault_output CRIME_MINT PROFIT_MINT 10000 = Some 100"

definition test_fraud_to_profit :: bool where
  "test_fraud_to_profit \<longleftrightarrow> compute_vault_output FRAUD_MINT PROFIT_MINT 10000 = Some 100"

definition test_profit_to_crime :: bool where
  "test_profit_to_crime \<longleftrightarrow> compute_vault_output PROFIT_MINT CRIME_MINT 100 = Some 10000"

definition test_profit_to_fraud :: bool where
  "test_profit_to_fraud \<longleftrightarrow> compute_vault_output PROFIT_MINT FRAUD_MINT 100 = Some 10000"

definition test_crime_to_fraud_not_supported :: bool where
  "test_crime_to_fraud_not_supported \<longleftrightarrow> compute_vault_output CRIME_MINT FRAUD_MINT 1000 = None"

definition test_fraud_to_crime_not_supported :: bool where
  "test_fraud_to_crime_not_supported \<longleftrightarrow> compute_vault_output FRAUD_MINT CRIME_MINT 1000 = None"

definition test_same_mint_not_supported :: bool where
  "test_same_mint_not_supported \<longleftrightarrow> compute_vault_output CRIME_MINT CRIME_MINT 1000 = None"

definition test_zero_amount :: bool where
  "test_zero_amount \<longleftrightarrow> compute_vault_output CRIME_MINT PROFIT_MINT 0 = None"

definition test_crime_to_profit_dust_too_small :: bool where
  "test_crime_to_profit_dust_too_small \<longleftrightarrow> compute_vault_output CRIME_MINT PROFIT_MINT 99 = None"

definition test_profit_to_crime_overflow :: bool where
  "test_profit_to_crime_overflow \<longleftrightarrow>
    (let large = u64_MAX div 50
     in compute_vault_output PROFIT_MINT CRIME_MINT large = None)"

definition test_profit_to_crime_max_safe :: bool where
  "test_profit_to_crime_max_safe \<longleftrightarrow>
    (let max_safe = u64_MAX div 100 in
     unwrap_some (checked_mul max_safe 100) (\<lambda>expected.
       compute_vault_output PROFIT_MINT CRIME_MINT max_safe = Some expected))"

lemma vault_math_tests:
  "test_crime_to_profit" "test_fraud_to_profit" "test_profit_to_crime" "test_profit_to_fraud"
  "test_crime_to_fraud_not_supported" "test_fraud_to_crime_not_supported" "test_same_mint_not_supported"
  "test_zero_amount" "test_crime_to_profit_dust_too_small" "test_profit_to_crime_overflow"
  "test_profit_to_crime_max_safe"
  by (simp_all add: evaluation assertion_defs
      test_crime_to_profit_def test_fraud_to_profit_def test_profit_to_crime_def test_profit_to_fraud_def
      test_crime_to_fraud_not_supported_def test_fraud_to_crime_not_supported_def
      test_same_mint_not_supported_def test_zero_amount_def test_crime_to_profit_dust_too_small_def
      test_profit_to_crime_overflow_def test_profit_to_crime_max_safe_def)

end
