(* ===== verification/Amm_Routes.thy ===== *)
theory Amm_Routes
  imports Amm_Fleet Test_Vectors_Math
begin

text \<open>
  Routes over both adapters: Jupiter prices a path of several pools by quoting each hop on the output
  of the one before.  A hop is an instance with the mint it pays out; the prices of the hops compose
  as the stages of \<open>Jupiter_Interface\<close>.  Shown here: routes are monotone and within the liquidity of
  their last hop, and going out and back along the same pools never pays more than was put in.
\<close>

section \<open>Pricing a route\<close>

type_synonym hop = "dyn_amm \<times> pubkey"

definition hop_output :: "clocks \<Rightarrow> hop \<Rightarrow> pubkey \<Rightarrow> u64 \<Rightarrow> u64 result" where
  "hop_output clk h mint a =
     and_then (dyn_quote clk (fst h) (quote_request a mint (snd h))) (\<lambda>r. Ok (out_amount r))"

fun route_output :: "clocks \<Rightarrow> hop list \<Rightarrow> pubkey \<Rightarrow> u64 \<Rightarrow> u64 result" where
  "route_output clk [] mint a = Ok a"
| "route_output clk (h # hs) mint a = and_then (hop_output clk h mint a) (route_output clk hs (snd h))"

fun dyn_liquidity :: "dyn_amm \<Rightarrow> pubkey \<Rightarrow> nat" where
  "dyn_liquidity (DynPool s) mint = pool_liquidity s mint"
| "dyn_liquidity (DynVault v) mint = unat (vlt_output_vault_balance v)"

lemma hop_output_Ok:
  "hop_output clk h mint a = Ok b \<longleftrightarrow>
     (\<exists>r. dyn_quote clk (fst h) (quote_request a mint (snd h)) = Ok r \<and> b = out_amount r)"
  by (auto simp: hop_output_def outcome)

lemma hop_not_Panic: "hop_output clk h mint a \<noteq> Panic"
  by (cases "fst h") (auto simp: hop_output_def outcome pool_quote_not_Panic vault_quote_not_Panic)

lemma route_not_Panic: "route_output clk hs mint a \<noteq> Panic"
  by (induction hs arbitrary: mint a) (auto simp: outcome hop_not_Panic)

lemma hop_mono:
  assumes "dyn_wf (fst h)" and "hop_output clk h mint a = Ok x" and "hop_output clk h mint b = Ok y" and "a \<le> b"
  shows "x \<le> y"
proof -
  obtain r r' where r: "dyn_quote clk (fst h) (quote_request a mint (snd h)) = Ok r" "x = out_amount r"
    and r': "dyn_quote clk (fst h) (quote_request b mint (snd h)) = Ok r'" "y = out_amount r'"
    using assms(2,3) by (auto simp: hop_output_Ok)
  have req: "quote_request b mint (snd h) = (quote_request a mint (snd h))\<lparr>q_amount := b\<rparr>"
    "q_amount (quote_request a mint (snd h)) = a" by (simp_all add: quote_request_def)
  show ?thesis
  proof (cases "fst h")
    case (DynPool s)
    then show ?thesis
      using pool_routing.quote_mono [of s clk "quote_request a mint (snd h)" r b r'] r r' assms(1,4) req by simp
  next
    case (DynVault v)
    then show ?thesis
      using vault_routing.quote_mono [of v "quote_request a mint (snd h)" r b r'] r r' assms(1,4) req by simp
  qed
qed

lemma hop_liquid:
  assumes "dyn_wf (fst h)" and "hop_output clk h mint a = Ok b"
  shows "unat b \<le> dyn_liquidity (fst h) (snd h)"
proof -
  obtain r where r: "dyn_quote clk (fst h) (quote_request a mint (snd h)) = Ok r" "b = out_amount r"
    using assms(2) by (auto simp: hop_output_Ok)
  have out: "q_output_mint (quote_request a mint (snd h)) = snd h" by (simp add: quote_request_def)
  show ?thesis
  proof (cases "fst h")
    case (DynPool s)
    then show ?thesis
      using pool_routing.quote_liquid [of s clk "quote_request a mint (snd h)" r] r assms(1) out by simp
  next
    case (DynVault v)
    then show ?thesis
      using vault_routing.quote_liquid [of v "quote_request a mint (snd h)" r] r assms(1) by simp
  qed
qed

text \<open>The end mint of a route, and a route followed by another.\<close>

fun route_end :: "hop list \<Rightarrow> pubkey \<Rightarrow> pubkey" where
  "route_end [] mint = mint"
| "route_end (h # hs) mint = route_end hs (snd h)"

lemma route_append:
  "route_output clk (hs @ hs') mint a =
     and_then (route_output clk hs mint a) (route_output clk hs' (route_end hs mint))"
proof (induction hs arbitrary: mint a)
  case (Cons h hs)
  then show ?case by (cases "hop_output clk h mint a") simp_all
qed simp

lemma route_mono:
  assumes "\<forall>h \<in> set hs. dyn_wf (fst h)" and "route_output clk hs mint a = Ok x" and "route_output clk hs mint b = Ok y"
    and "a \<le> b"
  shows "x \<le> y"
  using assms
proof (induction hs arbitrary: mint a b)
  case (Cons h hs)
  obtain u v where u: "hop_output clk h mint a = Ok u" "route_output clk hs (snd h) u = Ok x"
    and v: "hop_output clk h mint b = Ok v" "route_output clk hs (snd h) v = Ok y"
    using Cons.prems(2,3) by (auto simp: outcome)
  have "u \<le> v" using hop_mono [OF _ u(1) v(1) Cons.prems(4)] Cons.prems(1) by simp
  then show ?case using Cons.IH [OF _ u(2) v(2)] Cons.prems(1) by simp
qed simp

section \<open>Out and back\<close>

text \<open>The curve pays back at most what was paid in, less fees and tax, even for a part of the output.\<close>

lemma curve_back_le:
  assumes "x \<le> curve_out r s e"
  shows "curve_out s r x \<le> e"
proof (cases "s + x = 0")
  case False
  have "x * (r + e) \<le> s * e"
    using curve_out_times_le [of r s e] assms by (meson le_trans mult_le_mono1)
  then have "r * x \<le> e * (s + x)" by (simp add: algebra_simps)
  then have "r * x div (s + x) \<le> e * (s + x) div (s + x)" by (rule div_le_mono)
  then show ?thesis using False by (simp add: curve_out_def split: if_splits)
qed (simp add: curve_out_def)

lemma buy_then_sell_le:
  assumes "quote_buy s a = Ok r" and "quote_sell s x = Ok r'" and "x \<le> out_amount r"
  shows "out_amount r' \<le> a"
proof -
  let ?rq = "unat (fst (reserves s))" and ?rf = "unat (snd (reserves s))" and ?fee = "unat (lp_fee_bps (amm_pool s))"
  let ?e = "lp_net ?fee (net_of (unat (amm_buy_tax_bps s)) (unat a))"
  have "lp_net ?fee (unat x) \<le> curve_out ?rq ?rf ?e"
    using lp_net_le [of ?fee "unat x"] assms(3) quote_buy_values(5) [OF assms(1)]
    by (simp add: word_le_nat_alt buy_out_def)
  then have "sell_gross ?rq ?rf ?fee (unat x) \<le> ?e"
    unfolding sell_gross_def by (rule curve_back_le)
  then have "unat (out_amount r') \<le> ?e"
    unfolding quote_sell_values(5) [OF assms(2)] sell_out_def by (rule order_trans [OF net_of_le])
  also have "\<dots> \<le> unat a" using lp_net_le net_of_le le_trans by blast
  finally show ?thesis by (simp add: word_le_nat_alt)
qed

lemma sell_then_buy_le:
  assumes "quote_sell s a = Ok r" and "quote_buy s x = Ok r'" and "x \<le> out_amount r"
  shows "out_amount r' \<le> a"
proof -
  let ?rq = "unat (fst (reserves s))" and ?rf = "unat (snd (reserves s))" and ?fee = "unat (lp_fee_bps (amm_pool s))"
  let ?e = "lp_net ?fee (unat a)"
  have "lp_net ?fee (net_of (unat (amm_buy_tax_bps s)) (unat x)) \<le> unat (out_amount r)"
    using lp_net_le net_of_le assms(3) le_trans unfolding word_le_nat_alt by metis
  also have "\<dots> \<le> curve_out ?rf ?rq ?e"
    using quote_sell_values(5) [OF assms(1)] net_of_le by (simp add: sell_out_def sell_gross_def)
  finally have "curve_out ?rq ?rf (lp_net ?fee (net_of (unat (amm_buy_tax_bps s)) (unat x))) \<le> ?e"
    by (rule curve_back_le)
  then have "unat (out_amount r') \<le> ?e" using quote_buy_values(5) [OF assms(2)] by (simp add: buy_out_def)
  also have "\<dots> \<le> unat a" by (rule lp_net_le)
  finally show ?thesis by (simp add: word_le_nat_alt)
qed

lemma vault_back_le:
  assumes "compute_vault_output i out a = Some b" and "compute_vault_output out i x = Some c" and "x \<le> b"
  shows "c \<le> a"
proof -
  consider "into_profit i out" "from_profit out i" | "from_profit i out" "into_profit out i"
    using assms(1) vault_output_other [of i out a] by (fastforce simp: into_profit_def from_profit_def)
  then show ?thesis
  proof cases
    case 1
    have "unat c = unat x * 100" "unat b = unat a div 100"
      using 1 assms(1,2) by (simp_all add: vault_output_into vault_output_from)
    moreover have "unat x * 100 \<le> unat b * 100" using assms(3) by (simp add: word_le_nat_alt)
    ultimately have "unat c \<le> unat a div 100 * 100" by simp
    then show ?thesis by (simp add: word_le_nat_alt)
  next
    case 2
    have "unat c = unat x div 100" "unat b = unat a * 100"
      using 2 assms(1,2) by (simp_all add: vault_output_into vault_output_from)
    moreover have "unat x div 100 \<le> unat b div 100" using assms(3) by (simp add: word_le_nat_alt div_le_mono)
    ultimately show ?thesis by (simp add: word_le_nat_alt)
  qed
qed

text \<open>The instance for the way back: the same pool, or the vault of the opposite direction.\<close>

fun returns_through :: "dyn_amm \<Rightarrow> dyn_amm \<Rightarrow> bool" where
  "returns_through (DynPool s) (DynPool s') = (s' = s)"
| "returns_through (DynVault v) (DynVault w) =
     (vlt_input_mint w = vlt_output_mint v \<and> vlt_output_mint w = vlt_input_mint v)"
| "returns_through _ _ = False"

lemma hop_back_le:
  assumes "dyn_wf (fst h)" and "dyn_wf ret" and "returns_through (fst h) ret"
    and "hop_output clk h mint a = Ok b" and "hop_output clk (ret, mint) (snd h) x = Ok c" and "x \<le> b"
  shows "c \<le> a"
proof (cases "fst h")
  case (DynPool s)
  then have ret: "ret = DynPool s" using assms(3) by (cases ret) auto
  have wf: "amm_wf s" using assms(1) DynPool by simp
  obtain r r' where "pool_quote clk s (quote_request a mint (snd h)) = Ok r" "b = out_amount r"
    and "pool_quote clk s (quote_request x (snd h) mint) = Ok r'" "c = out_amount r'"
    using assms(4,5) by (auto simp: hop_output_Ok DynPool ret)
  then show ?thesis
    using amm_wf_mints(1) [OF wf] buy_then_sell_le [of s a r x r'] sell_then_buy_le [of s a r x r'] assms(6)
    by (auto simp: pool_quote_Ok [OF wf] quote_request_def)
next
  case (DynVault v)
  then obtain w where ret: "ret = DynVault w" and rev: "vlt_input_mint w = vlt_output_mint v" "vlt_output_mint w = vlt_input_mint v"
    using assms(3) by (cases ret) auto
  show ?thesis
    using assms(4,5) vault_back_le [of "vlt_input_mint v" "vlt_output_mint v" a b x c] assms(6)
    by (auto simp: hop_output_Ok DynVault ret vault_quote_Ok quote_request_def rev)
qed

text \<open>The way back along a route, hop by hop from its end.\<close>

fun way_back :: "(hop \<times> dyn_amm) list \<Rightarrow> pubkey \<Rightarrow> hop list" where
  "way_back [] mint = []"
| "way_back ((h, ret) # rest) mint = way_back rest (snd h) @ [(ret, mint)]"

lemma route_end_way_back:
  "route_end (way_back hbs mint) m0 = (if hbs = [] then m0 else mint)"
proof -
  have "route_end (hs @ [h]) m = snd h" for hs h m by (induction hs arbitrary: m) auto
  then show ?thesis by (cases hbs) auto
qed

lemma out_and_back_le:
  assumes "\<forall>(h, ret) \<in> set hbs. dyn_wf (fst h) \<and> dyn_wf ret \<and> returns_through (fst h) ret"
    and "route_output clk (map fst hbs) mint a = Ok b"
    and "route_output clk (way_back hbs mint) (route_end (map fst hbs) mint) x = Ok c" and "x \<le> b"
  shows "c \<le> a"
  using assms
proof (induction hbs arbitrary: mint a b c)
  case (Cons hb rest)
  obtain h ret where hb: "hb = (h, ret)" by (cases hb)
  obtain u where u: "hop_output clk h mint a = Ok u" "route_output clk (map fst rest) (snd h) u = Ok b"
    using Cons.prems(2) by (auto simp: hb outcome)
  let ?exit = "route_end (map fst rest) (snd h)"
  have start: "route_end (way_back rest (snd h)) ?exit = snd h"
    by (simp add: route_end_way_back)
  obtain y where y: "route_output clk (way_back rest (snd h)) ?exit x = Ok y"
    and c: "hop_output clk (ret, mint) (snd h) y = Ok c"
    using Cons.prems(3) by (auto simp: hb route_append start outcome)
  have "y \<le> u" using Cons.IH [OF _ u(2) y Cons.prems(4)] Cons.prems(1) by simp
  then show ?case using hop_back_le [OF _ _ _ u(1) c] Cons.prems(1) by (simp add: hb)
qed simp

section \<open>A route for the witnesses\<close>

text \<open>SOL into CRIME through a pool of 1000 and 5000 units, and on into PROFIT through the vault.\<close>

definition crime_hop :: hop where "crime_hop = (DynPool test_amm, CRIME_MINT)"

definition profit_hop :: hop where "profit_hop = (DynVault crime_to_profit, PROFIT_MINT)"

abbreviation profit_to_crime :: vault_amm where
  "profit_to_crime \<equiv> vault_instance ESCROW_VAULT_PDA PROFIT_MINT CRIME_MINT"

lemma example_hops_wf: "dyn_wf (fst crime_hop)" "dyn_wf (fst profit_hop)" "dyn_wf (DynVault profit_to_crime)"
proof -
  show "dyn_wf (fst crime_hop)"
    using new_for_testing_wf [of True 1000 5000 400 1400 0]
    by (simp add: crime_hop_def test_amm_def new_for_testing_Ok)
  show "dyn_wf (fst profit_hop)" using vault_instance_wf [of CRIME_MINT PROFIT_MINT] by (simp add: profit_hop_def)
  show "dyn_wf (DynVault profit_to_crime)"
    using vault_instance_wf [of PROFIT_MINT CRIME_MINT] by (simp add: supported_edge_def from_profit_def)
qed

lemmas hop_evaluation =
  hop_output_def quote_request_def pool_quote_def pool_validate_mint_pair_def quote_buy_def quote_sell_def
  test_amm_eq test_amm_reserves known_pool_state_def pool_addresses_def LP_FEE_BPS_def evaluation checked_sub_def saturating_sub_def vault_quote_def
  vault_validate_mint_pair_def

lemma test_amm_active: "pool_is_active (\<lambda>_. 0) test_amm"
  by (simp add: pool_is_active_def test_amm_def new_for_testing_Ok known_pool_state_def pool_addresses_def)

lemma example_outputs:
  "hop_output (\<lambda>_. 0) crime_hop NATIVE_MINT 100 = Ok 433" "hop_output (\<lambda>_. 0) crime_hop NATIVE_MINT 200 = Ok 798"
  "hop_output (\<lambda>_. 0) profit_hop CRIME_MINT 433 = Ok 4" "hop_output (\<lambda>_. 0) profit_hop CRIME_MINT 798 = Ok 7"
  "hop_output (\<lambda>_. 0) (DynVault profit_to_crime, CRIME_MINT) PROFIT_MINT 4 = Ok 400"
  "hop_output (\<lambda>_. 0) (DynPool test_amm, NATIVE_MINT) CRIME_MINT 400 = Ok 63"
  using test_amm_active by (simp_all add: hop_evaluation crime_hop_def profit_hop_def word_le_nat_alt)

section \<open>Properties\<close>

text \<open>C11: Routes over both adapters.  Pricing a route, hop by hop through any well-formed pool and vault
  instances, never panics; a larger input never comes out smaller at the end; and the output does not
  exceed the reserve or the vault balance that its last hop pays from.\<close>

theorem routes_monotone_and_liquid:
  assumes "\<forall>h \<in> set hs. dyn_wf (fst h)"
  shows "route_output clk hs mint a \<noteq> Panic \<and>
    (route_output clk hs mint a = Ok x \<longrightarrow>
      (hs \<noteq> [] \<longrightarrow> unat x \<le> dyn_liquidity (fst (last hs)) (snd (last hs))) \<and>
      (\<forall>b y. a \<le> b \<longrightarrow> route_output clk hs mint b = Ok y \<longrightarrow> x \<le> y))"
proof -
  have "unat x \<le> dyn_liquidity (fst (last hs)) (snd (last hs))"
    if ne: "hs \<noteq> []" and ok: "route_output clk hs mint a = Ok x"
  proof -
    obtain front h where hs: "hs = front @ [h]" using ne by (cases hs rule: rev_cases) auto
    then obtain u where "hop_output clk h (route_end front mint) u = Ok x"
      using ok by (auto simp: route_append outcome)
    then show ?thesis using hop_liquid [of h] assms hs by simp
  qed
  then show ?thesis using route_not_Panic route_mono [OF assms] by blast
qed

theorem routes_monotone_and_liquid_witness:
  "route_output (\<lambda>_. 0) [crime_hop, profit_hop] NATIVE_MINT 100 = Ok 4 \<and>
   route_output (\<lambda>_. 0) [crime_hop, profit_hop] NATIVE_MINT 200 = Ok 7 \<and> (4 :: u64) \<le> 7"
proof -
  have wf: "\<forall>h \<in> set [crime_hop, profit_hop]. dyn_wf (fst h)" using example_hops_wf by simp
  have r: "route_output (\<lambda>_. 0) [crime_hop, profit_hop] NATIVE_MINT 100 = Ok 4"
    "route_output (\<lambda>_. 0) [crime_hop, profit_hop] NATIVE_MINT 200 = Ok 7"
    using example_outputs by (simp_all add: crime_hop_def profit_hop_def)
  show ?thesis
    using routes_monotone_and_liquid [OF wf, of "\<lambda>_. 0" NATIVE_MINT 100 4] r by fastforce
qed

text \<open>C4: There is no profit in going out and back.  Follow any route over well-formed instances and return
  hop by hop, through the same pools and the vault conversions of the opposite direction, with the
  whole output or a part of it: at the prices quoted, what comes back never exceeds what was put in.\<close>

theorem no_profit_out_and_back:
  assumes "\<forall>(h, ret) \<in> set hrs. dyn_wf (fst h) \<and> dyn_wf ret \<and> returns_through (fst h) ret"
    and "route_output clk (map fst hrs) mint a = Ok b" and "x \<le> b"
    and "route_output clk (way_back hrs mint) (route_end (map fst hrs) mint) x = Ok c"
  shows "c \<le> a"
  using out_and_back_le [OF assms(1,2,4,3)] .

theorem no_profit_out_and_back_witness:
  "route_output (\<lambda>_. 0) [crime_hop, profit_hop] NATIVE_MINT 100 = Ok 4 \<and>
   route_output (\<lambda>_. 0) [(DynVault profit_to_crime, CRIME_MINT), (DynPool test_amm, NATIVE_MINT)] PROFIT_MINT 4 = Ok 63 \<and>
   (63 :: u64) \<le> 100"
proof -
  let ?hrs = "[(crime_hop, DynPool test_amm), (profit_hop, DynVault profit_to_crime)]"
  have wf: "\<forall>(h, ret) \<in> set ?hrs. dyn_wf (fst h) \<and> dyn_wf ret \<and> returns_through (fst h) ret"
    using example_hops_wf by (simp add: crime_hop_def profit_hop_def)
  have out: "route_output (\<lambda>_. 0) (map fst ?hrs) NATIVE_MINT 100 = Ok 4"
    using example_outputs by (simp add: crime_hop_def profit_hop_def)
  have ret: "route_output (\<lambda>_. 0) (way_back ?hrs NATIVE_MINT) (route_end (map fst ?hrs) NATIVE_MINT) 4 = Ok 63"
    using example_outputs by (simp add: crime_hop_def profit_hop_def)
  from no_profit_out_and_back [OF wf out _ ret] out ret show ?thesis
    by (simp add: crime_hop_def profit_hop_def)
qed

end
