(* ===== verification/Amm_Swaps.thy ===== *)
theory Amm_Swaps
  imports Amm_Routes
begin

text \<open>
  From a priced route to its swaps.  Jupiter quotes a route at one moment and has its hops list their
  accounts at a later one, after refreshes that the price never saw.  The locale \<open>buildable_amm\<close> states
  what makes this safe: whatever is quoted can be built, and what is built does not depend on
  refreshes.  Both adapters are interpreted, and the swaps of a whole route are composed.
\<close>

section \<open>The contract\<close>

locale buildable_amm = jupiter_amm inv key reserve_mints accounts_to_update accounts_len update quote swap_metas
  for inv :: "'s \<Rightarrow> bool" and key reserve_mints accounts_to_update accounts_len update quote swap_metas +
  assumes quoted_is_built: "inv s \<Longrightarrow> quote clk s q = Ok r \<Longrightarrow> sp_swap_mode p = ExactIn \<Longrightarrow>
      source_mint p = q_input_mint q \<Longrightarrow> destination_mint p = q_output_mint q \<Longrightarrow> \<exists>sam. swap_metas s p = Ok sam"
    and built_moves: "inv s \<Longrightarrow> swap_metas s p = Ok sam \<Longrightarrow>
      {source_token_account p, destination_token_account p} \<subseteq> meta_pubkey ` set (filter is_writable (account_metas sam))"
    and built_stable: "inv s \<Longrightarrow> swap_metas (fst (update m s)) p = swap_metas s p"
    and len_stable: "accounts_len (fst (update m s)) = accounts_len s"
begin

lemma history_built: "inv s \<Longrightarrow> swap_metas (refresh_all update ms s) p = swap_metas s p"
  by (induction ms arbitrary: s) (simp_all add: built_stable update_inv)

lemma history_len: "accounts_len (refresh_all update ms s) = accounts_len s"
  by (induction ms arbitrary: s) (simp_all add: len_stable)

text \<open>A quote now is a swap at any later refresh.\<close>

lemma quoted_then_built:
  assumes "inv s" and "quote clk s q = Ok r" and "sp_swap_mode p = ExactIn"
    and "source_mint p = q_input_mint q" and "destination_mint p = q_output_mint q"
  shows "\<exists>sam. swap_metas (refresh_all update ms s) p = Ok sam \<and>
    length (account_metas sam) \<le> accounts_len s \<and>
    map meta_pubkey (filter is_signer (account_metas sam)) = [token_transfer_authority p] \<and>
    {source_token_account p, destination_token_account p} \<subseteq> meta_pubkey ` set (filter is_writable (account_metas sam))"
  using quoted_is_built [OF assms] metas_sound [OF assms(1)] built_moves [OF assms(1)] history_built [OF assms(1), of ms p]
  by fastforce

end

section \<open>Both adapters meet it\<close>

text \<open>A builder reads of the pool only what a refresh must find unchanged.\<close>

lemma lane_metas_identity:
  assumes "amm_identity s = amm_identity s'" and "pool_identity (amm_pool s) = pool_identity (amm_pool s')"
  shows "lane_metas pda ata s is_buy p = lane_metas pda ata s' is_buy p"
proof -
  let ?p = "amm_pool s" and ?q = "amm_pool s'"
  have same: "mint_a ?p = mint_a ?q" "mint_b ?p = mint_b ?q" "vault_a ?p = vault_a ?q" "vault_b ?p = vault_b ?q"
    "token_program_a ?p = token_program_a ?q" "token_program_b ?p = token_program_b ?q"
    using assms(2) by (simp_all add: pool_identity_def)
  have ident: "amm_quote_mint s = amm_quote_mint s'" "amm_key s = amm_key s'"
    using assms(1) by (simp_all add: amm_identity_def)
  have sides: "resolve_sides ?p = resolve_sides ?q" "resolve_faction_sides ?p = resolve_faction_sides ?q"
    unfolding resolve_sides_def resolve_faction_sides_def token_mint_def is_sol_pool_def sol_and_token_vaults_def same
    by (rule refl)+
  have "build_wsol_intermediary_metas pda user t q key ?p is_buy = build_wsol_intermediary_metas pda user t q key ?q is_buy"
    and "spl_build_buy_account_metas_generic pda ata user q t key ?p = spl_build_buy_account_metas_generic pda ata user q t key ?q"
    and "spl_build_sell_account_metas_generic pda ata user t q key ?p = spl_build_sell_account_metas_generic pda ata user t q key ?q"
    for user t q key is_buy
    unfolding build_wsol_intermediary_metas_def spl_build_buy_account_metas_generic_def
      spl_build_sell_account_metas_generic_def sweep_accounts_def sides same
    by (rule refl)+
  then show ?thesis
    by (simp add: lane_metas_def ident build_buy_wsol_account_metas_generic_def build_sell_account_metas_generic_def)
qed

lemma pool_built_stable:
  assumes "amm_wf s"
  shows "pool_get_swap_and_account_metas pda ata (fst (pool_update lib m s)) p = pool_get_swap_and_account_metas pda ata s p"
proof -
  let ?s' = "fst (pool_update lib m s)"
  have wf: "amm_wf ?s'" using assms by (simp add: pool_update_wf)
  have mints: "amm_quote_mint ?s' = amm_quote_mint s" "amm_faction_mint ?s' = amm_faction_mint s"
    using pool_update_identity(1) [of lib m s] by (simp_all add: amm_identity_def)
  show ?thesis
    unfolding swap_metas_eq [OF wf] swap_metas_eq [OF assms] mints
    by (simp add: lane_metas_identity [OF pool_update_identity])
qed

lemma writable_metas: "meta_new k False \<in> set ms \<Longrightarrow> k \<in> meta_pubkey ` set (filter is_writable ms)"
  by (force simp: image_iff meta_new_def)

interpretation pool_swaps:
  buildable_amm amm_wf amm_key pool_get_reserve_mints pool_get_accounts_to_update pool_get_accounts_len
    "pool_update lib" pool_quote "pool_get_swap_and_account_metas pda ata"
  for lib :: "'m mint_lib" and pda ata
proof unfold_locales
  fix s :: sol_pool_amm and clk and q :: quote_params and r :: quote and p :: swap_params
    and sam :: swap_and_account_metas and m :: account_map
  show "\<exists>sam. pool_get_swap_and_account_metas pda ata s p = Ok sam"
    if wf: "amm_wf s" and quoted: "pool_quote clk s q = Ok r" and mode: "sp_swap_mode p = ExactIn"
      and pair: "source_mint p = q_input_mint q" "destination_mint p = q_output_mint q"
  proof -
    show ?thesis
      using quoted [unfolded pool_quote_Ok [OF wf]] pair mode
        lane_metas_exists [OF wf, of pda ata True p] lane_metas_exists [OF wf, of pda ata False p]
      unfolding swap_metas_eq [OF wf] by (elim conjE disjE exE) (simp_all add: amm_wf_mints(1) [OF wf])
  qed
  show "{source_token_account p, destination_token_account p} \<subseteq> meta_pubkey ` set (filter is_writable (account_metas sam))"
    if "amm_wf s" and "pool_get_swap_and_account_metas pda ata s p = Ok sam"
    using that(2) lane_metas_Ok(3,4) writable_metas unfolding swap_metas_Ok [OF that(1)] by fastforce
  show "pool_get_swap_and_account_metas pda ata (fst (pool_update lib m s)) p = pool_get_swap_and_account_metas pda ata s p"
    if "amm_wf s" using that by (rule pool_built_stable)
  show "pool_get_accounts_len (fst (pool_update lib m s)) = pool_get_accounts_len s"
    by (simp add: pool_get_accounts_len_def)
qed

interpretation vault_swaps:
  buildable_amm vault_wf vlt_key vault_get_reserve_mints vault_get_accounts_to_update vault_get_accounts_len
    vault_update "\<lambda>_. vault_quote" "vault_get_swap_and_account_metas pda"
  for pda
proof unfold_locales
  fix v :: vault_amm and q :: quote_params and r :: quote and p :: swap_params
    and sam :: swap_and_account_metas and m :: account_map
  have list: "\<exists>ms vi vo. build_vault_account_metas pda (token_transfer_authority p) (source_token_account p)
        (destination_token_account p) (vlt_input_mint v) (vlt_output_mint v) = Ok ms \<and>
      map meta_pubkey (filter is_writable ms) = [source_token_account p, destination_token_account p, vi, vo]"
    if "vault_wf v" for v :: vault_amm
  proof -
    have edge: "supported_edge (vlt_input_mint v) (vlt_output_mint v)" using that by (simp add: vault_wf_def)
    show ?thesis
      using vault_list_Ok [OF edge_mints(2) [OF edge] edge_mints(3) [OF edge], of pda "token_transfer_authority p"
          "source_token_account p" "destination_token_account p"]
      by (elim exE conjE) (intro exI conjI, assumption+)
  qed
  show "\<exists>sam. vault_get_swap_and_account_metas pda v p = Ok sam"
    if "vault_wf v" and "vault_quote v q = Ok r" and "sp_swap_mode p = ExactIn"
      and "source_mint p = q_input_mint q" and "destination_mint p = q_output_mint q"
    using that(2-) list [OF that(1)] by (auto simp: vault_metas_Ok [OF that(1)] vault_quote_Ok)
  show "{source_token_account p, destination_token_account p} \<subseteq> meta_pubkey ` set (filter is_writable (account_metas sam))"
    if wf: "vault_wf v" and built: "vault_get_swap_and_account_metas pda v p = Ok sam"
  proof -
    obtain vi vo where
      "map meta_pubkey (filter is_writable (account_metas sam)) = [source_token_account p, destination_token_account p, vi, vo]"
      using built list [OF wf] by (auto simp: vault_metas_Ok [OF wf] split: if_splits)
    then have "meta_pubkey ` set (filter is_writable (account_metas sam)) = {source_token_account p, destination_token_account p, vi, vo}"
      by (metis list.set_map list.simps(15) empty_set)
    then show ?thesis by simp
  qed
  show "vault_get_swap_and_account_metas pda (fst (vault_update m v)) p = vault_get_swap_and_account_metas pda v p"
    if "vault_wf v"
  proof -
    have wf: "vault_wf (fst (vault_update m v))" using that by (simp add: vault_update_frame)
    show ?thesis
      using vault_update_frame(3) [of m v]
      unfolding vault_metas_Ok [OF wf] vault_metas_Ok [OF that] by (simp add: vault_get_reserve_mints_def)
  qed
  show "vault_get_accounts_len (fst (vault_update m v)) = vault_get_accounts_len v"
    by (simp add: vault_get_accounts_len_def)
qed

section \<open>The swaps of a route\<close>

fun dyn_get_swap_and_account_metas ::
    "pda_fn \<Rightarrow> ata_fn \<Rightarrow> dyn_amm \<Rightarrow> swap_params \<Rightarrow> swap_and_account_metas result" where
  "dyn_get_swap_and_account_metas pda ata (DynPool s) p = pool_get_swap_and_account_metas pda ata s p"
| "dyn_get_swap_and_account_metas pda ata (DynVault v) p = vault_get_swap_and_account_metas pda v p"

fun dyn_get_accounts_len :: "dyn_amm \<Rightarrow> nat" where
  "dyn_get_accounts_len (DynPool s) = pool_get_accounts_len s"
| "dyn_get_accounts_len (DynVault v) = vault_get_accounts_len v"

text \<open>The request for one hop, from the user's account of one mint to that of the other.\<close>

definition hop_request :: "pubkey \<Rightarrow> (pubkey \<Rightarrow> pubkey) \<Rightarrow> pubkey \<Rightarrow> pubkey \<Rightarrow> swap_params" where
  "hop_request user holding mint out =
     \<lparr>sp_swap_mode = ExactIn, source_mint = mint, destination_mint = out, source_token_account = holding mint,
      destination_token_account = holding out, token_transfer_authority = user\<rparr>"

fun route_swaps ::
    "pda_fn \<Rightarrow> ata_fn \<Rightarrow> pubkey \<Rightarrow> (pubkey \<Rightarrow> pubkey) \<Rightarrow> hop list \<Rightarrow> pubkey \<Rightarrow> swap_and_account_metas list result" where
  "route_swaps pda ata user holding [] mint = Ok []"
| "route_swaps pda ata user holding (h # hs) mint =
     and_then (dyn_get_swap_and_account_metas pda ata (fst h) (hop_request user holding mint (snd h))) (\<lambda>sam.
     and_then (route_swaps pda ata user holding hs (snd h)) (\<lambda>sams. Ok (sam # sams)))"

text \<open>The same hop after a history of refreshes.\<close>

definition later_hop :: "'m mint_lib \<Rightarrow> hop \<Rightarrow> hop \<Rightarrow> bool" where
  "later_hop lib h h' \<longleftrightarrow> snd h' = snd h \<and> (\<exists>ms. fst h' = refresh_all (dyn_update lib) ms (fst h))"

lemma dyn_refresh_all:
  "refresh_all (dyn_update lib) ms (DynPool s) = DynPool (refresh_all (pool_update lib) ms s)"
  "refresh_all (dyn_update lib) ms (DynVault v) = DynVault (refresh_all vault_update ms v)"
  by (induction ms arbitrary: s v) (simp_all add: split_beta Let_def)

text \<open>What the list of a hop has to offer: it fits, the user signs alone, and both token accounts can move.\<close>

definition hop_served :: "pubkey \<Rightarrow> (pubkey \<Rightarrow> pubkey) \<Rightarrow> dyn_amm \<Rightarrow> pubkey \<Rightarrow> pubkey \<Rightarrow> swap_and_account_metas \<Rightarrow> bool" where
  "hop_served user holding a mint out sam \<longleftrightarrow>
     length (account_metas sam) \<le> dyn_get_accounts_len a \<and>
     map meta_pubkey (filter is_signer (account_metas sam)) = [user] \<and>
     {holding mint, holding out} \<subseteq> meta_pubkey ` set (filter is_writable (account_metas sam))"

lemma hop_built:
  assumes "dyn_wf (fst h)" and "hop_output clk h mint a = Ok b" and "later_hop lib h h'"
  shows "\<exists>sam. dyn_get_swap_and_account_metas pda ata (fst h') (hop_request user holding mint (snd h')) = Ok sam \<and>
    hop_served user holding (fst h) mint (snd h) sam"
proof -
  let ?q = "quote_request a mint (snd h)" and ?p = "hop_request user holding mint (snd h)"
  obtain r where r: "dyn_quote clk (fst h) ?q = Ok r" using assms(2) by (auto simp: hop_output_Ok)
  obtain ms where h': "snd h' = snd h" "fst h' = refresh_all (dyn_update lib) ms (fst h)"
    using assms(3) by (auto simp: later_hop_def)
  have p: "sp_swap_mode ?p = ExactIn" "source_mint ?p = q_input_mint ?q" "destination_mint ?p = q_output_mint ?q"
    by (simp_all add: hop_request_def quote_request_def)
  have fields: "token_transfer_authority ?p = user" "source_token_account ?p = holding mint"
      "destination_token_account ?p = holding (snd h)"
    by (simp_all add: hop_request_def)
  show ?thesis
  proof (cases "fst h")
    case (DynPool s)
    then show ?thesis
      using pool_swaps.quoted_then_built [of s clk ?q r ?p pda ata lib ms, OF _ _ p] assms(1) r
      by (simp add: h' dyn_refresh_all hop_served_def fields)
  next
    case (DynVault v)
    then show ?thesis
      using vault_swaps.quoted_then_built [of v ?q r ?p pda ms, OF _ _ p] assms(1) r
      by (simp add: h' dyn_refresh_all hop_served_def fields)
  qed
qed

text \<open>C12: What is priced can be swapped.  Take any route that has a price through well-formed instances,
  let any refreshes of any of them happen since, failed ones included, and ask every hop for its
  accounts: each answers, so that the hops' lists chain from the user's account of one mint to that
  of the next; every list fits the length that the instance advertised, is signed by the user alone,
  and holds both token accounts as writable.\<close>

theorem priced_routes_can_be_built:
  assumes "\<forall>h \<in> set hs. dyn_wf (fst h)" and "route_output clk hs mint a = Ok b"
    and "list_all2 (later_hop lib) hs hs'"
  shows "\<exists>sams. route_swaps pda ata user holding hs' mint = Ok sams \<and> length sams = length hs \<and>
    (\<forall>i < length hs. hop_served user holding (fst (hs ! i)) ((mint # map snd hs) ! i) (snd (hs ! i)) (sams ! i))"
  using assms
proof (induction hs arbitrary: mint a hs')
  case (Cons h hs)
  obtain h' rest where hs': "hs' = h' # rest" and later: "later_hop lib h h'" "list_all2 (later_hop lib) hs rest"
    using Cons.prems(3) by (auto simp: list_all2_Cons1)
  obtain u where u: "hop_output clk h mint a = Ok u" "route_output clk hs (snd h) u = Ok b"
    using Cons.prems(2) by (auto simp: outcome)
  obtain sam where sam: "dyn_get_swap_and_account_metas pda ata (fst h') (hop_request user holding mint (snd h')) = Ok sam"
    and served: "hop_served user holding (fst h) mint (snd h) sam"
    using hop_built [OF _ u(1) later(1)] Cons.prems(1) by fastforce
  have "snd h' = snd h" using later(1) by (simp add: later_hop_def)
  then obtain sams where sams: "route_swaps pda ata user holding rest (snd h') = Ok sams" "length sams = length hs"
    and all: "\<forall>i < length hs. hop_served user holding (fst (hs ! i)) ((snd h # map snd hs) ! i) (snd (hs ! i)) (sams ! i)"
    using Cons.IH [OF _ u(2) later(2)] Cons.prems(1) by auto
  have "\<forall>i < length (h # hs). hop_served user holding (fst ((h # hs) ! i)) ((mint # map snd (h # hs)) ! i)
      (snd ((h # hs) ! i)) ((sam # sams) ! i)"
    using served all by (simp add: All_less_Suc2)
  then show ?case using sam sams by (simp add: hs')
qed simp

theorem priced_routes_can_be_built_witness:
  "route_output (\<lambda>_. 0) [crime_hop, profit_hop] NATIVE_MINT 100 = Ok 4 \<and>
   (\<exists>sams. route_swaps (\<lambda>_ _. (TREASURY, 255)) (\<lambda>_ _ _. TREASURY) STAKE_POOL_PDA id
     [(fst (dyn_update no_mints Map.empty (fst crime_hop)), CRIME_MINT), profit_hop] NATIVE_MINT = Ok sams \<and> length sams = 2)"
proof -
  let ?hs = "[crime_hop, profit_hop]" and ?hs' = "[(fst (dyn_update no_mints Map.empty (fst crime_hop)), CRIME_MINT), profit_hop]"
  have wf: "\<forall>h \<in> set ?hs. dyn_wf (fst h)" using example_hops_wf by simp
  have priced: "route_output (\<lambda>_. 0) ?hs NATIVE_MINT 100 = Ok 4"
    using example_outputs by (simp add: crime_hop_def profit_hop_def)
  have "later_hop no_mints crime_hop (fst (dyn_update no_mints Map.empty (fst crime_hop)), CRIME_MINT)"
    unfolding later_hop_def by (auto simp: crime_hop_def intro!: exI [of _ "[Map.empty]"])
  moreover have "later_hop no_mints profit_hop profit_hop"
    unfolding later_hop_def by (auto intro!: exI [of _ "[]"])
  ultimately have "list_all2 (later_hop no_mints) ?hs ?hs'" by simp
  from priced_routes_can_be_built [OF wf priced this, of "\<lambda>_ _. (TREASURY, 255)" "\<lambda>_ _ _. TREASURY" STAKE_POOL_PDA id]
  show ?thesis using priced by auto
qed

end
