(* ===== verification/Amm_Trades.thy ===== *)
theory Amm_Trades
  imports Amm_Math
begin

text \<open>
  A pool over time, in the arithmetic of \<open>math/amm_math.rs\<close>: any number of trades in either direction,
  each priced by \<open>calculate_effective_input\<close> and \<open>calculate_swap_output\<close> on the reserves that the trades
  before it left.  The check \<open>verify_k_invariant\<close> that a trade must pass against the state before it
  then holds between any two moments.
\<close>

section \<open>Trades\<close>

type_synonym book = "u64 \<times> u64"

text \<open>
  Paying \<open>x\<close> of one side and taking the output from the other.  The fee may differ from trade to trade;
  the on-chain reserve is a \<open>u64\<close> too, so the sum has to fit.
\<close>

inductive trades :: "book \<Rightarrow> book \<Rightarrow> bool" where
  none: "trades R R"
| pay_a: "trades R (ra, rb) \<Longrightarrow> calculate_effective_input x fee = Some e \<Longrightarrow>
    calculate_swap_output ra rb e = Some out \<Longrightarrow> unat ra + unat x < 2 ^ 64 \<Longrightarrow> trades R (ra + x, rb - out)"
| pay_b: "trades R (ra, rb) \<Longrightarrow> calculate_effective_input x fee = Some e \<Longrightarrow>
    calculate_swap_output rb ra e = Some out \<Longrightarrow> unat rb + unat x < 2 ^ 64 \<Longrightarrow> trades R (ra - out, rb + x)"

inductive_cases trades_fromE: "trades R (ra, rb)"

text \<open>One trade: the input reserve grows by what is paid, the other stays positive, the product does not fall.\<close>

lemma trade_values:
  assumes "calculate_effective_input x fee = Some e" and "calculate_swap_output r_in r_out e = Some out"
    and "unat r_in + unat x < 2 ^ 64"
  shows "unat (r_in + x) = unat r_in + unat x"
    and "unat r_in * unat r_out \<le> unat (r_in + x) * unat (r_out - out)"
    and "0 < unat r_in \<Longrightarrow> 0 < unat r_out \<Longrightarrow> 0 < unat (r_out - out)"
proof -
  show r_in: "unat (r_in + x) = unat r_in + unat x" using assms(3) by (simp add: unat_word_ariths)
  have out: "unat out = curve_out (unat r_in) (unat r_out) (unat e)"
    using assms(1,2) effective_input_bounds(2) by (simp add: swap_output_u64)
  have r_out: "unat (r_out - out) = unat r_out - curve_out (unat r_in) (unat r_out) (unat e)"
    using out curve_out_le [of "unat r_in" "unat r_out" "unat e"] by (simp add: unat_sub word_le_nat_alt)
  show "unat r_in * unat r_out \<le> unat (r_in + x) * unat (r_out - out)"
    unfolding r_in r_out using effective_input_bounds(1) [OF assms(1)] by (rule curve_out_keeps_k_fee)
  show "0 < unat (r_out - out)" if "0 < unat r_in" and "0 < unat r_out"
    unfolding r_out using curve_out_less [OF that] by simp
qed

text \<open>The measure of a book that trades never lower.\<close>

definition depth :: "book \<Rightarrow> nat" where "depth R = unat (fst R) * unat (snd R)"

lemma trades_depth: "trades R R' \<Longrightarrow> depth R \<le> depth R'"
proof (induction rule: trades.induct)
  case (pay_a R ra rb x fee e out)
  then show ?case using trade_values(2) [of x fee e ra rb out] by (simp add: depth_def)
next
  case (pay_b R ra rb x fee e out)
  then show ?case using trade_values(2) [of x fee e rb ra out] by (simp add: depth_def mult.commute)
qed simp

lemma trades_positive:
  "trades R R' \<Longrightarrow> 0 < unat (fst R) \<Longrightarrow> 0 < unat (snd R) \<Longrightarrow> 0 < unat (fst R') \<and> 0 < unat (snd R')"
proof (induction rule: trades.induct)
  case (pay_a R ra rb x fee e out)
  then show ?case using trade_values(1,3) [of x fee e ra rb out] by simp
next
  case (pay_b R ra rb x fee e out)
  then show ?case using trade_values(1,3) [of x fee e rb ra out] by simp
qed simp

lemma trades_trans: "trades R' R'' \<Longrightarrow> trades R R' \<Longrightarrow> trades R R''"
  by (induction rule: trades.induct) (auto intro: trades.intros)

text \<open>With the product no lower, a reserve that has not grown forces the other not to have shrunk.\<close>

lemma depth_forces:
  assumes "depth R \<le> depth R'" and "0 < unat (snd R)" and "snd R' \<le> snd R"
  shows "fst R \<le> fst R'"
proof (rule ccontr)
  assume "\<not> fst R \<le> fst R'"
  then have "unat (fst R') < unat (fst R)" by (simp add: word_le_nat_alt)
  then have "unat (fst R') * unat (snd R) < unat (fst R) * unat (snd R)" using assms(2) by simp
  moreover have "depth R' \<le> unat (fst R') * unat (snd R)"
    using assms(3) by (simp add: depth_def word_le_nat_alt)
  ultimately show False using assms(1) unfolding depth_def by linarith
qed

lemma depth_swap: "depth (prod.swap R) = depth R"
  by (simp add: depth_def mult.commute)

section \<open>Properties\<close>

text \<open>No sequence of trades drains a pool.  Start from a pool with both reserves and let any trades
  follow, in both directions, of any amounts and at any fees: \<open>verify_k_invariant\<close> holds between the
  first and the last state, both reserves are still there, and whoever has returned to the pool as
  much of one side as was taken from it has not taken anything of the other.\<close>

lemma trades_never_drain:
  assumes "trades R R'" and "0 < fst R" and "0 < snd R"
  shows "verify_k_invariant (fst R) (snd R) (fst R') (snd R') = Some True \<and>
    0 < fst R' \<and> 0 < snd R' \<and>
    (snd R' \<le> snd R \<longrightarrow> fst R \<le> fst R') \<and> (fst R' \<le> fst R \<longrightarrow> snd R \<le> snd R')"
proof -
  have pos: "0 < unat (fst R)" "0 < unat (snd R)" using assms(2,3) by (simp_all add: word_less_nat_alt)
  note deep = trades_depth [OF assms(1)]
  have "snd R \<le> snd R'" if "fst R' \<le> fst R"
    using depth_forces [of "prod.swap R" "prod.swap R'"] deep pos(1) that by (simp add: depth_swap)
  then show ?thesis
    using deep depth_forces [OF deep pos(2)] trades_positive [OF assms(1) pos]
    by (simp add: verify_k_Some depth_def word_less_nat_alt)
qed

theorem trades_never_drain_witness:
  "trades (1000000, 1000000) (1000000 + 1000 - 980, 1000000 - 989 + 990) \<and>
   (1000000 :: u64) \<le> 1000000 - 989 + 990 \<and>
   verify_k_invariant 1000000 1000000 (1000000 + 1000 - 980) (1000000 - 989 + 990) = Some True"
proof -
  have "trades (1000000, 1000000) (1000000 + 1000, 1000000 - 989)"
    by (rule trades.pay_a [OF trades.none, of 1000 100 990]) (simp_all add: effective_input_Some swap_output_Some)
  then have t: "trades (1000000, 1000000) (1000000 + 1000 - 980, 1000000 - 989 + 990)"
    by (rule trades.pay_b [of _ _ _ 990 100 980]) (simp_all add: effective_input_Some swap_output_Some)
  from trades_never_drain [OF t] t show ?thesis by simp
qed

end
