(* ===== verification/Sol_Pool_Trades.thy ===== *)
theory Sol_Pool_Trades
  imports Amm_Trades Sol_Pool_Quotes
begin

text \<open>
  A faction pool that is traded at the prices \<open>SolPoolAmm\<close> quotes.  Each trade settles a quote of an
  instance whose reserves are those of the moment: what a buy leaves after tax goes into the pool and
  the quoted output out of it; the input of a sell goes in and its gross output, the quoted output and
  the tax, goes out.  The instance may be another one each time, since taxes and fees change with the
  epoch account.  Every settled quote is a trade of \<open>Amm_Trades\<close>.
\<close>

section \<open>Settling quotes\<close>

text \<open>A book holds the quote reserve first, as \<open>reserves\<close> does.\<close>

inductive settles :: "book \<Rightarrow> book \<Rightarrow> bool" where
  opened: "settles R R"
| buy: "settles R (reserves s) \<Longrightarrow> quote_buy s a = Ok r \<Longrightarrow> after_tax (amm_buy_tax_bps s) a = Some n \<Longrightarrow>
    unat (fst (reserves s)) + unat n < 2 ^ 64 \<Longrightarrow>
    settles R (fst (reserves s) + n, snd (reserves s) - out_amount r)"
| sell: "settles R (reserves s) \<Longrightarrow> quote_sell s a = Ok r \<Longrightarrow>
    unat (snd (reserves s)) + unat a < 2 ^ 64 \<Longrightarrow>
    settles R (fst (reserves s) - (out_amount r + fee_amount r), snd (reserves s) + a)"

lemma buy_is_trade:
  assumes "quote_buy s a = Ok r" and "after_tax (amm_buy_tax_bps s) a = Some n"
    and "unat (fst (reserves s)) + unat n < 2 ^ 64" and "trades R (reserves s)"
  shows "trades R (fst (reserves s) + n, snd (reserves s) - out_amount r)"
proof (cases "n = 0")
  case True
  then have "out_amount r = 0" using assms(1,2) by (auto simp: quote_buy_steps after_tax_def)
  then show ?thesis using True assms(4) by simp
next
  case False
  then obtain e where "calculate_effective_input n (lp_fee_bps (amm_pool s)) = Some e"
    and "calculate_swap_output (fst (reserves s)) (snd (reserves s)) e = Some (out_amount r)"
    using assms(1,2) by (auto simp: quote_buy_steps after_tax_def)
  then show ?thesis using assms(3,4) trades.pay_a by (metis prod.collapse)
qed

lemma sell_is_trade:
  assumes "quote_sell s a = Ok r" and "unat (snd (reserves s)) + unat a < 2 ^ 64" and "trades R (reserves s)"
  shows "trades R (fst (reserves s) - (out_amount r + fee_amount r), snd (reserves s) + a)"
proof -
  obtain g where g: "pool_price (lp_fee_bps (amm_pool s)) (snd (reserves s)) (fst (reserves s)) a = Some g"
    and net: "after_tax (amm_sell_tax_bps s) g = Some (out_amount r)"
    and tax: "calculate_tax g (amm_sell_tax_bps s) = Some (fee_amount r)"
    using assms(1) by (auto simp: quote_sell_steps)
  have "checked_sub g (fee_amount r) = Some (out_amount r)" using net tax by (simp add: after_tax_def)
  then have "out_amount r = g - fee_amount r" by (auto simp: checked_sub_def split: if_splits)
  then have gross: "out_amount r + fee_amount r = g" by simp
  obtain e where "calculate_effective_input a (lp_fee_bps (amm_pool s)) = Some e"
    and "calculate_swap_output (snd (reserves s)) (fst (reserves s)) e = Some g"
    using g by (auto simp: pool_price_def bind_eq_Some_conv)
  then show ?thesis using assms(2,3) trades.pay_b unfolding gross by (metis prod.collapse)
qed

lemma settles_trades: "settles R R' \<Longrightarrow> trades R R'"
  by (induction rule: settles.induct) (blast intro: trades.none buy_is_trade sell_is_trade)+

section \<open>Properties\<close>

text \<open>C13: No sequence of quoted trades drains a pool.  Start from a pool with both reserves, and settle any
  quotes of \<open>SolPoolAmm\<close>, buys and sells of any amounts in any order, at any taxes and fees: the
  on-chain check \<open>verify_k_invariant\<close> holds between the first and the last state, both reserves are still
  there, and once the pool holds no more of one side than at first, it holds at least as much of the
  other.\<close>

theorem quoted_trades_never_drain:
  assumes "settles R R'" and "0 < fst R" and "0 < snd R"
  shows "verify_k_invariant (fst R) (snd R) (fst R') (snd R') = Some True \<and>
    0 < fst R' \<and> 0 < snd R' \<and>
    (snd R' \<le> snd R \<longrightarrow> fst R \<le> fst R') \<and> (fst R' \<le> fst R \<longrightarrow> snd R \<le> snd R')"
  using settles_trades [OF assms(1)] assms(2,3) by (rule trades_never_drain)

theorem quoted_trades_never_drain_witness:
  "settles (1000, 5000) (1000 + 96, 5000 - 433) \<and>
   verify_k_invariant 1000 5000 (1000 + 96) (5000 - 433) = Some True \<and> (1000 :: u64) \<le> 1000 + 96"
proof -
  obtain r where r: "quote_buy test_amm 100 = Ok r" "unat (out_amount r) = 433" using test_amm_buys by blast
  then have "out_amount r = 433" by (simp add: word_unat_eq_iff)
  moreover have "after_tax (amm_buy_tax_bps test_amm) 100 = Some 96"
    by (simp add: after_tax_Some test_amm_eq(2) net_of_def)
  ultimately have s: "settles (1000, 5000) (1000 + 96, 5000 - 433)"
    using settles.buy [of "(1000, 5000)" test_amm 100 r 96] r(1) settles.opened by (simp add: test_amm_reserves)
  from quoted_trades_never_drain [OF s] s show ?thesis by simp
qed

end
