(* ===== verification/Test_Vectors_Vault.thy ===== *)
theory Test_Vectors_Vault
  imports Test_Vectors_Math Vault_Amm
begin

text \<open>
  The unit tests of \<open>accounts/hook_accounts.rs\<close>, \<open>accounts/vault_accounts.rs\<close> and
  \<open>vault_amm.rs\<close>, as executable predicates under the names of the test functions with \<open>test_\<close> in
  front.  Keys that a test makes with \<open>Pubkey::new_unique\<close> are arguments of its predicate, so the
  model passes it for every choice of them (different ones, or unknown ones, where the test
  needs that).  The two tests on different derived addresses rest on the address derivation
  having no collision, which is a hypothesis of their lemmas.
\<close>

section \<open>Hook accounts\<close>

definition test_native_mint_returns_empty :: "pda_fn \<Rightarrow> pubkey \<Rightarrow> pubkey \<Rightarrow> bool" where
  "test_native_mint_returns_empty pda src dst \<longleftrightarrow>
     (let metas = hook_metas_for_mint pda NATIVE_MINT src dst in metas = [])"

definition test_crime_mint_returns_4_metas :: "pda_fn \<Rightarrow> pubkey \<Rightarrow> pubkey \<Rightarrow> bool" where
  "test_crime_mint_returns_4_metas pda src dst \<longleftrightarrow>
     (let metas = hook_metas_for_mint pda CRIME_MINT src dst in
      length metas = 4 \<and>
      meta_pubkey (metas ! 0) = CRIME_HOOK_META \<and> \<not> is_signer (metas ! 0) \<and> \<not> is_writable (metas ! 0) \<and>
      meta_pubkey (metas ! 3) = TRANSFER_HOOK_PROGRAM_ID \<and> \<not> is_signer (metas ! 3) \<and> \<not> is_writable (metas ! 3))"

definition test_fraud_mint_returns_4_metas :: "pda_fn \<Rightarrow> pubkey \<Rightarrow> pubkey \<Rightarrow> bool" where
  "test_fraud_mint_returns_4_metas pda src dst \<longleftrightarrow>
     (let metas = hook_metas_for_mint pda FRAUD_MINT src dst in
      length metas = 4 \<and> meta_pubkey (metas ! 0) = FRAUD_HOOK_META)"

definition test_profit_mint_returns_4_metas :: "pda_fn \<Rightarrow> pubkey \<Rightarrow> pubkey \<Rightarrow> bool" where
  "test_profit_mint_returns_4_metas pda src dst \<longleftrightarrow>
     (let metas = hook_metas_for_mint pda PROFIT_MINT src dst in
      length metas = 4 \<and> meta_pubkey (metas ! 0) = PROFIT_HOOK_META)"

definition test_unknown_mint_returns_empty :: "pda_fn \<Rightarrow> pubkey \<Rightarrow> pubkey \<Rightarrow> pubkey \<Rightarrow> bool" where
  "test_unknown_mint_returns_empty pda unknown src dst \<longleftrightarrow>
     (let metas = hook_metas_for_mint pda unknown src dst in metas = [])"

definition test_whitelist_pdas_are_deterministic :: "pda_fn \<Rightarrow> pubkey \<Rightarrow> pubkey \<Rightarrow> bool" where
  "test_whitelist_pdas_are_deterministic pda src dst \<longleftrightarrow>
     (let metas1 = hook_metas_for_mint pda CRIME_MINT src dst;
          metas2 = hook_metas_for_mint pda CRIME_MINT src dst
      in meta_pubkey (metas1 ! 1) = meta_pubkey (metas2 ! 1) \<and> meta_pubkey (metas1 ! 2) = meta_pubkey (metas2 ! 2))"

definition test_different_accounts_produce_different_whitelist_pdas ::
    "pda_fn \<Rightarrow> pubkey \<Rightarrow> pubkey \<Rightarrow> pubkey \<Rightarrow> pubkey \<Rightarrow> bool" where
  "test_different_accounts_produce_different_whitelist_pdas pda src1 dst1 src2 dst2 \<longleftrightarrow>
     (let metas1 = hook_metas_for_mint pda CRIME_MINT src1 dst1;
          metas2 = hook_metas_for_mint pda CRIME_MINT src2 dst2
      in meta_pubkey (metas1 ! 1) \<noteq> meta_pubkey (metas2 ! 1) \<and> meta_pubkey (metas1 ! 2) \<noteq> meta_pubkey (metas2 ! 2))"

lemma hook_account_tests:
  "test_native_mint_returns_empty pda src dst" "test_crime_mint_returns_4_metas pda src dst"
  "test_fraud_mint_returns_4_metas pda src dst" "test_profit_mint_returns_4_metas pda src dst"
  "test_whitelist_pdas_are_deterministic pda src dst"
  "\<not> protocol_mint unknown \<Longrightarrow> test_unknown_mint_returns_empty pda unknown src dst"
  by (simp_all add: test_native_mint_returns_empty_def test_crime_mint_returns_4_metas_def
      test_fraud_mint_returns_4_metas_def test_profit_mint_returns_4_metas_def
      test_whitelist_pdas_are_deterministic_def test_unknown_mint_returns_empty_def
      hook_metas_protocol hook_metas_other)

lemma whitelist_addresses_differ:
  assumes "inj (whitelist_of pda)" and "src1 \<noteq> src2" and "dst1 \<noteq> dst2"
  shows "test_different_accounts_produce_different_whitelist_pdas pda src1 dst1 src2 dst2"
  using assms
  by (simp add: test_different_accounts_produce_different_whitelist_pdas_def hook_metas_protocol inj_eq)

section \<open>The vault's account list\<close>

definition test_vault_metas_has_9_named_plus_8_hooks :: "pda_fn \<Rightarrow> pubkey \<Rightarrow> pubkey \<Rightarrow> pubkey \<Rightarrow> bool" where
  "test_vault_metas_has_9_named_plus_8_hooks pda user user_input user_output \<longleftrightarrow>
     unwrap (build_vault_account_metas pda user user_input user_output CRIME_MINT PROFIT_MINT)
       (\<lambda>metas. length metas = 17)"

definition test_vault_account_ordering_correct :: "pda_fn \<Rightarrow> pubkey \<Rightarrow> pubkey \<Rightarrow> pubkey \<Rightarrow> bool" where
  "test_vault_account_ordering_correct pda user user_input user_output \<longleftrightarrow>
     unwrap (build_vault_account_metas pda user user_input user_output CRIME_MINT PROFIT_MINT) (\<lambda>metas.
       meta_pubkey (metas ! 0) = user \<and> is_signer (metas ! 0) \<and>
       meta_pubkey (metas ! 1) = VAULT_CONFIG_PDA \<and> \<not> is_writable (metas ! 1) \<and>
       meta_pubkey (metas ! 2) = user_input \<and> is_writable (metas ! 2) \<and>
       meta_pubkey (metas ! 4) = CRIME_MINT \<and> \<not> is_writable (metas ! 4) \<and>
       meta_pubkey (metas ! 5) = PROFIT_MINT \<and>
       meta_pubkey (metas ! 6) = VAULT_CRIME \<and> is_writable (metas ! 6) \<and>
       meta_pubkey (metas ! 7) = VAULT_PROFIT \<and> is_writable (metas ! 7) \<and>
       meta_pubkey (metas ! 8) = TOKEN_2022_PROGRAM_ID)"

definition test_vault_token_account_crime :: bool where
  "test_vault_token_account_crime \<longleftrightarrow> unwrap (vault_token_account CRIME_MINT) (\<lambda>v. v = VAULT_CRIME)"

definition test_vault_token_account_fraud :: bool where
  "test_vault_token_account_fraud \<longleftrightarrow> unwrap (vault_token_account FRAUD_MINT) (\<lambda>v. v = VAULT_FRAUD)"

definition test_vault_token_account_profit :: bool where
  "test_vault_token_account_profit \<longleftrightarrow> unwrap (vault_token_account PROFIT_MINT) (\<lambda>v. v = VAULT_PROFIT)"

definition test_profit_to_crime_has_correct_vaults :: "pda_fn \<Rightarrow> pubkey \<Rightarrow> pubkey \<Rightarrow> pubkey \<Rightarrow> bool" where
  "test_profit_to_crime_has_correct_vaults pda user user_input user_output \<longleftrightarrow>
     unwrap (build_vault_account_metas pda user user_input user_output PROFIT_MINT CRIME_MINT) (\<lambda>metas.
       meta_pubkey (metas ! 6) = VAULT_PROFIT \<and> meta_pubkey (metas ! 7) = VAULT_CRIME)"

lemma vault_account_tests:
  "test_vault_metas_has_9_named_plus_8_hooks pda user user_input user_output"
  "test_vault_account_ordering_correct pda user user_input user_output"
  "test_vault_token_account_crime" "test_vault_token_account_fraud" "test_vault_token_account_profit"
  "test_profit_to_crime_has_correct_vaults pda user user_input user_output"
  by (simp_all add: test_vault_metas_has_9_named_plus_8_hooks_def test_vault_account_ordering_correct_def
      test_vault_token_account_crime_def test_vault_token_account_fraud_def
      test_vault_token_account_profit_def test_profit_to_crime_has_correct_vaults_def
      build_vault_account_metas_def vault_token_account_def Let_def hook_metas_protocol)

section \<open>The vault adapter\<close>

text \<open>\<open>let instances = known_instances(); let (_, amm) = &instances[i];\<close>\<close>

definition with_instance :: "pda_fn \<Rightarrow> nat \<Rightarrow> (vault_amm \<Rightarrow> bool) \<Rightarrow> bool" where
  "with_instance pda i t \<longleftrightarrow>
     unwrap (known_instances pda) (\<lambda>instances. unwrap (index_at instances i :: (pubkey \<times> vault_amm) result) (\<lambda>(_, amm). t amm))"

definition exact_in :: "u64 \<Rightarrow> pubkey \<Rightarrow> pubkey \<Rightarrow> quote_params" where
  "exact_in a i out = \<lparr>q_amount = a, q_input_mint = i, q_output_mint = out, q_swap_mode = ExactIn\<rparr>"

definition test_crime_to_profit_quote :: "pda_fn \<Rightarrow> bool" where
  "test_crime_to_profit_quote pda \<longleftrightarrow> with_instance pda 0 (\<lambda>amm.
     unwrap (vault_quote amm (exact_in 10000 CRIME_MINT PROFIT_MINT)) (\<lambda>q.
       out_amount q = 100 \<and> fee_amount q = 0 \<and> fee_pct q = 0))"

definition test_profit_to_fraud_quote :: "pda_fn \<Rightarrow> bool" where
  "test_profit_to_fraud_quote pda \<longleftrightarrow> with_instance pda 3 (\<lambda>amm.
     unwrap (vault_quote amm (exact_in 50 PROFIT_MINT FRAUD_MINT)) (\<lambda>q. out_amount q = 5000 \<and> fee_amount q = 0))"

definition test_small_input_crime_to_profit_errors :: "pda_fn \<Rightarrow> bool" where
  "test_small_input_crime_to_profit_errors pda \<longleftrightarrow> with_instance pda 0 (\<lambda>amm.
     is_err (vault_quote amm (exact_in 99 CRIME_MINT PROFIT_MINT)))"

definition test_known_instances_returns_4 :: "pda_fn \<Rightarrow> bool" where
  "test_known_instances_returns_4 pda \<longleftrightarrow>
     unwrap (known_instances pda) (\<lambda>instances.
       length instances = 4 \<and>
       (let ks = map fst instances in
        \<forall>i \<in> set [0 ..< length ks]. \<forall>j \<in> set [i + 1 ..< length ks]. ks ! i \<noteq> ks ! j))"

definition test_known_sol_pool_keys_returns_2 :: bool where
  "test_known_sol_pool_keys_returns_2 \<longleftrightarrow>
     (let ks = known_sol_pool_keys in length ks = 2 \<and> ks ! 0 = CRIME_SOL_POOL \<and> ks ! 1 = FRAUD_SOL_POOL)"

definition test_all_pool_keys_returns_6 :: "pda_fn \<Rightarrow> bool" where
  "test_all_pool_keys_returns_6 pda \<longleftrightarrow>
     unwrap (all_pool_keys pda) (\<lambda>ks.
       length ks = 6 \<and> ks ! 0 = CRIME_SOL_POOL \<and> ks ! 1 = FRAUD_SOL_POOL \<and>
       unwrap (known_instances pda) (\<lambda>instances.
         let vault_keys = map fst instances in
         length vault_keys = 4 \<and>
         ks ! 2 = vault_keys ! 0 \<and> ks ! 3 = vault_keys ! 1 \<and> ks ! 4 = vault_keys ! 2 \<and> ks ! 5 = vault_keys ! 3))"

definition test_synthetic_keys_are_deterministic :: "pda_fn \<Rightarrow> bool" where
  "test_synthetic_keys_are_deterministic pda \<longleftrightarrow>
     (let key1 = derive_synthetic_key pda CRIME_MINT PROFIT_MINT;
          key2 = derive_synthetic_key pda CRIME_MINT PROFIT_MINT
      in key1 = key2)"

definition test_reverse_direction_has_different_key :: "pda_fn \<Rightarrow> bool" where
  "test_reverse_direction_has_different_key pda \<longleftrightarrow>
     (let key_fwd = derive_synthetic_key pda CRIME_MINT PROFIT_MINT;
          key_rev = derive_synthetic_key pda PROFIT_MINT CRIME_MINT
      in key_fwd \<noteq> key_rev)"

definition test_vault_amm_is_unidirectional :: "pda_fn \<Rightarrow> bool" where
  "test_vault_amm_is_unidirectional pda \<longleftrightarrow> with_instance pda 0 (\<lambda>amm. vault_unidirectional amm)"

definition test_label_is_dr_fraudsworth_vault :: "pda_fn \<Rightarrow> bool" where
  "test_label_is_dr_fraudsworth_vault pda \<longleftrightarrow> with_instance pda 0 (\<lambda>amm. vault_label amm = ''Dr Fraudsworth Vault'')"

definition test_program_id_is_vault :: "pda_fn \<Rightarrow> bool" where
  "test_program_id_is_vault pda \<longleftrightarrow> with_instance pda 0 (\<lambda>amm. vault_program_id amm = CONVERSION_VAULT_PROGRAM_ID)"

definition test_reserve_mints_match_direction :: "pda_fn \<Rightarrow> bool" where
  "test_reserve_mints_match_direction pda \<longleftrightarrow>
     with_instance pda 0 (\<lambda>amm. vault_get_reserve_mints amm = [CRIME_MINT, PROFIT_MINT]) \<and>
     with_instance pda 3 (\<lambda>amm. vault_get_reserve_mints amm = [PROFIT_MINT, FRAUD_MINT])"

definition test_exact_out_not_supported :: "pda_fn \<Rightarrow> bool" where
  "test_exact_out_not_supported pda \<longleftrightarrow> with_instance pda 0 (\<lambda>amm.
     is_err (vault_quote amm
       \<lparr>q_amount = 10000, q_input_mint = CRIME_MINT, q_output_mint = PROFIT_MINT, q_swap_mode = ExactOut\<rparr>))"

definition test_wrong_input_mint_errors :: "pda_fn \<Rightarrow> bool" where
  "test_wrong_input_mint_errors pda \<longleftrightarrow> with_instance pda 0 (\<lambda>amm.
     is_err (vault_quote amm (exact_in 10000 FRAUD_MINT PROFIT_MINT)))"

definition test_accounts_to_update_has_config_and_output_vault :: "pda_fn \<Rightarrow> bool" where
  "test_accounts_to_update_has_config_and_output_vault pda \<longleftrightarrow>
     with_instance pda 0 (\<lambda>amm. vault_get_accounts_to_update amm = [VAULT_CONFIG_PDA, VAULT_PROFIT]) \<and>
     with_instance pda 2 (\<lambda>amm. vault_get_accounts_to_update amm = [VAULT_CONFIG_PDA, VAULT_CRIME])"

definition test_quote_capped_at_output_vault_balance :: "pda_fn \<Rightarrow> bool" where
  "test_quote_capped_at_output_vault_balance pda \<longleftrightarrow>
     unwrap (vault_new_for_testing pda CRIME_MINT PROFIT_MINT) (\<lambda>amm.
       let amm = amm\<lparr>vlt_output_vault_balance := 100\<rparr> in
       is_err (vault_quote amm (exact_in 20000 CRIME_MINT PROFIT_MINT)) \<and>
       (let amm = amm\<lparr>vlt_output_vault_balance := 200\<rparr> in
        unwrap (vault_quote amm (exact_in 20000 CRIME_MINT PROFIT_MINT)) (\<lambda>q. out_amount q = 200)))"

definition test_profit_outputs_share_underlying_liquidity :: "pda_fn \<Rightarrow> bool" where
  "test_profit_outputs_share_underlying_liquidity pda \<longleftrightarrow>
     with_instance pda 0 (\<lambda>crime_to_profit.
     with_instance pda 1 (\<lambda>fraud_to_profit.
     with_instance pda 2 (\<lambda>profit_to_crime.
       underlying_liquidities crime_to_profit = underlying_liquidities fraud_to_profit \<and>
       underlying_liquidities crime_to_profit \<noteq> underlying_liquidities profit_to_crime)))"

definition test_update_refreshes_output_vault_balance :: "pda_fn \<Rightarrow> pubkey \<Rightarrow> bool" where
  "test_update_refreshes_output_vault_balance pda owner \<longleftrightarrow>
     unwrap (vault_new_for_testing pda CRIME_MINT PROFIT_MINT) (\<lambda>amm.
       let accounts = Map.empty
             (VAULT_CONFIG_PDA \<mapsto> \<lparr>acc_data = replicate 9 1, acc_owner = CONVERSION_VAULT_PROGRAM_ID\<rparr>,
              VAULT_PROFIT \<mapsto> \<lparr>acc_data = mock_token_account PROFIT_MINT owner 500,
                               acc_owner = TOKEN_2022_PROGRAM_ID\<rparr>);
           (amm, updated) = vault_update accounts amm
       in unwrap updated (\<lambda>_.
            is_err (vault_quote amm (exact_in 60000 CRIME_MINT PROFIT_MINT)) \<and>
            is_ok (vault_quote amm (exact_in 40000 CRIME_MINT PROFIT_MINT))))"

text \<open>Every instance of the factory, and the instance for tests, is the one of its direction.\<close>

lemma with_instance_eq:
  "i < 4 \<Longrightarrow> with_instance pda i t \<longleftrightarrow>
     (let (a, b) = edges ! i in t (vault_instance (derive_synthetic_key pda a b) a b))"
  by (simp add: with_instance_def known_instances_eq edges_def nth_Cons' Let_def)

lemma for_testing_eq:
  "supported_edge i out \<Longrightarrow> vault_new_for_testing pda i out = Ok (vault_instance (derive_synthetic_key pda i out) i out)"
  using edge_mints(4) [of i out]
  by (auto simp: vault_new_for_testing_def conversion_output_vault_eq vault_instance_def)

lemmas instance_evaluation =
  with_instance_eq for_testing_eq edges_def supported_edge_def vault_instance_def exact_in_def assertion_defs

lemmas vault_method_defs =
  vault_unidirectional_def vault_label_def vault_program_id_def vault_get_reserve_mints_def
  vault_get_accounts_to_update_def underlying_liquidities_def vault_validate_mint_pair_def vault_quote_def

lemma vault_quote_tests:
  "test_crime_to_profit_quote pda" "test_profit_to_fraud_quote pda" "test_small_input_crime_to_profit_errors pda"
  "test_exact_out_not_supported pda" "test_wrong_input_mint_errors pda" "test_quote_capped_at_output_vault_balance pda"
  by (simp_all add: test_crime_to_profit_quote_def test_profit_to_fraud_quote_def
      test_small_input_crime_to_profit_errors_def test_exact_out_not_supported_def
      test_wrong_input_mint_errors_def test_quote_capped_at_output_vault_balance_def
      instance_evaluation vault_method_defs evaluation)

lemma vault_method_tests:
  "test_synthetic_keys_are_deterministic pda" "test_vault_amm_is_unidirectional pda"
  "test_label_is_dr_fraudsworth_vault pda" "test_program_id_is_vault pda" "test_reserve_mints_match_direction pda"
  "test_accounts_to_update_has_config_and_output_vault pda" "test_profit_outputs_share_underlying_liquidity pda"
  by (simp_all add: test_synthetic_keys_are_deterministic_def test_vault_amm_is_unidirectional_def
      test_label_is_dr_fraudsworth_vault_def test_program_id_is_vault_def test_reserve_mints_match_direction_def
      test_accounts_to_update_has_config_and_output_vault_def test_profit_outputs_share_underlying_liquidity_def
      instance_evaluation vault_method_defs)

lemma pool_key_tests: "test_known_sol_pool_keys_returns_2" "test_all_pool_keys_returns_6 pda"
  by (simp_all add: test_known_sol_pool_keys_returns_2_def test_all_pool_keys_returns_6_def known_sol_pool_keys_def
      all_pool_keys_def known_instances_eq edges_def)

lemma vault_refresh_test: "test_update_refreshes_output_vault_balance pda owner"
proof -
  have "parse_token_account_amount (mock_token_account PROFIT_MINT owner 500) PROFIT_MINT = Ok 500"
    by (simp add: parse_token_account_eq mock_token_reads)
  then show ?thesis
    by (simp add: test_update_refreshes_output_vault_balance_def instance_evaluation vault_update_eq
        vault_method_defs evaluation)
qed

text \<open>Without collisions of the address derivation, directions have different synthetic keys.\<close>

lemma synthetic_key_tests:
  assumes "inj_on (\<lambda>(i, out). derive_synthetic_key pda i out) (set edges)"
  shows "test_known_instances_returns_4 pda" and "test_reverse_direction_has_different_key pda"
proof -
  have d: "distinct (map (\<lambda>(i, out). derive_synthetic_key pda i out) edges)"
    using assms by (simp add: distinct_map) (simp add: edges_def)
  let ?instances = "map (\<lambda>(i, out). (derive_synthetic_key pda i out, vault_instance (derive_synthetic_key pda i out) i out)) edges"
  have k: "map fst ?instances = map (\<lambda>(i, out). derive_synthetic_key pda i out) edges" by (simp add: split_beta)
  have "length ?instances = 4" by (simp add: edges_def)
  then show "test_known_instances_returns_4 pda"
    using d unfolding test_known_instances_returns_4_def known_instances_eq unwrap.simps k Let_def
    by (auto simp: distinct_conv_nth)
  show "test_reverse_direction_has_different_key pda"
    using d by (simp add: test_reverse_direction_has_different_key_def edges_def)
qed

end
