(* ===== verification/Quote_Example.thy ===== *)
theory Quote_Example
  imports Amm_Routes Test_Vectors_Vault
begin

text \<open>
  The example program \<open>examples/quote_example.rs\<close>: \<open>main\<close> as a computation that prints lines and
  can panic at an \<open>expect\<close> or an index.  A printed line is the list of what its format string holds:
  literal text and the values put into the braces, which \<open>Display\<close> turns into text.
\<close>

section \<open>Definitions\<close>

datatype piece = Text string | Number nat | Rate rat | Key pubkey

type_synonym line = "piece list"

abbreviation u64_piece :: "u64 \<Rightarrow> piece" where "u64_piece n \<equiv> Number (unat n)"

definition println :: "line list \<Rightarrow> line \<Rightarrow> line list" where "println printed line = printed @ [line]"

definition example_mint_name :: "pubkey \<Rightarrow> string" where
  "example_mint_name mint =
     (if mint = CRIME_MINT then ''CRIME''
      else if mint = FRAUD_MINT then ''FRAUD''
      else if mint = PROFIT_MINT then ''PROFIT''
      else if mint = NATIVE_MINT then ''SOL''
      else ''UNKNOWN'')"

text \<open>The two loops of the pool discovery.\<close>

fun print_keys :: "line list \<Rightarrow> pubkey list \<Rightarrow> line list" where
  "print_keys printed [] = printed"
| "print_keys printed (key # keys) = print_keys (println printed [Text ''     - '', Key key]) keys"

fun print_instances :: "line list \<Rightarrow> (pubkey \<times> vault_amm) list \<Rightarrow> line list \<times> unit result" where
  "print_instances printed [] = (printed, Ok ())"
| "print_instances printed ((key, amm) # instances) =
     (let mints = vault_get_reserve_mints amm in
      try_in printed (index_at mints 0) (\<lambda>mint0.
      let input_name = example_mint_name mint0 in
      try_in printed (index_at mints 1) (\<lambda>mint1.
      let output_name = example_mint_name mint1 in
      print_instances
        (println printed [Text ''     - '', Text input_name, Text '' -> '', Text output_name,
           Text '' (key: '', Key key, Text '')'']) instances)))"

text \<open>
  \<open>clk\<close> holds the slots of the clocks, and \<open>clock\<close> is the one that \<open>new_for_testing\<close> allocates; a test
  instance starts with no pause, so any slot will do.
\<close>

definition quote_example_main :: "pda_fn \<Rightarrow> clocks \<Rightarrow> clock_ref \<Rightarrow> line list \<times> unit result" where
  "quote_example_main pda clk clock =
     (let out = println [] [Text ''=== Dr. Fraudsworth Jupiter Adapter SDK ==='', Text [CHR 0x0A]] in
      try_in out (pool_new_for_testing True 50000000000 500000000000 400 1400 clock) (\<lambda>sol_amm.
      try_in out (expect_ok (pool_quote clk sol_amm \<lparr>q_amount = 1000000000, q_input_mint = NATIVE_MINT,
          q_output_mint = CRIME_MINT, q_swap_mode = ExactIn\<rparr>)) (\<lambda>buy_quote.
      let out = println out [Text ''1. Buy CRIME with 1 SOL:''];
          out = println out [Text ''   Input:   '', u64_piece (in_amount buy_quote), Text '' lamports (1 SOL)''];
          out = println out [Text ''   Output:  '', u64_piece (out_amount buy_quote), Text '' CRIME tokens''];
          out = println out [Text ''   Fee:     '', u64_piece (fee_amount buy_quote), Text '' lamports (SOL)''];
          out = println out [Text ''   Fee %:   '', Rate (fee_pct buy_quote)];
          out = println out [] in
      try_in out (expect_ok (pool_quote clk sol_amm \<lparr>q_amount = 10000000000, q_input_mint = CRIME_MINT,
          q_output_mint = NATIVE_MINT, q_swap_mode = ExactIn\<rparr>)) (\<lambda>sell_quote.
      let out = println out [Text ''2. Sell 10B CRIME for SOL:''];
          out = println out [Text ''   Input:   '', u64_piece (in_amount sell_quote), Text '' CRIME tokens''];
          out = println out [Text ''   Output:  '', u64_piece (out_amount sell_quote), Text '' lamports''];
          out = println out [Text ''   Fee:     '', u64_piece (fee_amount sell_quote), Text '' lamports (SOL tax)''];
          out = println out [Text ''   Fee %:   '', Rate (fee_pct sell_quote)];
          out = println out [] in
      try_in out (vault_new_for_testing pda CRIME_MINT PROFIT_MINT) (\<lambda>vault.
      try_in out (expect_ok (vault_quote vault \<lparr>q_amount = 100000000000, q_input_mint = CRIME_MINT,
          q_output_mint = PROFIT_MINT, q_swap_mode = ExactIn\<rparr>)) (\<lambda>conversion.
      let out = println out [Text ''3. Convert 100B CRIME -> PROFIT:''];
          out = println out [Text ''   Input:   '', u64_piece (in_amount conversion), Text '' CRIME''];
          out = println out [Text ''   Output:  '', u64_piece (out_amount conversion), Text '' PROFIT (100:1 ratio)''];
          out = println out [Text ''   Fee:     '', u64_piece (fee_amount conversion), Text '' (zero fees)''];
          out = println out [] in
      try_in out (vault_new_for_testing pda PROFIT_MINT FRAUD_MINT) (\<lambda>reverse_vault.
      try_in out (expect_ok (vault_quote reverse_vault \<lparr>q_amount = 1000000000, q_input_mint = PROFIT_MINT,
          q_output_mint = FRAUD_MINT, q_swap_mode = ExactIn\<rparr>)) (\<lambda>reverse_quote.
      let out = println out [Text ''4. Convert 1B PROFIT -> FRAUD:''];
          out = println out [Text ''   Input:   '', u64_piece (in_amount reverse_quote), Text '' PROFIT''];
          out = println out [Text ''   Output:  '', u64_piece (out_amount reverse_quote), Text '' FRAUD (1:100 ratio)''];
          out = println out [Text ''   Fee:     '', u64_piece (fee_amount reverse_quote), Text '' (zero fees)''];
          out = println out [];
          out = println out [Text ''5. Pool Discovery:''];
          out = println out [];
          sol_keys = known_sol_pool_keys;
          out = println out [Text ''   SOL Pools ('', Number (length sol_keys),
                  Text '' instances, created via from_keyed_account):''];
          out = print_keys out sol_keys;
          out = println out [] in
      try_in out (known_instances pda) (\<lambda>vault_instances.
      let out = println out [Text ''   Vault Conversions ('', Number (length vault_instances),
                  Text '' instances, pre-built):''] in
      case print_instances out vault_instances of (out, looped) \<Rightarrow>
      try_in out looped (\<lambda>_.
      let out = println out [];
          out = println out [Text ''   Total: '', Number (length sol_keys + length vault_instances),
                  Text '' Amm instances covering 8 swap directions'']
      in (out, Ok ())))))))))))"

section \<open>What it prints\<close>

text \<open>The four quotes.\<close>

lemma example_pool_quotes:
  assumes "pool_new_for_testing True 50000000000 500000000000 400 1400 clock = Ok s"
  shows "pool_quote clk s \<lparr>q_amount = 1000000000, q_input_mint = NATIVE_MINT, q_output_mint = CRIME_MINT,
        q_swap_mode = ExactIn\<rparr> =
      Ok \<lparr>in_amount = 1000000000, out_amount = 9326717749, fee_amount = 49600000, fee_mint = NATIVE_MINT, fee_pct = 5 / 100\<rparr>"
    and "pool_quote clk s \<lparr>q_amount = 10000000000, q_input_mint = CRIME_MINT, q_output_mint = NATIVE_MINT,
        q_swap_mode = ExactIn\<rparr> =
      Ok \<lparr>in_amount = 10000000000, out_amount = 834869583, fee_amount = 135909001, fee_mint = NATIVE_MINT, fee_pct = 15 / 100\<rparr>"
  using assms
  by (auto simp: new_for_testing_Ok pool_quote_def pool_validate_mint_pair_def pool_is_active_def quote_buy_def
      quote_sell_def reserves_def known_pool_state_def pool_addresses_def LP_FEE_BPS_def total_buy_fee_pct_def
      total_sell_fee_pct_def fee_fraction_value evaluation saturating_sub_def checked_sub_def)

lemma example_vault_quotes:
  "vault_quote (vault_instance key CRIME_MINT PROFIT_MINT) \<lparr>q_amount = 100000000000, q_input_mint = CRIME_MINT,
      q_output_mint = PROFIT_MINT, q_swap_mode = ExactIn\<rparr> =
    Ok \<lparr>in_amount = 100000000000, out_amount = 1000000000, fee_amount = 0, fee_mint = CRIME_MINT, fee_pct = 0\<rparr>"
  "vault_quote (vault_instance key PROFIT_MINT FRAUD_MINT) \<lparr>q_amount = 1000000000, q_input_mint = PROFIT_MINT,
      q_output_mint = FRAUD_MINT, q_swap_mode = ExactIn\<rparr> =
    Ok \<lparr>in_amount = 1000000000, out_amount = 100000000000, fee_amount = 0, fee_mint = PROFIT_MINT, fee_pct = 0\<rparr>"
  by (simp_all add: vault_quote_def vault_validate_mint_pair_def evaluation word_le_nat_alt)

lemma try_in_weak_cong: "m = m' \<Longrightarrow> try_in s m f = try_in s m' f"
  by simp

text \<open>The names under which it lists the four conversions, each with its synthetic key.\<close>

definition conversion_lines :: "pda_fn \<Rightarrow> line list" where
  "conversion_lines pda =
     map (\<lambda>(i, out). [Text ''     - '', Text (example_mint_name i), Text '' -> '', Text (example_mint_name out),
       Text '' (key: '', Key (derive_synthetic_key pda i out), Text '')'']) edges"

text \<open>C40: The example runs to its end: whatever addresses are derived and whatever the clocks say, \<open>main\<close> returns
  without a panic at any \<open>expect\<close> or index, its two loops included, and has printed exactly these
  lines, with the exact prices, fees and rates of the four quotes, the two pool keys and the four
  conversions.\<close>

theorem quote_example_prints:
  "quote_example_main pda clk clock =
    ([[Text ''=== Dr. Fraudsworth Jupiter Adapter SDK ==='', Text [CHR 0x0A]],
      [Text ''1. Buy CRIME with 1 SOL:''],
      [Text ''   Input:   '', Number 1000000000, Text '' lamports (1 SOL)''],
      [Text ''   Output:  '', Number 9326717749, Text '' CRIME tokens''],
      [Text ''   Fee:     '', Number 49600000, Text '' lamports (SOL)''],
      [Text ''   Fee %:   '', Rate (5 / 100)], [],
      [Text ''2. Sell 10B CRIME for SOL:''],
      [Text ''   Input:   '', Number 10000000000, Text '' CRIME tokens''],
      [Text ''   Output:  '', Number 834869583, Text '' lamports''],
      [Text ''   Fee:     '', Number 135909001, Text '' lamports (SOL tax)''],
      [Text ''   Fee %:   '', Rate (15 / 100)], [],
      [Text ''3. Convert 100B CRIME -> PROFIT:''],
      [Text ''   Input:   '', Number 100000000000, Text '' CRIME''],
      [Text ''   Output:  '', Number 1000000000, Text '' PROFIT (100:1 ratio)''],
      [Text ''   Fee:     '', Number 0, Text '' (zero fees)''], [],
      [Text ''4. Convert 1B PROFIT -> FRAUD:''],
      [Text ''   Input:   '', Number 1000000000, Text '' PROFIT''],
      [Text ''   Output:  '', Number 100000000000, Text '' FRAUD (1:100 ratio)''],
      [Text ''   Fee:     '', Number 0, Text '' (zero fees)''], [],
      [Text ''5. Pool Discovery:''], [],
      [Text ''   SOL Pools ('', Number 2, Text '' instances, created via from_keyed_account):''],
      [Text ''     - '', Key CRIME_SOL_POOL], [Text ''     - '', Key FRAUD_SOL_POOL], [],
      [Text ''   Vault Conversions ('', Number 4, Text '' instances, pre-built):'']] @
     conversion_lines pda @
     [[], [Text ''   Total: '', Number 6, Text '' Amm instances covering 8 swap directions'']], Ok ())"
proof -
  obtain s where s: "pool_new_for_testing True 50000000000 500000000000 400 1400 clock = Ok s"
    by (simp add: new_for_testing_Ok)
  have vaults: "vault_new_for_testing pda i out = Ok (vault_instance (derive_synthetic_key pda i out) i out)"
    if "supported_edge i out" for i out
    using that by (simp add: for_testing_eq)
  show ?thesis
    unfolding quote_example_main_def
    by (simp add: s example_pool_quotes [OF s] example_vault_quotes vaults known_sol_pool_keys_def known_instances_eq
        println_def conversion_lines_def edges_def vault_get_reserve_mints_def Let_def numeral_2_eq_2 [symmetric]
        cong: try_in_weak_cong)
qed

text \<open>The number of directions it announces: two for each pool, one for each conversion.\<close>

lemma directions_covered:
  "2 * length known_sol_pool_keys + length edges = 8"
  by (simp add: known_sol_pool_keys_def edges_def)

end
