(* ===== verification/Test_Vectors_Mint.thy ===== *)
theory Test_Vectors_Mint
  imports Test_Vectors_Math Mint_State "HOL-Library.Countable"
begin

text \<open>
  The unit tests of \<open>state/mint_state.rs\<close> as executable predicates.  They write mints with the
  \<open>spl-token\<close> and \<open>spl-token-2022\<close> crates, whose writing functions are the record parameter
  \<open>mint_writer\<close>; that the reading functions of \<open>mint_lib\<close> return what was written is the hypothesis
  \<open>reads_back\<close>, shown to be satisfiable at the end.
\<close>

section \<open>Writing mints\<close>

text \<open>\<open>Mint\<close> of both crates, and the extensions that the tests initialize with their contents.\<close>

record spl_mint =
  mint_authority :: "pubkey option"
  mint_supply :: u64
  mint_decimals :: u8
  mint_is_initialized :: bool
  freeze_authority :: "pubkey option"

datatype account_state = Uninitialized | Initialized | Frozen

primrec account_state_as_u8 :: "account_state \<Rightarrow> u8" where
  "account_state_as_u8 Uninitialized = 0"
| "account_state_as_u8 Initialized = 1"
| "account_state_as_u8 Frozen = 2"

datatype t22_extension =
    FeeConfig transfer_fee_config
  | TransferHook "pubkey option"
  | DefaultState u8
  | PausableConfig bool
  | NonTransferable

text \<open>
  \<open>write_mint\<close> stands for a buffer of the calculated length, \<open>init_extension\<close> of each extension in turn,
  \<open>pack_base\<close> and \<open>init_account_type\<close>; \<open>nonzero_option\<close> for the conversion of a key to an
  \<open>OptionalNonZeroPubkey\<close>, nothing where it fails.
\<close>

record mint_writer =
  pack_mint :: "spl_mint \<Rightarrow> bytes"
  write_mint :: "t22_extension list \<Rightarrow> spl_mint \<Rightarrow> bytes"
  nonzero_option :: "pubkey option \<Rightarrow> pubkey option option"

definition test_transfer_fee :: "u16 \<Rightarrow> u64 \<Rightarrow> u64 \<Rightarrow> transfer_fee" where
  "test_transfer_fee bps max_fee epoch =
     \<lparr>fee_epoch = epoch, transfer_fee_basis_points = bps, maximum_fee = max_fee\<rparr>"

definition base_mint :: spl_mint where
  "base_mint = \<lparr>mint_authority = None, mint_supply = 1, mint_decimals = 6, mint_is_initialized = True, freeze_authority = None\<rparr>"

definition token_2022_mint ::
    "mint_writer \<Rightarrow> (u16 \<times> u64) option \<Rightarrow> (u16 \<times> u64) option \<Rightarrow> pubkey option \<Rightarrow> bool \<Rightarrow> bytes result" where
  "token_2022_mint w older_fee newer_fee hook_program include_hook_extension =
     (let fees =
        (if older_fee \<noteq> None \<or> newer_fee \<noteq> None then
           let (older_bps, older_maximum) = (case older_fee of Some f \<Rightarrow> f | None \<Rightarrow> (0, 0));
               (newer_bps, newer_maximum) = (case newer_fee of Some f \<Rightarrow> f | None \<Rightarrow> (0, 0))
           in [FeeConfig \<lparr>older_transfer_fee = test_transfer_fee older_bps older_maximum 0,
                 newer_transfer_fee = test_transfer_fee newer_bps newer_maximum u64_MAX\<rparr>]
         else [])
      in and_then
        (if include_hook_extension then and_then (expect (nonzero_option w hook_program)) (\<lambda>p. Ok [TransferHook p])
         else Ok [])
        (\<lambda>hook. Ok (write_mint w (fees @ hook) base_mint)))"

definition token_2022_transfer_gate_mint ::
    "mint_writer \<Rightarrow> account_state option \<Rightarrow> bool option \<Rightarrow> bool \<Rightarrow> bytes" where
  "token_2022_transfer_gate_mint w default_state paused non_transferable =
     write_mint w
       ((case default_state of Some account_state \<Rightarrow> [DefaultState (account_state_as_u8 account_state)] | None \<Rightarrow> []) @
        (case paused of Some is_paused \<Rightarrow> [PausableConfig is_paused] | None \<Rightarrow> []) @
        (if non_transferable then [NonTransferable] else []))
       base_mint"

section \<open>The tests\<close>

definition test_classic_initialized_mint_is_accepted :: "'m mint_lib \<Rightarrow> mint_writer \<Rightarrow> bool" where
  "test_classic_initialized_mint_is_accepted lib w \<longleftrightarrow>
     is_ok (validate_quote_mint lib (pack_mint w base_mint) SPL_TOKEN_PROGRAM_ID SPL_TOKEN_PROGRAM_ID)"

definition test_owner_must_match_pool_state :: "'m mint_lib \<Rightarrow> bool" where
  "test_owner_must_match_pool_state lib \<longleftrightarrow>
     is_err (validate_quote_mint lib [] TOKEN_2022_PROGRAM_ID SPL_TOKEN_PROGRAM_ID)"

abbreviation accepts_t22 :: "'m mint_lib \<Rightarrow> bytes \<Rightarrow> bool" where
  "accepts_t22 lib data \<equiv> is_ok (validate_quote_mint lib data TOKEN_2022_PROGRAM_ID TOKEN_2022_PROGRAM_ID)"

abbreviation refuses_t22 :: "'m mint_lib \<Rightarrow> bytes \<Rightarrow> mint_error \<Rightarrow> bool" where
  "refuses_t22 lib data why \<equiv>
     unwrap_err (validate_quote_mint lib data TOKEN_2022_PROGRAM_ID TOKEN_2022_PROGRAM_ID) (\<lambda>e. e = MintError why)"

definition test_token_2022_without_amount_changing_extensions_is_accepted :: "'m mint_lib \<Rightarrow> mint_writer \<Rightarrow> bool" where
  "test_token_2022_without_amount_changing_extensions_is_accepted lib w \<longleftrightarrow>
     unwrap (token_2022_mint w None None None False) (accepts_t22 lib)"

definition test_zero_current_and_scheduled_transfer_fees_are_accepted :: "'m mint_lib \<Rightarrow> mint_writer \<Rightarrow> bool" where
  "test_zero_current_and_scheduled_transfer_fees_are_accepted lib w \<longleftrightarrow>
     unwrap (token_2022_mint w (Some (0, 0)) (Some (0, 0)) None False) (accepts_t22 lib)"

definition test_every_nonzero_transfer_fee_component_is_rejected :: "'m mint_lib \<Rightarrow> mint_writer \<Rightarrow> bool" where
  "test_every_nonzero_transfer_fee_component_is_rejected lib w \<longleftrightarrow>
     (\<forall>(older, newer) \<in> set [(Some (1, 0), Some (0, 0)), (Some (0, 1), Some (0, 0)),
         (Some (0, 0), Some (1, 0)), (Some (0, 0), Some (0, 1))].
        unwrap (token_2022_mint w older newer None False) (\<lambda>data. refuses_t22 lib data NonzeroTransferFee))"

definition test_armed_quote_hook_is_rejected_but_unarmed_extension_is_accepted ::
    "'m mint_lib \<Rightarrow> mint_writer \<Rightarrow> pubkey \<Rightarrow> bool" where
  "test_armed_quote_hook_is_rejected_but_unarmed_extension_is_accepted lib w new_unique \<longleftrightarrow>
     unwrap (token_2022_mint w None None None True) (accepts_t22 lib) \<and>
     unwrap (token_2022_mint w None None (Some new_unique) True) (\<lambda>armed. refuses_t22 lib armed ArmedTransferHook)"

definition test_transferable_profiles_accept_initialized_and_unpaused_mints :: "'m mint_lib \<Rightarrow> mint_writer \<Rightarrow> bool" where
  "test_transferable_profiles_accept_initialized_and_unpaused_mints lib w \<longleftrightarrow>
     accepts_t22 lib (token_2022_transfer_gate_mint w (Some Initialized) (Some False) False)"

definition test_blocked_transfer_profiles_are_rejected :: "'m mint_lib \<Rightarrow> mint_writer \<Rightarrow> bool" where
  "test_blocked_transfer_profiles_are_rejected lib w \<longleftrightarrow>
     (\<forall>(data, expected) \<in> set
        [(token_2022_transfer_gate_mint w (Some Frozen) None False, DefaultStateBlocked),
         (token_2022_transfer_gate_mint w None (Some True) False, MintPaused),
         (token_2022_transfer_gate_mint w None None True, NonTransferableMint)].
        refuses_t22 lib data expected)"

section \<open>The crates read what they wrote\<close>

text \<open>The type that \<open>get_extension_types\<close> lists for an extension; the policy asks for no hook type.\<close>

primrec listed_as :: "t22_extension \<Rightarrow> extension_type option" where
  "listed_as (FeeConfig f) = Some TransferFeeConfigExt"
| "listed_as (TransferHook p) = None"
| "listed_as (DefaultState s) = Some DefaultAccountStateExt"
| "listed_as (PausableConfig b) = Some PausableExt"
| "listed_as NonTransferable = Some NonTransferableExt"

definition mint_shows :: "'m mint_lib \<Rightarrow> 'm \<Rightarrow> t22_extension list \<Rightarrow> bool" where
  "mint_shows lib m es \<longleftrightarrow>
     (\<exists>ts. get_extension_types lib m = Some ts \<and>
        (\<forall>t. (\<forall>n. t \<noteq> OtherExtension n) \<longrightarrow> (t \<in> set ts \<longleftrightarrow> Some t \<in> listed_as ` set es))) \<and>
     (\<forall>f. FeeConfig f \<in> set es \<longrightarrow> get_transfer_fee_config lib m = Some f) \<and>
     (\<forall>p. hook_program_id lib m = Some p \<longleftrightarrow> TransferHook (Some p) \<in> set es) \<and>
     (\<forall>s. DefaultState s \<in> set es \<longrightarrow> get_default_account_state lib m = Some s) \<and>
     (\<forall>b. PausableConfig b \<in> set es \<longrightarrow> get_pausable_paused lib m = Some b)"

definition reads_back :: "'m mint_lib \<Rightarrow> mint_writer \<Rightarrow> bool" where
  "reads_back lib w \<longleftrightarrow>
     (\<forall>base. mint_is_initialized base \<longrightarrow>
        spl_mint_unpacks lib (pack_mint w base) \<and>
        (\<forall>es. distinct (map listed_as es) \<longrightarrow>
           (\<exists>m. t22_unpack lib (write_mint w es base) = Some m \<and> mint_shows lib m es))) \<and>
     nonzero_option w None = Some None \<and>
     (\<forall>key. as_ref key \<noteq> replicate 32 0 \<longrightarrow> nonzero_option w (Some key) = Some (Some key))"

lemma base_mint_initialized [simp]: "mint_is_initialized base_mint"
  by (simp add: base_mint_def)

lemma written:
  assumes "reads_back lib w" and "distinct (map listed_as es)"
  obtains m where "t22_unpack lib (write_mint w es base_mint) = Some m" and "mint_shows lib m es"
  using assms base_mint_initialized unfolding reads_back_def by blast

text \<open>The policy on a mint of which the extensions are known: which ones are harmless, and the error for each other.\<close>

primrec harmless :: "t22_extension \<Rightarrow> bool" where
  "harmless (FeeConfig f) \<longleftrightarrow> schedule_is_zero (older_transfer_fee f) \<and> schedule_is_zero (newer_transfer_fee f)"
| "harmless (TransferHook p) \<longleftrightarrow> p = None"
| "harmless (DefaultState s) \<longleftrightarrow> s = ACCOUNT_STATE_INITIALIZED"
| "harmless (PausableConfig b) \<longleftrightarrow> \<not> b"
| "harmless NonTransferable \<longleftrightarrow> False"

primrec refusal :: "t22_extension \<Rightarrow> mint_error" where
  "refusal (FeeConfig f) = NonzeroTransferFee"
| "refusal (TransferHook p) = ArmedTransferHook"
| "refusal (DefaultState s) = DefaultStateBlocked"
| "refusal (PausableConfig b) = MintPaused"
| "refusal NonTransferable = NonTransferableMint"

lemma listed_as_iff [simp]:
  "Some TransferFeeConfigExt = listed_as e \<longleftrightarrow> (\<exists>f. e = FeeConfig f)"
  "Some DefaultAccountStateExt = listed_as e \<longleftrightarrow> (\<exists>s. e = DefaultState s)"
  "Some PausableExt = listed_as e \<longleftrightarrow> (\<exists>b. e = PausableConfig b)"
  "Some NonTransferableExt = listed_as e \<longleftrightarrow> e = NonTransferable"
  by (cases e; auto)+

lemma listed_image [simp]:
  "Some TransferFeeConfigExt \<in> listed_as ` S \<longleftrightarrow> (\<exists>f. FeeConfig f \<in> S)"
  "Some DefaultAccountStateExt \<in> listed_as ` S \<longleftrightarrow> (\<exists>s. DefaultState s \<in> S)"
  "Some PausableExt \<in> listed_as ` S \<longleftrightarrow> (\<exists>b. PausableConfig b \<in> S)"
  "Some NonTransferableExt \<in> listed_as ` S \<longleftrightarrow> NonTransferable \<in> S"
  by (simp_all add: image_iff) blast+

lemma mint_shows_types:
  assumes "mint_shows lib m es"
  obtains ts where "get_extension_types lib m = Some ts"
    and "TransferFeeConfigExt \<in> set ts \<longleftrightarrow> (\<exists>f. FeeConfig f \<in> set es)"
    and "NonTransferableExt \<in> set ts \<longleftrightarrow> NonTransferable \<in> set es"
    and "DefaultAccountStateExt \<in> set ts \<longleftrightarrow> (\<exists>s. DefaultState s \<in> set es)"
    and "PausableExt \<in> set ts \<longleftrightarrow> (\<exists>b. PausableConfig b \<in> set es)"
proof -
  obtain ts where "get_extension_types lib m = Some ts"
    and "\<forall>t. (\<forall>n. t \<noteq> OtherExtension n) \<longrightarrow> (t \<in> set ts \<longleftrightarrow> Some t \<in> listed_as ` set es)"
    using assms unfolding mint_shows_def by blast
  then have ts: "get_extension_types lib m = Some ts"
    and listed: "(\<And>n. t \<noteq> OtherExtension n) \<Longrightarrow> t \<in> set ts \<longleftrightarrow> Some t \<in> listed_as ` set es" for t
    by simp_all
  show thesis by (rule that [OF ts]) (simp_all add: listed)
qed

lemma shown_moves_nominal:
  assumes "mint_shows lib m es"
  shows "moves_nominal lib m \<longleftrightarrow> (\<forall>e \<in> set es. harmless e)"
proof -
  obtain ts where ts: "get_extension_types lib m = Some ts"
    "TransferFeeConfigExt \<in> set ts \<longleftrightarrow> (\<exists>f. FeeConfig f \<in> set es)"
    "NonTransferableExt \<in> set ts \<longleftrightarrow> NonTransferable \<in> set es"
    "DefaultAccountStateExt \<in> set ts \<longleftrightarrow> (\<exists>s. DefaultState s \<in> set es)"
    "PausableExt \<in> set ts \<longleftrightarrow> (\<exists>b. PausableConfig b \<in> set es)"
    by (rule mint_shows_types [OF assms])
  have reads: "FeeConfig f \<in> set es \<Longrightarrow> get_transfer_fee_config lib m = Some f"
    "DefaultState s \<in> set es \<Longrightarrow> get_default_account_state lib m = Some s"
    "PausableConfig b \<in> set es \<Longrightarrow> get_pausable_paused lib m = Some b"
    "hook_program_id lib m = Some p \<longleftrightarrow> TransferHook (Some p) \<in> set es" for f s b p
    using assms by (simp_all add: mint_shows_def)
  have hook: "hook_program_id lib m = None \<longleftrightarrow> (\<forall>p. TransferHook p \<in> set es \<longrightarrow> harmless (TransferHook p))"
    using reads(4) by (metis harmless.simps(2) not_Some_eq)
  have fee: "(TransferFeeConfigExt \<in> set ts \<longrightarrow> (case get_transfer_fee_config lib m of None \<Rightarrow> False
        | Some fees \<Rightarrow> schedule_is_zero (older_transfer_fee fees) \<and> schedule_is_zero (newer_transfer_fee fees))) \<longleftrightarrow>
      (\<forall>f. FeeConfig f \<in> set es \<longrightarrow> harmless (FeeConfig f))"
    unfolding ts(2) using reads(1) by (auto split: option.split)
  have state: "(DefaultAccountStateExt \<in> set ts \<longrightarrow> get_default_account_state lib m = Some ACCOUNT_STATE_INITIALIZED) \<longleftrightarrow>
      (\<forall>s. DefaultState s \<in> set es \<longrightarrow> harmless (DefaultState s))"
    unfolding ts(4) using reads(2) by (metis harmless.simps(3) option.inject)
  have pause: "(PausableExt \<in> set ts \<longrightarrow> get_pausable_paused lib m = Some False) \<longleftrightarrow>
      (\<forall>b. PausableConfig b \<in> set es \<longrightarrow> harmless (PausableConfig b))"
    unfolding ts(5) using reads(3) by (metis harmless.simps(4) option.inject)
  have "moves_nominal lib m \<longleftrightarrow>
      (\<forall>p. TransferHook p \<in> set es \<longrightarrow> harmless (TransferHook p)) \<and> NonTransferable \<notin> set es \<and>
      (\<forall>f. FeeConfig f \<in> set es \<longrightarrow> harmless (FeeConfig f)) \<and>
      (\<forall>s. DefaultState s \<in> set es \<longrightarrow> harmless (DefaultState s)) \<and>
      (\<forall>b. PausableConfig b \<in> set es \<longrightarrow> harmless (PausableConfig b))"
    unfolding moves_nominal_def ts(1) option.case hook fee state pause ts(3) by (rule refl)
  also have "\<dots> \<longleftrightarrow> (\<forall>e \<in> set es. harmless e)"
    by (metis harmless.simps(5) t22_extension.exhaust)
  finally show ?thesis .
qed

lemma accepts_harmless:
  assumes "reads_back lib w" and "distinct (map listed_as es)" and "\<forall>e \<in> set es. harmless e"
  shows "accepts_t22 lib (write_mint w es base_mint)"
proof -
  obtain m where "t22_unpack lib (write_mint w es base_mint) = Some m" "mint_shows lib m es"
    by (rule written [OF assms(1,2)])
  then have "validate_quote_mint lib (write_mint w es base_mint) TOKEN_2022_PROGRAM_ID TOKEN_2022_PROGRAM_ID = Ok ()"
    using assms(3) by (auto simp: validate_t22_Ok shown_moves_nominal)
  then show ?thesis by (simp add: assertion_defs)
qed

lemma refuses_harmful:
  assumes "reads_back lib w" and "\<not> harmless e"
  shows "refuses_t22 lib (write_mint w [e] base_mint) (refusal e)"
proof -
  define data where "data = write_mint w [e] base_mint"
  obtain m where m: "t22_unpack lib data = Some m" and shows_e: "mint_shows lib m [e]"
    unfolding data_def by (rule written [OF assms(1), of "[e]"]) auto
  obtain ts where ts: "get_extension_types lib m = Some ts"
    "TransferFeeConfigExt \<in> set ts \<longleftrightarrow> (\<exists>f. FeeConfig f \<in> set [e])"
    "NonTransferableExt \<in> set ts \<longleftrightarrow> NonTransferable \<in> set [e]"
    "DefaultAccountStateExt \<in> set ts \<longleftrightarrow> (\<exists>s. DefaultState s \<in> set [e])"
    "PausableExt \<in> set ts \<longleftrightarrow> (\<exists>b. PausableConfig b \<in> set [e])"
    by (rule mint_shows_types [OF shows_e])
  have reads: "e = FeeConfig f \<Longrightarrow> get_transfer_fee_config lib m = Some f"
    "e = DefaultState s \<Longrightarrow> get_default_account_state lib m = Some s"
    "e = PausableConfig b \<Longrightarrow> get_pausable_paused lib m = Some b"
    "hook_program_id lib m = Some p \<longleftrightarrow> e = TransferHook (Some p)" for f s b p
    using shows_e by (auto simp: mint_shows_def)
  have hook: "hook_program_id lib m = (case e of TransferHook p \<Rightarrow> p | _ \<Rightarrow> None)"
  proof -
    have "hook_program_id lib m = Some p \<longleftrightarrow> (case e of TransferHook p \<Rightarrow> p | _ \<Rightarrow> None) = Some p" for p
      unfolding reads(4) by (cases e) simp_all
    then show ?thesis by (metis option.exhaust)
  qed
  have "validate_quote_mint lib data TOKEN_2022_PROGRAM_ID TOKEN_2022_PROGRAM_ID = Err (MintError (refusal e))"
    using assms(2) ts reads(1-3) hook by (cases e) (auto simp: validate_quote_mint_def m)
  then show ?thesis by (simp add: data_def)
qed

section \<open>The model passes\<close>

lemma mint_tests:
  assumes "reads_back lib w"
  shows "test_classic_initialized_mint_is_accepted lib w" "test_owner_must_match_pool_state lib"
    "test_token_2022_without_amount_changing_extensions_is_accepted lib w"
    "test_zero_current_and_scheduled_transfer_fees_are_accepted lib w"
    "test_every_nonzero_transfer_fee_component_is_rejected lib w"
    "as_ref key \<noteq> replicate 32 0 \<Longrightarrow> test_armed_quote_hook_is_rejected_but_unarmed_extension_is_accepted lib w key"
    "test_transferable_profiles_accept_initialized_and_unpaused_mints lib w"
    "test_blocked_transfer_profiles_are_rejected lib w"
proof -
  note accept = accepts_harmless [OF assms] and refuse = refuses_harmful [OF assms]
  have option: "nonzero_option w None = Some None"
    "as_ref key \<noteq> replicate 32 0 \<Longrightarrow> nonzero_option w (Some key) = Some (Some key)"
    and classic: "spl_mint_unpacks lib (pack_mint w base_mint)"
    using assms by (auto simp: reads_back_def)
  show "test_classic_initialized_mint_is_accepted lib w" "test_owner_must_match_pool_state lib"
    using classic by (simp_all add: test_classic_initialized_mint_is_accepted_def test_owner_must_match_pool_state_def
        validate_quote_mint_def assertion_defs)
  show "test_token_2022_without_amount_changing_extensions_is_accepted lib w"
    using accept [of "[]"]
    by (simp add: test_token_2022_without_amount_changing_extensions_is_accepted_def token_2022_mint_def)
  show "test_zero_current_and_scheduled_transfer_fees_are_accepted lib w"
    by (simp add: test_zero_current_and_scheduled_transfer_fees_are_accepted_def token_2022_mint_def accept
        schedule_is_zero_def test_transfer_fee_def)
  show "test_every_nonzero_transfer_fee_component_is_rejected lib w"
    using refuse [of "FeeConfig f" for f]
    by (simp add: test_every_nonzero_transfer_fee_component_is_rejected_def token_2022_mint_def
        schedule_is_zero_def test_transfer_fee_def)
  show "test_armed_quote_hook_is_rejected_but_unarmed_extension_is_accepted lib w key" if "as_ref key \<noteq> replicate 32 0"
    using refuse [of "TransferHook (Some key)"] that
    by (simp add: test_armed_quote_hook_is_rejected_but_unarmed_extension_is_accepted_def token_2022_mint_def option accept)
  show "test_transferable_profiles_accept_initialized_and_unpaused_mints lib w"
    by (simp add: test_transferable_profiles_accept_initialized_and_unpaused_mints_def
        token_2022_transfer_gate_mint_def accept ACCOUNT_STATE_INITIALIZED_def)
  show "test_blocked_transfer_profiles_are_rejected lib w"
    using refuse [of "DefaultState 2"] refuse [of "PausableConfig True"] refuse [of NonTransferable]
    by (simp add: test_blocked_transfer_profiles_are_rejected_def token_2022_transfer_gate_mint_def
        ACCOUNT_STATE_INITIALIZED_def)
qed

section \<open>Crates that read what they wrote\<close>

text \<open>
  The hypothesis can hold: number the extension lists, and let the mint of the list with number \<open>n\<close> be
  \<open>n\<close> bytes long.
\<close>

instance pubkey :: countable
  by (rule countable_classI [of "to_nat \<circ> as_ref"]) (simp add: pubkey_eq_iff)

instance transfer_fee_ext :: (countable) countable
  by (rule countable_classI [of "\<lambda>f. to_nat (fee_epoch f, transfer_fee_basis_points f, maximum_fee f, transfer_fee.more f)"])
    (simp add: transfer_fee.equality)

instance transfer_fee_config_ext :: (countable) countable
  by (rule countable_classI [of "\<lambda>f. to_nat (older_transfer_fee f, newer_transfer_fee f, transfer_fee_config.more f)"])
    (simp add: transfer_fee_config.equality)

instance t22_extension :: countable
  by countable_datatype

definition numbered_writer :: mint_writer where
  "numbered_writer =
     \<lparr>pack_mint = (\<lambda>base. if mint_is_initialized base then [1] else []),
      write_mint = (\<lambda>es base. replicate (to_nat es) 0),
      nonzero_option = (\<lambda>p. if p = Some (pubkey_of_bytes (replicate 32 0)) then None else Some p)\<rparr>"

definition numbered_reader :: "t22_extension list mint_lib" where
  "numbered_reader =
     \<lparr>spl_mint_unpacks = (\<lambda>data. data \<noteq> []),
      t22_unpack = (\<lambda>data. Some (from_nat (length data))),
      get_extension_types = (\<lambda>es. Some (map (\<lambda>e. case listed_as e of Some t \<Rightarrow> t | None \<Rightarrow> OtherExtension 0) es)),
      get_transfer_fee_config = (\<lambda>es. case [f. FeeConfig f \<leftarrow> es] of [] \<Rightarrow> None | f # fs \<Rightarrow> Some f),
      hook_program_id = (\<lambda>es. case [p. TransferHook p \<leftarrow> es] of [] \<Rightarrow> None | p # ps \<Rightarrow> p),
      get_default_account_state = (\<lambda>es. case [s. DefaultState s \<leftarrow> es] of [] \<Rightarrow> None | s # ss \<Rightarrow> Some s),
      get_pausable_paused = (\<lambda>es. case [b. PausableConfig b \<leftarrow> es] of [] \<Rightarrow> None | b # bs \<Rightarrow> Some b)\<rparr>"

lemma listed_as_Some [simp]:
  "listed_as e = Some TransferFeeConfigExt \<longleftrightarrow> (\<exists>f. e = FeeConfig f)"
  "listed_as e = Some DefaultAccountStateExt \<longleftrightarrow> (\<exists>s. e = DefaultState s)"
  "listed_as e = Some PausableExt \<longleftrightarrow> (\<exists>b. e = PausableConfig b)"
  "listed_as e = Some NonTransferableExt \<longleftrightarrow> e = NonTransferable"
  "listed_as e = None \<longleftrightarrow> (\<exists>p. e = TransferHook p)"
  by (cases e; simp)+

lemma only_one:
  assumes "distinct (map listed_as es)"
  shows "FeeConfig f \<in> set es \<Longrightarrow> [f. FeeConfig f \<leftarrow> es] = [f]"
    and "DefaultState s \<in> set es \<Longrightarrow> [s. DefaultState s \<leftarrow> es] = [s]"
    and "PausableConfig b \<in> set es \<Longrightarrow> [b. PausableConfig b \<leftarrow> es] = [b]"
    and "TransferHook p \<in> set es \<Longrightarrow> [p. TransferHook p \<leftarrow> es] = [p]"
  using assms
  by (induction es) (auto simp: image_iff concat_eq_Nil_conv split: t22_extension.splits)

lemma numbered_shows:
  assumes "distinct (map listed_as es)"
  shows "mint_shows numbered_reader es es"
proof -
  have types: "t \<in> set (map (\<lambda>e. case listed_as e of Some t \<Rightarrow> t | None \<Rightarrow> OtherExtension 0) es) \<longleftrightarrow>
      Some t \<in> listed_as ` set es" if "\<And>n. t \<noteq> OtherExtension n" for t
  proof -
    have "t = (case listed_as e of Some t \<Rightarrow> t | None \<Rightarrow> OtherExtension 0) \<longleftrightarrow> Some t = listed_as e" for e
      using that by (auto split: option.split)
    then show ?thesis by (simp only: set_map image_iff)
  qed
  have hook: "hook_program_id numbered_reader es = Some p \<longleftrightarrow> TransferHook (Some p) \<in> set es" for p
  proof (cases "\<exists>q. TransferHook q \<in> set es")
    case True
    then obtain q where q: "TransferHook q \<in> set es" by blast
    have "TransferHook (Some p) \<in> set es \<longleftrightarrow> q = Some p"
      using only_one(4) [OF assms, of q] only_one(4) [OF assms, of "Some p"] q by auto
    then show ?thesis using only_one(4) [OF assms q] by (simp add: numbered_reader_def)
  next
    case False
    then have none: "[p. TransferHook p \<leftarrow> es] = []" by (auto split: t22_extension.splits)
    show ?thesis using False by (simp add: numbered_reader_def none)
  qed
  show ?thesis
    unfolding mint_shows_def
    using types hook only_one(1-3) [OF assms] by (simp add: numbered_reader_def)
qed

lemma numbered_reads_back: "reads_back numbered_reader numbered_writer"
  unfolding reads_back_def
  using numbered_shows
  by (auto simp: numbered_reader_def numbered_writer_def as_ref_pubkey_of_bytes)

lemma numbered_mint_tests:
  "test_every_nonzero_transfer_fee_component_is_rejected numbered_reader numbered_writer"
  "test_blocked_transfer_profiles_are_rejected numbered_reader numbered_writer"
  "test_armed_quote_hook_is_rejected_but_unarmed_extension_is_accepted numbered_reader numbered_writer TREASURY"
proof -
  note tests = mint_tests [OF numbered_reads_back]
  show "test_every_nonzero_transfer_fee_component_is_rejected numbered_reader numbered_writer" by (rule tests)
  show "test_blocked_transfer_profiles_are_rejected numbered_reader numbered_writer" by (rule tests)
  show "test_armed_quote_hook_is_rejected_but_unarmed_extension_is_accepted numbered_reader numbered_writer TREASURY"
    by (rule tests, rule notI, drule arg_cong [where f = hd], simp add: as_ref_TREASURY)
qed

end
