(* ===== verification/Test_Vectors_Pool.thy ===== *)
theory Test_Vectors_Pool
  imports Test_Vectors_Vault Sol_Pool_Quotes
begin

text \<open>
  The unit tests of \<open>sol_pool_amm.rs\<close>, as executable predicates under the names of the test functions
  with \<open>test_\<close> in front, and the proofs that the model passes them.  \<open>make_amm\<close>, \<open>canonical_key\<close> and
  \<open>crime_shaped_data\<close> are the tests' own helpers.  Keys from \<open>Pubkey::new_unique\<close> and the address
  derivation are arguments; every clock starts at slot 0, as \<open>ClockRef::default()\<close> does.
\<close>

section \<open>Helpers of the tests\<close>

definition make_amm :: "bool \<Rightarrow> u64 \<Rightarrow> u64 \<Rightarrow> u16 \<Rightarrow> u16 \<Rightarrow> sol_pool_amm result" where
  "make_amm crime reserve_sol reserve_token buy_tax_bps sell_tax_bps =
     pool_new_for_testing crime reserve_sol reserve_token buy_tax_bps sell_tax_bps 0"

definition clocks_at :: "u64 \<Rightarrow> clocks" where "clocks_at slot = (\<lambda>_. slot)"

definition test_keyed_account :: "pubkey \<Rightarrow> bytes \<Rightarrow> pubkey \<Rightarrow> keyed_account" where
  "test_keyed_account key data owner =
     \<lparr>ka_key = key, ka_account = \<lparr>acc_data = data, acc_owner = owner\<rparr>, ka_params = None\<rparr>"

definition canonical_key :: "pda_fn \<Rightarrow> bytes \<Rightarrow> pubkey result" where
  "canonical_key pda data =
     and_then (expect_ok (pool_from_bytes data)) (\<lambda>pool.
       Ok (fst (pda [ascii_bytes ''pool'', as_ref (mint_a pool), as_ref (mint_b pool)] AMM_PROGRAM_ID)))"

definition crime_shaped_data :: "pubkey \<Rightarrow> pubkey \<Rightarrow> bytes" where
  "crime_shaped_data va vb = mock_pool_state NATIVE_MINT CRIME_MINT va vb 100000000000 100000000000 100"

section \<open>Quotes\<close>

definition test_buy_quote_applies_tax_before_swap :: bool where
  "test_buy_quote_applies_tax_before_swap \<longleftrightarrow>
     unwrap (make_amm True 100000000000 100000000000 400 1400) (\<lambda>amm.
     unwrap (pool_quote (clocks_at 0) amm (exact_in 1000000000 NATIVE_MINT CRIME_MINT)) (\<lambda>q.
       out_amount q > 0 \<and> out_amount q < 1000000000 \<and> fee_amount q \<ge> 40000000 \<and>
       in_amount q = 1000000000 \<and> fee_mint q = NATIVE_MINT))"

definition test_sell_quote_applies_tax_after_swap :: bool where
  "test_sell_quote_applies_tax_after_swap \<longleftrightarrow>
     unwrap (make_amm True 100000000000 100000000000 400 1400) (\<lambda>amm.
     unwrap (pool_quote (clocks_at 0) amm (exact_in 1000000000 CRIME_MINT NATIVE_MINT)) (\<lambda>q.
       out_amount q > 0 \<and> fee_mint q = NATIVE_MINT \<and> fee_amount q > 0))"

definition test_buy_zero_input_returns_zero_output :: bool where
  "test_buy_zero_input_returns_zero_output \<longleftrightarrow>
     unwrap (make_amm True 100000000000 100000000000 400 1400) (\<lambda>amm.
     unwrap (pool_quote (clocks_at 0) amm (exact_in 0 NATIVE_MINT CRIME_MINT)) (\<lambda>q. out_amount q = 0))"

definition test_sell_zero_sol_reserves_returns_zero_output :: bool where
  "test_sell_zero_sol_reserves_returns_zero_output \<longleftrightarrow>
     unwrap (make_amm True 0 100000000000 400 1400) (\<lambda>amm.
     unwrap (pool_quote (clocks_at 0) amm (exact_in 1000000000 CRIME_MINT NATIVE_MINT)) (\<lambda>q. out_amount q = 0))"

definition test_sell_zero_token_reserves_errors :: bool where
  "test_sell_zero_token_reserves_errors \<longleftrightarrow>
     unwrap (make_amm True 100000000000 0 400 1400) (\<lambda>amm.
     is_ok (pool_quote (clocks_at 0) amm (exact_in 1000000000 CRIME_MINT NATIVE_MINT)))"

definition test_pool_exact_out_not_supported :: bool where
  "test_pool_exact_out_not_supported \<longleftrightarrow>
     unwrap (make_amm True 100000000000 100000000000 400 1400) (\<lambda>amm.
     is_err (pool_quote (clocks_at 0) amm
       \<lparr>q_amount = 1000000000, q_input_mint = NATIVE_MINT, q_output_mint = CRIME_MINT, q_swap_mode = ExactOut\<rparr>))"

definition test_quote_refused_while_manual_pause_is_active :: bool where
  "test_quote_refused_while_manual_pause_is_active \<longleftrightarrow>
     unwrap (make_amm True 100000000000 100000000000 400 1400) (\<lambda>amm.
     let amm = amm\<lparr>amm_trading_paused := True\<rparr> in
     unwrap_err (pool_quote (clocks_at 0) amm (exact_in 1000000000 NATIVE_MINT CRIME_MINT)) (\<lambda>err.
       case err of SolPoolError (PoolInactive _) \<Rightarrow> True | _ \<Rightarrow> False) \<and>
     (let amm = amm\<lparr>amm_trading_paused := False\<rparr> in
      is_ok (pool_quote (clocks_at 0) amm (exact_in 1000000000 NATIVE_MINT CRIME_MINT))))"

definition test_pause_end_slot_boundary_is_inclusive :: bool where
  "test_pause_end_slot_boundary_is_inclusive \<longleftrightarrow>
     unwrap (make_amm True 100000000000 100000000000 400 1400) (\<lambda>amm.
     let amm = amm\<lparr>amm_pause_end_slot := 500\<rparr>; clk = (clocks_at 0)(amm_clock_ref amm := 499) in
     \<not> pool_is_active clk amm \<and>
     is_err (pool_quote clk amm (exact_in 1000000 NATIVE_MINT CRIME_MINT)) \<and>
     (let clk = clk(amm_clock_ref amm := 500) in
      pool_is_active clk amm \<and>
      is_ok (pool_quote clk amm (exact_in 1000000 NATIVE_MINT CRIME_MINT))))"

definition test_locked_pool_is_inactive :: bool where
  "test_locked_pool_is_inactive \<longleftrightarrow>
     unwrap (make_amm True 1 1 400 1400) (\<lambda>amm.
     let amm = amm\<lparr>amm_pool := (amm_pool amm)\<lparr>locked := True\<rparr>\<rparr> in \<not> pool_is_active (clocks_at 0) amm)"

definition test_failed_refresh_deactivates_previously_fresh_state :: "'m mint_lib \<Rightarrow> bool" where
  "test_failed_refresh_deactivates_previously_fresh_state lib \<longleftrightarrow>
     unwrap (make_amm True 1 1 400 1400) (\<lambda>amm.
     pool_is_active (clocks_at 0) amm \<and>
     (let (amm, updated) = pool_update lib Map.empty amm in
      is_err updated \<and> \<not> pool_is_active (clocks_at 0) amm))"

definition test_quote_rejects_mismatched_mint_pair :: bool where
  "test_quote_rejects_mismatched_mint_pair \<longleftrightarrow>
     unwrap (make_amm True 100000000000 100000000000 400 1400) (\<lambda>amm.
     is_err (pool_quote (clocks_at 0) amm (exact_in 1000000000 FRAUD_MINT NATIVE_MINT)) \<and>
     is_err (pool_quote (clocks_at 0) amm (exact_in 1000000000 NATIVE_MINT FRAUD_MINT)))"

definition test_label_is_dr_fraudsworth :: bool where
  "test_label_is_dr_fraudsworth \<longleftrightarrow>
     unwrap (make_amm True 1 1 400 1400) (\<lambda>amm. pool_label amm = ''Dr Fraudsworth'')"

definition test_discovery_uses_amm_program_while_execution_uses_tax_program :: bool where
  "test_discovery_uses_amm_program_while_execution_uses_tax_program \<longleftrightarrow>
     unwrap (make_amm True 1 1 400 1400) (\<lambda>amm.
     PROGRAM_ID_TO_LABELS = [(AMM_PROGRAM_ID, ''Dr Fraudsworth'')] \<and> pool_program_id amm = TAX_PROGRAM_ID)"

definition test_reserve_mints_correct :: bool where
  "test_reserve_mints_correct \<longleftrightarrow>
     unwrap (make_amm True 1 1 400 1400) (\<lambda>crime_amm. pool_get_reserve_mints crime_amm = [NATIVE_MINT, CRIME_MINT]) \<and>
     unwrap (make_amm False 1 1 400 1400) (\<lambda>fraud_amm. pool_get_reserve_mints fraud_amm = [NATIVE_MINT, FRAUD_MINT])"

definition test_accounts_to_update_includes_pool_and_epoch :: bool where
  "test_accounts_to_update_includes_pool_and_epoch \<longleftrightarrow>
     unwrap (make_amm True 1 1 400 1400) (\<lambda>amm.
     let accounts = pool_get_accounts_to_update amm in
     length accounts = 2 \<and> accounts ! 0 = CRIME_SOL_POOL \<and> accounts ! 1 = EPOCH_STATE_PDA)"

definition test_fee_pct_matches_combined_bps :: bool where
  "test_fee_pct_matches_combined_bps \<longleftrightarrow>
     unwrap (make_amm True 100000000000 100000000000 400 1400) (\<lambda>amm.
     unwrap (pool_quote (clocks_at 0) amm (exact_in 1000000000 NATIVE_MINT CRIME_MINT)) (\<lambda>buy_quote.
       fee_pct buy_quote = 500 / 10000 \<and>
     unwrap (pool_quote (clocks_at 0) amm (exact_in 1000000000 CRIME_MINT NATIVE_MINT)) (\<lambda>sell_quote.
       fee_pct sell_quote = 1500 / 10000)))"

definition test_buy_quote_high_tax_still_works :: bool where
  "test_buy_quote_high_tax_still_works \<longleftrightarrow>
     unwrap (make_amm True 100000000000 100000000000 5000 5000) (\<lambda>amm.
     unwrap (pool_quote (clocks_at 0) amm (exact_in 1000000000 NATIVE_MINT CRIME_MINT)) (\<lambda>q.
       out_amount q > 0 \<and> fee_amount q \<ge> 500000000))"

lemmas amm_evaluation =
  make_amm_def new_for_testing_Ok exact_in_def clocks_at_def known_pool_state_def pool_addresses_def LP_FEE_BPS_def
  pool_quote_def pool_validate_mint_pair_def pool_is_active_def reserves_def quote_buy_def quote_sell_def
  evaluation saturating_sub_def checked_sub_def assertion_defs

lemma pool_quote_tests:
  "test_buy_quote_applies_tax_before_swap" "test_sell_quote_applies_tax_after_swap"
  "test_buy_zero_input_returns_zero_output" "test_sell_zero_sol_reserves_returns_zero_output"
  "test_sell_zero_token_reserves_errors" "test_pool_exact_out_not_supported"
  "test_quote_rejects_mismatched_mint_pair" "test_buy_quote_high_tax_still_works"
  by (simp_all add: test_buy_quote_applies_tax_before_swap_def test_sell_quote_applies_tax_after_swap_def
      test_buy_zero_input_returns_zero_output_def test_sell_zero_sol_reserves_returns_zero_output_def
      test_sell_zero_token_reserves_errors_def test_pool_exact_out_not_supported_def
      test_quote_rejects_mismatched_mint_pair_def test_buy_quote_high_tax_still_works_def amm_evaluation)

lemma pool_activity_tests:
  "test_quote_refused_while_manual_pause_is_active" "test_pause_end_slot_boundary_is_inclusive"
  "test_locked_pool_is_inactive" "test_failed_refresh_deactivates_previously_fresh_state lib"
  by (simp_all add: test_quote_refused_while_manual_pause_is_active_def test_pause_end_slot_boundary_is_inclusive_def
      test_locked_pool_is_inactive_def test_failed_refresh_deactivates_previously_fresh_state_def
      amm_evaluation pool_update_def try_get_account_data_and_owner_def)

lemma pool_method_tests:
  "test_label_is_dr_fraudsworth" "test_discovery_uses_amm_program_while_execution_uses_tax_program"
  "test_reserve_mints_correct" "test_accounts_to_update_includes_pool_and_epoch" "test_fee_pct_matches_combined_bps"
  by (simp_all add: test_label_is_dr_fraudsworth_def pool_label_def pool_program_id_def PROGRAM_ID_TO_LABELS_def
      test_discovery_uses_amm_program_while_execution_uses_tax_program_def test_reserve_mints_correct_def
      test_accounts_to_update_includes_pool_and_epoch_def test_fee_pct_matches_combined_bps_def
      pool_get_reserve_mints_def pool_get_accounts_to_update_def total_buy_fee_pct_def total_sell_fee_pct_def
      fee_fraction_value amm_evaluation)

section \<open>Construction\<close>

definition test_from_keyed_account_accepts_unregistered_canonical_pool :: "pda_fn \<Rightarrow> pubkey \<Rightarrow> pubkey \<Rightarrow> bool" where
  "test_from_keyed_account_accepts_unregistered_canonical_pool pda va vb \<longleftrightarrow>
     (let data = crime_shaped_data va vb in
      unwrap (canonical_key pda data) (\<lambda>new_pool_key.
      let keyed = test_keyed_account new_pool_key data AMM_PROGRAM_ID in
      unwrap (pool_from_keyed_account pda keyed 0) (\<lambda>amm.
        amm_key amm = new_pool_key \<and> pool_get_reserve_mints amm = [NATIVE_MINT, CRIME_MINT])))"

definition test_from_keyed_account_accepts_both_faction_tokens :: "pda_fn \<Rightarrow> pubkey \<Rightarrow> pubkey \<Rightarrow> bool" where
  "test_from_keyed_account_accepts_both_faction_tokens pda va vb \<longleftrightarrow>
     (\<forall>token \<in> set [CRIME_MINT, FRAUD_MINT].
        let data = mock_pool_state NATIVE_MINT token va vb 1 1 100 in
        unwrap (canonical_key pda data) (\<lambda>key.
        let keyed = test_keyed_account key data AMM_PROGRAM_ID in
        unwrap (pool_from_keyed_account pda keyed 0) (\<lambda>amm. token \<in> set (pool_get_reserve_mints amm))))"

definition test_from_keyed_account_rejects_wrong_owner :: "pda_fn \<Rightarrow> pubkey \<Rightarrow> pubkey \<Rightarrow> pubkey \<Rightarrow> pubkey \<Rightarrow> bool" where
  "test_from_keyed_account_rejects_wrong_owner pda key owner va vb \<longleftrightarrow>
     (let keyed = test_keyed_account key (crime_shaped_data va vb) owner in
      unwrap_err (pool_from_keyed_account pda keyed 0) (\<lambda>err.
        case err of SolPoolError (NotAmmOwned _ _) \<Rightarrow> True | _ \<Rightarrow> False))"

definition test_from_keyed_account_rejects_unsupported_token_mint :: "pda_fn \<Rightarrow> pubkey \<Rightarrow> pubkey \<Rightarrow> bool" where
  "test_from_keyed_account_rejects_unsupported_token_mint pda va vb \<longleftrightarrow>
     (let unknown = pubkey_of_bytes (replicate 32 0xFE);
          (ma, mb) = (if as_ref NATIVE_MINT < as_ref unknown then (NATIVE_MINT, unknown) else (unknown, NATIVE_MINT));
          data = mock_pool_state ma mb va vb 1 1 100
      in
      unwrap (canonical_key pda data) (\<lambda>key.
      let keyed = test_keyed_account key data AMM_PROGRAM_ID in
      unwrap_err (pool_from_keyed_account pda keyed 0) (\<lambda>err.
        case err of SolPoolError (NotExactlyOneFaction _) \<Rightarrow> True | _ \<Rightarrow> False)))"

definition test_from_keyed_account_rejects_non_sol_pool :: "pda_fn \<Rightarrow> pubkey \<Rightarrow> pubkey \<Rightarrow> bool" where
  "test_from_keyed_account_rejects_non_sol_pool pda va vb \<longleftrightarrow>
     (let (ma, mb) = (if as_ref CRIME_MINT < as_ref FRAUD_MINT then (CRIME_MINT, FRAUD_MINT)
                      else (FRAUD_MINT, CRIME_MINT));
          data = mock_pool_state ma mb va vb 1 1 100
      in
      unwrap (canonical_key pda data) (\<lambda>key.
      let keyed = test_keyed_account key data AMM_PROGRAM_ID in
      unwrap_err (pool_from_keyed_account pda keyed 0) (\<lambda>err.
        case err of SolPoolError (NotExactlyOneFaction _) \<Rightarrow> True | _ \<Rightarrow> False)))"

definition test_from_keyed_account_rejects_bad_discriminator :: "pda_fn \<Rightarrow> pubkey \<Rightarrow> bool" where
  "test_from_keyed_account_rejects_bad_discriminator pda key \<longleftrightarrow>
     (let keyed = test_keyed_account key (replicate 224 0) AMM_PROGRAM_ID in
      unwrap_err (pool_from_keyed_account pda keyed 0) (\<lambda>err.
        case err of PoolStateError (PoolDiscriminator _) \<Rightarrow> True | _ \<Rightarrow> False))"

definition test_from_keyed_account_spl_quote_with_faction_on_a_constructs :: "pda_fn \<Rightarrow> pubkey \<Rightarrow> pubkey \<Rightarrow> bool" where
  "test_from_keyed_account_spl_quote_with_faction_on_a_constructs pda va vb \<longleftrightarrow>
     (let quote_key = pubkey_of_bytes (replicate 32 0xFF) in
      as_ref CRIME_MINT < as_ref quote_key \<and>
      (let data = mock_pool_state CRIME_MINT quote_key va vb 777 555 100 in
       unwrap (canonical_key pda data) (\<lambda>key.
       let keyed = test_keyed_account key data AMM_PROGRAM_ID in
       unwrap (pool_from_keyed_account pda keyed 0) (\<lambda>amm.
         pool_get_reserve_mints amm = [quote_key, CRIME_MINT] \<and> reserves amm = (555, 777)))))"

text \<open>The constructor on a pool that the serialiser wrote, at its canonical key.\<close>

lemma mock_pool_parse:
  "pool_from_bytes (mock_pool_state ma mb va vb ra rb fee) =
     Ok \<lparr>mint_a = ma, mint_b = mb, vault_a = va, vault_b = vb, reserve_a = ra, reserve_b = rb,
         lp_fee_bps = fee, initialized = True, locked = False, bump = 254, vault_a_bump = 253, vault_b_bump = 252,
         token_program_a = token_program_for ma, token_program_b = token_program_for mb\<rparr>"
  by (simp add: pool_from_bytes_Ok mock_shape mock_view)

lemma canonical_key_mock:
  "canonical_key pda (mock_pool_state ma mb va vb ra rb fee) =
     Ok (fst (pda [ascii_bytes ''pool'', as_ref ma, as_ref mb] AMM_PROGRAM_ID))"
  by (simp add: canonical_key_def mock_pool_parse)

lemmas construction =
  canonical_key_mock mock_pool_parse test_keyed_account_def pool_from_keyed_account_def token_program_for_def
  faction_from_mint_def pool_get_reserve_mints_def reserves_def crime_shaped_data_def split_beta

text \<open>The order of the keys that the tests compare.\<close>

lemma test_key_bytes: "as_ref (pubkey_of_bytes (replicate 32 x)) = x # replicate 31 x"
  by (simp add: as_ref_pubkey_of_bytes flip: replicate_Suc)

lemma test_key_order:
  "as_ref NATIVE_MINT < as_ref CRIME_MINT" "as_ref NATIVE_MINT < as_ref FRAUD_MINT"
  "as_ref CRIME_MINT < as_ref FRAUD_MINT"
  "as_ref NATIVE_MINT < as_ref (pubkey_of_bytes (replicate 32 0xFE))"
  "as_ref CRIME_MINT < as_ref (pubkey_of_bytes (replicate 32 0xFF))"
  by (simp_all add: address_bytes test_key_bytes)

lemma test_keys_apart:
  "pubkey_of_bytes (replicate 32 0xFE) \<notin> {NATIVE_MINT, CRIME_MINT, FRAUD_MINT}"
  "pubkey_of_bytes (replicate 32 0xFF) \<notin> {NATIVE_MINT, CRIME_MINT, FRAUD_MINT}"
  by (simp_all add: pubkey_eq_iff address_bytes test_key_bytes)

lemmas key_facts = test_key_order test_key_order [folded not_le] test_keys_apart [simplified]

lemma construction_tests:
  "test_from_keyed_account_accepts_unregistered_canonical_pool pda va vb"
  "test_from_keyed_account_accepts_both_faction_tokens pda va vb"
  "owner \<noteq> AMM_PROGRAM_ID \<Longrightarrow> test_from_keyed_account_rejects_wrong_owner pda key owner va vb"
  "test_from_keyed_account_rejects_non_sol_pool pda va vb"
  by (simp_all add: test_from_keyed_account_accepts_unregistered_canonical_pool_def
      test_from_keyed_account_accepts_both_faction_tokens_def test_from_keyed_account_rejects_wrong_owner_def
      test_from_keyed_account_rejects_non_sol_pool_def construction key_facts Let_def)

lemma construction_with_foreign_mint_tests:
  "test_from_keyed_account_rejects_unsupported_token_mint pda va vb"
  "test_from_keyed_account_spl_quote_with_faction_on_a_constructs pda va vb"
proof -
  obtain u where u: "u = pubkey_of_bytes (replicate 32 0xFE)" by simp
  show "test_from_keyed_account_rejects_unsupported_token_mint pda va vb"
    using test_key_order(4) test_keys_apart(1)
    unfolding test_from_keyed_account_rejects_unsupported_token_mint_def u [symmetric]
    by (simp add: construction not_le)
  obtain v where v: "v = pubkey_of_bytes (replicate 32 0xFF)" by simp
  show "test_from_keyed_account_spl_quote_with_faction_on_a_constructs pda va vb"
    using test_key_order(5) test_keys_apart(2)
    unfolding test_from_keyed_account_spl_quote_with_faction_on_a_constructs_def v [symmetric]
    by (auto simp: construction not_le)
qed

lemma construction_refuses_zeroed_data: "test_from_keyed_account_rejects_bad_discriminator pda key"
proof -
  have "hd (sub_slice (replicate 224 (0 :: u8)) 0 8) \<noteq> hd POOL_STATE_DISCRIMINATOR"
    by (simp add: sub_slice_def POOL_STATE_DISCRIMINATOR_def)
  then have "sub_slice (replicate 224 (0 :: u8)) 0 8 \<noteq> POOL_STATE_DISCRIMINATOR" by metis
  then show ?thesis
    by (simp add: test_from_keyed_account_rejects_bad_discriminator_def test_keyed_account_def
        pool_from_keyed_account_def pool_from_bytes_def POOL_STATE_LEN_def)
qed

end
