(* ===== verification/Integration_Gauntlet.thy ===== *)
theory Integration_Gauntlet
  imports Test_Vectors_Pool Amm_Routes
begin

text \<open>
  The integration tests of \<open>tests/test_edge_gauntlet.rs\<close>, adversarial inputs to both adapters, as
  executable predicates under the names of the test functions with \<open>it_\<close> in front, and the proofs
  that the model passes them.  Their shared helpers are here too.  \<open>sol_pool_is_bidirectional\<close>
  asks a default method of the trait, \<open>Amm::unidirectional\<close>, which is not in the repository: what it
  answers is the argument \<open>default_unidirectional\<close>, documented to be false.
\<close>

section \<open>Helpers\<close>

text \<open>\<open>if let Ok(q) = result { ... }\<close>: an error passes, a panic does not.\<close>

fun if_ok :: "('a, 'e) outcome \<Rightarrow> ('a \<Rightarrow> bool) \<Rightarrow> bool" where
  "if_ok (Ok x) t = t x"
| "if_ok (Err e) t = True"
| "if_ok Panic t = False"

text \<open>\<open>for (_, amm) in known_instances()\<close>.\<close>

definition for_instances :: "pda_fn \<Rightarrow> (vault_amm \<Rightarrow> bool) \<Rightarrow> bool" where
  "for_instances pda t \<longleftrightarrow> unwrap (known_instances pda) (\<lambda>instances. \<forall>(_, amm) \<in> set instances. t amm)"

definition exact_out :: "u64 \<Rightarrow> pubkey \<Rightarrow> pubkey \<Rightarrow> quote_params" where
  "exact_out a i out = \<lparr>q_amount = a, q_input_mint = i, q_output_mint = out, q_swap_mode = ExactOut\<rparr>"

definition it_crime_amm :: "sol_pool_amm result" where
  "it_crime_amm = make_amm True 100000000000 1000000000000 400 1400"

definition it_fraud_amm :: "sol_pool_amm result" where
  "it_fraud_amm = make_amm False 100000000000 1000000000000 1400 400"

abbreviation ask_pool :: "sol_pool_amm \<Rightarrow> quote_params \<Rightarrow> quote result" where
  "ask_pool \<equiv> pool_quote (clocks_at 0)"

section \<open>Amounts at the limits\<close>

definition it_zero_amount_sol_pool_buy :: bool where
  "it_zero_amount_sol_pool_buy \<longleftrightarrow> unwrap it_crime_amm (\<lambda>amm.
     unwrap (ask_pool amm (exact_in 0 NATIVE_MINT CRIME_MINT)) (\<lambda>q. out_amount q = 0))"

definition it_zero_amount_sol_pool_sell :: bool where
  "it_zero_amount_sol_pool_sell \<longleftrightarrow> unwrap it_crime_amm (\<lambda>amm.
     unwrap (ask_pool amm (exact_in 0 CRIME_MINT NATIVE_MINT)) (\<lambda>q. out_amount q = 0))"

definition it_zero_amount_all_vault_directions :: "pda_fn \<Rightarrow> bool" where
  "it_zero_amount_all_vault_directions pda \<longleftrightarrow> for_instances pda (\<lambda>amm.
     let mints = vault_get_reserve_mints amm in
     if_ok (vault_quote amm (exact_in 0 (mints ! 0) (mints ! 1))) (\<lambda>q. out_amount q = 0))"

definition it_one_lamport_sol_pool_buy_no_panic :: bool where
  "it_one_lamport_sol_pool_buy_no_panic \<longleftrightarrow> unwrap it_crime_amm (\<lambda>amm.
     unwrap (ask_pool amm (exact_in 1 NATIVE_MINT CRIME_MINT)) (\<lambda>q. out_amount q \<le> 100))"

definition it_one_lamport_sol_pool_sell_no_panic :: bool where
  "it_one_lamport_sol_pool_sell_no_panic \<longleftrightarrow> unwrap it_crime_amm (\<lambda>amm.
     unwrap (ask_pool amm (exact_in 1 CRIME_MINT NATIVE_MINT)) (\<lambda>q. out_amount q \<le> 1))"

definition it_one_unit_vault_divide_errors :: "pda_fn \<Rightarrow> bool" where
  "it_one_unit_vault_divide_errors pda \<longleftrightarrow> unwrap (vault_new_for_testing pda CRIME_MINT PROFIT_MINT) (\<lambda>amm.
     is_err (vault_quote amm (exact_in 1 CRIME_MINT PROFIT_MINT)))"

definition it_one_unit_vault_multiply_succeeds :: "pda_fn \<Rightarrow> bool" where
  "it_one_unit_vault_multiply_succeeds pda \<longleftrightarrow> unwrap (vault_new_for_testing pda PROFIT_MINT CRIME_MINT) (\<lambda>amm.
     unwrap (vault_quote amm (exact_in 1 PROFIT_MINT CRIME_MINT)) (\<lambda>q. out_amount q = 100))"

definition it_u64_max_sol_pool_buy_no_panic :: bool where
  "it_u64_max_sol_pool_buy_no_panic \<longleftrightarrow> unwrap it_crime_amm (\<lambda>amm.
     if_ok (ask_pool amm (exact_in u64_MAX NATIVE_MINT CRIME_MINT)) (\<lambda>q. out_amount q > 0))"

definition it_u64_max_sol_pool_sell_no_panic :: bool where
  "it_u64_max_sol_pool_sell_no_panic \<longleftrightarrow> unwrap it_crime_amm (\<lambda>amm.
     if_ok (ask_pool amm (exact_in u64_MAX CRIME_MINT NATIVE_MINT)) (\<lambda>q. out_amount q > 0))"

definition it_u64_max_vault_divide_no_panic :: "pda_fn \<Rightarrow> bool" where
  "it_u64_max_vault_divide_no_panic pda \<longleftrightarrow> unwrap (vault_new_for_testing pda CRIME_MINT PROFIT_MINT) (\<lambda>amm.
     unwrap (vault_quote amm (exact_in u64_MAX CRIME_MINT PROFIT_MINT)) (\<lambda>q. out_amount q = u64_MAX div 100))"

definition it_u64_max_vault_multiply_overflows_gracefully :: "pda_fn \<Rightarrow> bool" where
  "it_u64_max_vault_multiply_overflows_gracefully pda \<longleftrightarrow> unwrap (vault_new_for_testing pda PROFIT_MINT CRIME_MINT) (\<lambda>amm.
     is_err (vault_quote amm (exact_in u64_MAX PROFIT_MINT CRIME_MINT)))"

section \<open>Requests to refuse\<close>

definition it_exact_out_rejected_sol_pool_buy :: bool where
  "it_exact_out_rejected_sol_pool_buy \<longleftrightarrow> unwrap it_crime_amm (\<lambda>amm.
     is_err (ask_pool amm (exact_out 1000000000 NATIVE_MINT CRIME_MINT)))"

definition it_exact_out_rejected_sol_pool_sell :: bool where
  "it_exact_out_rejected_sol_pool_sell \<longleftrightarrow> unwrap it_crime_amm (\<lambda>amm.
     is_err (ask_pool amm (exact_out 1000000000 CRIME_MINT NATIVE_MINT)))"

definition it_exact_out_rejected_all_vaults :: "pda_fn \<Rightarrow> bool" where
  "it_exact_out_rejected_all_vaults pda \<longleftrightarrow> for_instances pda (\<lambda>amm.
     let mints = vault_get_reserve_mints amm in is_err (vault_quote amm (exact_out 10000 (mints ! 0) (mints ! 1))))"

definition it_wrong_mint_vault_crime_expects_fraud :: "pda_fn \<Rightarrow> bool" where
  "it_wrong_mint_vault_crime_expects_fraud pda \<longleftrightarrow> unwrap (vault_new_for_testing pda CRIME_MINT PROFIT_MINT) (\<lambda>amm.
     is_err (vault_quote amm (exact_in 10000 FRAUD_MINT PROFIT_MINT)))"

definition it_wrong_mint_vault_profit_expects_crime :: "pda_fn \<Rightarrow> bool" where
  "it_wrong_mint_vault_profit_expects_crime pda \<longleftrightarrow> unwrap (vault_new_for_testing pda PROFIT_MINT CRIME_MINT) (\<lambda>amm.
     is_err (vault_quote amm (exact_in 100 FRAUD_MINT CRIME_MINT)))"

definition it_random_pubkey_as_input_mint_sol_pool :: "pubkey \<Rightarrow> bool" where
  "it_random_pubkey_as_input_mint_sol_pool random \<longleftrightarrow> unwrap it_crime_amm (\<lambda>amm.
     let result = ask_pool amm (exact_in 1000000 random NATIVE_MINT) in is_ok result \<or> is_err result)"

section \<open>Reserves at the limits\<close>

definition it_zero_sol_reserves_returns_zero_or_error :: bool where
  "it_zero_sol_reserves_returns_zero_or_error \<longleftrightarrow> unwrap (make_amm True 0 1000000000000 400 1400) (\<lambda>amm.
     if_ok (ask_pool amm (exact_in 1000000000 NATIVE_MINT CRIME_MINT)) (\<lambda>q. True))"

definition it_zero_token_reserves_no_panic :: bool where
  "it_zero_token_reserves_no_panic \<longleftrightarrow> unwrap (make_amm True 100000000000 0 400 1400) (\<lambda>amm.
     let result = ask_pool amm (exact_in 1000000000 CRIME_MINT NATIVE_MINT) in is_ok result \<or> is_err result)"

definition it_extreme_ratio_1_sol_vs_1_trillion_tokens :: bool where
  "it_extreme_ratio_1_sol_vs_1_trillion_tokens \<longleftrightarrow>
     unwrap (make_amm True 1000000000 1000000000000000 400 1400) (\<lambda>amm.
     unwrap (ask_pool amm (exact_in 100000000 NATIVE_MINT CRIME_MINT)) (\<lambda>q. out_amount q > 0))"

definition it_extreme_ratio_1_trillion_sol_vs_1_token :: bool where
  "it_extreme_ratio_1_trillion_sol_vs_1_token \<longleftrightarrow>
     unwrap (make_amm True 1000000000000000 1000000 400 1400) (\<lambda>amm.
     unwrap (ask_pool amm (exact_in 1000000000 NATIVE_MINT CRIME_MINT)) (\<lambda>q. out_amount q \<le> 1000000))"

section \<open>All directions\<close>

definition it_all_sol_pool_directions_produce_output :: bool where
  "it_all_sol_pool_directions_produce_output \<longleftrightarrow>
     unwrap it_crime_amm (\<lambda>crime. unwrap it_fraud_amm (\<lambda>fraud.
       \<forall>(amm, input, output) \<in> set [(crime, NATIVE_MINT, CRIME_MINT), (crime, CRIME_MINT, NATIVE_MINT),
           (fraud, NATIVE_MINT, FRAUD_MINT), (fraud, FRAUD_MINT, NATIVE_MINT)].
         unwrap (ask_pool amm (exact_in 1000000000 input output)) (\<lambda>q. out_amount q > 0)))"

definition it_all_vault_directions_produce_output :: "pda_fn \<Rightarrow> bool" where
  "it_all_vault_directions_produce_output pda \<longleftrightarrow>
     (\<forall>(input, output, amount) \<in> set [(CRIME_MINT, PROFIT_MINT, 10000), (FRAUD_MINT, PROFIT_MINT, 10000),
         (PROFIT_MINT, CRIME_MINT, 100), (PROFIT_MINT, FRAUD_MINT, 100)].
       unwrap (vault_new_for_testing pda input output) (\<lambda>amm.
       unwrap (vault_quote amm (exact_in amount input output)) (\<lambda>q. out_amount q > 0)))"

section \<open>Trait methods\<close>

definition it_program_id_correct_sol_pool :: bool where
  "it_program_id_correct_sol_pool \<longleftrightarrow> unwrap it_crime_amm (\<lambda>amm. pool_program_id amm = TAX_PROGRAM_ID)"

definition it_program_id_correct_vault :: "pda_fn \<Rightarrow> bool" where
  "it_program_id_correct_vault pda \<longleftrightarrow> for_instances pda (\<lambda>amm. vault_program_id amm = CONVERSION_VAULT_PROGRAM_ID)"

definition it_supports_exact_out_is_false_everywhere :: "pda_fn \<Rightarrow> bool" where
  "it_supports_exact_out_is_false_everywhere pda \<longleftrightarrow>
     unwrap it_crime_amm (\<lambda>amm. \<not> pool_supports_exact_out amm) \<and>
     unwrap it_fraud_amm (\<lambda>amm. \<not> pool_supports_exact_out amm) \<and>
     for_instances pda (\<lambda>amm. \<not> vault_supports_exact_out amm)"

definition it_vault_is_unidirectional :: "pda_fn \<Rightarrow> bool" where
  "it_vault_is_unidirectional pda \<longleftrightarrow> for_instances pda vault_unidirectional"

definition it_sol_pool_is_bidirectional :: "(sol_pool_amm \<Rightarrow> bool) \<Rightarrow> bool" where
  "it_sol_pool_is_bidirectional default_unidirectional \<longleftrightarrow>
     unwrap it_crime_amm (\<lambda>amm. \<not> default_unidirectional amm) \<and>
     unwrap it_fraud_amm (\<lambda>amm. \<not> default_unidirectional amm)"

definition it_accounts_len_reasonable :: "pda_fn \<Rightarrow> bool" where
  "it_accounts_len_reasonable pda \<longleftrightarrow>
     unwrap it_crime_amm (\<lambda>amm. pool_get_accounts_len amm = 25) \<and>
     for_instances pda (\<lambda>amm. vault_get_accounts_len amm = 17)"

section \<open>The model passes\<close>

lemma for_instances_iff:
  "for_instances pda t \<longleftrightarrow> (\<forall>(i, out) \<in> set edges. t (vault_instance (derive_synthetic_key pda i out) i out))"
  by (auto simp: for_instances_def known_instances_eq)

text \<open>No call of an adapter panics, so what only asks for that holds without evaluation.\<close>

lemma no_panic: "r \<noteq> Panic \<Longrightarrow> is_ok r \<or> is_err r"
  by (cases r) (simp_all add: assertion_defs)

lemma made_amm: "make_amm c rs rt bt st = Ok s \<Longrightarrow> amm_wf s"
  unfolding make_amm_def by (rule new_for_testing_wf)

lemma gauntlet_pool_amounts:
  "it_zero_amount_sol_pool_buy" "it_zero_amount_sol_pool_sell" "it_one_lamport_sol_pool_buy_no_panic"
  "it_one_lamport_sol_pool_sell_no_panic" "it_u64_max_sol_pool_buy_no_panic" "it_u64_max_sol_pool_sell_no_panic"
  by (simp_all add: it_zero_amount_sol_pool_buy_def it_zero_amount_sol_pool_sell_def
      it_one_lamport_sol_pool_buy_no_panic_def it_one_lamport_sol_pool_sell_no_panic_def
      it_u64_max_sol_pool_buy_no_panic_def it_u64_max_sol_pool_sell_no_panic_def it_crime_amm_def amm_evaluation)

lemma gauntlet_pool_reserves:
  "it_zero_sol_reserves_returns_zero_or_error" "it_zero_token_reserves_no_panic"
  "it_extreme_ratio_1_sol_vs_1_trillion_tokens" "it_extreme_ratio_1_trillion_sol_vs_1_token"
  by (simp_all add: it_zero_sol_reserves_returns_zero_or_error_def it_zero_token_reserves_no_panic_def
      it_extreme_ratio_1_sol_vs_1_trillion_tokens_def it_extreme_ratio_1_trillion_sol_vs_1_token_def
      amm_evaluation)

lemma gauntlet_pool_directions: "it_all_sol_pool_directions_produce_output"
  by (simp add: it_all_sol_pool_directions_produce_output_def it_crime_amm_def it_fraud_amm_def amm_evaluation)

lemma gauntlet_pool_refusals:
  "it_exact_out_rejected_sol_pool_buy" "it_exact_out_rejected_sol_pool_sell"
  "it_random_pubkey_as_input_mint_sol_pool random"
proof -
  show "it_exact_out_rejected_sol_pool_buy" "it_exact_out_rejected_sol_pool_sell"
    by (simp_all add: it_exact_out_rejected_sol_pool_buy_def it_exact_out_rejected_sol_pool_sell_def it_crime_amm_def
        make_amm_def new_for_testing_Ok exact_out_def pool_quote_def assertion_defs)
  show "it_random_pubkey_as_input_mint_sol_pool random"
    using no_panic [OF pool_quote_not_Panic]
    by (simp add: it_random_pubkey_as_input_mint_sol_pool_def it_crime_amm_def make_amm_def new_for_testing_Ok)
qed

lemma gauntlet_vault_quotes:
  "it_zero_amount_all_vault_directions pda" "it_one_unit_vault_divide_errors pda"
  "it_one_unit_vault_multiply_succeeds pda" "it_u64_max_vault_divide_no_panic pda"
  "it_u64_max_vault_multiply_overflows_gracefully pda" "it_exact_out_rejected_all_vaults pda"
  "it_wrong_mint_vault_crime_expects_fraud pda" "it_wrong_mint_vault_profit_expects_crime pda"
  "it_all_vault_directions_produce_output pda"
  by (simp_all add: it_zero_amount_all_vault_directions_def it_one_unit_vault_divide_errors_def
      it_one_unit_vault_multiply_succeeds_def it_u64_max_vault_divide_no_panic_def
      it_u64_max_vault_multiply_overflows_gracefully_def it_exact_out_rejected_all_vaults_def
      it_wrong_mint_vault_crime_expects_fraud_def it_wrong_mint_vault_profit_expects_crime_def
      it_all_vault_directions_produce_output_def for_instances_iff exact_out_def
      instance_evaluation vault_method_defs evaluation)

lemma gauntlet_methods:
  "it_program_id_correct_sol_pool" "it_program_id_correct_vault pda" "it_supports_exact_out_is_false_everywhere pda"
  "it_vault_is_unidirectional pda" "it_accounts_len_reasonable pda"
  by (simp_all add: it_program_id_correct_sol_pool_def it_program_id_correct_vault_def
      it_supports_exact_out_is_false_everywhere_def it_vault_is_unidirectional_def it_accounts_len_reasonable_def
      it_crime_amm_def it_fraud_amm_def make_amm_def new_for_testing_Ok pool_program_id_def pool_supports_exact_out_def
      vault_supports_exact_out_def pool_get_accounts_len_def vault_get_accounts_len_def for_instances_iff
      vault_method_defs split_beta)

lemma gauntlet_bidirectional:
  assumes "\<And>s. \<not> default_unidirectional s"
  shows "it_sol_pool_is_bidirectional default_unidirectional"
  using assms by (simp add: it_sol_pool_is_bidirectional_def it_crime_amm_def it_fraud_amm_def make_amm_def
      new_for_testing_Ok)

text \<open>A comment of the test expects an unknown input mint to be taken as a sell.  It is refused.\<close>

lemma random_input_mint_refused:
  assumes "random \<notin> {NATIVE_MINT, CRIME_MINT}"
  shows "unwrap it_crime_amm (\<lambda>amm. is_err (ask_pool amm (exact_in 1000000 random NATIVE_MINT)))"
  using assms
  by (auto simp: it_crime_amm_def make_amm_def new_for_testing_Ok pool_quote_def pool_validate_mint_pair_def
      exact_in_def assertion_defs)

end
