(* ===== verification/Integration_Quoting.thy ===== *)
theory Integration_Quoting
  imports Integration_Gauntlet
begin

text \<open>
  The monotonicity, sampling and parity tests of \<open>tests/test_quoting_extended.rs\<close>, as executable
  predicates under the names of the test functions with \<open>it_\<close> in front, and the proofs that the
  model passes them.  \<open>ln\<close> and \<open>exp\<close> on floats have no exact meaning in Rust: what they make of a
  seed's hash is the argument \<open>exp_of\<close>, and the sampling tests pass whatever it is.  The speed
  benchmarks of the file are in \<open>Integration_Speed\<close>.
\<close>

section \<open>Helpers\<close>

definition RESERVE_SOL :: u64 where "RESERVE_SOL = 100000000000"
definition RESERVE_TOKEN :: u64 where "RESERVE_TOKEN = 1000000000000"
definition BUY_TAX :: u16 where "BUY_TAX = 400"
definition SELL_TAX :: u16 where "SELL_TAX = 1400"

definition make_crime :: "sol_pool_amm result" where
  "make_crime = make_amm True RESERVE_SOL RESERVE_TOKEN BUY_TAX SELL_TAX"

definition make_fraud :: "sol_pool_amm result" where
  "make_fraud = make_amm False RESERVE_SOL RESERVE_TOKEN SELL_TAX BUY_TAX"

definition sample_log_uniform :: "(u64 \<Rightarrow> u64 \<Rightarrow> u64 \<Rightarrow> u64) \<Rightarrow> u64 \<Rightarrow> u64 \<Rightarrow> u64 \<Rightarrow> u64" where
  "sample_log_uniform exp_of lo hi seed =
     (let hash = seed * 6364136223846793005 + 1442695040888963407;
          val = exp_of lo hi hash
      in min (max val lo) hi)"

text \<open>The loop that compares each output with the one before.\<close>

fun non_decreasing :: "(u64 \<Rightarrow> quote result) \<Rightarrow> u64 \<Rightarrow> u64 list \<Rightarrow> bool" where
  "non_decreasing ask prev [] \<longleftrightarrow> True"
| "non_decreasing ask prev (amount # amounts) \<longleftrightarrow>
     unwrap (ask amount) (\<lambda>q. prev \<le> out_amount q \<and> non_decreasing ask (out_amount q) amounts)"

definition seeds :: "u64 \<Rightarrow> u64 list" where "seeds offset = map (\<lambda>i. word_of_nat i + offset) [0 ..< 50]"

definition multiples :: "u64 \<Rightarrow> u64 list" where "multiples step = map (\<lambda>i. word_of_nat i * step) [1 ..< 101]"

section \<open>The tests\<close>

definition it_monotonicity_buy_crime_100_steps :: bool where
  "it_monotonicity_buy_crime_100_steps \<longleftrightarrow> unwrap make_crime (\<lambda>amm.
     non_decreasing (\<lambda>a. ask_pool amm (exact_in a NATIVE_MINT CRIME_MINT)) 0 (multiples 500000000))"

definition it_monotonicity_sell_crime_100_steps :: bool where
  "it_monotonicity_sell_crime_100_steps \<longleftrightarrow> unwrap make_crime (\<lambda>amm.
     non_decreasing (\<lambda>a. ask_pool amm (exact_in a CRIME_MINT NATIVE_MINT)) 0 (multiples 5000000000))"

definition it_monotonicity_buy_fraud_100_steps :: bool where
  "it_monotonicity_buy_fraud_100_steps \<longleftrightarrow> unwrap make_fraud (\<lambda>amm.
     non_decreasing (\<lambda>a. ask_pool amm (exact_in a NATIVE_MINT FRAUD_MINT)) 0 (multiples 500000000))"

definition it_monotonicity_sell_fraud_100_steps :: bool where
  "it_monotonicity_sell_fraud_100_steps \<longleftrightarrow> unwrap make_fraud (\<lambda>amm.
     non_decreasing (\<lambda>a. ask_pool amm (exact_in a FRAUD_MINT NATIVE_MINT)) 0 (multiples 5000000000))"

definition it_monotonicity_vault_divide :: "pda_fn \<Rightarrow> bool" where
  "it_monotonicity_vault_divide pda \<longleftrightarrow> unwrap (vault_new_for_testing pda CRIME_MINT PROFIT_MINT) (\<lambda>amm.
     non_decreasing (\<lambda>a. vault_quote amm (exact_in a CRIME_MINT PROFIT_MINT)) 0
       [100, 200, 500, 1000, 5000, 10000, 100000, 1000000])"

definition it_monotonicity_vault_multiply :: "pda_fn \<Rightarrow> bool" where
  "it_monotonicity_vault_multiply pda \<longleftrightarrow> unwrap (vault_new_for_testing pda PROFIT_MINT CRIME_MINT) (\<lambda>amm.
     non_decreasing (\<lambda>a. vault_quote amm (exact_in a PROFIT_MINT CRIME_MINT)) 0 [1, 2, 5, 10, 50, 100, 1000, 10000])"

definition it_random_sampling_buy_crime_50 :: "(u64 \<Rightarrow> u64 \<Rightarrow> u64 \<Rightarrow> u64) \<Rightarrow> bool" where
  "it_random_sampling_buy_crime_50 exp_of \<longleftrightarrow> unwrap make_crime (\<lambda>amm. \<forall>seed \<in> set (seeds 0).
     let amount = sample_log_uniform exp_of 1000 50000000000 seed in
     unwrap (ask_pool amm (exact_in amount NATIVE_MINT CRIME_MINT)) (\<lambda>q.
     unwrap (reference_buy_output RESERVE_SOL RESERVE_TOKEN amount BUY_TAX LP_FEE_BPS) (\<lambda>expected.
       out_amount q = expected)))"

definition it_random_sampling_sell_crime_50 :: "(u64 \<Rightarrow> u64 \<Rightarrow> u64 \<Rightarrow> u64) \<Rightarrow> bool" where
  "it_random_sampling_sell_crime_50 exp_of \<longleftrightarrow> unwrap make_crime (\<lambda>amm. \<forall>seed \<in> set (seeds 100).
     let amount = sample_log_uniform exp_of 1000 500000000000 seed in
     unwrap (ask_pool amm (exact_in amount CRIME_MINT NATIVE_MINT)) (\<lambda>q.
     unwrap (reference_sell_output RESERVE_SOL RESERVE_TOKEN amount SELL_TAX LP_FEE_BPS) (\<lambda>expected.
       out_amount q = expected)))"

definition it_random_sampling_buy_fraud_50 :: "(u64 \<Rightarrow> u64 \<Rightarrow> u64 \<Rightarrow> u64) \<Rightarrow> bool" where
  "it_random_sampling_buy_fraud_50 exp_of \<longleftrightarrow> unwrap make_fraud (\<lambda>amm. \<forall>seed \<in> set (seeds 200).
     let amount = sample_log_uniform exp_of 1000 50000000000 seed in
     unwrap (ask_pool amm (exact_in amount NATIVE_MINT FRAUD_MINT)) (\<lambda>q.
     unwrap (reference_buy_output RESERVE_SOL RESERVE_TOKEN amount SELL_TAX LP_FEE_BPS) (\<lambda>expected.
       out_amount q = expected)))"

definition it_random_sampling_sell_fraud_50 :: "(u64 \<Rightarrow> u64 \<Rightarrow> u64 \<Rightarrow> u64) \<Rightarrow> bool" where
  "it_random_sampling_sell_fraud_50 exp_of \<longleftrightarrow> unwrap make_fraud (\<lambda>amm. \<forall>seed \<in> set (seeds 300).
     let amount = sample_log_uniform exp_of 1000 500000000000 seed in
     unwrap (ask_pool amm (exact_in amount FRAUD_MINT NATIVE_MINT)) (\<lambda>q.
     unwrap (reference_sell_output RESERVE_SOL RESERVE_TOKEN amount BUY_TAX LP_FEE_BPS) (\<lambda>expected.
       out_amount q = expected)))"

definition it_random_sampling_vault_crime_to_profit_50 :: "pda_fn \<Rightarrow> (u64 \<Rightarrow> u64 \<Rightarrow> u64 \<Rightarrow> u64) \<Rightarrow> bool" where
  "it_random_sampling_vault_crime_to_profit_50 pda exp_of \<longleftrightarrow>
     unwrap (vault_new_for_testing pda CRIME_MINT PROFIT_MINT) (\<lambda>amm. \<forall>seed \<in> set (seeds 400).
     let amount = sample_log_uniform exp_of 100 1000000000 seed in
     unwrap (vault_quote amm (exact_in amount CRIME_MINT PROFIT_MINT)) (\<lambda>q.
     unwrap_some (compute_vault_output CRIME_MINT PROFIT_MINT amount) (\<lambda>expected. out_amount q = expected)))"

definition it_random_sampling_vault_profit_to_crime_50 :: "pda_fn \<Rightarrow> (u64 \<Rightarrow> u64 \<Rightarrow> u64 \<Rightarrow> u64) \<Rightarrow> bool" where
  "it_random_sampling_vault_profit_to_crime_50 pda exp_of \<longleftrightarrow>
     unwrap (vault_new_for_testing pda PROFIT_MINT CRIME_MINT) (\<lambda>amm. \<forall>seed \<in> set (seeds 500).
     let amount = sample_log_uniform exp_of 1 10000000 seed in
     unwrap (vault_quote amm (exact_in amount PROFIT_MINT CRIME_MINT)) (\<lambda>q.
     unwrap_some (compute_vault_output PROFIT_MINT CRIME_MINT amount) (\<lambda>expected. out_amount q = expected)))"

definition it_parity_dust_100_lamports :: bool where
  "it_parity_dust_100_lamports \<longleftrightarrow> unwrap make_crime (\<lambda>amm.
     let amount = 100 in
     unwrap (ask_pool amm (exact_in amount NATIVE_MINT CRIME_MINT)) (\<lambda>q.
     unwrap (reference_buy_output RESERVE_SOL RESERVE_TOKEN amount BUY_TAX LP_FEE_BPS) (\<lambda>expected.
       out_amount q = expected)))"

definition it_parity_max_tax_50pct :: bool where
  "it_parity_max_tax_50pct \<longleftrightarrow> unwrap (make_amm True RESERVE_SOL RESERVE_TOKEN 5000 5000) (\<lambda>amm.
     let amount = 1000000000 in
     unwrap (ask_pool amm (exact_in amount NATIVE_MINT CRIME_MINT)) (\<lambda>q.
     unwrap (reference_buy_output RESERVE_SOL RESERVE_TOKEN amount 5000 LP_FEE_BPS) (\<lambda>expected.
       out_amount q = expected)))"

definition it_parity_zero_tax :: bool where
  "it_parity_zero_tax \<longleftrightarrow> unwrap (make_amm True RESERVE_SOL RESERVE_TOKEN 0 0) (\<lambda>amm.
     let amount = 1000000000 in
     unwrap (ask_pool amm (exact_in amount NATIVE_MINT CRIME_MINT)) (\<lambda>q.
     unwrap (reference_buy_output RESERVE_SOL RESERVE_TOKEN amount 0 LP_FEE_BPS) (\<lambda>expected.
       out_amount q = expected)))"

definition it_parity_sell_dust_100_tokens :: bool where
  "it_parity_sell_dust_100_tokens \<longleftrightarrow> unwrap make_crime (\<lambda>amm.
     let amount = 100 in
     unwrap (ask_pool amm (exact_in amount CRIME_MINT NATIVE_MINT)) (\<lambda>q.
     unwrap (reference_sell_output RESERVE_SOL RESERVE_TOKEN amount SELL_TAX LP_FEE_BPS) (\<lambda>expected.
       out_amount q = expected)))"

section \<open>The model passes\<close>

text \<open>
  A pool made for a test, with taxes up to the whole amount and reserves on both sides, answers every
  request of its pair, whatever the amount, with the output of the reference pipeline.
\<close>

lemma made_pool_quotes:
  assumes "make_amm c rs rt bt st = Ok s" and "unat bt \<le> 10000" and "unat st \<le> 10000" and "0 < rs" and "0 < rt"
  defines "token \<equiv> if c then CRIME_MINT else FRAUD_MINT"
  shows "\<exists>q. ask_pool s (exact_in a NATIVE_MINT token) = Ok q \<and> quote_buy s a = Ok q \<and>
      reference_buy_output rs rt a bt LP_FEE_BPS = Ok (out_amount q)"
    and "\<exists>q. ask_pool s (exact_in a token NATIVE_MINT) = Ok q \<and> quote_sell s a = Ok q \<and>
      reference_sell_output rs rt a st LP_FEE_BPS = Ok (out_amount q)"
proof -
  have wf: "amm_wf s" by (rule made_amm) (rule assms(1))
  have s: "amm_quote_mint s = NATIVE_MINT" "amm_faction_mint s = token" "amm_buy_tax_bps s = bt" "amm_sell_tax_bps s = st"
    "reserves s = (rs, rt)" "lp_fee_bps (amm_pool s) = LP_FEE_BPS" and active: "pool_is_active (clocks_at 0) s"
    using assms(1) by (cases c; auto simp: make_amm_def new_for_testing_Ok reserves_def known_pool_state_def
        pool_addresses_def pool_is_active_def token_def)+
  have fee: "unat LP_FEE_BPS \<le> 10000" by (simp add: LP_FEE_BPS_def)
  have pos: "0 < unat rs" "0 < unat rt" using assms(4,5) by (simp_all add: unat_gt_0 word_neq_0_conv)
  have "buy_priced s a" using assms(2) fee pos by (simp add: buy_priced_def s Let_def)
  then obtain q where q: "quote_buy s a = Ok q" using quote_buy_exists by blast
  then show "\<exists>q. ask_pool s (exact_in a NATIVE_MINT token) = Ok q \<and> quote_buy s a = Ok q \<and>
      reference_buy_output rs rt a bt LP_FEE_BPS = Ok (out_amount q)"
    using buy_matches [of s a] active by (simp add: pool_quote_Ok [OF wf] exact_in_def s)
  have "sell_priced s a" using assms(3) fee pos by (simp add: sell_priced_def s Let_def)
  then obtain q where q: "quote_sell s a = Ok q" using quote_sell_exists by blast
  then show "\<exists>q. ask_pool s (exact_in a token NATIVE_MINT) = Ok q \<and> quote_sell s a = Ok q \<and>
      reference_sell_output rs rt a st LP_FEE_BPS = Ok (out_amount q)"
    using sell_matches [of s a] active by (simp add: pool_quote_Ok [OF wf] exact_in_def s)
qed

lemma make_crime_Ok: obtains s where "make_crime = Ok s" "make_amm True RESERVE_SOL RESERVE_TOKEN BUY_TAX SELL_TAX = Ok s"
  by (simp add: make_crime_def make_amm_def new_for_testing_Ok)

lemma make_fraud_Ok: obtains s where "make_fraud = Ok s" "make_amm False RESERVE_SOL RESERVE_TOKEN SELL_TAX BUY_TAX = Ok s"
  by (simp add: make_fraud_def make_amm_def new_for_testing_Ok)

lemma test_parameters:
  "unat BUY_TAX \<le> 10000" "unat SELL_TAX \<le> 10000" "0 < RESERVE_SOL" "0 < RESERVE_TOKEN"
  by (simp_all add: BUY_TAX_def SELL_TAX_def RESERVE_SOL_def RESERVE_TOKEN_def)

lemmas crime_quotes = made_pool_quotes [OF _ test_parameters, where c = True, simplified]
  and fraud_quotes = made_pool_quotes [OF _ test_parameters(2,1,3,4), where c = False, simplified]

subsection \<open>Monotonicity\<close>

lemma non_decreasing_mono:
  assumes "\<And>a. a \<in> set as \<Longrightarrow> \<exists>q. ask a = Ok q"
    and "\<And>a b q r. ask a = Ok q \<Longrightarrow> ask b = Ok r \<Longrightarrow> a \<le> b \<Longrightarrow> out_amount q \<le> out_amount r"
    and "sorted as" and "\<And>a q. a \<in> set as \<Longrightarrow> ask a = Ok q \<Longrightarrow> prev \<le> out_amount q"
  shows "non_decreasing ask prev as"
  using assms(1,3,4)
proof (induction as arbitrary: prev)
  case (Cons a as)
  obtain q where q: "ask a = Ok q" using Cons.prems(1) by auto
  have "non_decreasing ask (out_amount q) as"
    using Cons.prems(1,2) assms(2) [OF q] by (intro Cons.IH) auto
  then show ?case using q Cons.prems(3) [of a q] by simp
qed simp

lemma sorted_multiples:
  assumes "100 * unat step < 2 ^ 64"
  shows "sorted (multiples step)"
proof -
  have v: "unat (word_of_nat i * step) = i * unat step" if "i \<le> 100" for i
  proof -
    have "i * unat step \<le> 100 * unat step" using that by (rule mult_le_mono1)
    then have "i * unat step < 2 ^ 64" using assms by linarith
    moreover have "unat (word_of_nat i :: u64) = i" using that by (intro unat_of_nat_small) simp
    ultimately show ?thesis by (simp only: unat_word_ariths) simp
  qed
  show ?thesis
    unfolding multiples_def sorted_wrt_map
    by (rule sorted_wrt_mono_rel [of _ "(\<le>)"]) (auto simp: word_le_nat_alt v)
qed

lemma buys_non_decreasing:
  assumes "\<And>a. \<exists>q. ask_pool s (exact_in a i out) = Ok q \<and> quote_buy s a = Ok q" and "sorted as"
  shows "non_decreasing (\<lambda>a. ask_pool s (exact_in a i out)) 0 as"
  using assms quote_buy_mono [of s] by (intro non_decreasing_mono) (metis outcome.inject(1) word_zero_le)+

lemma sells_non_decreasing:
  assumes "\<And>a. \<exists>q. ask_pool s (exact_in a i out) = Ok q \<and> quote_sell s a = Ok q" and "sorted as"
  shows "non_decreasing (\<lambda>a. ask_pool s (exact_in a i out)) 0 as"
  using assms quote_sell_mono [of s] by (intro non_decreasing_mono) (metis outcome.inject(1) word_zero_le)+

lemma monotonicity_tests:
  "it_monotonicity_buy_crime_100_steps" "it_monotonicity_sell_crime_100_steps"
  "it_monotonicity_buy_fraud_100_steps" "it_monotonicity_sell_fraud_100_steps"
proof -
  have sorted: "sorted (multiples 500000000)" "sorted (multiples 5000000000)"
    by (rule sorted_multiples, simp)+
  obtain s where s: "make_crime = Ok s" "make_amm True RESERVE_SOL RESERVE_TOKEN BUY_TAX SELL_TAX = Ok s"
    by (rule make_crime_Ok)
  show "it_monotonicity_buy_crime_100_steps"
    unfolding it_monotonicity_buy_crime_100_steps_def s(1) unwrap.simps
    using crime_quotes(1) [OF s(2)] sorted by (intro buys_non_decreasing) blast+
  show "it_monotonicity_sell_crime_100_steps"
    unfolding it_monotonicity_sell_crime_100_steps_def s(1) unwrap.simps
    using crime_quotes(2) [OF s(2)] sorted by (intro sells_non_decreasing) blast+
  obtain s where s: "make_fraud = Ok s" "make_amm False RESERVE_SOL RESERVE_TOKEN SELL_TAX BUY_TAX = Ok s"
    by (rule make_fraud_Ok)
  show "it_monotonicity_buy_fraud_100_steps"
    unfolding it_monotonicity_buy_fraud_100_steps_def s(1) unwrap.simps
    using fraud_quotes(1) [OF s(2)] sorted by (intro buys_non_decreasing) blast+
  show "it_monotonicity_sell_fraud_100_steps"
    unfolding it_monotonicity_sell_fraud_100_steps_def s(1) unwrap.simps
    using fraud_quotes(2) [OF s(2)] sorted by (intro sells_non_decreasing) blast+
qed

lemma vault_monotonicity_tests: "it_monotonicity_vault_divide pda" "it_monotonicity_vault_multiply pda"
  by (simp_all add: it_monotonicity_vault_divide_def it_monotonicity_vault_multiply_def
      instance_evaluation vault_method_defs evaluation)

subsection \<open>Sampling and parity\<close>

lemma agrees:
  "\<exists>q. r = Ok q \<and> P q \<and> ref = Ok (out_amount q) \<Longrightarrow> unwrap r (\<lambda>q. unwrap ref (\<lambda>expected. out_amount q = expected))"
  by auto

lemma agrees_some:
  "r = Ok \<lparr>in_amount = a, out_amount = x, fee_amount = f, fee_mint = m, fee_pct = p\<rparr> \<Longrightarrow> ref = Some x \<Longrightarrow>
     unwrap r (\<lambda>q. unwrap_some ref (\<lambda>expected. out_amount q = expected))"
  by simp

lemma pool_sampling_tests:
  "it_random_sampling_buy_crime_50 exp_of" "it_random_sampling_sell_crime_50 exp_of"
  "it_random_sampling_buy_fraud_50 exp_of" "it_random_sampling_sell_fraud_50 exp_of"
proof -
  obtain s where s: "make_crime = Ok s" "make_amm True RESERVE_SOL RESERVE_TOKEN BUY_TAX SELL_TAX = Ok s"
    by (rule make_crime_Ok)
  show "it_random_sampling_buy_crime_50 exp_of"
    unfolding it_random_sampling_buy_crime_50_def s(1) unwrap.simps Let_def
    by (intro ballI agrees [OF crime_quotes(1) [OF s(2)]])
  show "it_random_sampling_sell_crime_50 exp_of"
    unfolding it_random_sampling_sell_crime_50_def s(1) unwrap.simps Let_def
    by (intro ballI agrees [OF crime_quotes(2) [OF s(2)]])
  obtain s where s: "make_fraud = Ok s" "make_amm False RESERVE_SOL RESERVE_TOKEN SELL_TAX BUY_TAX = Ok s"
    by (rule make_fraud_Ok)
  show "it_random_sampling_buy_fraud_50 exp_of"
    unfolding it_random_sampling_buy_fraud_50_def s(1) unwrap.simps Let_def
    by (intro ballI agrees [OF fraud_quotes(1) [OF s(2)]])
  show "it_random_sampling_sell_fraud_50 exp_of"
    unfolding it_random_sampling_sell_fraud_50_def s(1) unwrap.simps Let_def
    by (intro ballI agrees [OF fraud_quotes(2) [OF s(2)]])
qed

text \<open>Samples stay within their limits, and so within what a vault converts.\<close>

lemma sample_bounds:
  "lo \<le> hi \<Longrightarrow> lo \<le> sample_log_uniform exp_of lo hi seed \<and> sample_log_uniform exp_of lo hi seed \<le> hi"
  by (simp add: sample_log_uniform_def Let_def)

lemma vault_converts:
  assumes "supported_edge i out" and "compute_vault_output i out a = Some x"
  shows "vault_quote (vault_instance key i out) (exact_in a i out) =
    Ok \<lparr>in_amount = a, out_amount = x, fee_amount = 0, fee_mint = i, fee_pct = 0\<rparr>"
  using assms by (simp add: vault_quote_Ok exact_in_def)

lemma vault_sampling_tests:
  "it_random_sampling_vault_crime_to_profit_50 pda exp_of" "it_random_sampling_vault_profit_to_crime_50 pda exp_of"
proof -
  have edges: "supported_edge CRIME_MINT PROFIT_MINT" "supported_edge PROFIT_MINT CRIME_MINT"
    by (simp_all add: supported_edge_def into_profit_def from_profit_def)
  have "\<exists>x. compute_vault_output CRIME_MINT PROFIT_MINT (sample_log_uniform exp_of 100 1000000000 seed) = Some x" for seed
    using sample_bounds [of 100 1000000000 exp_of seed]
    by (simp add: compute_vault_output_spec into_profit_def word_le_nat_alt)
  then show "it_random_sampling_vault_crime_to_profit_50 pda exp_of"
    unfolding it_random_sampling_vault_crime_to_profit_50_def for_testing_eq [OF edges(1)] unwrap.simps Let_def
    using vault_converts [OF edges(1)] by (blast intro: agrees_some)
  have "\<exists>x. compute_vault_output PROFIT_MINT CRIME_MINT (sample_log_uniform exp_of 1 10000000 seed) = Some x" for seed
    using sample_bounds [of 1 10000000 exp_of seed]
    by (auto simp: compute_vault_output_spec into_profit_def from_profit_def word_le_nat_alt)
  then show "it_random_sampling_vault_profit_to_crime_50 pda exp_of"
    unfolding it_random_sampling_vault_profit_to_crime_50_def for_testing_eq [OF edges(2)] unwrap.simps Let_def
    using vault_converts [OF edges(2)] by (blast intro: agrees_some)
qed

lemma parity_tests:
  "it_parity_dust_100_lamports" "it_parity_max_tax_50pct" "it_parity_zero_tax" "it_parity_sell_dust_100_tokens"
proof -
  obtain s where s: "make_crime = Ok s" "make_amm True RESERVE_SOL RESERVE_TOKEN BUY_TAX SELL_TAX = Ok s"
    by (rule make_crime_Ok)
  show "it_parity_dust_100_lamports"
    unfolding it_parity_dust_100_lamports_def s(1) unwrap.simps Let_def by (rule agrees [OF crime_quotes(1) [OF s(2)]])
  show "it_parity_sell_dust_100_tokens"
    unfolding it_parity_sell_dust_100_tokens_def s(1) unwrap.simps Let_def by (rule agrees [OF crime_quotes(2) [OF s(2)]])
  obtain t where t: "make_amm True RESERVE_SOL RESERVE_TOKEN 5000 5000 = Ok t"
    by (simp add: make_amm_def new_for_testing_Ok)
  show "it_parity_max_tax_50pct"
    unfolding it_parity_max_tax_50pct_def t unwrap.simps Let_def
    by (rule agrees, rule made_pool_quotes(1) [OF t _ _ test_parameters(3,4), simplified])
  obtain z where z: "make_amm True RESERVE_SOL RESERVE_TOKEN 0 0 = Ok z"
    by (simp add: make_amm_def new_for_testing_Ok)
  show "it_parity_zero_tax"
    unfolding it_parity_zero_tax_def z unwrap.simps Let_def
    by (rule agrees, rule made_pool_quotes(1) [OF z _ _ test_parameters(3,4), simplified])
qed

end
