(* ===== verification/Test_Vectors_Accounts.thy ===== *)
theory Test_Vectors_Accounts
  imports Test_Vectors_Math Spl_Pool_Accounts
begin

text \<open>
  The unit tests of \<open>accounts/sol_pool_accounts.rs\<close> and \<open>accounts/spl_pool_accounts.rs\<close>, as
  executable predicates under the names of the test functions with \<open>test_\<close> in front, and the proofs
  that the model passes them.  Keys from \<open>Pubkey::new_unique\<close> and the address derivations are
  arguments; a loop that makes new keys in each turn asks for the same keys in every turn.
\<close>

section \<open>SOL lanes\<close>

definition test_buy_metas_has_20_named_accounts :: "pda_fn \<Rightarrow> pubkey \<Rightarrow> pubkey \<Rightarrow> pubkey \<Rightarrow> bool" where
  "test_buy_metas_has_20_named_accounts pda user wsol token \<longleftrightarrow>
     unwrap (build_buy_account_metas pda user wsol token True) (\<lambda>metas.
       length metas = 24 \<and>
       meta_pubkey (metas ! 0) = user \<and> is_signer (metas ! 0) \<and> is_writable (metas ! 0) \<and>
       meta_pubkey (metas ! 1) = EPOCH_STATE_PDA \<and> \<not> is_writable (metas ! 1) \<and>
       meta_pubkey (metas ! 15) = AMM_PROGRAM_ID \<and>
       meta_pubkey (metas ! 19) = STAKING_PROGRAM_ID)"

definition test_sell_metas_has_21_named_accounts :: "pda_fn \<Rightarrow> pubkey \<Rightarrow> pubkey \<Rightarrow> pubkey \<Rightarrow> bool" where
  "test_sell_metas_has_21_named_accounts pda user token wsol \<longleftrightarrow>
     unwrap (build_sell_account_metas pda user token wsol True) (\<lambda>metas.
       length metas = 25 \<and>
       meta_pubkey (metas ! 15) = WSOL_INTERMEDIARY_PDA \<and> is_writable (metas ! 15) \<and>
       meta_pubkey (metas ! 16) = AMM_PROGRAM_ID \<and>
       meta_pubkey (metas ! 20) = STAKING_PROGRAM_ID)"

definition test_crime_pool_uses_crime_addresses :: "pda_fn \<Rightarrow> pubkey \<Rightarrow> pubkey \<Rightarrow> pubkey \<Rightarrow> bool" where
  "test_crime_pool_uses_crime_addresses pda user wsol token \<longleftrightarrow>
     unwrap (build_buy_account_metas pda user wsol token True) (\<lambda>metas.
       meta_pubkey (metas ! 4) = CRIME_SOL_POOL \<and> meta_pubkey (metas ! 8) = CRIME_MINT)"

definition test_fraud_pool_uses_fraud_addresses :: "pda_fn \<Rightarrow> pubkey \<Rightarrow> pubkey \<Rightarrow> pubkey \<Rightarrow> bool" where
  "test_fraud_pool_uses_fraud_addresses pda user wsol token \<longleftrightarrow>
     unwrap (build_buy_account_metas pda user wsol token False) (\<lambda>metas.
       meta_pubkey (metas ! 4) = FRAUD_SOL_POOL \<and> meta_pubkey (metas ! 8) = FRAUD_MINT)"

definition test_buy_hook_accounts_at_end :: "pda_fn \<Rightarrow> pubkey \<Rightarrow> pubkey \<Rightarrow> pubkey \<Rightarrow> bool" where
  "test_buy_hook_accounts_at_end pda user wsol token \<longleftrightarrow>
     unwrap (build_buy_account_metas pda user wsol token True) (\<lambda>metas.
       meta_pubkey (metas ! 20) = CRIME_HOOK_META \<and> meta_pubkey (metas ! 23) = TRANSFER_HOOK_PROGRAM_ID)"

definition test_sell_swap_authority_is_mutable :: "pda_fn \<Rightarrow> pubkey \<Rightarrow> pubkey \<Rightarrow> pubkey \<Rightarrow> bool" where
  "test_sell_swap_authority_is_mutable pda user token wsol \<longleftrightarrow>
     unwrap (build_sell_account_metas pda user token wsol True) (\<lambda>metas.
       meta_pubkey (metas ! 2) = SWAP_AUTHORITY_PDA \<and> is_writable (metas ! 2))"

definition test_buy_swap_authority_is_readonly :: "pda_fn \<Rightarrow> pubkey \<Rightarrow> pubkey \<Rightarrow> pubkey \<Rightarrow> bool" where
  "test_buy_swap_authority_is_readonly pda user wsol token \<longleftrightarrow>
     unwrap (build_buy_account_metas pda user wsol token True) (\<lambda>metas.
       meta_pubkey (metas ! 2) = SWAP_AUTHORITY_PDA \<and> \<not> is_writable (metas ! 2))"

definition test_generic_builder_handles_reversed_pool_orientation ::
    "pda_fn \<Rightarrow> pubkey \<Rightarrow> pubkey \<Rightarrow> pubkey \<Rightarrow> pubkey \<Rightarrow> pubkey \<Rightarrow> pubkey \<Rightarrow> bool" where
  "test_generic_builder_handles_reversed_pool_orientation pda user wsol token_ata pool_key va vb \<longleftrightarrow>
     (let pool =
            \<lparr>mint_a = CRIME_MINT, mint_b = NATIVE_MINT, vault_a = va, vault_b = vb, reserve_a = 0, reserve_b = 0,
             lp_fee_bps = LP_FEE_BPS, initialized = True, locked = False, bump = 0, vault_a_bump = 0,
             vault_b_bump = 0, token_program_a = TOKEN_2022_PROGRAM_ID, token_program_b = SPL_TOKEN_PROGRAM_ID\<rparr>
      in unwrap (build_buy_account_metas_generic pda user wsol token_ata pool_key pool) (\<lambda>metas.
           length metas = 24 \<and>
           meta_pubkey (metas ! 7) = CRIME_MINT \<and> meta_pubkey (metas ! 8) = NATIVE_MINT \<and>
           meta_pubkey (metas ! 9) = token_ata \<and> meta_pubkey (metas ! 10) = wsol \<and>
           meta_pubkey (metas ! 16) = TOKEN_2022_PROGRAM_ID \<and> meta_pubkey (metas ! 17) = SPL_TOKEN_PROGRAM_ID \<and>
           meta_pubkey (metas ! 20) = CRIME_HOOK_META))"

definition test_generic_builder_rejects_non_sol_pool ::
    "pda_fn \<Rightarrow> pubkey \<Rightarrow> pubkey \<Rightarrow> pubkey \<Rightarrow> pubkey \<Rightarrow> pubkey \<Rightarrow> pubkey \<Rightarrow> pubkey \<Rightarrow> bool" where
  "test_generic_builder_rejects_non_sol_pool pda mb va vb k1 k2 k3 k4 \<longleftrightarrow>
     (let pool =
            \<lparr>mint_a = CRIME_MINT, mint_b = mb, vault_a = va, vault_b = vb, reserve_a = 0, reserve_b = 0,
             lp_fee_bps = LP_FEE_BPS, initialized = True, locked = False, bump = 0, vault_a_bump = 0,
             vault_b_bump = 0, token_program_a = TOKEN_2022_PROGRAM_ID, token_program_b = SPL_TOKEN_PROGRAM_ID\<rparr>;
          result = build_buy_account_metas_generic pda k1 k2 k3 k4 pool
      in is_err result)"

lemmas sol_list_defs =
  build_buy_account_metas_def build_sell_account_metas_def known_pool_state_def pool_addresses_def
  build_buy_account_metas_generic_def build_sell_account_metas_generic_def build_wsol_intermediary_metas_def
  resolve_sides_def token_mint_def sol_and_token_vaults_def hook_metas_protocol

lemma sol_buy_list_tests:
  "test_buy_metas_has_20_named_accounts pda user wsol token" "test_crime_pool_uses_crime_addresses pda user wsol token"
  "test_fraud_pool_uses_fraud_addresses pda user wsol token" "test_buy_hook_accounts_at_end pda user wsol token"
  "test_buy_swap_authority_is_readonly pda user wsol token"
  by (simp_all add: test_buy_metas_has_20_named_accounts_def test_crime_pool_uses_crime_addresses_def
      test_fraud_pool_uses_fraud_addresses_def test_buy_hook_accounts_at_end_def
      test_buy_swap_authority_is_readonly_def sol_list_defs)

lemma sol_sell_list_tests:
  "test_sell_metas_has_21_named_accounts pda user token wsol" "test_sell_swap_authority_is_mutable pda user token wsol"
  by (simp_all add: test_sell_metas_has_21_named_accounts_def test_sell_swap_authority_is_mutable_def sol_list_defs)

lemma sol_generic_builder_tests:
  "test_generic_builder_handles_reversed_pool_orientation pda user wsol token_ata pool_key va vb"
  "mb \<noteq> NATIVE_MINT \<Longrightarrow> test_generic_builder_rejects_non_sol_pool pda mb va vb k1 k2 k3 k4"
  by (simp_all add: test_generic_builder_handles_reversed_pool_orientation_def
      test_generic_builder_rejects_non_sol_pool_def sol_list_defs assertion_defs)

section \<open>SPL lanes\<close>

definition spl_test_pool :: "pubkey \<Rightarrow> pubkey \<Rightarrow> pubkey \<Rightarrow> bool \<Rightarrow> pool_state" where
  "spl_test_pool quote_key va vb faction_is_a =
     (let (ma, mb) = (if faction_is_a then (CRIME_MINT, quote_key) else (quote_key, CRIME_MINT))
      in \<lparr>mint_a = ma, mint_b = mb, vault_a = va, vault_b = vb, reserve_a = 10, reserve_b = 20,
          lp_fee_bps = 100, initialized = True, locked = False, bump = 1, vault_a_bump = 2, vault_b_bump = 3,
          token_program_a = (if faction_is_a then TOKEN_2022_PROGRAM_ID else SPL_TOKEN_PROGRAM_ID),
          token_program_b = (if faction_is_a then SPL_TOKEN_PROGRAM_ID else TOKEN_2022_PROGRAM_ID)\<rparr>)"

definition test_buy_layout_matches_anchor_order_in_both_orientations ::
    "pda_fn \<Rightarrow> ata_fn \<Rightarrow> pubkey \<Rightarrow> pubkey \<Rightarrow> pubkey \<Rightarrow> pubkey \<Rightarrow> pubkey \<Rightarrow> pubkey \<Rightarrow> pubkey \<Rightarrow> bool" where
  "test_buy_layout_matches_anchor_order_in_both_orientations pda ata qm va vb user quote_ata faction pool_key \<longleftrightarrow>
     (\<forall>reversed \<in> set [False, True].
        let pool = spl_test_pool qm va vb reversed in
        unwrap (spl_build_buy_account_metas_generic pda ata user quote_ata faction pool_key pool) (\<lambda>metas.
          length metas = 21 \<and> meta_pubkey (metas ! 0) = user \<and>
          unwrap (resolve_faction_sides pool) (\<lambda>sides. meta_pubkey (metas ! 11) = sides_quote_mint sides) \<and>
          meta_pubkey (metas ! 17) = CRIME_HOOK_META \<and>
          (if reversed then meta_pubkey (metas ! 7) = faction \<and> meta_pubkey (metas ! 8) = quote_ata
           else meta_pubkey (metas ! 7) = quote_ata \<and> meta_pubkey (metas ! 8) = faction)))"

definition test_sell_uses_sweep_in_quote_slot_and_separate_destination ::
    "pda_fn \<Rightarrow> ata_fn \<Rightarrow> pubkey \<Rightarrow> pubkey \<Rightarrow> pubkey \<Rightarrow> pubkey \<Rightarrow> pubkey \<Rightarrow> pubkey \<Rightarrow> pubkey \<Rightarrow> bool" where
  "test_sell_uses_sweep_in_quote_slot_and_separate_destination pda ata qm va vb user faction destination pool_key \<longleftrightarrow>
     (\<forall>faction_is_a \<in> set [False, True].
        let pool = spl_test_pool qm va vb faction_is_a in
        unwrap (spl_build_sell_account_metas_generic pda ata user faction destination pool_key pool) (\<lambda>metas.
        unwrap (sweep_accounts pda ata pool) (\<lambda>(_, sweep).
          length metas = 22 \<and> meta_pubkey (metas ! 13) = destination \<and>
          (if faction_is_a then meta_pubkey (metas ! 7) = faction \<and> meta_pubkey (metas ! 8) = sweep
           else meta_pubkey (metas ! 7) = sweep \<and> meta_pubkey (metas ! 8) = faction))))"

lemma spl_test_pool_sides:
  assumes "\<not> faction_mint qm"
  shows "resolve_faction_sides (spl_test_pool qm va vb is_a) =
    Ok \<lparr>sides_faction_mint = CRIME_MINT, sides_quote_mint = qm, sides_faction_vault = (if is_a then va else vb),
        sides_faction_is_a = is_a, sides_quote_token_program = SPL_TOKEN_PROGRAM_ID\<rparr>"
  using assms by (cases is_a) (auto simp: spl_test_pool_def resolve_faction_sides_def faction_mint_def)

lemma spl_list_tests:
  assumes "\<not> faction_mint qm"
  shows "test_buy_layout_matches_anchor_order_in_both_orientations pda ata qm va vb user quote_ata faction pool_key"
    and "test_sell_uses_sweep_in_quote_slot_and_separate_destination pda ata qm va vb user faction destination pool_key"
  using assms
  by (simp_all add: test_buy_layout_matches_anchor_order_in_both_orientations_def
      test_sell_uses_sweep_in_quote_slot_and_separate_destination_def spl_build_buy_account_metas_generic_def
      spl_build_sell_account_metas_generic_def sweep_accounts_def spl_test_pool_sides hook_metas_protocol
      split_beta Let_def)

end
