(* ===== verification/Integration_Structure.thy ===== *)
theory Integration_Structure
  imports Integration_Gauntlet Test_Vectors_Accounts
begin

text \<open>
  The integration tests of \<open>tests/test_instruction_structure.rs\<close> (account lists) and of
  \<open>tests/vault_mint_pair.rs\<close> (the vault's pairs), as executable predicates under the names of the test
  functions with \<open>it_\<close> in front, and the proofs that the model passes them.  Keys from
  \<open>Pubkey::new_unique\<close> are arguments; \<open>swap_request\<close> holds what the crate reads of \<open>SwapParams\<close>.
\<close>

definition swap_request :: "pubkey \<Rightarrow> pubkey \<Rightarrow> pubkey \<Rightarrow> pubkey \<Rightarrow> pubkey \<Rightarrow> swap_params" where
  "swap_request src dst src_account dst_account authority =
     \<lparr>sp_swap_mode = ExactIn, source_mint = src, destination_mint = dst, source_token_account = src_account,
      destination_token_account = dst_account, token_transfer_authority = authority\<rparr>"

section \<open>Buys\<close>

definition it_buy_crime_has_24_accounts :: "pda_fn \<Rightarrow> ata_fn \<Rightarrow> pubkey \<Rightarrow> pubkey \<Rightarrow> pubkey \<Rightarrow> bool" where
  "it_buy_crime_has_24_accounts pda ata user source dest \<longleftrightarrow> unwrap it_crime_amm (\<lambda>amm.
     unwrap (pool_get_swap_and_account_metas pda ata amm (swap_request NATIVE_MINT CRIME_MINT source dest user)) (\<lambda>result.
       let metas = account_metas result in
       length metas = 25 \<and> meta_pubkey (metas ! 15) = WSOL_INTERMEDIARY_PDA))"

definition it_buy_fraud_has_24_accounts :: "pda_fn \<Rightarrow> ata_fn \<Rightarrow> pubkey \<Rightarrow> pubkey \<Rightarrow> pubkey \<Rightarrow> bool" where
  "it_buy_fraud_has_24_accounts pda ata user source dest \<longleftrightarrow> unwrap it_fraud_amm (\<lambda>amm.
     unwrap (pool_get_swap_and_account_metas pda ata amm (swap_request NATIVE_MINT FRAUD_MINT source dest user)) (\<lambda>result.
       let metas = account_metas result in
       length metas = 25))"

definition it_buy_user_is_signer_and_writable :: "pda_fn \<Rightarrow> ata_fn \<Rightarrow> pubkey \<Rightarrow> pubkey \<Rightarrow> pubkey \<Rightarrow> bool" where
  "it_buy_user_is_signer_and_writable pda ata user source dest \<longleftrightarrow> unwrap it_crime_amm (\<lambda>amm.
     unwrap (pool_get_swap_and_account_metas pda ata amm (swap_request NATIVE_MINT CRIME_MINT source dest user)) (\<lambda>result.
       let metas = account_metas result in
       meta_pubkey (metas ! 0) = user \<and> is_signer (metas ! 0) \<and> \<not> is_writable (metas ! 0)))"

definition it_buy_epoch_state_is_readonly :: "pda_fn \<Rightarrow> ata_fn \<Rightarrow> pubkey \<Rightarrow> pubkey \<Rightarrow> pubkey \<Rightarrow> bool" where
  "it_buy_epoch_state_is_readonly pda ata user source dest \<longleftrightarrow> unwrap it_crime_amm (\<lambda>amm.
     unwrap (pool_get_swap_and_account_metas pda ata amm (swap_request NATIVE_MINT CRIME_MINT source dest user)) (\<lambda>result.
       let metas = account_metas result in
       meta_pubkey (metas ! 1) = EPOCH_STATE_PDA \<and> \<not> is_writable (metas ! 1) \<and> \<not> is_signer (metas ! 1)))"

definition it_buy_swap_authority_is_writable :: "pda_fn \<Rightarrow> ata_fn \<Rightarrow> pubkey \<Rightarrow> pubkey \<Rightarrow> pubkey \<Rightarrow> bool" where
  "it_buy_swap_authority_is_writable pda ata user source dest \<longleftrightarrow> unwrap it_crime_amm (\<lambda>amm.
     unwrap (pool_get_swap_and_account_metas pda ata amm (swap_request NATIVE_MINT CRIME_MINT source dest user)) (\<lambda>result.
       let metas = account_metas result in
       meta_pubkey (metas ! 2) = SWAP_AUTHORITY_PDA \<and> is_writable (metas ! 2)))"

definition it_buy_pool_address_matches_crime :: "pda_fn \<Rightarrow> ata_fn \<Rightarrow> pubkey \<Rightarrow> pubkey \<Rightarrow> pubkey \<Rightarrow> bool" where
  "it_buy_pool_address_matches_crime pda ata user source dest \<longleftrightarrow> unwrap it_crime_amm (\<lambda>amm.
     unwrap (pool_get_swap_and_account_metas pda ata amm (swap_request NATIVE_MINT CRIME_MINT source dest user)) (\<lambda>result.
       let metas = account_metas result in
       meta_pubkey (metas ! 4) = CRIME_SOL_POOL \<and> meta_pubkey (metas ! 8) = CRIME_MINT))"

definition it_buy_pool_address_matches_fraud :: "pda_fn \<Rightarrow> ata_fn \<Rightarrow> pubkey \<Rightarrow> pubkey \<Rightarrow> pubkey \<Rightarrow> bool" where
  "it_buy_pool_address_matches_fraud pda ata user source dest \<longleftrightarrow> unwrap it_fraud_amm (\<lambda>amm.
     unwrap (pool_get_swap_and_account_metas pda ata amm (swap_request NATIVE_MINT FRAUD_MINT source dest user)) (\<lambda>result.
       let metas = account_metas result in
       meta_pubkey (metas ! 4) = FRAUD_SOL_POOL \<and> meta_pubkey (metas ! 8) = FRAUD_MINT))"

definition it_buy_hook_accounts_are_last_4 :: "pda_fn \<Rightarrow> ata_fn \<Rightarrow> pubkey \<Rightarrow> pubkey \<Rightarrow> pubkey \<Rightarrow> bool" where
  "it_buy_hook_accounts_are_last_4 pda ata user source dest \<longleftrightarrow> unwrap it_crime_amm (\<lambda>amm.
     unwrap (pool_get_swap_and_account_metas pda ata amm (swap_request NATIVE_MINT CRIME_MINT source dest user)) (\<lambda>result.
       let metas = account_metas result in
       meta_pubkey (metas ! 21) = CRIME_HOOK_META \<and> meta_pubkey (metas ! 24) = TRANSFER_HOOK_PROGRAM_ID \<and> 
       (\<forall>i \<in> set [21 ..< 25]. \<not> is_writable (metas ! i) \<and> \<not> is_signer (metas ! i))))"

section \<open>Sells\<close>

definition it_sell_crime_has_25_accounts :: "pda_fn \<Rightarrow> ata_fn \<Rightarrow> pubkey \<Rightarrow> pubkey \<Rightarrow> pubkey \<Rightarrow> bool" where
  "it_sell_crime_has_25_accounts pda ata user source dest \<longleftrightarrow> unwrap it_crime_amm (\<lambda>amm.
     unwrap (pool_get_swap_and_account_metas pda ata amm (swap_request CRIME_MINT NATIVE_MINT source dest user)) (\<lambda>result.
       let metas = account_metas result in
       length metas = 25))"

definition it_sell_fraud_has_25_accounts :: "pda_fn \<Rightarrow> ata_fn \<Rightarrow> pubkey \<Rightarrow> pubkey \<Rightarrow> pubkey \<Rightarrow> bool" where
  "it_sell_fraud_has_25_accounts pda ata user source dest \<longleftrightarrow> unwrap it_fraud_amm (\<lambda>amm.
     unwrap (pool_get_swap_and_account_metas pda ata amm (swap_request FRAUD_MINT NATIVE_MINT source dest user)) (\<lambda>result.
       let metas = account_metas result in
       length metas = 25))"

definition it_sell_swap_authority_is_writable :: "pda_fn \<Rightarrow> ata_fn \<Rightarrow> pubkey \<Rightarrow> pubkey \<Rightarrow> pubkey \<Rightarrow> bool" where
  "it_sell_swap_authority_is_writable pda ata user source dest \<longleftrightarrow> unwrap it_crime_amm (\<lambda>amm.
     unwrap (pool_get_swap_and_account_metas pda ata amm (swap_request CRIME_MINT NATIVE_MINT source dest user)) (\<lambda>result.
       let metas = account_metas result in
       meta_pubkey (metas ! 2) = SWAP_AUTHORITY_PDA \<and> is_writable (metas ! 2)))"

definition it_sell_has_wsol_intermediary_at_index_15 :: "pda_fn \<Rightarrow> ata_fn \<Rightarrow> pubkey \<Rightarrow> pubkey \<Rightarrow> pubkey \<Rightarrow> bool" where
  "it_sell_has_wsol_intermediary_at_index_15 pda ata user source dest \<longleftrightarrow> unwrap it_crime_amm (\<lambda>amm.
     unwrap (pool_get_swap_and_account_metas pda ata amm (swap_request CRIME_MINT NATIVE_MINT source dest user)) (\<lambda>result.
       let metas = account_metas result in
       meta_pubkey (metas ! 15) = WSOL_INTERMEDIARY_PDA \<and> is_writable (metas ! 15)))"

section \<open>Vault conversions\<close>

definition it_vault_crime_to_profit_has_17_accounts :: "pda_fn \<Rightarrow> pubkey \<Rightarrow> pubkey \<Rightarrow> pubkey \<Rightarrow> bool" where
  "it_vault_crime_to_profit_has_17_accounts pda user source dest \<longleftrightarrow> unwrap (vault_new_for_testing pda CRIME_MINT PROFIT_MINT) (\<lambda>amm.
     unwrap (vault_get_swap_and_account_metas pda amm (swap_request CRIME_MINT PROFIT_MINT source dest user)) (\<lambda>result.
       let metas = account_metas result in
       length metas = 17))"

definition it_vault_profit_to_fraud_has_17_accounts :: "pda_fn \<Rightarrow> pubkey \<Rightarrow> pubkey \<Rightarrow> pubkey \<Rightarrow> bool" where
  "it_vault_profit_to_fraud_has_17_accounts pda user source dest \<longleftrightarrow> unwrap (vault_new_for_testing pda PROFIT_MINT FRAUD_MINT) (\<lambda>amm.
     unwrap (vault_get_swap_and_account_metas pda amm (swap_request PROFIT_MINT FRAUD_MINT source dest user)) (\<lambda>result.
       let metas = account_metas result in
       length metas = 17))"

definition it_vault_has_8_hook_accounts_at_end :: "pda_fn \<Rightarrow> pubkey \<Rightarrow> pubkey \<Rightarrow> pubkey \<Rightarrow> bool" where
  "it_vault_has_8_hook_accounts_at_end pda user source dest \<longleftrightarrow> unwrap (vault_new_for_testing pda CRIME_MINT PROFIT_MINT) (\<lambda>amm.
     unwrap (vault_get_swap_and_account_metas pda amm (swap_request CRIME_MINT PROFIT_MINT source dest user)) (\<lambda>result.
       let metas = account_metas result in
       length metas = 17 \<and> meta_pubkey (metas ! 1) = VAULT_CONFIG_PDA \<and> meta_pubkey (metas ! 8) = TOKEN_2022_PROGRAM_ID \<and> 
       meta_pubkey (metas ! 9) = CRIME_HOOK_META \<and> meta_pubkey (metas ! 12) = TRANSFER_HOOK_PROGRAM_ID \<and> 
       meta_pubkey (metas ! 13) = PROFIT_HOOK_META \<and> meta_pubkey (metas ! 16) = TRANSFER_HOOK_PROGRAM_ID))"

section \<open>Pairs of a vault\<close>

text \<open>
  \<open>keyed_vault\<close> writes the two mints into the account's JSON parameters as text, and \<open>show\<close> stands for
  \<open>Pubkey::to_string\<close>.
\<close>

definition keyed_vault :: "(pubkey \<Rightarrow> string) \<Rightarrow> pubkey \<Rightarrow> pubkey \<Rightarrow> pubkey \<Rightarrow> keyed_account" where
  "keyed_vault show_key key input output =
     \<lparr>ka_key = key, ka_account = \<lparr>acc_data = [], acc_owner = CONVERSION_VAULT_PROGRAM_ID\<rparr>,
      ka_params = Some (Map.empty(''input_mint'' \<mapsto> show_key input, ''output_mint'' \<mapsto> show_key output))\<rparr>"

definition it_params_accept_only_on_chain_conversion_edges ::
    "pda_fn \<Rightarrow> (string \<Rightarrow> pubkey option) \<Rightarrow> (pubkey \<Rightarrow> string) \<Rightarrow> pubkey \<Rightarrow> bool" where
  "it_params_accept_only_on_chain_conversion_edges pda parse_pubkey show_key key \<longleftrightarrow>
     (\<forall>(input, output) \<in> set [(CRIME_MINT, PROFIT_MINT), (FRAUD_MINT, PROFIT_MINT),
         (PROFIT_MINT, CRIME_MINT), (PROFIT_MINT, FRAUD_MINT)].
       is_ok (vault_from_keyed_account pda parse_pubkey (keyed_vault show_key key input output))) \<and>
     (\<forall>(input, output) \<in> set [(CRIME_MINT, FRAUD_MINT), (FRAUD_MINT, CRIME_MINT),
         (CRIME_MINT, CRIME_MINT), (PROFIT_MINT, PROFIT_MINT)].
       is_err (vault_from_keyed_account pda parse_pubkey (keyed_vault show_key key input output)))"

definition it_quote_rejects_wrong_output_mint :: "pda_fn \<Rightarrow> bool" where
  "it_quote_rejects_wrong_output_mint pda \<longleftrightarrow> unwrap (vault_new_for_testing pda CRIME_MINT PROFIT_MINT) (\<lambda>amm.
     is_err (vault_quote amm (exact_in 10000 CRIME_MINT FRAUD_MINT)))"

definition it_account_builder_rejects_wrong_destination_mint :: "pda_fn \<Rightarrow> pubkey \<Rightarrow> pubkey \<Rightarrow> pubkey \<Rightarrow> bool" where
  "it_account_builder_rejects_wrong_destination_mint pda authority source dest \<longleftrightarrow>
     unwrap (vault_new_for_testing pda CRIME_MINT PROFIT_MINT) (\<lambda>amm.
     is_err (vault_get_swap_and_account_metas pda amm (swap_request CRIME_MINT FRAUD_MINT source dest authority)))"

definition it_cross_faction_routes_compose_through_profit :: "pda_fn \<Rightarrow> bool" where
  "it_cross_faction_routes_compose_through_profit pda \<longleftrightarrow>
     (\<forall>(src, dst) \<in> set [(CRIME_MINT, FRAUD_MINT), (FRAUD_MINT, CRIME_MINT)].
       unwrap (vault_new_for_testing pda src PROFIT_MINT) (\<lambda>into_profit.
       unwrap (vault_quote into_profit (exact_in 10000 src PROFIT_MINT)) (\<lambda>first_leg.
       unwrap (vault_new_for_testing pda PROFIT_MINT dst) (\<lambda>out_of_profit.
       unwrap (vault_quote out_of_profit (exact_in (out_amount first_leg) PROFIT_MINT dst)) (\<lambda>second_leg.
         out_amount first_leg = 100 \<and> out_amount second_leg = 10000)))))"

section \<open>The model passes\<close>

lemmas structure_evaluation =
  it_crime_amm_def it_fraud_amm_def make_amm_def new_for_testing_Ok
  pool_get_swap_and_account_metas_def swap_request_def pool_validate_mint_pair_def for_mints_def
  build_buy_wsol_account_metas_generic_def sol_list_defs

lemma buy_structure:
  "it_buy_crime_has_24_accounts pda ata user source dest"
  "it_buy_fraud_has_24_accounts pda ata user source dest"
  "it_buy_user_is_signer_and_writable pda ata user source dest"
  "it_buy_epoch_state_is_readonly pda ata user source dest"
  "it_buy_swap_authority_is_writable pda ata user source dest"
  "it_buy_pool_address_matches_crime pda ata user source dest"
  "it_buy_pool_address_matches_fraud pda ata user source dest"
  "it_buy_hook_accounts_are_last_4 pda ata user source dest"
  by (simp_all add: it_buy_crime_has_24_accounts_def
      it_buy_fraud_has_24_accounts_def
      it_buy_user_is_signer_and_writable_def
      it_buy_epoch_state_is_readonly_def
      it_buy_swap_authority_is_writable_def
      it_buy_pool_address_matches_crime_def
      it_buy_pool_address_matches_fraud_def
      it_buy_hook_accounts_are_last_4_def
      structure_evaluation)

lemma sell_structure:
  "it_sell_crime_has_25_accounts pda ata user source dest"
  "it_sell_fraud_has_25_accounts pda ata user source dest"
  "it_sell_swap_authority_is_writable pda ata user source dest"
  "it_sell_has_wsol_intermediary_at_index_15 pda ata user source dest"
  by (simp_all add: it_sell_crime_has_25_accounts_def
      it_sell_fraud_has_25_accounts_def
      it_sell_swap_authority_is_writable_def
      it_sell_has_wsol_intermediary_at_index_15_def
      structure_evaluation)

lemma vault_structure:
  "it_vault_crime_to_profit_has_17_accounts pda user source dest"
  "it_vault_profit_to_fraud_has_17_accounts pda user source dest"
  "it_vault_has_8_hook_accounts_at_end pda user source dest"
  by (simp_all add: it_vault_crime_to_profit_has_17_accounts_def
      it_vault_profit_to_fraud_has_17_accounts_def
      it_vault_has_8_hook_accounts_at_end_def
      for_testing_eq supported_edge_def into_profit_def from_profit_def vault_get_swap_and_account_metas_def swap_request_def
      vault_validate_mint_pair_def build_vault_account_metas_def vault_token_account_def hook_metas_protocol)

lemma vault_pair_tests:
  "it_quote_rejects_wrong_output_mint pda" "it_account_builder_rejects_wrong_destination_mint pda authority source dest"
  "it_cross_faction_routes_compose_through_profit pda"
  by (simp_all add: it_quote_rejects_wrong_output_mint_def it_account_builder_rejects_wrong_destination_mint_def
      it_cross_faction_routes_compose_through_profit_def vault_get_swap_and_account_metas_def swap_request_def
      instance_evaluation vault_method_defs evaluation)

text \<open>The parameters are read back when parsing a key's text returns the key.\<close>

lemma vault_edge_tests:
  assumes "\<And>k. parse_pubkey (show_key k) = Some k"
  shows "it_params_accept_only_on_chain_conversion_edges pda parse_pubkey show_key key"
  by (simp add: it_params_accept_only_on_chain_conversion_edges_def vault_from_keyed_account_def keyed_vault_def assms
      conversion_output_vault_def vault_for_mint_def assertion_defs)

end
