(* ===== verification/Integration_Speed.thy ===== *)
theory Integration_Speed
  imports Integration_Quoting Integration_Structure
begin

text \<open>
  The speed benchmarks of \<open>tests/test_quoting_extended.rs\<close>, under the names of the test functions with
  \<open>it_\<close> in front.  What the clock measures is the argument \<open>elapsed\<close>, in microseconds, and the keys
  drawn in the loop are the arguments \<open>source\<close> and \<open>dest\<close>, one for each round.  The benchmarks discard
  what they ask for, so beside the clock only a panic can fail them: they pass exactly when the
  average is below the limit.  Every quotient of a whole number by 10000 is on the same side of 100
  as its \<open>f64\<close>.
\<close>

section \<open>The benchmarks\<close>

text \<open>\<open>let _ = \<dots>\<close>: the result is dropped, an error as well as a value; a panic is not.\<close>

definition dropped :: "'a result \<Rightarrow> bool" where
  "dropped r \<longleftrightarrow> (case r of Panic \<Rightarrow> False | _ \<Rightarrow> True)"

definition average :: "nat \<Rightarrow> rat" where "average elapsed = of_nat elapsed / 10000"

definition it_speed_buy_crime_10k :: "nat \<Rightarrow> bool" where
  "it_speed_buy_crime_10k elapsed \<longleftrightarrow> unwrap make_crime (\<lambda>amm.
     (\<forall>i \<in> set [0 ..< 10000].
        dropped (ask_pool amm (exact_in (1000000 + word_of_nat i) NATIVE_MINT CRIME_MINT))) \<and>
     average elapsed < 100)"

definition it_speed_sell_crime_10k :: "nat \<Rightarrow> bool" where
  "it_speed_sell_crime_10k elapsed \<longleftrightarrow> unwrap make_crime (\<lambda>amm.
     (\<forall>i \<in> set [0 ..< 10000].
        dropped (ask_pool amm (exact_in (1000000 + word_of_nat i) CRIME_MINT NATIVE_MINT))) \<and>
     average elapsed < 100)"

definition it_speed_vault_convert_10k :: "pda_fn \<Rightarrow> nat \<Rightarrow> bool" where
  "it_speed_vault_convert_10k pda elapsed \<longleftrightarrow> unwrap (vault_new_for_testing pda CRIME_MINT PROFIT_MINT) (\<lambda>amm.
     (\<forall>i \<in> set [0 ..< 10000].
        dropped (vault_quote amm (exact_in (10000 + word_of_nat i) CRIME_MINT PROFIT_MINT))) \<and>
     average elapsed < 100)"

definition it_speed_get_swap_account_metas_10k ::
  "pda_fn \<Rightarrow> ata_fn \<Rightarrow> pubkey \<Rightarrow> (nat \<Rightarrow> pubkey) \<Rightarrow> (nat \<Rightarrow> pubkey) \<Rightarrow> bool" where
  "it_speed_get_swap_account_metas_10k pda ata user source dest \<longleftrightarrow> unwrap make_crime (\<lambda>amm.
     \<forall>i \<in> set [0 ..< 10000].
       dropped (pool_get_swap_and_account_metas pda ata amm
         (swap_request NATIVE_MINT CRIME_MINT (source i) (dest i) user)))"

section \<open>The model passes\<close>

lemma dropped_iff: "dropped r \<longleftrightarrow> r \<noteq> Panic"
  by (cases r) (simp_all add: dropped_def)

lemma average_limit: "average elapsed < 100 \<longleftrightarrow> elapsed < 1000000"
proof -
  have "average elapsed < 100 \<longleftrightarrow> (of_nat elapsed :: rat) < of_nat 1000000"
    by (simp add: average_def field_simps)
  also have "\<dots> \<longleftrightarrow> elapsed < 1000000" by (rule of_nat_less_iff)
  finally show ?thesis .
qed

lemma speed_tests:
  "it_speed_buy_crime_10k elapsed \<longleftrightarrow> elapsed < 1000000"
  "it_speed_sell_crime_10k elapsed \<longleftrightarrow> elapsed < 1000000"
  "it_speed_vault_convert_10k pda elapsed \<longleftrightarrow> elapsed < 1000000"
proof -
  obtain s where s: "make_crime = Ok s" by (rule make_crime_Ok)
  show "it_speed_buy_crime_10k elapsed \<longleftrightarrow> elapsed < 1000000"
    "it_speed_sell_crime_10k elapsed \<longleftrightarrow> elapsed < 1000000"
    by (simp_all only: it_speed_buy_crime_10k_def it_speed_sell_crime_10k_def s unwrap.simps dropped_iff
        average_limit pool_quote_not_Panic) simp_all
  have "supported_edge CRIME_MINT PROFIT_MINT" by (simp add: supported_edge_def into_profit_def)
  then show "it_speed_vault_convert_10k pda elapsed \<longleftrightarrow> elapsed < 1000000"
    by (simp only: it_speed_vault_convert_10k_def for_testing_eq unwrap.simps dropped_iff average_limit
        vault_quote_not_Panic) simp
qed

lemma metas_speed_test: "it_speed_get_swap_account_metas_10k pda ata user source dest"
proof -
  obtain s where s: "make_crime = Ok s" "make_amm True RESERVE_SOL RESERVE_TOKEN BUY_TAX SELL_TAX = Ok s"
    by (rule make_crime_Ok)
  have "amm_wf s" by (rule made_amm) (rule s(2))
  then show ?thesis
    by (simp only: it_speed_get_swap_account_metas_10k_def s(1) unwrap.simps dropped_iff swap_metas_not_Panic) simp
qed

end
