(* ===== verification/Integration_Lifecycle.thy ===== *)
theory Integration_Lifecycle
  imports Integration_Gauntlet
begin

text \<open>
  The integration tests of \<open>tests/test_construction.rs\<close>, whole lifecycles from construction to quotes,
  and the two properties that \<open>tests/pool_discovery_properties.rs\<close> samples, as executable predicates under
  the names of the test functions with \<open>it_\<close> in front, with the proofs that the model passes them;
  the sampled properties are proved for all their inputs.  Keys from \<open>Pubkey::new_unique\<close> are
  arguments, and so is the address derivation: where a test uses a mainnet pool, its key is the one
  derived from the pool's mints.
\<close>

section \<open>Helpers\<close>

definition mock_pool_state_bytes :: "pubkey \<Rightarrow> pubkey \<Rightarrow> pubkey \<Rightarrow> u64 \<Rightarrow> u64 \<Rightarrow> u16 \<Rightarrow> bytes" where
  "mock_pool_state_bytes token va vb reserve_sol reserve_token fee_bps =
     (let data = replicate 224 0;
          data = copy_at 0 POOL_STATE_DISCRIMINATOR data;
          data = data[8 := 0];
          data = copy_at 9 (as_ref NATIVE_MINT) data;
          data = copy_at 41 (as_ref token) data;
          data = copy_at 73 (as_ref va) data;
          data = copy_at 105 (as_ref vb) data;
          data = copy_at 137 (to_le_bytes reserve_sol) data;
          data = copy_at 145 (to_le_bytes reserve_token) data;
          data = copy_at 153 (to_le_bytes fee_bps) data;
          data = data[155 := 1];
          data = data[156 := 0];
          data = copy_at 160 (as_ref SPL_TOKEN_PROGRAM_ID) data
      in copy_at 192 (as_ref TOKEN_2022_PROGRAM_ID) data)"

definition mock_epoch_state_bytes :: "u16 \<Rightarrow> u16 \<Rightarrow> u16 \<Rightarrow> u16 \<Rightarrow> bytes" where
  "mock_epoch_state_bytes crime_buy crime_sell fraud_buy fraud_sell =
     (let data = replicate 172 0;
          data = copy_at 0 EPOCH_STATE_DISCRIMINATOR data;
          data = copy_at 33 (to_le_bytes crime_buy) data;
          data = copy_at 35 (to_le_bytes crime_sell) data;
          data = copy_at 37 (to_le_bytes fraud_buy) data;
          data = copy_at 39 (to_le_bytes fraud_sell) data
      in data[170 := 1])"

fun build_account_map :: "(pubkey \<times> bytes \<times> pubkey) list \<Rightarrow> account_map \<Rightarrow> account_map" where
  "build_account_map [] m = m"
| "build_account_map ((key, data, owner) # entries) m =
     build_account_map entries (m(key \<mapsto> \<lparr>acc_data = data, acc_owner = owner\<rparr>))"

definition discovery_bytes ::
    "pubkey \<Rightarrow> pubkey \<Rightarrow> pubkey \<Rightarrow> pubkey \<Rightarrow> u64 \<Rightarrow> u64 \<Rightarrow> pubkey \<Rightarrow> pubkey \<Rightarrow> bytes" where
  "discovery_bytes ma mb va vb ra rb pa pb =
     (let data = replicate 224 0;
          data = copy_at 0 POOL_STATE_DISCRIMINATOR data;
          data = copy_at 9 (as_ref ma) data;
          data = copy_at 41 (as_ref mb) data;
          data = copy_at 73 (as_ref va) data;
          data = copy_at 105 (as_ref vb) data;
          data = copy_at 137 (to_le_bytes ra) data;
          data = copy_at 145 (to_le_bytes rb) data;
          data = copy_at 153 (to_le_bytes (100 :: u16)) data;
          data = data[155 := 1];
          data = copy_at 160 (as_ref pa) data
      in copy_at 192 (as_ref pb) data)"

section \<open>Construction\<close>

definition it_sol_pool_from_keyed_account_crime :: "pda_fn \<Rightarrow> pubkey \<Rightarrow> pubkey \<Rightarrow> bool" where
  "it_sol_pool_from_keyed_account_crime pda va vb \<longleftrightarrow>
     (let pool_data = mock_pool_state_bytes CRIME_MINT va vb 50000000000 1000000000000 100;
          keyed = test_keyed_account CRIME_SOL_POOL pool_data AMM_PROGRAM_ID
      in unwrap (pool_from_keyed_account pda keyed 0) (\<lambda>amm.
           amm_key amm = CRIME_SOL_POOL \<and> pool_label amm = ''Dr Fraudsworth''))"

definition it_sol_pool_from_keyed_account_fraud :: "pda_fn \<Rightarrow> pubkey \<Rightarrow> pubkey \<Rightarrow> bool" where
  "it_sol_pool_from_keyed_account_fraud pda va vb \<longleftrightarrow>
     (let pool_data = mock_pool_state_bytes FRAUD_MINT va vb 50000000000 1000000000000 100;
          keyed = test_keyed_account FRAUD_SOL_POOL pool_data AMM_PROGRAM_ID
      in unwrap (pool_from_keyed_account pda keyed 0) (\<lambda>amm. amm_key amm = FRAUD_SOL_POOL))"

definition it_sol_pool_from_keyed_account_rejects_short_data :: "pda_fn \<Rightarrow> bool" where
  "it_sol_pool_from_keyed_account_rejects_short_data pda \<longleftrightarrow>
     (let keyed = test_keyed_account CRIME_SOL_POOL (replicate 50 0) AMM_PROGRAM_ID
      in is_err (pool_from_keyed_account pda keyed 0))"

section \<open>From construction to quotes\<close>

definition it_full_lifecycle_crime_pool_buy :: "pda_fn \<Rightarrow> 'm mint_lib \<Rightarrow> pubkey \<Rightarrow> pubkey \<Rightarrow> bool" where
  "it_full_lifecycle_crime_pool_buy pda lib va vb \<longleftrightarrow>
     (let pool_data = mock_pool_state_bytes CRIME_MINT va vb 100000000000 500000000000 100;
          keyed = test_keyed_account CRIME_SOL_POOL pool_data AMM_PROGRAM_ID
      in unwrap (pool_from_keyed_account pda keyed 0) (\<lambda>amm.
         let epoch_data = mock_epoch_state_bytes 400 1400 1400 400;
             accounts = build_account_map [(CRIME_SOL_POOL, pool_data, AMM_PROGRAM_ID),
               (EPOCH_STATE_PDA, epoch_data, EPOCH_PROGRAM_ID)] Map.empty;
             (amm, updated) = pool_update lib accounts amm
         in unwrap updated (\<lambda>_.
            unwrap (ask_pool amm (exact_in 1000000000 NATIVE_MINT CRIME_MINT)) (\<lambda>q.
              out_amount q > 0 \<and> fee_amount q > 0))))"

definition it_full_lifecycle_fraud_pool_sell :: "pda_fn \<Rightarrow> 'm mint_lib \<Rightarrow> pubkey \<Rightarrow> pubkey \<Rightarrow> bool" where
  "it_full_lifecycle_fraud_pool_sell pda lib va vb \<longleftrightarrow>
     (let pool_data = mock_pool_state_bytes FRAUD_MINT va vb 100000000000 500000000000 100;
          keyed = test_keyed_account FRAUD_SOL_POOL pool_data AMM_PROGRAM_ID
      in unwrap (pool_from_keyed_account pda keyed 0) (\<lambda>amm.
         let epoch_data = mock_epoch_state_bytes 400 1400 1400 400;
             accounts = build_account_map [(FRAUD_SOL_POOL, pool_data, AMM_PROGRAM_ID),
               (EPOCH_STATE_PDA, epoch_data, EPOCH_PROGRAM_ID)] Map.empty;
             (amm, updated) = pool_update lib accounts amm
         in unwrap updated (\<lambda>_.
            unwrap (ask_pool amm (exact_in 10000000000 FRAUD_MINT NATIVE_MINT)) (\<lambda>q. out_amount q > 0))))"

definition it_update_missing_pool_errors :: "pda_fn \<Rightarrow> 'm mint_lib \<Rightarrow> pubkey \<Rightarrow> pubkey \<Rightarrow> bool" where
  "it_update_missing_pool_errors pda lib va vb \<longleftrightarrow>
     (let pool_data = mock_pool_state_bytes CRIME_MINT va vb 100000000000 500000000000 100;
          keyed = test_keyed_account CRIME_SOL_POOL pool_data AMM_PROGRAM_ID
      in unwrap (pool_from_keyed_account pda keyed 0) (\<lambda>amm. is_err (snd (pool_update lib Map.empty amm))))"

definition it_update_missing_epoch_errors :: "pda_fn \<Rightarrow> 'm mint_lib \<Rightarrow> pubkey \<Rightarrow> pubkey \<Rightarrow> bool" where
  "it_update_missing_epoch_errors pda lib va vb \<longleftrightarrow>
     (let pool_data = mock_pool_state_bytes CRIME_MINT va vb 100000000000 500000000000 100;
          keyed = test_keyed_account CRIME_SOL_POOL pool_data AMM_PROGRAM_ID
      in unwrap (pool_from_keyed_account pda keyed 0) (\<lambda>amm.
         let accounts = build_account_map [(CRIME_SOL_POOL, pool_data, AMM_PROGRAM_ID)] Map.empty
         in is_err (snd (pool_update lib accounts amm))))"

definition it_vault_update_missing_config_errors :: "pda_fn \<Rightarrow> bool" where
  "it_vault_update_missing_config_errors pda \<longleftrightarrow> with_instance pda 0 (\<lambda>amm. is_err (snd (vault_update Map.empty amm)))"

definition it_vault_update_empty_config_errors :: "pda_fn \<Rightarrow> bool" where
  "it_vault_update_empty_config_errors pda \<longleftrightarrow> with_instance pda 0 (\<lambda>amm.
     let accounts = build_account_map [(VAULT_CONFIG_PDA, [], CONVERSION_VAULT_PROGRAM_ID)] Map.empty
     in is_err (snd (vault_update accounts amm)))"

section \<open>Mints and accounts\<close>

definition it_crime_pool_reserve_mints :: bool where
  "it_crime_pool_reserve_mints \<longleftrightarrow> unwrap (make_amm True 1 1 400 1400) (\<lambda>amm.
     pool_get_reserve_mints amm = [NATIVE_MINT, CRIME_MINT])"

definition it_fraud_pool_reserve_mints :: bool where
  "it_fraud_pool_reserve_mints \<longleftrightarrow> unwrap (make_amm False 1 1 400 1400) (\<lambda>amm.
     pool_get_reserve_mints amm = [NATIVE_MINT, FRAUD_MINT])"

definition it_vault_reserve_mints_all_directions :: "pda_fn \<Rightarrow> bool" where
  "it_vault_reserve_mints_all_directions pda \<longleftrightarrow>
     unwrap (known_instances pda) (\<lambda>instances.
       let expected = [(CRIME_MINT, PROFIT_MINT), (FRAUD_MINT, PROFIT_MINT), (PROFIT_MINT, CRIME_MINT), (PROFIT_MINT, FRAUD_MINT)]
       in \<forall>((key, amm), (exp_in, exp_out)) \<in> set (zip instances expected). vault_get_reserve_mints amm = [exp_in, exp_out])"

definition it_sol_pool_accounts_to_update :: bool where
  "it_sol_pool_accounts_to_update \<longleftrightarrow> unwrap (make_amm True 1 1 400 1400) (\<lambda>amm.
     let accounts = pool_get_accounts_to_update amm
     in length accounts = 2 \<and> accounts ! 0 = CRIME_SOL_POOL \<and> accounts ! 1 = EPOCH_STATE_PDA)"

definition it_vault_accounts_to_update :: "pda_fn \<Rightarrow> bool" where
  "it_vault_accounts_to_update pda \<longleftrightarrow> for_instances pda (\<lambda>amm.
     let accounts = vault_get_accounts_to_update amm in length accounts = 2 \<and> accounts ! 0 = VAULT_CONFIG_PDA)"

section \<open>Clones and repeated quotes\<close>

definition it_clone_amm_preserves_state :: bool where
  "it_clone_amm_preserves_state \<longleftrightarrow> unwrap (make_amm True 100000000000 500000000000 400 1400) (\<lambda>amm.
     let cloned = pool_clone_amm amm in
     unwrap (ask_pool amm (exact_in 1000000000 NATIVE_MINT CRIME_MINT)) (\<lambda>q_original.
     unwrap (dyn_quote (clocks_at 0) cloned (exact_in 1000000000 NATIVE_MINT CRIME_MINT)) (\<lambda>q_cloned.
       out_amount q_original = out_amount q_cloned)))"

definition it_quote_many_inputs_no_accumulation :: "pda_fn \<Rightarrow> bool" where
  "it_quote_many_inputs_no_accumulation pda \<longleftrightarrow>
     unwrap (make_amm True 100000000000 1000000000000 400 1400) (\<lambda>amm.
       \<forall>amount \<in> set [1, 100, 1000, 1000000, 1000000000, 100000000000].
         if_ok (ask_pool amm (exact_in amount NATIVE_MINT CRIME_MINT)) (\<lambda>q. True)) \<and>
     unwrap (vault_new_for_testing pda CRIME_MINT PROFIT_MINT) (\<lambda>vault.
       \<forall>amount \<in> set [100, 1000, 10000, 1000000, 1000000000].
         if_ok (vault_quote vault (exact_in amount CRIME_MINT PROFIT_MINT)) (\<lambda>q. True))"

section \<open>Taxes at the limits\<close>

definition it_max_tax_50pct_still_produces_output :: bool where
  "it_max_tax_50pct_still_produces_output \<longleftrightarrow> unwrap (make_amm True 100000000000 100000000000 5000 5000) (\<lambda>amm.
     unwrap (ask_pool amm (exact_in 1000000000 NATIVE_MINT CRIME_MINT)) (\<lambda>q.
       out_amount q > 0 \<and> fee_amount q \<ge> 500000000))"

definition it_zero_tax_higher_output :: bool where
  "it_zero_tax_higher_output \<longleftrightarrow>
     unwrap (make_amm True 100000000000 100000000000 400 1400) (\<lambda>amm_taxed.
     unwrap (make_amm True 100000000000 100000000000 0 0) (\<lambda>amm_no_tax.
     unwrap (ask_pool amm_taxed (exact_in 1000000000 NATIVE_MINT CRIME_MINT)) (\<lambda>q_taxed.
     unwrap (ask_pool amm_no_tax (exact_in 1000000000 NATIVE_MINT CRIME_MINT)) (\<lambda>q_free.
       out_amount q_free > out_amount q_taxed))))"

section \<open>Discovery\<close>

definition it_arbitrary_amm_owned_data_never_panics :: "pda_fn \<Rightarrow> pubkey \<Rightarrow> bytes \<Rightarrow> bool" where
  "it_arbitrary_amm_owned_data_never_panics pda key data \<longleftrightarrow>
     if_ok (pool_from_keyed_account pda (test_keyed_account key data AMM_PROGRAM_ID) 0) (\<lambda>_. True)"

definition it_every_canonical_faction_pool_shape_is_discoverable ::
    "pda_fn \<Rightarrow> pubkey \<Rightarrow> bool \<Rightarrow> bool \<Rightarrow> u64 \<Rightarrow> u64 \<Rightarrow> pubkey \<Rightarrow> pubkey \<Rightarrow> bool" where
  "it_every_canonical_faction_pool_shape_is_discoverable pda quote_key use_fraud quote_is_token_2022 ra rb va vb \<longleftrightarrow>
     (let faction = (if use_fraud then FRAUD_MINT else CRIME_MINT) in
      quote_key \<noteq> faction \<and> quote_key \<noteq> CRIME_MINT \<and> quote_key \<noteq> FRAUD_MINT \<longrightarrow>
      (let quote_program = (if quote_is_token_2022 then TOKEN_2022_PROGRAM_ID else SPL_TOKEN_PROGRAM_ID);
           (ma, mb, pa, pb) =
             (if quote_key < faction then (quote_key, faction, quote_program, TOKEN_2022_PROGRAM_ID)
              else (faction, quote_key, TOKEN_2022_PROGRAM_ID, quote_program));
           (pool, _) = pda [ascii_bytes ''pool'', as_ref ma, as_ref mb] AMM_PROGRAM_ID;
           data = discovery_bytes ma mb va vb ra rb pa pb
       in unwrap (pool_from_keyed_account pda (test_keyed_account pool data AMM_PROGRAM_ID) 0) (\<lambda>discovered.
            amm_key discovered = pool \<and> pool_get_reserve_mints discovered = [quote_key, faction])))"

section \<open>The model passes\<close>

text \<open>What the parsers read from the mock accounts.\<close>

lemma mock_pool_bytes_parsed:
  "pool_from_bytes (mock_pool_state_bytes token va vb rs rt fee) =
     Ok \<lparr>mint_a = NATIVE_MINT, mint_b = token, vault_a = va, vault_b = vb, reserve_a = rs, reserve_b = rt,
         lp_fee_bps = fee, initialized = True, locked = False, bump = 0, vault_a_bump = 0, vault_b_bump = 0,
         token_program_a = SPL_TOKEN_PROGRAM_ID, token_program_b = TOKEN_2022_PROGRAM_ID\<rparr>"
  by (simp add: pool_from_bytes_Ok pool_shape_def pool_view_def mock_pool_state_bytes_def Let_def slice_reads
      u16_le.dec_enc u64_le.dec_enc)

lemma discovery_bytes_parsed:
  "pool_from_bytes (discovery_bytes ma mb va vb ra rb pa pb) =
     Ok \<lparr>mint_a = ma, mint_b = mb, vault_a = va, vault_b = vb, reserve_a = ra, reserve_b = rb,
         lp_fee_bps = 100, initialized = True, locked = False, bump = 0, vault_a_bump = 0, vault_b_bump = 0,
         token_program_a = pa, token_program_b = pb\<rparr>"
  by (simp add: pool_from_bytes_Ok pool_shape_def pool_view_def discovery_bytes_def Let_def slice_reads
      u16_le.dec_enc u64_le.dec_enc)

lemma mock_epoch_bytes_parsed:
  "epoch_from_bytes (mock_epoch_state_bytes cb cs fb fs) =
     Ok \<lparr>crime_buy_tax_bps = cb, crime_sell_tax_bps = cs, fraud_buy_tax_bps = fb, fraud_sell_tax_bps = fs,
         pause_end_slot = 0, trading_paused = False, epoch_initialized = True\<rparr>"
proof -
  have "mock_epoch_state_bytes cb cs fb fs = mock_epoch_state cb cs fb fs"
    by (simp add: mock_epoch_state_bytes_def mock_epoch_state_def EPOCH_MIN_LEN_def EPOCH_INITIALIZED_OFFSET_def)
  then show ?thesis by (simp add: mock_epoch_parsed)
qed

text \<open>Constructing the two mainnet pools from their mock accounts, and refreshing them.\<close>

definition mock_pool :: "pubkey \<Rightarrow> pubkey \<Rightarrow> pubkey \<Rightarrow> u64 \<Rightarrow> u64 \<Rightarrow> pool_state" where
  "mock_pool token va vb rs rt =
     \<lparr>mint_a = NATIVE_MINT, mint_b = token, vault_a = va, vault_b = vb, reserve_a = rs, reserve_b = rt,
      lp_fee_bps = 100, initialized = True, locked = False, bump = 0, vault_a_bump = 0, vault_b_bump = 0,
      token_program_a = SPL_TOKEN_PROGRAM_ID, token_program_b = TOKEN_2022_PROGRAM_ID\<rparr>"

abbreviation canonical :: "pda_fn \<Rightarrow> pubkey \<Rightarrow> pubkey \<Rightarrow> bool" where
  "canonical pda token key \<equiv> fst (pda [ascii_bytes ''pool'', as_ref NATIVE_MINT, as_ref token] AMM_PROGRAM_ID) = key"

lemma mock_pool_constructed:
  assumes "token \<in> {CRIME_MINT, FRAUD_MINT}" and "canonical pda token key"
  shows "pool_from_keyed_account pda (test_keyed_account key (mock_pool_state_bytes token va vb rs rt 100) AMM_PROGRAM_ID) 0 =
    Ok (fresh_amm key (mock_pool token va vb rs rt) 0)"
proof -
  have "NATIVE_MINT < token" using assms(1) test_key_order by (auto simp: less_pubkey_def)
  then show ?thesis
    using assms by (auto simp: from_keyed_account_Ok test_keyed_account_def mock_pool_bytes_parsed mock_pool_def
        admissible_pool_def)
qed

lemma mock_pool_refreshed:
  assumes "token \<in> {CRIME_MINT, FRAUD_MINT}" and "key \<noteq> EPOCH_STATE_PDA"
  shows "pool_update lib
      (build_account_map [(key, mock_pool_state_bytes token va vb rs rt 100, AMM_PROGRAM_ID),
         (EPOCH_STATE_PDA, mock_epoch_state_bytes cb cs fb fs, EPOCH_PROGRAM_ID)] Map.empty)
      (fresh_amm key (mock_pool token va vb rs rt) 0) =
    (refreshed (mock_pool token va vb rs rt)
      \<lparr>crime_buy_tax_bps = cb, crime_sell_tax_bps = cs, fraud_buy_tax_bps = fb, fraud_sell_tax_bps = fs,
       pause_end_slot = 0, trading_paused = False, epoch_initialized = True\<rparr>
      (fresh_amm key (mock_pool token va vb rs rt) 0), Ok ())"
  using assms
  by (auto simp: pool_update_Ok refresh_reads_def fresh_amm_def mock_pool_def mock_pool_bytes_parsed
      mock_epoch_bytes_parsed)

lemma mainnet_keys: "CRIME_SOL_POOL \<noteq> EPOCH_STATE_PDA" "FRAUD_SOL_POOL \<noteq> EPOCH_STATE_PDA"
  by (simp_all add: pubkey_eq_iff address_bytes)

text \<open>A refresh that the accounts do not allow is an error.\<close>

lemma refresh_refused:
  assumes "\<And>p e. \<not> refresh_reads lib m s p e"
  shows "is_err (snd (pool_update lib m s))"
proof -
  have "snd (pool_update lib m s) \<noteq> Ok ()"
    using assms pool_update_Ok [of lib m s "fst (pool_update lib m s)"] by (metis prod.collapse)
  then show ?thesis
    using pool_update_not_Panic [of lib m s] by (cases "snd (pool_update lib m s)") (simp_all add: assertion_defs)
qed

lemma construction_from_mainnet_keys:
  assumes "canonical pda CRIME_MINT CRIME_SOL_POOL" and "canonical pda FRAUD_MINT FRAUD_SOL_POOL"
  shows "it_sol_pool_from_keyed_account_crime pda va vb" and "it_sol_pool_from_keyed_account_fraud pda va vb"
    and "it_update_missing_pool_errors pda lib va vb" and "it_update_missing_epoch_errors pda lib va vb"
proof -
  note constructed = mock_pool_constructed [of CRIME_MINT] mock_pool_constructed [of FRAUD_MINT]
  show "it_sol_pool_from_keyed_account_crime pda va vb" and "it_sol_pool_from_keyed_account_fraud pda va vb"
    using assms by (simp_all add: it_sol_pool_from_keyed_account_crime_def it_sol_pool_from_keyed_account_fraud_def
        constructed fresh_amm_def pool_label_def PROGRAM_ID_TO_LABELS_def split_beta)
  show "it_update_missing_pool_errors pda lib va vb" and "it_update_missing_epoch_errors pda lib va vb"
    using assms mainnet_keys
    by (auto simp: it_update_missing_pool_errors_def it_update_missing_epoch_errors_def constructed Let_def
        refresh_reads_def intro!: refresh_refused)
qed

lemma full_lifecycles:
  assumes "canonical pda CRIME_MINT CRIME_SOL_POOL" and "canonical pda FRAUD_MINT FRAUD_SOL_POOL"
  shows "it_full_lifecycle_crime_pool_buy pda lib va vb" and "it_full_lifecycle_fraud_pool_sell pda lib va vb"
proof -
  note view = refreshed_def with_epoch_def fresh_amm_def mock_pool_def is_crime_def get_tax_bps_def
  have factions: "CRIME_MINT \<in> {CRIME_MINT, FRAUD_MINT}" "FRAUD_MINT \<in> {CRIME_MINT, FRAUD_MINT}" by simp_all
  have crime: "pool_from_keyed_account pda (test_keyed_account CRIME_SOL_POOL
        (mock_pool_state_bytes CRIME_MINT va vb rs rt 100) AMM_PROGRAM_ID) 0 =
      Ok (fresh_amm CRIME_SOL_POOL (mock_pool CRIME_MINT va vb rs rt) 0)" for rs rt
    by (rule mock_pool_constructed) (simp_all add: assms)
  show "it_full_lifecycle_crime_pool_buy pda lib va vb"
    unfolding it_full_lifecycle_crime_pool_buy_def Let_def crime unwrap.simps
      mock_pool_refreshed [OF factions(1) mainnet_keys(1)] case_prod_conv
    by (simp add: view amm_evaluation)
  have fraud: "pool_from_keyed_account pda (test_keyed_account FRAUD_SOL_POOL
        (mock_pool_state_bytes FRAUD_MINT va vb rs rt 100) AMM_PROGRAM_ID) 0 =
      Ok (fresh_amm FRAUD_SOL_POOL (mock_pool FRAUD_MINT va vb rs rt) 0)" for rs rt
    by (rule mock_pool_constructed) (simp_all add: assms)
  show "it_full_lifecycle_fraud_pool_sell pda lib va vb"
    unfolding it_full_lifecycle_fraud_pool_sell_def Let_def fraud unwrap.simps
      mock_pool_refreshed [OF factions(2) mainnet_keys(2)] case_prod_conv
    by (simp add: view amm_evaluation)
qed

lemma short_data_rejected: "it_sol_pool_from_keyed_account_rejects_short_data pda"
  by (simp add: it_sol_pool_from_keyed_account_rejects_short_data_def test_keyed_account_def
      pool_from_keyed_account_def pool_from_bytes_def POOL_STATE_LEN_def assertion_defs)

lemma vault_lifecycle_tests:
  "it_vault_update_missing_config_errors pda" "it_vault_update_empty_config_errors pda"
  "it_vault_reserve_mints_all_directions pda" "it_vault_accounts_to_update pda"
  by (simp_all add: it_vault_update_missing_config_errors_def it_vault_update_empty_config_errors_def
      it_vault_reserve_mints_all_directions_def it_vault_accounts_to_update_def for_instances_iff
      known_instances_eq instance_evaluation vault_method_defs vault_update_eq)

lemma pool_method_lifecycle_tests:
  "it_crime_pool_reserve_mints" "it_fraud_pool_reserve_mints" "it_sol_pool_accounts_to_update"
  by (simp_all add: it_crime_pool_reserve_mints_def it_fraud_pool_reserve_mints_def it_sol_pool_accounts_to_update_def
      pool_get_reserve_mints_def pool_get_accounts_to_update_def amm_evaluation)

lemma if_ok_any: "r \<noteq> Panic \<Longrightarrow> if_ok r (\<lambda>q. True)"
  by (cases r) simp_all

lemma clone_and_repeat_tests:
  "it_clone_amm_preserves_state" "it_quote_many_inputs_no_accumulation pda"
proof -
  show "it_clone_amm_preserves_state"
    by (simp add: it_clone_amm_preserves_state_def pool_clone_amm_def amm_evaluation)
  show "it_quote_many_inputs_no_accumulation pda"
    unfolding it_quote_many_inputs_no_accumulation_def make_amm_def new_for_testing_Ok unwrap.simps
      for_testing_eq [OF example_edges(1)]
    by (intro conjI ballI if_ok_any pool_quote_not_Panic vault_quote_not_Panic)
qed

lemma tax_limit_tests: "it_max_tax_50pct_still_produces_output" "it_zero_tax_higher_output"
  by (simp_all add: it_max_tax_50pct_still_produces_output_def it_zero_tax_higher_output_def amm_evaluation)

text \<open>The sampled properties, for all inputs.\<close>

lemma discovery_never_panics: "it_arbitrary_amm_owned_data_never_panics pda key data"
  using from_keyed_account_not_Panic [of pda "test_keyed_account key data AMM_PROGRAM_ID" 0]
  by (cases "pool_from_keyed_account pda (test_keyed_account key data AMM_PROGRAM_ID) 0")
     (simp_all add: it_arbitrary_amm_owned_data_never_panics_def)

text \<open>
  The second one holds for every quote mint but one: WSOL under the Token-2022 program is refused, which
  a sample of random keys never meets.
\<close>

lemma constructed_unwrap:
  assumes "pool_from_bytes data = Ok p"
  shows "unwrap (pool_from_keyed_account pda (test_keyed_account key data AMM_PROGRAM_ID) 0) t \<longleftrightarrow>
    admissible_pool pda key p \<and> t (fresh_amm key p 0)"
proof -
  let ?r = "pool_from_keyed_account pda (test_keyed_account key data AMM_PROGRAM_ID) 0"
  have "?r = Ok s \<longleftrightarrow> admissible_pool pda key p \<and> s = fresh_amm key p 0" for s
    using from_keyed_account_parsed [of "test_keyed_account key data AMM_PROGRAM_ID" p pda 0 s] assms
    by (simp add: test_keyed_account_def)
  then show ?thesis by (cases ?r) (simp_all, metis+)
qed

lemma canonical_shapes_discovered:
  assumes "quote_key \<notin> {CRIME_MINT, FRAUD_MINT}"
  shows "it_every_canonical_faction_pool_shape_is_discoverable pda quote_key use_fraud quote_is_token_2022 ra rb va vb \<longleftrightarrow>
     \<not> (quote_key = NATIVE_MINT \<and> quote_is_token_2022)"
proof -
  let ?faction = "if use_fraud then FRAUD_MINT else CRIME_MINT"
  have "quote_key < ?faction \<or> ?faction < quote_key \<and> \<not> quote_key < ?faction" using assms by (auto simp: neq_iff)
  moreover have "quote_key \<noteq> CRIME_MINT" "quote_key \<noteq> FRAUD_MINT" "\<not> faction_mint quote_key" "faction_mint ?faction"
    using assms by (simp_all add: faction_mint_def)
  ultimately show ?thesis
    unfolding it_every_canonical_faction_pool_shape_is_discoverable_def Let_def
    by (cases use_fraud; cases quote_is_token_2022; elim disjE conjE)
       (simp_all add: split_beta constructed_unwrap [OF discovery_bytes_parsed] admissible_pool_def fresh_amm_def
        pool_get_reserve_mints_def eq_commute [of "_ :: pubkey" quote_key])
qed

end
