(* ===== verification/Test_Vectors_State.thy ===== *)
theory Test_Vectors_State
  imports Test_Vectors_Math Instruction Epoch_State Token_Account
begin

text \<open>
  The unit tests of \<open>instruction.rs\<close>, \<open>state/pool_state.rs\<close>, \<open>state/epoch_state.rs\<close> and
  \<open>state/token_account.rs\<close>, as executable predicates under the names of the test functions with
  \<open>test_\<close> in front (and the module's name where two modules use the same one).  Keys from
  \<open>Pubkey::new_unique\<close> are arguments.  SHA-256 is an argument of the discriminator tests, so what
  is proved of them is which digests they come down to.  Where a test looks for words in an
  error's text, the predicate asks for the error value that has that text.
\<close>

section \<open>Instructions\<close>

definition TEST_VECTORS :: "(tax_swap_lane \<times> string \<times> bytes) list" where
  "TEST_VECTORS =
     [(SolBuy, ''swap_sol_buy'', [158, 213, 169, 65, 11, 116, 176, 25]),
      (SolBuyWsol, ''swap_sol_buy_wsol'', [10, 131, 6, 8, 42, 57, 81, 88]),
      (SolSell, ''swap_sol_sell'', [136, 242, 218, 149, 17, 222, 250, 240]),
      (SplBuy, ''swap_spl_buy'', [145, 254, 202, 19, 150, 31, 185, 146]),
      (SplSell, ''swap_spl_sell'', [250, 17, 196, 68, 180, 202, 218, 155])]"

definition test_discriminators_match_anchor_preimages :: "(bytes \<Rightarrow> bytes) \<Rightarrow> bool" where
  "test_discriminators_match_anchor_preimages sha256 \<longleftrightarrow>
     (\<forall>(lane, name, expected) \<in> set TEST_VECTORS.
        let hash = sha256 (ascii_bytes (''global:'' @ name)) in
        discriminator lane = expected \<and>
        unwrap (slice_at hash 0 8 :: (bytes, unit) outcome) (\<lambda>h. discriminator lane = h)) \<and>
     (let vault_hash = sha256 (ascii_bytes ''global:convert_v2'') in
      unwrap (slice_at vault_hash 0 8 :: (bytes, unit) outcome) (\<lambda>h. CONVERT_V2_DISCRIMINATOR = h))"

definition test_instruction_data_has_stable_argument_order :: bool where
  "test_instruction_data_has_stable_argument_order \<longleftrightarrow>
     (let amount_in = 0x0102030405060708; minimum_output = 0x1112131415161718 in
      \<forall>(lane, _, disc) \<in> set TEST_VECTORS.
        let encoded = encode lane amount_in minimum_output True in
        take 8 encoded = disc \<and>
        sub_slice encoded 8 16 = to_le_bytes amount_in \<and>
        sub_slice encoded 16 24 = to_le_bytes minimum_output \<and>
        (if has_faction_witness lane then drop 24 encoded = [1] else length encoded = 24))"

definition test_sol_lane_encodes_faction_boolean :: bool where
  "test_sol_lane_encodes_faction_boolean \<longleftrightarrow>
     encode SolBuy 1 2 True ! 24 = 1 \<and> encode SolSell 1 2 False ! 24 = 0 \<and> length (encode SolBuyWsol 1 2 True) = 24"

definition test_lane_selection_is_explicit_for_sol_spl_and_direction :: "pubkey \<Rightarrow> pubkey \<Rightarrow> bool" where
  "test_lane_selection_is_explicit_for_sol_spl_and_direction faction spl_quote \<longleftrightarrow>
     for_mints NATIVE_MINT faction NATIVE_MINT faction = Some SolBuyWsol \<and>
     for_mints NATIVE_MINT faction faction NATIVE_MINT = Some SolSell \<and>
     for_mints spl_quote faction spl_quote faction = Some SplBuy \<and>
     for_mints spl_quote faction faction spl_quote = Some SplSell \<and>
     for_mints spl_quote faction faction faction = None"

definition test_vault_convert_v2_encodes_exact_and_delta_modes :: bool where
  "test_vault_convert_v2_encodes_exact_and_delta_modes \<longleftrightarrow>
     (let exact = encode_exact 11 22; delta = encode_delta 33 44 in
      take 8 exact = CONVERT_V2_DISCRIMINATOR \<and>
      sub_slice exact 8 16 = to_le_bytes (11 :: u64) \<and> sub_slice exact 16 24 = to_le_bytes (22 :: u64) \<and>
      sub_slice exact 24 32 = to_le_bytes (0 :: u64) \<and>
      sub_slice delta 8 16 = to_le_bytes (0 :: u64) \<and> sub_slice delta 16 24 = to_le_bytes (33 :: u64) \<and>
      sub_slice delta 24 32 = to_le_bytes (44 :: u64))"

lemma vectors_are_discriminators: "\<forall>(lane, name, disc) \<in> set TEST_VECTORS. discriminator lane = disc"
  by (simp add: TEST_VECTORS_def discriminator_defs)

lemma instruction_tests:
  "test_instruction_data_has_stable_argument_order" "test_sol_lane_encodes_faction_boolean"
  "test_vault_convert_v2_encodes_exact_and_delta_modes"
  "distinct [faction, spl_quote, NATIVE_MINT] \<Longrightarrow>
     test_lane_selection_is_explicit_for_sol_spl_and_direction faction spl_quote"
proof -
  have "drop 24 (encode lane a m True) = [1]" if "has_faction_witness lane" for lane a m
    using that by (simp add: encode_def Let_def)
  then show "test_instruction_data_has_stable_argument_order"
    using vectors_are_discriminators
    by (auto simp: test_instruction_data_has_stable_argument_order_def take_encode encode_fields length_encode)
  show "test_sol_lane_encodes_faction_boolean"
    by (simp add: test_sol_lane_encodes_faction_boolean_def encode_fields length_encode)
  show "test_vault_convert_v2_encodes_exact_and_delta_modes"
    by (simp add: test_vault_convert_v2_encodes_exact_and_delta_modes_def encode_exact_def encode_delta_def
        encode_convert_fields)
  show "test_lane_selection_is_explicit_for_sol_spl_and_direction faction spl_quote"
    if "distinct [faction, spl_quote, NATIVE_MINT]"
    using that by (auto simp: test_lane_selection_is_explicit_for_sol_spl_and_direction_def for_mints_def)
qed

text \<open>The discriminator test comes down to the six digests.\<close>

lemma discriminator_test_iff:
  assumes "\<And>bs. 8 \<le> length (sha256 bs)"
  shows "test_discriminators_match_anchor_preimages sha256 \<longleftrightarrow>
    (\<forall>(lane, name, expected) \<in> set TEST_VECTORS. take 8 (sha256 (ascii_bytes (''global:'' @ name))) = expected) \<and>
    take 8 (sha256 (ascii_bytes ''global:convert_v2'')) = CONVERT_V2_DISCRIMINATOR"
proof -
  have s: "slice_at (sha256 bs) 0 8 = Ok (take 8 (sha256 bs))" for bs
    using assms by (simp add: slice_at_def sub_slice_def)
  show ?thesis
    using vectors_are_discriminators
    by (fastforce simp: test_discriminators_match_anchor_preimages_def s Let_def)
qed

section \<open>PoolState\<close>

definition test_pool_state_discriminator_matches_sha256 :: "(bytes \<Rightarrow> bytes) \<Rightarrow> bool" where
  "test_pool_state_discriminator_matches_sha256 sha256 \<longleftrightarrow>
     (let hash = sha256 (ascii_bytes ''account:PoolState'') in
      unwrap (slice_at hash 0 8 :: (bytes, unit) outcome) (\<lambda>h. h = POOL_STATE_DISCRIMINATOR))"

definition test_parse_normal_order_sol_pool :: "pubkey \<Rightarrow> pubkey \<Rightarrow> pubkey \<Rightarrow> bool" where
  "test_parse_normal_order_sol_pool token va vb \<longleftrightarrow>
     (let data = mock_pool_state NATIVE_MINT token va vb 100000000 500000000 100 in
      unwrap (pool_from_bytes data) (\<lambda>parsed.
        mint_a parsed = NATIVE_MINT \<and> mint_b parsed = token \<and> vault_a parsed = va \<and> vault_b parsed = vb \<and>
        reserve_a parsed = 100000000 \<and> reserve_b parsed = 500000000 \<and> lp_fee_bps parsed = 100 \<and>
        initialized parsed \<and> \<not> locked parsed \<and>
        token_program_a parsed = SPL_TOKEN_PROGRAM_ID \<and> token_program_b parsed = TOKEN_2022_PROGRAM_ID \<and>
        is_sol_pool parsed \<and> token_mint parsed = Some token \<and>
        sol_and_token_reserves parsed = (100000000, 500000000) \<and> sol_and_token_vaults parsed = (va, vb)))"

definition test_parse_reversed_order_pool :: "pubkey \<Rightarrow> pubkey \<Rightarrow> pubkey \<Rightarrow> bool" where
  "test_parse_reversed_order_pool token va vb \<longleftrightarrow>
     (let data = mock_pool_state token NATIVE_MINT va vb 500000000 100000000 100 in
      unwrap (pool_from_bytes data) (\<lambda>parsed.
        is_sol_pool parsed \<and> token_mint parsed = Some token \<and>
        sol_and_token_reserves parsed = (100000000, 500000000) \<and> sol_and_token_vaults parsed = (vb, va)))"

definition test_non_sol_pool_has_no_token_mint :: "pubkey \<Rightarrow> pubkey \<Rightarrow> pubkey \<Rightarrow> pubkey \<Rightarrow> bool" where
  "test_non_sol_pool_has_no_token_mint m1 m2 va vb \<longleftrightarrow>
     (let data = mock_pool_state m1 m2 va vb 1 1 100 in
      unwrap (pool_from_bytes data) (\<lambda>parsed. \<not> is_sol_pool parsed \<and> token_mint parsed = None))"

definition test_pool_reject_too_short :: bool where
  "test_pool_reject_too_short \<longleftrightarrow> (let data = replicate 100 0 in is_err (pool_from_bytes data))"

definition test_reject_wrong_discriminator :: "pubkey \<Rightarrow> pubkey \<Rightarrow> pubkey \<Rightarrow> bool" where
  "test_reject_wrong_discriminator token va vb \<longleftrightarrow>
     (let data = mock_pool_state NATIVE_MINT token va vb 1 1 100;
          data = data[0 := Bit_Operations.xor (data ! 0) 0xFF]
      in unwrap_err (pool_from_bytes data) (\<lambda>err.
        case err of PoolStateError (PoolDiscriminator d) \<Rightarrow> True | _ \<Rightarrow> False))"

definition test_lp_fee_parsed_correctly :: "pubkey \<Rightarrow> pubkey \<Rightarrow> pubkey \<Rightarrow> bool" where
  "test_lp_fee_parsed_correctly token va vb \<longleftrightarrow>
     (let data = mock_pool_state NATIVE_MINT token va vb 1 1 50 in
      unwrap (pool_from_bytes data) (\<lambda>parsed. lp_fee_bps parsed = 50))"

lemma mock_pool_parsed:
  "pool_from_bytes (mock_pool_state ma mb va vb ra rb fee) = Ok (pool_view (mock_pool_state ma mb va vb ra rb fee))"
  by (simp add: pool_from_bytes_Ok mock_shape)

lemma pool_state_tests:
  "token \<noteq> NATIVE_MINT \<Longrightarrow> test_parse_normal_order_sol_pool token va vb"
  "token \<noteq> NATIVE_MINT \<Longrightarrow> test_parse_reversed_order_pool token va vb"
  "m1 \<noteq> NATIVE_MINT \<Longrightarrow> m2 \<noteq> NATIVE_MINT \<Longrightarrow> test_non_sol_pool_has_no_token_mint m1 m2 va vb"
  "test_lp_fee_parsed_correctly token va vb"
  by (simp_all add: test_parse_normal_order_sol_pool_def test_parse_reversed_order_pool_def
      test_non_sol_pool_has_no_token_mint_def test_lp_fee_parsed_correctly_def mock_pool_parsed mock_view
      token_program_for_def is_sol_pool_def token_mint_def sol_and_token_reserves_def sol_and_token_vaults_def)

lemma pool_refusal_tests: "test_pool_reject_too_short" "test_reject_wrong_discriminator token va vb"
proof -
  show "test_pool_reject_too_short"
    by (simp add: test_pool_reject_too_short_def pool_from_bytes_def POOL_STATE_LEN_def assertion_defs)
  let ?m = "mock_pool_state NATIVE_MINT token va vb 1 1 100"
  have "?m ! 0 = sub_slice ?m 0 8 ! 0" by (simp add: nth_sub_slice)
  then have first: "?m ! 0 = POOL_STATE_DISCRIMINATOR ! 0" by (simp add: mock_slices)
  have "sub_slice (?m[0 := x]) 0 8 ! 0 = x" for x by (simp add: nth_sub_slice)
  then have "sub_slice (?m[0 := x]) 0 8 \<noteq> POOL_STATE_DISCRIMINATOR" if "x \<noteq> POOL_STATE_DISCRIMINATOR ! 0" for x
    using that by metis
  moreover have "Bit_Operations.xor (POOL_STATE_DISCRIMINATOR ! 0) 0xFF \<noteq> POOL_STATE_DISCRIMINATOR ! 0"
    by (simp add: POOL_STATE_DISCRIMINATOR_def)
  ultimately show "test_reject_wrong_discriminator token va vb"
    by (simp add: test_reject_wrong_discriminator_def pool_from_bytes_def POOL_STATE_LEN_def first)
qed

section \<open>EpochState\<close>

definition test_discriminator_matches_computed :: "(bytes \<Rightarrow> bytes) \<Rightarrow> bool" where
  "test_discriminator_matches_computed sha256 \<longleftrightarrow>
     unwrap (compute_epoch_state_discriminator sha256) (\<lambda>computed. computed = EPOCH_STATE_DISCRIMINATOR)"

definition test_parse_known_tax_rates :: bool where
  "test_parse_known_tax_rates \<longleftrightarrow>
     (let data = mock_epoch_state 400 1400 1400 400 in
      unwrap (epoch_from_bytes data) (\<lambda>parsed.
        crime_buy_tax_bps parsed = 400 \<and> crime_sell_tax_bps parsed = 1400 \<and>
        fraud_buy_tax_bps parsed = 1400 \<and> fraud_sell_tax_bps parsed = 400))"

definition test_get_tax_bps_all_directions :: bool where
  "test_get_tax_bps_all_directions \<longleftrightarrow>
     (let data = mock_epoch_state 300 1200 1500 500 in
      unwrap (epoch_from_bytes data) (\<lambda>parsed.
        get_tax_bps parsed True True = 300 \<and> get_tax_bps parsed True False = 1200 \<and>
        get_tax_bps parsed False True = 1500 \<and> get_tax_bps parsed False False = 500))"

definition test_epoch_reject_too_short :: bool where
  "test_epoch_reject_too_short \<longleftrightarrow> (let data = replicate 100 0 in is_err (epoch_from_bytes data))"

definition test_pause_fields_read_exact_offsets :: bool where
  "test_pause_fields_read_exact_offsets \<longleftrightarrow>
     (let data = mock_epoch_state 100 1100 1100 100;
          slot = (0xABCDEF0123456789 :: u64);
          data = copy_at PAUSE_END_SLOT_OFFSET (to_le_bytes slot) data;
          data = data[TRADING_PAUSED_OFFSET := 1]
      in unwrap (epoch_from_bytes data) (\<lambda>parsed.
           pause_end_slot parsed = slot \<and> trading_paused parsed \<and> epoch_initialized parsed \<and>
           (let data = data[TRADING_PAUSED_OFFSET := 2] in is_err (epoch_from_bytes data))))"

text \<open>The snapshot of a live account, with \<open>u8::from_str_radix(_, 16)\<close> on its pairs of digits.\<close>

definition DEVNET_HEX :: string where
  "DEVNET_HEX =
     ''bf3f8bed900cdfd2f1fe0f1c000000003b210000cb59711c00000000002c01b0042c01b004b0042c'' @
     ''01185a711c000000000001c0ae648ed3c682e04aed6ee79d5b7b262611dd74cadccf929cd9425e0d'' @
     ''33ff93000100093e711c000000000f3d711c00000000312100000000000000000000000000000000'' @
     ''00000000000000000000000000000000000000000000000000000000000000000000000000000000'' @
     ''0000000000000000000001ff''"

fun hex_digit :: "string \<Rightarrow> nat \<Rightarrow> char \<Rightarrow> nat option" where
  "hex_digit [] n c = None"
| "hex_digit (a # as) n c = (if a = c then Some n else hex_digit as (n + 1) c)"

fun hex_bytes :: "string \<Rightarrow> bytes option" where
  "hex_bytes [] = Some []"
| "hex_bytes [c] = None"
| "hex_bytes (c # d # rest) =
     (case (hex_digit ''0123456789abcdef'' 0 c, hex_digit ''0123456789abcdef'' 0 d, hex_bytes rest) of
        (Some hi, Some lo, Some bs) \<Rightarrow> Some (word_of_nat (16 * hi + lo) # bs)
      | _ \<Rightarrow> None)"

definition test_parse_gate_active_devnet_snapshot :: bool where
  "test_parse_gate_active_devnet_snapshot \<longleftrightarrow>
     unwrap_some (hex_bytes DEVNET_HEX) (\<lambda>data.
       length data = 172 \<and>
       unwrap (epoch_from_bytes data) (\<lambda>parsed.
         crime_buy_tax_bps parsed = 300 \<and> crime_sell_tax_bps parsed = 1200 \<and>
         fraud_buy_tax_bps parsed = 1200 \<and> fraud_sell_tax_bps parsed = 300 \<and>
         pause_end_slot parsed = 0 \<and> \<not> trading_paused parsed \<and> epoch_initialized parsed))"

definition test_reject_bad_discriminator :: bool where
  "test_reject_bad_discriminator \<longleftrightarrow>
     (let data = replicate EPOCH_MIN_LEN 0;
          data = copy_at 0 (replicate 8 0xFF) data
      in is_err (epoch_from_bytes data))"

lemma epoch_rate_tests: "test_parse_known_tax_rates" "test_get_tax_bps_all_directions"
  by (simp_all add: test_parse_known_tax_rates_def test_get_tax_bps_all_directions_def mock_epoch_parsed get_tax_bps_def)

lemma epoch_refusal_tests: "test_epoch_reject_too_short" "test_reject_bad_discriminator"
proof -
  show "test_epoch_reject_too_short"
    by (simp add: test_epoch_reject_too_short_def epoch_from_bytes_def EPOCH_MIN_LEN_def assertion_defs)
  have "hd (replicate 8 (0xFF :: u8)) \<noteq> hd EPOCH_STATE_DISCRIMINATOR"
    by (simp add: EPOCH_STATE_DISCRIMINATOR_def)
  then have "replicate 8 (0xFF :: u8) \<noteq> EPOCH_STATE_DISCRIMINATOR" by metis
  then show "test_reject_bad_discriminator"
    by (simp add: test_reject_bad_discriminator_def epoch_from_bytes_def EPOCH_MIN_LEN_def assertion_defs
        sub_slice_copy_same)
qed

lemma epoch_pause_test: "test_pause_fields_read_exact_offsets"
proof -
  let ?d = "copy_at 106 (to_le_bytes (0xABCDEF0123456789 :: u64)) (mock_epoch_state 100 1100 1100 100)"
  have parsed: "epoch_from_bytes (?d[114 := v]) =
      (if v \<notin> {0, 1} then Err (EpochStateError (EpochBoolByte ''trading_paused'' v)) else Ok (epoch_view (?d[114 := v])))" for v
    by (subst epoch_from_bytes_full) (simp_all add: slice_reads mock_epoch_reads)
  have fields: "pause_end_slot (epoch_view (?d[114 := 1])) = 0xABCDEF0123456789"
    "trading_paused (epoch_view (?d[114 := 1]))" "epoch_initialized (epoch_view (?d[114 := 1]))"
    by (simp_all add: epoch_view_def slice_reads mock_epoch_reads u64_le.dec_enc)
  show ?thesis
    using fields parsed [of 1] parsed [of 2]
    by (simp add: test_pause_fields_read_exact_offsets_def offset_defs assertion_defs)
qed

lemma devnet_bytes:
  "hex_bytes DEVNET_HEX = Some
     [191, 63, 139, 237, 144, 12, 223, 210, 241, 254, 15, 28, 0, 0, 0, 0, 59, 33, 0, 0, 203, 89, 113, 28,
      0, 0, 0, 0, 0, 44, 1, 176, 4, 44, 1, 176, 4, 176, 4, 44, 1, 24, 90, 113, 28, 0, 0, 0,
      0, 0, 1, 192, 174, 100, 142, 211, 198, 130, 224, 74, 237, 110, 231, 157, 91, 123, 38, 38, 17, 221, 116, 202,
      220, 207, 146, 156, 217, 66, 94, 13, 51, 255, 147, 0, 1, 0, 9, 62, 113, 28, 0, 0, 0, 0, 15, 61,
      113, 28, 0, 0, 0, 0, 49, 33, 0, 0, 0, 0, 0, 0, 0, 0, 0, 0, 0, 0, 0, 0, 0, 0,
      0, 0, 0, 0, 0, 0, 0, 0, 0, 0, 0, 0, 0, 0, 0, 0, 0, 0, 0, 0, 0, 0, 0, 0,
      0, 0, 0, 0, 0, 0, 0, 0, 0, 0, 0, 0, 0, 0, 0, 0, 0, 0, 0, 0, 0, 0, 0, 0,
      0, 0, 1, 255]"
  unfolding DEVNET_HEX_def by code_simp

lemma devnet_snapshot_test: "test_parse_gate_active_devnet_snapshot"
  unfolding test_parse_gate_active_devnet_snapshot_def devnet_bytes unwrap_some.simps
  by (simp add: epoch_from_bytes_full epoch_view_def sub_slice_def EPOCH_STATE_DISCRIMINATOR_def from_le_bytes_def)

text \<open>The two account discriminators are what SHA-256 makes of their names, or the tests fail.\<close>

lemma account_discriminator_tests_iff:
  assumes "\<And>bs. 8 \<le> length (sha256 bs)"
  shows "test_pool_state_discriminator_matches_sha256 sha256 \<longleftrightarrow>
      take 8 (sha256 (ascii_bytes ''account:PoolState'')) = POOL_STATE_DISCRIMINATOR"
    and "test_discriminator_matches_computed sha256 \<longleftrightarrow>
      take 8 (sha256 (ascii_bytes ''account:EpochState'')) = EPOCH_STATE_DISCRIMINATOR"
  using assms
  by (simp_all add: test_pool_state_discriminator_matches_sha256_def test_discriminator_matches_computed_def
      compute_epoch_state_discriminator_def slice_at_def sub_slice_def copy_at_def Let_def)

section \<open>Token accounts\<close>

definition test_parses_amount :: "pubkey \<Rightarrow> pubkey \<Rightarrow> bool" where
  "test_parses_amount mint owner \<longleftrightarrow>
     (let data = mock_token_account mint owner 851612811341341 in
      unwrap (parse_token_account_amount data mint) (\<lambda>amount. amount = 851612811341341))"

definition test_rejects_wrong_mint :: "pubkey \<Rightarrow> pubkey \<Rightarrow> pubkey \<Rightarrow> bool" where
  "test_rejects_wrong_mint mint owner other \<longleftrightarrow>
     (let data = mock_token_account mint owner 1 in
      unwrap_err (parse_token_account_amount data other) (\<lambda>err.
        case err of TokenAccountError (TokenAccountMint expected found) \<Rightarrow> True | _ \<Rightarrow> False))"

definition test_rejects_short_data :: "pubkey \<Rightarrow> bool" where
  "test_rejects_short_data mint \<longleftrightarrow> is_err (parse_token_account_amount (replicate 40 0) mint)"

lemma token_account_tests:
  "test_parses_amount mint owner" "mint \<noteq> other \<Longrightarrow> test_rejects_wrong_mint mint owner other"
  "test_rejects_short_data mint"
  by (simp_all add: test_parses_amount_def test_rejects_wrong_mint_def test_rejects_short_data_def
      parse_token_account_eq mock_token_reads assertion_defs)

end
