(* ===== verification/Integration_Mainnet.thy ===== *)
theory Integration_Mainnet
  imports Integration_Lifecycle Integration_Structure Test_Vectors_State
begin

text \<open>
  The integration tests of \<open>tests/test_mainnet_validation.rs\<close> on account bytes captured from mainnet, as
  executable predicates under the names of the test functions with \<open>it_\<close> in front, and the proofs
  that the model passes them.  The kernel decodes the hexadecimal constants of the source and parses
  the bytes.  The address derivation is an argument, and derives the two pools' keys from their mints.
\<close>

section \<open>Captured accounts\<close>

definition CRIME_POOL_HEX :: string where
  "CRIME_POOL_HEX =
     ''f7ede3f5d7c3de4600069b8857feab8184fb687f634618c035dac439dc1aeb3b5598a0f0000000000109'' @
     ''134573ad65aad688e3a59dbac1022ea9152f3e64e6753c6c8b8f4c88d85d2700fc6d2c6f43b2c0024d48'' @
     ''a5403929af7eedecf8aab6a1aaae0c6972d120936a571fd3b6c0f3e3ff9e8a33dd5196c7d9d0d5e04608'' @
     ''be2397293746594a086542ba7385e17c000000db49fe189df9000064000100fffeff06ddf6e1d765a193'' @
     ''d9cbe146ceeb79ac1cb485ed5f5b37913a8cf5857eff00a906ddf6e1ee758fde18425dbce46ccddab61a'' @
     ''fc4d83b90d27febdf928d8a18bfc''"

definition FRAUD_POOL_HEX :: string where
  "FRAUD_POOL_HEX =
     ''f7ede3f5d7c3de4600069b8857feab8184fb687f634618c035dac439dc1aeb3b5598a0f00000000001dc'' @
     ''b6edb69e6c5568401b5cbe4ef39fb349f28a21600af3ff6570c64ec4158f102aa53245d63de0e5354ee1'' @
     ''07fbe3c25b196b14d292a9e924780cd442f5888b701aa43833c243b98db7ea60a5cec425bfee39436c07'' @
     ''cede06f7ad893b37974fb29d96ceee7b00000003db490ef6fb000064000100fffeff06ddf6e1d765a193'' @
     ''d9cbe146ceeb79ac1cb485ed5f5b37913a8cf5857eff00a906ddf6e1ee758fde18425dbce46ccddab61a'' @
     ''fc4d83b90d27febdf928d8a18bfc''"

definition EPOCH_STATE_HEX :: string where
  "EPOCH_STATE_HEX =
     ''bf3f8bed900cdfd20cf03c1800000000d40200009ca66e1800000000002c01b0042c014c04b0049001f6'' @
     ''a66e1800000000000193caf4458e03ae8b293942525851761a4a586c84d6f968d8bef5ecd9a7ae136e00'' @
     ''0000c0ac6a1800000000c6ab6a18000000009a0200000000000000000000000000000000000000000000'' @
     ''000000000000000000000000000000000000000000000000000000000000000000000000000000000000'' @
     ''000001fe''"

definition VAULT_CONFIG_HEX :: string where
  "VAULT_CONFIG_HEX =
     ''63562bd8b866774dff''"

definition VAULT_CRIME_HEX :: string where
  "VAULT_CRIME_HEX =
     ''09134573ad65aad688e3a59dbac1022ea9152f3e64e6753c6c8b8f4c88d85d2775a6588f99a6750637cb'' @
     ''0f663e04b031851c0026796d263c3650ea5ba8321ace6b9224538b060300000000000000000000000000'' @
     ''000000000000000000000000000000000000000000000000010000000000000000000000000000000000'' @
     ''000000000000000000000000000000000000000000000000000000000000000000000000000000020f00'' @
     ''010000''"

definition VAULT_FRAUD_HEX :: string where
  "VAULT_FRAUD_HEX =
     ''dcb6edb69e6c5568401b5cbe4ef39fb349f28a21600af3ff6570c64ec4158f1075a6588f99a6750637cb'' @
     ''0f663e04b031851c0026796d263c3650ea5ba8321ace48357d2d370b0300000000000000000000000000'' @
     ''000000000000000000000000000000000000000000000000010000000000000000000000000000000000'' @
     ''000000000000000000000000000000000000000000000000000000000000000000000000000000020f00'' @
     ''010000''"

definition VAULT_PROFIT_HEX :: string where
  "VAULT_PROFIT_HEX =
     ''0c26562cfbeefda2f08c5e444fad4b64a5720f5f098bd1d378ea5240f1ab344875a6588f99a6750637cb'' @
     ''0f663e04b031851c0026796d263c3650ea5ba8321ace00f326671b030000000000000000000000000000'' @
     ''000000000000000000000000000000000000000000000000010000000000000000000000000000000000'' @
     ''000000000000000000000000000000000000000000000000000000000000000000000000000000020f00'' @
     ''010000''"

definition decode_hex :: "string \<Rightarrow> bytes result" where "decode_hex h = expect (hex_bytes h)"

text \<open>
  Each test starts from the account under the pool's key (\<open>from_real_data\<close>), most then refresh the pool from
  that account and the captured EpochState (\<open>updated_from_real_data\<close>).  The test bodies write this out.
\<close>

definition from_real_data :: "pda_fn \<Rightarrow> pubkey \<Rightarrow> string \<Rightarrow> (sol_pool_amm \<Rightarrow> bool) \<Rightarrow> bool" where
  "from_real_data pda key hex t \<longleftrightarrow> unwrap (decode_hex hex) (\<lambda>data.
     let keyed = test_keyed_account key data AMM_PROGRAM_ID in unwrap (pool_from_keyed_account pda keyed 0) t)"

definition updated_from_real_data ::
    "pda_fn \<Rightarrow> 'm mint_lib \<Rightarrow> pubkey \<Rightarrow> string \<Rightarrow> (sol_pool_amm \<Rightarrow> bool) \<Rightarrow> bool" where
  "updated_from_real_data pda lib key hex t \<longleftrightarrow> from_real_data pda key hex (\<lambda>amm.
     unwrap (decode_hex hex) (\<lambda>data. unwrap (decode_hex EPOCH_STATE_HEX) (\<lambda>epoch_data.
       let m = build_account_map [(key, data, AMM_PROGRAM_ID), (EPOCH_STATE_PDA, epoch_data, EPOCH_PROGRAM_ID)] Map.empty;
           (amm, updated) = pool_update lib m amm
       in unwrap updated (\<lambda>_. t amm))))"

section \<open>Construction and refresh\<close>

definition it_crime_pool_from_keyed_account_real_data :: "pda_fn \<Rightarrow> bool" where
  "it_crime_pool_from_keyed_account_real_data pda \<longleftrightarrow> from_real_data pda CRIME_SOL_POOL CRIME_POOL_HEX (\<lambda>amm.
     amm_key amm = CRIME_SOL_POOL \<and> pool_label amm = ''Dr Fraudsworth'')"

definition it_fraud_pool_from_keyed_account_real_data :: "pda_fn \<Rightarrow> bool" where
  "it_fraud_pool_from_keyed_account_real_data pda \<longleftrightarrow> from_real_data pda FRAUD_SOL_POOL FRAUD_POOL_HEX (\<lambda>amm.
     amm_key amm = FRAUD_SOL_POOL)"

definition it_crime_pool_update_with_real_data :: "pda_fn \<Rightarrow> 'm mint_lib \<Rightarrow> bool" where
  "it_crime_pool_update_with_real_data pda lib \<longleftrightarrow>
     updated_from_real_data pda lib CRIME_SOL_POOL CRIME_POOL_HEX (\<lambda>amm. True)"

definition it_fraud_pool_update_with_real_data :: "pda_fn \<Rightarrow> 'm mint_lib \<Rightarrow> bool" where
  "it_fraud_pool_update_with_real_data pda lib \<longleftrightarrow>
     updated_from_real_data pda lib FRAUD_SOL_POOL FRAUD_POOL_HEX (\<lambda>amm. True)"

section \<open>Quotes\<close>

definition it_crime_pool_buy_quote_real_data :: "pda_fn \<Rightarrow> 'm mint_lib \<Rightarrow> bool" where
  "it_crime_pool_buy_quote_real_data pda lib \<longleftrightarrow>
     updated_from_real_data pda lib CRIME_SOL_POOL CRIME_POOL_HEX (\<lambda>amm.
     unwrap (ask_pool amm (exact_in 1000000000 NATIVE_MINT CRIME_MINT)) (\<lambda>q.
       out_amount q > 0 \<and> out_amount q < 1000000000000))"

definition it_crime_pool_sell_quote_real_data :: "pda_fn \<Rightarrow> 'm mint_lib \<Rightarrow> bool" where
  "it_crime_pool_sell_quote_real_data pda lib \<longleftrightarrow>
     updated_from_real_data pda lib CRIME_SOL_POOL CRIME_POOL_HEX (\<lambda>amm.
     unwrap (ask_pool amm (exact_in 1000000 CRIME_MINT NATIVE_MINT)) (\<lambda>q. out_amount q > 0))"

definition it_fraud_pool_buy_quote_real_data :: "pda_fn \<Rightarrow> 'm mint_lib \<Rightarrow> bool" where
  "it_fraud_pool_buy_quote_real_data pda lib \<longleftrightarrow>
     updated_from_real_data pda lib FRAUD_SOL_POOL FRAUD_POOL_HEX (\<lambda>amm.
     unwrap (ask_pool amm (exact_in 1000000000 NATIVE_MINT FRAUD_MINT)) (\<lambda>q. out_amount q > 0))"

definition it_fraud_pool_sell_quote_real_data :: "pda_fn \<Rightarrow> 'm mint_lib \<Rightarrow> bool" where
  "it_fraud_pool_sell_quote_real_data pda lib \<longleftrightarrow>
     updated_from_real_data pda lib FRAUD_SOL_POOL FRAUD_POOL_HEX (\<lambda>amm.
     unwrap (ask_pool amm (exact_in 1000000000 FRAUD_MINT NATIVE_MINT)) (\<lambda>q. out_amount q > 0))"

section \<open>The vault\<close>

text \<open>The account map that both vault tests build.\<close>

definition with_real_vault :: "(account_map \<Rightarrow> bool) \<Rightarrow> bool" where
  "with_real_vault t \<longleftrightarrow>
     unwrap (decode_hex VAULT_CONFIG_HEX) (\<lambda>config. unwrap (decode_hex VAULT_CRIME_HEX) (\<lambda>crime.
     unwrap (decode_hex VAULT_FRAUD_HEX) (\<lambda>fraud. unwrap (decode_hex VAULT_PROFIT_HEX) (\<lambda>profit.
       t (build_account_map [(VAULT_CONFIG_PDA, config, CONVERSION_VAULT_PROGRAM_ID),
            (VAULT_CRIME, crime, TOKEN_2022_PROGRAM_ID), (VAULT_FRAUD, fraud, TOKEN_2022_PROGRAM_ID),
            (VAULT_PROFIT, profit, TOKEN_2022_PROGRAM_ID)] Map.empty)))))"

definition it_vault_update_with_real_config :: "pda_fn \<Rightarrow> bool" where
  "it_vault_update_with_real_config pda \<longleftrightarrow> with_real_vault (\<lambda>m.
     for_instances pda (\<lambda>amm. is_ok (snd (vault_update m amm))))"

definition it_vault_quotes_after_real_update :: "pda_fn \<Rightarrow> bool" where
  "it_vault_quotes_after_real_update pda \<longleftrightarrow> with_real_vault (\<lambda>m.
     \<forall>(input, output, amount) \<in> set [(CRIME_MINT, PROFIT_MINT, 10000000), (FRAUD_MINT, PROFIT_MINT, 10000000),
         (PROFIT_MINT, CRIME_MINT, 100000), (PROFIT_MINT, FRAUD_MINT, 100000)].
       unwrap (vault_new_for_testing pda input output) (\<lambda>amm.
         let (amm, updated) = vault_update m amm in
         unwrap updated (\<lambda>_. unwrap (vault_quote amm (exact_in amount input output)) (\<lambda>q. out_amount q > 0))))"

section \<open>The discriminator and the pause fields\<close>

definition it_mainnet_epoch_state_pause_fields_are_open :: bool where
  "it_mainnet_epoch_state_pause_fields_are_open \<longleftrightarrow> unwrap (decode_hex EPOCH_STATE_HEX) (\<lambda>data.
     unwrap (epoch_from_bytes data) (\<lambda>parsed.
       pause_end_slot parsed = 0 \<and> \<not> trading_paused parsed \<and> epoch_initialized parsed))"

definition it_epoch_state_discriminator_matches_live :: bool where
  "it_epoch_state_discriminator_matches_live \<longleftrightarrow> unwrap (decode_hex EPOCH_STATE_HEX) (\<lambda>data.
     unwrap (slice_at data 0 8 :: bytes result) (\<lambda>live_disc. live_disc = EPOCH_STATE_DISCRIMINATOR))"

definition it_epoch_state_discriminator_matches_computed :: "(bytes \<Rightarrow> bytes) \<Rightarrow> bool" where
  "it_epoch_state_discriminator_matches_computed sha256 \<longleftrightarrow>
     unwrap (compute_epoch_state_discriminator sha256) (\<lambda>computed. computed = EPOCH_STATE_DISCRIMINATOR)"

section \<open>Account lists\<close>

definition it_get_swap_and_account_metas_buy_real_data ::
    "pda_fn \<Rightarrow> ata_fn \<Rightarrow> 'm mint_lib \<Rightarrow> pubkey \<Rightarrow> pubkey \<Rightarrow> pubkey \<Rightarrow> bool" where
  "it_get_swap_and_account_metas_buy_real_data pda ata lib user user_wsol user_token \<longleftrightarrow>
     updated_from_real_data pda lib CRIME_SOL_POOL CRIME_POOL_HEX (\<lambda>amm.
     unwrap (pool_get_swap_and_account_metas pda ata amm (swap_request NATIVE_MINT CRIME_MINT user_wsol user_token user))
       (\<lambda>result. let metas = account_metas result in
         length metas = 25 \<and> meta_pubkey (metas ! 0) = user \<and> is_signer (metas ! 0)))"

definition it_real_data_metas_equal_constant_builder_metas ::
    "pda_fn \<Rightarrow> ata_fn \<Rightarrow> pubkey \<Rightarrow> pubkey \<Rightarrow> pubkey \<Rightarrow> bool" where
  "it_real_data_metas_equal_constant_builder_metas pda ata user wsol_ata token_ata \<longleftrightarrow>
     (\<forall>(pool_key, pool_hex, is_crime, token_mint) \<in> set [(CRIME_SOL_POOL, CRIME_POOL_HEX, True, CRIME_MINT),
         (FRAUD_SOL_POOL, FRAUD_POOL_HEX, False, FRAUD_MINT)].
       from_real_data pda pool_key pool_hex (\<lambda>amm.
         unwrap (pool_get_swap_and_account_metas pda ata amm (swap_request NATIVE_MINT token_mint wsol_ata token_ata user))
           (\<lambda>generic. unwrap (build_buy_wsol_account_metas pda user wsol_ata token_ata is_crime)
             (\<lambda>wrapper. account_metas generic = wrapper)) \<and>
         unwrap (pool_get_swap_and_account_metas pda ata amm (swap_request token_mint NATIVE_MINT token_ata wsol_ata user))
           (\<lambda>generic. unwrap (build_sell_account_metas pda user token_ata wsol_ata is_crime)
             (\<lambda>wrapper. account_metas generic = wrapper))))"

section \<open>What the accounts hold\<close>

text \<open>The digits once and for all, so that decoding is rewriting.\<close>

lemma hex_table:
  "hex_digit ''0123456789abcdef'' 0 CHR ''0'' = Some 0"
  "hex_digit ''0123456789abcdef'' 0 CHR ''1'' = Some 1"
  "hex_digit ''0123456789abcdef'' 0 CHR ''2'' = Some 2"
  "hex_digit ''0123456789abcdef'' 0 CHR ''3'' = Some 3"
  "hex_digit ''0123456789abcdef'' 0 CHR ''4'' = Some 4"
  "hex_digit ''0123456789abcdef'' 0 CHR ''5'' = Some 5"
  "hex_digit ''0123456789abcdef'' 0 CHR ''6'' = Some 6"
  "hex_digit ''0123456789abcdef'' 0 CHR ''7'' = Some 7"
  "hex_digit ''0123456789abcdef'' 0 CHR ''8'' = Some 8"
  "hex_digit ''0123456789abcdef'' 0 CHR ''9'' = Some 9"
  "hex_digit ''0123456789abcdef'' 0 CHR ''a'' = Some 10"
  "hex_digit ''0123456789abcdef'' 0 CHR ''b'' = Some 11"
  "hex_digit ''0123456789abcdef'' 0 CHR ''c'' = Some 12"
  "hex_digit ''0123456789abcdef'' 0 CHR ''d'' = Some 13"
  "hex_digit ''0123456789abcdef'' 0 CHR ''e'' = Some 14"
  "hex_digit ''0123456789abcdef'' 0 CHR ''f'' = Some 15"
  by simp_all

lemmas decoding = decode_hex_def hex_table

text \<open>A PoolState account as the concatenation of its fields, and what the parser makes of it.\<close>

definition pool_bytes :: "u8 \<Rightarrow> pubkey \<Rightarrow> pubkey \<Rightarrow> pubkey \<Rightarrow> pubkey \<Rightarrow> bytes \<Rightarrow> bytes \<Rightarrow> bytes \<Rightarrow>
    u8 \<Rightarrow> u8 \<Rightarrow> u8 \<Rightarrow> pubkey \<Rightarrow> pubkey \<Rightarrow> bytes" where
  "pool_bytes kind ma mb va vb ra rb fee bmp va_bmp vb_bmp pa pb =
     POOL_STATE_DISCRIMINATOR @ [kind] @ as_ref ma @ as_ref mb @ as_ref va @ as_ref vb @ ra @ rb @ fee @
     [1, 0, bmp, va_bmp, vb_bmp] @ as_ref pa @ as_ref pb"

lemma sub_slice_append:
  "sub_slice (xs @ ys) i j =
     (if j \<le> length xs then sub_slice xs i j
      else if length xs \<le> i then sub_slice ys (i - length xs) (j - length xs)
      else sub_slice xs i (length xs) @ sub_slice ys 0 (j - length xs))"
  by (auto simp: sub_slice_def)

lemma sub_slice_Cons: "0 < i \<Longrightarrow> sub_slice (x # xs) i j = sub_slice xs (i - 1) (j - 1)"
  by (cases i; cases j) (simp_all add: sub_slice_def)

lemma sub_slice_all: "j = length xs \<Longrightarrow> sub_slice xs 0 j = xs"
  by (simp add: sub_slice_def)

lemma pool_bytes_parsed:
  assumes "length ra = 8" and "length rb = 8" and "length fee = 2"
  shows "pool_from_bytes (pool_bytes kind ma mb va vb ra rb fee bmp va_bmp vb_bmp pa pb) =
    Ok \<lparr>mint_a = ma, mint_b = mb, vault_a = va, vault_b = vb, reserve_a = from_le_bytes ra,
        reserve_b = from_le_bytes rb, lp_fee_bps = from_le_bytes fee, initialized = True, locked = False,
        bump = bmp, vault_a_bump = va_bmp, vault_b_bump = vb_bmp, token_program_a = pa, token_program_b = pb\<rparr>"
proof -
  have disc: "length POOL_STATE_DISCRIMINATOR = 8" by (simp add: POOL_STATE_DISCRIMINATOR_def)
  show ?thesis
    unfolding pool_from_bytes_Ok pool_shape_def pool_view_def pool_bytes_def
    by (simp add: sub_slice_append sub_slice_Cons sub_slice_all nth_append assms disc)
qed

lemma epoch_state_hex_bytes: "decode_hex EPOCH_STATE_HEX = Ok
     [191, 63, 139, 237, 144, 12, 223, 210, 12, 240, 60, 24, 0, 0, 0, 0, 212, 2, 0, 0, 156, 166, 110, 24, 0, 0,
      0, 0, 0, 44, 1, 176, 4, 44, 1, 76, 4, 176, 4, 144, 1, 246, 166, 110, 24, 0, 0, 0, 0, 0, 1, 147, 202, 244,
      69, 142, 3, 174, 139, 41, 57, 66, 82, 88, 81, 118, 26, 74, 88, 108, 132, 214, 249, 104, 216, 190, 245,
      236, 217, 167, 174, 19, 110, 0, 0, 0, 192, 172, 106, 24, 0, 0, 0, 0, 198, 171, 106, 24, 0, 0, 0, 0, 154,
      2, 0, 0, 0, 0, 0, 0, 0, 0, 0, 0, 0, 0, 0, 0, 0, 0, 0, 0, 0, 0, 0, 0, 0, 0, 0, 0, 0, 0, 0, 0, 0, 0, 0, 0,
      0, 0, 0, 0, 0, 0, 0, 0, 0, 0, 0, 0, 0, 0, 0, 0, 0, 0, 0, 0, 0, 0, 0, 0, 0, 0, 0, 0, 0, 0, 0, 0, 1, 254]"
  by (simp add: EPOCH_STATE_HEX_def decoding del: hex_digit.simps)

lemma vault_config_hex_bytes: "decode_hex VAULT_CONFIG_HEX = Ok
     [99, 86, 43, 216, 184, 102, 119, 77, 255]"
  by (simp add: VAULT_CONFIG_HEX_def decoding del: hex_digit.simps)

lemma vault_crime_hex_bytes: "decode_hex VAULT_CRIME_HEX = Ok
     [9, 19, 69, 115, 173, 101, 170, 214, 136, 227, 165, 157, 186, 193, 2, 46, 169, 21, 47, 62, 100, 230, 117,
      60, 108, 139, 143, 76, 136, 216, 93, 39, 117, 166, 88, 143, 153, 166, 117, 6, 55, 203, 15, 102, 62, 4,
      176, 49, 133, 28, 0, 38, 121, 109, 38, 60, 54, 80, 234, 91, 168, 50, 26, 206, 107, 146, 36, 83, 139, 6, 3,
      0, 0, 0, 0, 0, 0, 0, 0, 0, 0, 0, 0, 0, 0, 0, 0, 0, 0, 0, 0, 0, 0, 0, 0, 0, 0, 0, 0, 0, 0, 0, 0, 0, 0, 0,
      0, 0, 1, 0, 0, 0, 0, 0, 0, 0, 0, 0, 0, 0, 0, 0, 0, 0, 0, 0, 0, 0, 0, 0, 0, 0, 0, 0, 0, 0, 0, 0, 0, 0, 0,
      0, 0, 0, 0, 0, 0, 0, 0, 0, 0, 0, 0, 0, 0, 0, 0, 0, 0, 0, 0, 0, 0, 0, 0, 2, 15, 0, 1, 0, 0]"
  by (simp add: VAULT_CRIME_HEX_def decoding del: hex_digit.simps)

lemma vault_fraud_hex_bytes: "decode_hex VAULT_FRAUD_HEX = Ok
     [220, 182, 237, 182, 158, 108, 85, 104, 64, 27, 92, 190, 78, 243, 159, 179, 73, 242, 138, 33, 96, 10, 243,
      255, 101, 112, 198, 78, 196, 21, 143, 16, 117, 166, 88, 143, 153, 166, 117, 6, 55, 203, 15, 102, 62, 4,
      176, 49, 133, 28, 0, 38, 121, 109, 38, 60, 54, 80, 234, 91, 168, 50, 26, 206, 72, 53, 125, 45, 55, 11, 3,
      0, 0, 0, 0, 0, 0, 0, 0, 0, 0, 0, 0, 0, 0, 0, 0, 0, 0, 0, 0, 0, 0, 0, 0, 0, 0, 0, 0, 0, 0, 0, 0, 0, 0, 0,
      0, 0, 1, 0, 0, 0, 0, 0, 0, 0, 0, 0, 0, 0, 0, 0, 0, 0, 0, 0, 0, 0, 0, 0, 0, 0, 0, 0, 0, 0, 0, 0, 0, 0, 0,
      0, 0, 0, 0, 0, 0, 0, 0, 0, 0, 0, 0, 0, 0, 0, 0, 0, 0, 0, 0, 0, 0, 0, 0, 2, 15, 0, 1, 0, 0]"
  by (simp add: VAULT_FRAUD_HEX_def decoding del: hex_digit.simps)

lemma vault_profit_hex_bytes: "decode_hex VAULT_PROFIT_HEX = Ok
     [12, 38, 86, 44, 251, 238, 253, 162, 240, 140, 94, 68, 79, 173, 75, 100, 165, 114, 15, 95, 9, 139, 209,
      211, 120, 234, 82, 64, 241, 171, 52, 72, 117, 166, 88, 143, 153, 166, 117, 6, 55, 203, 15, 102, 62, 4,
      176, 49, 133, 28, 0, 38, 121, 109, 38, 60, 54, 80, 234, 91, 168, 50, 26, 206, 0, 243, 38, 103, 27, 3, 0,
      0, 0, 0, 0, 0, 0, 0, 0, 0, 0, 0, 0, 0, 0, 0, 0, 0, 0, 0, 0, 0, 0, 0, 0, 0, 0, 0, 0, 0, 0, 0, 0, 0, 0, 0,
      0, 0, 1, 0, 0, 0, 0, 0, 0, 0, 0, 0, 0, 0, 0, 0, 0, 0, 0, 0, 0, 0, 0, 0, 0, 0, 0, 0, 0, 0, 0, 0, 0, 0, 0,
      0, 0, 0, 0, 0, 0, 0, 0, 0, 0, 0, 0, 0, 0, 0, 0, 0, 0, 0, 0, 0, 0, 0, 0, 2, 15, 0, 1, 0, 0]"
  by (simp add: VAULT_PROFIT_HEX_def decoding del: hex_digit.simps)

lemma crime_pool_hex_bytes: "decode_hex CRIME_POOL_HEX = Ok
    (pool_bytes 0 (NATIVE_MINT) (CRIME_MINT) (CRIME_SOL_VAULT_A) (CRIME_SOL_VAULT_B)
      [186, 115, 133, 225, 124, 0, 0, 0] [219, 73, 254, 24, 157, 249, 0, 0] [100, 0] 255 254 255 (SPL_TOKEN_PROGRAM_ID) (TOKEN_2022_PROGRAM_ID))"
proof -
  have "decode_hex CRIME_POOL_HEX = Ok
     [247, 237, 227, 245, 215, 195, 222, 70, 0, 6, 155, 136, 87, 254, 171, 129, 132, 251, 104, 127, 99, 70, 24,
      192, 53, 218, 196, 57, 220, 26, 235, 59, 85, 152, 160, 240, 0, 0, 0, 0, 1, 9, 19, 69, 115, 173, 101, 170,
      214, 136, 227, 165, 157, 186, 193, 2, 46, 169, 21, 47, 62, 100, 230, 117, 60, 108, 139, 143, 76, 136, 216,
      93, 39, 0, 252, 109, 44, 111, 67, 178, 192, 2, 77, 72, 165, 64, 57, 41, 175, 126, 237, 236, 248, 170, 182,
      161, 170, 174, 12, 105, 114, 209, 32, 147, 106, 87, 31, 211, 182, 192, 243, 227, 255, 158, 138, 51, 221,
      81, 150, 199, 217, 208, 213, 224, 70, 8, 190, 35, 151, 41, 55, 70, 89, 74, 8, 101, 66, 186, 115, 133, 225,
      124, 0, 0, 0, 219, 73, 254, 24, 157, 249, 0, 0, 100, 0, 1, 0, 255, 254, 255, 6, 221, 246, 225, 215, 101,
      161, 147, 217, 203, 225, 70, 206, 235, 121, 172, 28, 180, 133, 237, 95, 91, 55, 145, 58, 140, 245, 133,
      126, 255, 0, 169, 6, 221, 246, 225, 238, 117, 143, 222, 24, 66, 93, 188, 228, 108, 205, 218, 182, 26, 252,
      77, 131, 185, 13, 39, 254, 189, 249, 40, 216, 161, 139, 252]"
    by (simp add: CRIME_POOL_HEX_def decoding del: hex_digit.simps)
  then show ?thesis by (simp add: pool_bytes_def address_bytes POOL_STATE_DISCRIMINATOR_def)
qed

lemma fraud_pool_hex_bytes: "decode_hex FRAUD_POOL_HEX = Ok
    (pool_bytes 0 (NATIVE_MINT) (FRAUD_MINT) (FRAUD_SOL_VAULT_A) (FRAUD_SOL_VAULT_B)
      [157, 150, 206, 238, 123, 0, 0, 0] [3, 219, 73, 14, 246, 251, 0, 0] [100, 0] 255 254 255 (SPL_TOKEN_PROGRAM_ID) (TOKEN_2022_PROGRAM_ID))"
proof -
  have "decode_hex FRAUD_POOL_HEX = Ok
     [247, 237, 227, 245, 215, 195, 222, 70, 0, 6, 155, 136, 87, 254, 171, 129, 132, 251, 104, 127, 99, 70, 24,
      192, 53, 218, 196, 57, 220, 26, 235, 59, 85, 152, 160, 240, 0, 0, 0, 0, 1, 220, 182, 237, 182, 158, 108,
      85, 104, 64, 27, 92, 190, 78, 243, 159, 179, 73, 242, 138, 33, 96, 10, 243, 255, 101, 112, 198, 78, 196,
      21, 143, 16, 42, 165, 50, 69, 214, 61, 224, 229, 53, 78, 225, 7, 251, 227, 194, 91, 25, 107, 20, 210, 146,
      169, 233, 36, 120, 12, 212, 66, 245, 136, 139, 112, 26, 164, 56, 51, 194, 67, 185, 141, 183, 234, 96, 165,
      206, 196, 37, 191, 238, 57, 67, 108, 7, 206, 222, 6, 247, 173, 137, 59, 55, 151, 79, 178, 157, 150, 206,
      238, 123, 0, 0, 0, 3, 219, 73, 14, 246, 251, 0, 0, 100, 0, 1, 0, 255, 254, 255, 6, 221, 246, 225, 215,
      101, 161, 147, 217, 203, 225, 70, 206, 235, 121, 172, 28, 180, 133, 237, 95, 91, 55, 145, 58, 140, 245,
      133, 126, 255, 0, 169, 6, 221, 246, 225, 238, 117, 143, 222, 24, 66, 93, 188, 228, 108, 205, 218, 182, 26,
      252, 77, 131, 185, 13, 39, 254, 189, 249, 40, 216, 161, 139, 252]"
    by (simp add: FRAUD_POOL_HEX_def decoding del: hex_digit.simps)
  then show ?thesis by (simp add: pool_bytes_def address_bytes POOL_STATE_DISCRIMINATOR_def)
qed

lemma epoch_state_hex_parsed: "and_then (decode_hex EPOCH_STATE_HEX) epoch_from_bytes =
    Ok \<lparr>crime_buy_tax_bps = 300, crime_sell_tax_bps = 1100, fraud_buy_tax_bps = 1200, fraud_sell_tax_bps = 400,
      pause_end_slot = 0, trading_paused = False, epoch_initialized = True\<rparr>"
  unfolding epoch_state_hex_bytes and_then.simps
  by (simp add: epoch_from_bytes_full EPOCH_STATE_DISCRIMINATOR_def epoch_view_def sub_slice_def from_le_bytes_def)

section \<open>The model passes\<close>

definition mainnet_pool :: "pubkey \<Rightarrow> pubkey \<Rightarrow> pubkey \<Rightarrow> u64 \<Rightarrow> u64 \<Rightarrow> pool_state" where
  "mainnet_pool token va vb rs rt =
     \<lparr>mint_a = NATIVE_MINT, mint_b = token, vault_a = va, vault_b = vb, reserve_a = rs, reserve_b = rt,
      lp_fee_bps = 100, initialized = True, locked = False, bump = 255, vault_a_bump = 254, vault_b_bump = 255,
      token_program_a = SPL_TOKEN_PROGRAM_ID, token_program_b = TOKEN_2022_PROGRAM_ID\<rparr>"

abbreviation "crime_pool \<equiv> mainnet_pool CRIME_MINT CRIME_SOL_VAULT_A CRIME_SOL_VAULT_B 536359564218 274453124499931"
abbreviation "fraud_pool \<equiv> mainnet_pool FRAUD_MINT FRAUD_SOL_VAULT_A FRAUD_SOL_VAULT_B 532287493789 277034220247811"

definition mainnet_epoch :: epoch_state where
  "mainnet_epoch = \<lparr>crime_buy_tax_bps = 300, crime_sell_tax_bps = 1100, fraud_buy_tax_bps = 1200,
     fraud_sell_tax_bps = 400, pause_end_slot = 0, trading_paused = False, epoch_initialized = True\<rparr>"

text \<open>The captured accounts, decoded and parsed.\<close>

definition pool_data_of :: "string \<Rightarrow> pool_state \<Rightarrow> bool" where
  "pool_data_of hex p \<longleftrightarrow> (\<exists>data. decode_hex hex = Ok data \<and> pool_from_bytes data = Ok p)"

lemma pool_hexes_parsed: "pool_data_of CRIME_POOL_HEX crime_pool" "pool_data_of FRAUD_POOL_HEX fraud_pool"
  by (simp_all add: pool_data_of_def crime_pool_hex_bytes fraud_pool_hex_bytes pool_bytes_parsed mainnet_pool_def
      from_le_bytes_def)

lemma epoch_data: "\<exists>data. decode_hex EPOCH_STATE_HEX = Ok data \<and> epoch_from_bytes data = Ok mainnet_epoch"
  using epoch_state_hex_parsed epoch_state_hex_bytes by (simp add: mainnet_epoch_def)

lemma from_real_data_iff:
  assumes "pool_data_of hex p"
  shows "from_real_data pda key hex t \<longleftrightarrow> admissible_pool pda key p \<and> t (fresh_amm key p 0)"
  using assms by (auto simp: from_real_data_def pool_data_of_def constructed_unwrap)

lemma updated_from_real_data_iff:
  assumes "pool_data_of hex p" and "key \<noteq> EPOCH_STATE_PDA" and "amm_quote_mint (fresh_amm key p 0) = NATIVE_MINT"
  shows "updated_from_real_data pda lib key hex t \<longleftrightarrow>
    admissible_pool pda key p \<and> t (refreshed p mainnet_epoch (fresh_amm key p 0))"
proof -
  obtain data epoch where bytes: "decode_hex hex = Ok data" "pool_from_bytes data = Ok p"
      "decode_hex EPOCH_STATE_HEX = Ok epoch" "epoch_from_bytes epoch = Ok mainnet_epoch"
    using assms(1) epoch_data by (auto simp: pool_data_of_def)
  have "pool_update lib
      (build_account_map [(key, data, AMM_PROGRAM_ID), (EPOCH_STATE_PDA, epoch, EPOCH_PROGRAM_ID)] Map.empty)
      (fresh_amm key p 0) = (refreshed p mainnet_epoch (fresh_amm key p 0), Ok ())"
    unfolding pool_update_Ok using assms(2,3) bytes
    by (auto simp: refresh_reads_def fresh_amm_def split_beta)
  then show ?thesis
    unfolding updated_from_real_data_def from_real_data_iff [OF assms(1)] bytes(1,3) unwrap.simps Let_def
    by simp
qed

lemma mainnet_pools_fresh:
  "amm_quote_mint (fresh_amm key crime_pool 0) = NATIVE_MINT" "amm_quote_mint (fresh_amm key fraud_pool 0) = NATIVE_MINT"
  by (simp_all add: fresh_amm_def mainnet_pool_def)

lemma mainnet_pools_admissible:
  "canonical pda CRIME_MINT CRIME_SOL_POOL \<Longrightarrow> admissible_pool pda CRIME_SOL_POOL crime_pool"
  "canonical pda FRAUD_MINT FRAUD_SOL_POOL \<Longrightarrow> admissible_pool pda FRAUD_SOL_POOL fraud_pool"
  using test_key_order by (auto simp: admissible_pool_def mainnet_pool_def less_pubkey_def)

lemmas real_data =
  from_real_data_iff [OF pool_hexes_parsed(1)] from_real_data_iff [OF pool_hexes_parsed(2)]
  updated_from_real_data_iff [OF pool_hexes_parsed(1) mainnet_keys(1) mainnet_pools_fresh(1)]
  updated_from_real_data_iff [OF pool_hexes_parsed(2) mainnet_keys(2) mainnet_pools_fresh(2)]
  mainnet_pools_admissible

lemmas mainnet_view =
  refreshed_def with_epoch_def fresh_amm_def mainnet_pool_def mainnet_epoch_def is_crime_def get_tax_bps_def

lemma real_data_construction:
  assumes "canonical pda CRIME_MINT CRIME_SOL_POOL" and "canonical pda FRAUD_MINT FRAUD_SOL_POOL"
  shows "it_crime_pool_from_keyed_account_real_data pda" and "it_fraud_pool_from_keyed_account_real_data pda"
    and "it_crime_pool_update_with_real_data pda lib" and "it_fraud_pool_update_with_real_data pda lib"
  using assms
  by (simp_all add: it_crime_pool_from_keyed_account_real_data_def it_fraud_pool_from_keyed_account_real_data_def
      it_crime_pool_update_with_real_data_def it_fraud_pool_update_with_real_data_def real_data fresh_amm_def
      pool_label_def PROGRAM_ID_TO_LABELS_def split_beta)

lemma real_data_quotes:
  assumes "canonical pda CRIME_MINT CRIME_SOL_POOL" and "canonical pda FRAUD_MINT FRAUD_SOL_POOL"
  shows "it_crime_pool_buy_quote_real_data pda lib" and "it_crime_pool_sell_quote_real_data pda lib"
    and "it_fraud_pool_buy_quote_real_data pda lib" and "it_fraud_pool_sell_quote_real_data pda lib"
  using assms
  by (simp_all add: it_crime_pool_buy_quote_real_data_def it_crime_pool_sell_quote_real_data_def
      it_fraud_pool_buy_quote_real_data_def it_fraud_pool_sell_quote_real_data_def real_data,
      simp_all add: mainnet_view amm_evaluation)

lemma real_data_epoch:
  "it_mainnet_epoch_state_pause_fields_are_open" "it_epoch_state_discriminator_matches_live"
  using epoch_data
  by (auto simp: it_mainnet_epoch_state_pause_fields_are_open_def mainnet_epoch_def)
     (simp add: it_epoch_state_discriminator_matches_live_def epoch_state_hex_bytes slice_at_def sub_slice_def
      EPOCH_STATE_DISCRIMINATOR_def)

text \<open>The computed discriminator is the hard-coded one exactly when the hash starts with it.\<close>

lemma computed_discriminator:
  assumes "length (sha256 (ascii_bytes ''account:EpochState'')) = 32"
  shows "it_epoch_state_discriminator_matches_computed sha256 \<longleftrightarrow>
    take 8 (sha256 (ascii_bytes ''account:EpochState'')) = EPOCH_STATE_DISCRIMINATOR"
  using assms by (simp add: it_epoch_state_discriminator_matches_computed_def compute_epoch_state_discriminator_def
      slice_at_def sub_slice_def copy_at_def Let_def)

lemma real_data_account_lists:
  assumes "canonical pda CRIME_MINT CRIME_SOL_POOL" and "canonical pda FRAUD_MINT FRAUD_SOL_POOL"
  shows "it_get_swap_and_account_metas_buy_real_data pda ata lib user user_wsol user_token"
    and "it_real_data_metas_equal_constant_builder_metas pda ata user wsol_ata token_ata"
  using assms
  by (simp_all add: it_get_swap_and_account_metas_buy_real_data_def
      it_real_data_metas_equal_constant_builder_metas_def real_data,
      simp_all add: mainnet_view pool_get_swap_and_account_metas_def swap_request_def pool_validate_mint_pair_def
      for_mints_def build_buy_wsol_account_metas_def build_sell_account_metas_def
      build_buy_wsol_account_metas_generic_def sol_list_defs)

text \<open>The balances of the three vaults, and the map with them.\<close>

definition vault_data_of :: "string \<Rightarrow> pubkey \<Rightarrow> u64 \<Rightarrow> bool" where
  "vault_data_of hex mint b \<longleftrightarrow>
     (\<exists>data. decode_hex hex = Ok data \<and> parse_token_account_amount data mint = Ok b)"

lemma vault_hexes_parsed:
  "vault_data_of VAULT_CRIME_HEX CRIME_MINT 851620395258475" "vault_data_of VAULT_FRAUD_HEX FRAUD_MINT 856756544419144"
  "vault_data_of VAULT_PROFIT_HEX PROFIT_MINT 3416229606144"
  by (simp_all add: vault_data_of_def vault_crime_hex_bytes vault_fraud_hex_bytes vault_profit_hex_bytes
      parse_token_account_eq token_account_mint_def token_account_amount_def sub_slice_def from_le_bytes_def
      CRIME_MINT_def FRAUD_MINT_def PROFIT_MINT_def)

lemma with_real_vaultI:
  assumes "\<And>config crime fraud profit.
      config \<noteq> [] \<Longrightarrow> parse_token_account_amount crime CRIME_MINT = Ok 851620395258475 \<Longrightarrow>
      parse_token_account_amount fraud FRAUD_MINT = Ok 856756544419144 \<Longrightarrow>
      parse_token_account_amount profit PROFIT_MINT = Ok 3416229606144 \<Longrightarrow>
      t (build_account_map [(VAULT_CONFIG_PDA, config, CONVERSION_VAULT_PROGRAM_ID),
            (VAULT_CRIME, crime, TOKEN_2022_PROGRAM_ID), (VAULT_FRAUD, fraud, TOKEN_2022_PROGRAM_ID),
            (VAULT_PROFIT, profit, TOKEN_2022_PROGRAM_ID)] Map.empty)"
  shows "with_real_vault t"
proof -
  obtain crime fraud profit where
    "decode_hex VAULT_CRIME_HEX = Ok crime" "parse_token_account_amount crime CRIME_MINT = Ok 851620395258475"
    "decode_hex VAULT_FRAUD_HEX = Ok fraud" "parse_token_account_amount fraud FRAUD_MINT = Ok 856756544419144"
    "decode_hex VAULT_PROFIT_HEX = Ok profit" "parse_token_account_amount profit PROFIT_MINT = Ok 3416229606144"
    using vault_hexes_parsed by (auto simp: vault_data_of_def)
  then show ?thesis
    using assms [of "[99, 86, 43, 216, 184, 102, 119, 77, 255]" crime fraud profit]
    by (simp add: with_real_vault_def vault_config_hex_bytes)
qed

lemma vault_with_real_data: "it_vault_update_with_real_config pda" "it_vault_quotes_after_real_update pda"
  unfolding it_vault_update_with_real_config_def it_vault_quotes_after_real_update_def
  by (rule with_real_vaultI, simp add: for_instances_iff instance_evaluation vault_method_defs vault_update_eq
      evaluation)+

end
