(* ===== verification/Integration_Snapshots.thy ===== *)
theory Integration_Snapshots
  imports Integration_Mainnet
begin

text \<open>
  The integration test of \<open>tests/live_spl_pool_snapshots.rs\<close>: four SPL-quoted pools captured from mainnet are
  discovered, refreshed, quoted to the exact amounts the test states, and built into swaps, as an executable
  predicate with the proof that the model passes it.  \<open>Pubkey::from_str\<close>, the address derivation and the
  token crates are arguments; the proof takes from them that the texts of the test's six keys parse to
  these keys, that the pools' keys are derived from their mints, and that the two quote mints unpack.
\<close>

section \<open>Captured accounts\<close>

definition EPOCH_HEX :: string where
  "EPOCH_HEX =
     ''bf3f8bed900cdfd20cf03c180000000037250000ed34cf1a000000000064007805900178051405640000'' @
     ''000000000000000001000000000000000000000000000000000000000000000000000000000000000000'' @
     ''010000000000000000000000000000000000352500000635cf1a000000000001ed34cf1a000000000000'' @
     ''000000000000010000000043240000020000000000000000000000000000000000000000000000000000'' @
     ''000001fe''"

definition USDC_HEX :: string where
  "USDC_HEX =
     ''0100000098fe86e88d9be2ea8bc1cca4878b2988c240f52b8424bfb40ed1a2ddcb5e199b9dfc37a66039'' @
     ''1d000601010000006270aa8a59c59405b45286c86772e6cd126e9b8a5d3a38536d37f7b414e8b667''"

definition HYPE_HEX :: string where
  "HYPE_HEX =
     ''01000000256a4dc30ce6c6e725ec7a56d0328cf32fdecf7e6ba1ad08ef55a0a50c09d669cc167c04ad8a'' @
     ''02000901000000000000000000000000000000000000000000000000000000000000000000000000''"

record snapshot_case =
  case_pool :: string
  case_pool_data :: string
  case_quote :: string
  case_quote_data :: string
  case_faction :: pubkey
  case_faction_is_a :: bool
  buy_out :: u64
  buy_fee :: u64
  sell_out :: u64
  sell_fee :: u64

definition crime_usdc_case :: snapshot_case where
  "crime_usdc_case =
     \<lparr>case_pool = ''HyJReAfMzABjEgZQNLrkdSR4pD5P78G5ucEXWRoVDNUa'',
      case_pool_data =
        ''f7ede3f5d7c3de460009134573ad65aad688e3a59dbac1022ea9152f3e64e6753c6c8b8f4c88d85d27c6'' @
        ''fa7af3bedbad3a3d65f36aabc97431b1bbe4c2d2f6e0e47ca60203452f5d61589300399193193e1bef23'' @
        ''2f01638b14eb11cea84bafc1c03b8b63fa224c99d5fbb2bfc7144d2b90ec839e1d14a8969c2e84a3a0f4'' @
        ''70528c21eb8908dd676bf7bcea9255470c0000f4a69a890300000064000100fefff706ddf6e1ee758fde'' @
        ''18425dbce46ccddab61afc4d83b90d27febdf928d8a18bfc06ddf6e1d765a193d9cbe146ceeb79ac1cb4'' @
        ''85ed5f5b37913a8cf5857eff00a9'',
      case_quote = ''EPjFWdd5AufqSSqeM2qN1xzybapC8G4wEGGkZwyTDt1v'',
      case_quote_data = USDC_HEX, case_faction = CRIME_MINT, case_faction_is_a = True,
      buy_out = 844445081, buy_fee = 49600, sell_out = 959, sell_fee = 155\<rparr>"

definition fraud_usdc_case :: snapshot_case where
  "fraud_usdc_case =
     \<lparr>case_pool = ''ETtBco8RUWNaNE9YozMg2KrpbJN7oqCjdd94QgwsAgzB'',
      case_pool_data =
        ''f7ede3f5d7c3de4600c6fa7af3bedbad3a3d65f36aabc97431b1bbe4c2d2f6e0e47ca60203452f5d61dc'' @
        ''b6edb69e6c5568401b5cbe4ef39fb349f28a21600af3ff6570c64ec4158f103a6cb821b46eb8f9e1f522'' @
        ''6d6a24934ecc0bcee94060bb7e53c6352bf6bcb301c77c6e616ba6aa5655af11e1a7f20b7cf20829cdc8'' @
        ''3935d5bd8124faa7935e5554481160030000002d4c1ae9850c000064000100fffdff06ddf6e1d765a193'' @
        ''d9cbe146ceeb79ac1cb485ed5f5b37913a8cf5857eff00a906ddf6e1ee758fde18425dbce46ccddab61a'' @
        ''fc4d83b90d27febdf928d8a18bfc'',
      case_quote = ''EPjFWdd5AufqSSqeM2qN1xzybapC8G4wEGGkZwyTDt1v'',
      case_quote_data = USDC_HEX, case_faction = FRAUD_MINT, case_faction_is_a = False,
      buy_out = 818035849, buy_fee = 138700, sell_out = 1032, sell_fee = 10\<rparr>"

definition crime_hype_case :: snapshot_case where
  "crime_hype_case =
     \<lparr>case_pool = ''HummhRt6eZLVDRT3NNCRgTs3Mouje4EypQvQbXKD5Mvy'',
      case_pool_data =
        ''f7ede3f5d7c3de460009134573ad65aad688e3a59dbac1022ea9152f3e64e6753c6c8b8f4c88d85d2778'' @
        ''e17ff9cf9ef28b15e3d5832741ece7804e07d5c97f42ef33ed5f059c74925fb760bb76b540bf35711310'' @
        ''82e3233104333def22993013363901fe220c7c53199942d9cebbbebf591d22ff8dc1dd4a8a887342018b'' @
        ''a171da0d2e3da06155ecfbb1d40e86121800006e8748114900000064000100fefffe06ddf6e1ee758fde'' @
        ''18425dbce46ccddab61afc4d83b90d27febdf928d8a18bfc06ddf6e1d765a193d9cbe146ceeb79ac1cb4'' @
        ''85ed5f5b37913a8cf5857eff00a9'',
      case_quote = ''98sMhvDwXj1RQi5c5Mndm3vPe9cBqPrbLaufMXFNMh5g'',
      case_quote_data = HYPE_HEX, case_faction = CRIME_MINT, case_faction_is_a = True,
      buy_out = 80156618, buy_fee = 49600, sell_out = 10095, sell_fee = 1643\<rparr>"

definition fraud_hype_case :: snapshot_case where
  "fraud_hype_case =
     \<lparr>case_pool = ''2EVKU8ZmuZRXc6baRUHZVUjry1AaBJ9mwDgUJDZxrDGz'',
      case_pool_data =
        ''f7ede3f5d7c3de460078e17ff9cf9ef28b15e3d5832741ece7804e07d5c97f42ef33ed5f059c74925fdc'' @
        ''b6edb69e6c5568401b5cbe4ef39fb349f28a21600af3ff6570c64ec4158f10d5a7f4905a7294a3ba9b16'' @
        ''6ae5bd7ccbdcf0af272df18498430f809ec89053baa8780ca4dc0a988b4d67e441a0f4fa41c33a1a46ea'' @
        ''52763266c0787d0a4df362c01033ac47000000dc012be98e18000064000100feffff06ddf6e1d765a193'' @
        ''d9cbe146ceeb79ac1cb485ed5f5b37913a8cf5857eff00a906ddf6e1ee758fde18425dbce46ccddab61a'' @
        ''fc4d83b90d27febdf928d8a18bfc'',
      case_quote = ''98sMhvDwXj1RQi5c5Mndm3vPe9cBqPrbLaufMXFNMh5g'',
      case_quote_data = HYPE_HEX, case_faction = FRAUD_MINT, case_faction_is_a = False,
      buy_out = 75550447, buy_fee = 138700, sell_out = 11174, sell_fee = 112\<rparr>"

definition snapshot_cases :: "snapshot_case list" where
  "snapshot_cases = [crime_usdc_case, fraud_usdc_case, crime_hype_case, fraud_hype_case]"

section \<open>The test\<close>

text \<open>The inner loop: a direction of a refreshed pool is quoted and its swap is built.\<close>

definition snapshot_direction ::
    "pda_fn \<Rightarrow> ata_fn \<Rightarrow> clocks \<Rightarrow> pubkey \<Rightarrow> pubkey \<Rightarrow> pubkey \<Rightarrow> snapshot_case \<Rightarrow> pubkey \<Rightarrow> pubkey \<Rightarrow>
      sol_pool_amm \<Rightarrow> pubkey \<times> pubkey \<times> u64 \<times> u64 \<times> nat \<times> tax_swap_lane \<Rightarrow> bool" where
  "snapshot_direction pda ata clk user src dst c pool quote_mint amm =
     (\<lambda>(inp, outp, expected_out, expected_fee, expected_accounts, expected_lane).
       unwrap (pool_quote clk amm (exact_in 1000000 inp outp)) (\<lambda>quoted.
         out_amount quoted = expected_out \<and> fee_amount quoted = expected_fee \<and>
         for_mints quote_mint (case_faction c) inp outp = Some expected_lane \<and>
         unwrap (pool_get_swap_and_account_metas pda ata amm (swap_request inp outp src dst user)) (\<lambda>built.
           length (account_metas built) = expected_accounts \<and>
           meta_pubkey (account_metas built ! 0) = user \<and>
           meta_pubkey (account_metas built ! 2) = pool \<and>
           meta_pubkey (account_metas built ! 5) = (if case_faction_is_a c then case_faction c else quote_mint) \<and>
           meta_pubkey (account_metas built ! 6) = (if case_faction_is_a c then quote_mint else case_faction c) \<and>
           swap built = TokenSwap)))"

definition snapshot_test ::
    "pda_fn \<Rightarrow> ata_fn \<Rightarrow> 'm mint_lib \<Rightarrow> (string \<Rightarrow> pubkey option) \<Rightarrow> pubkey \<Rightarrow> pubkey \<Rightarrow> pubkey \<Rightarrow> snapshot_case \<Rightarrow> bool" where
  "snapshot_test pda ata lib parse_pubkey user src dst c \<longleftrightarrow>
     unwrap_some (parse_pubkey (case_pool c)) (\<lambda>pool. unwrap_some (parse_pubkey (case_quote c)) (\<lambda>quote_mint.
     unwrap (decode_hex (case_pool_data c)) (\<lambda>pool_data.
     let clk = clocks_at u64_MAX in
     unwrap (pool_from_keyed_account pda (test_keyed_account pool pool_data AMM_PROGRAM_ID) 0) (\<lambda>amm.
       pool_program_id amm = TAX_PROGRAM_ID \<and>
       pool_get_reserve_mints amm = [quote_mint, case_faction c] \<and>
       pool_get_accounts_to_update amm = [pool, EPOCH_STATE_PDA, quote_mint] \<and>
       unwrap (decode_hex EPOCH_HEX) (\<lambda>epoch_data. unwrap (decode_hex (case_quote_data c)) (\<lambda>quote_data.
         let accounts = build_account_map [(pool, pool_data, AMM_PROGRAM_ID),
               (EPOCH_STATE_PDA, epoch_data, EPOCH_PROGRAM_ID), (quote_mint, quote_data, SPL_TOKEN_PROGRAM_ID)] Map.empty;
             (amm, updated) = pool_update lib accounts amm
         in unwrap updated (\<lambda>_. pool_is_active clk amm \<and>
              (\<forall>direction \<in> set [(quote_mint, case_faction c, buy_out c, buy_fee c, 21, SplBuy),
                  (case_faction c, quote_mint, sell_out c, sell_fee c, 22, SplSell)].
                 snapshot_direction pda ata clk user src dst c pool quote_mint amm direction))))))))"

definition it_live_spl_poolstates_discover_quote_and_build_both_directions ::
    "pda_fn \<Rightarrow> ata_fn \<Rightarrow> 'm mint_lib \<Rightarrow> (string \<Rightarrow> pubkey option) \<Rightarrow> pubkey \<Rightarrow> pubkey \<Rightarrow> pubkey \<Rightarrow> bool" where
  "it_live_spl_poolstates_discover_quote_and_build_both_directions pda ata lib parse_pubkey user src dst \<longleftrightarrow>
     (\<forall>c \<in> set snapshot_cases. snapshot_test pda ata lib parse_pubkey user src dst c)"

section \<open>What the accounts hold\<close>

definition usdc_key :: pubkey where
  "usdc_key = pubkey_of_bytes
     [198, 250, 122, 243, 190, 219, 173, 58, 61, 101, 243, 106, 171, 201, 116, 49, 177, 187, 228, 194, 210, 246,
      224, 228, 124, 166, 2, 3, 69, 47, 93, 97]"

definition hype_key :: pubkey where
  "hype_key = pubkey_of_bytes
     [120, 225, 127, 249, 207, 158, 242, 139, 21, 227, 213, 131, 39, 65, 236, 231, 128, 78, 7, 213, 201, 127,
      66, 239, 51, 237, 95, 5, 156, 116, 146, 95]"

definition crime_usdc_key :: pubkey where
  "crime_usdc_key = pubkey_of_bytes
     [252, 39, 55, 237, 13, 5, 103, 167, 182, 199, 212, 217, 213, 157, 233, 103, 208, 85, 229, 150, 171, 41,
      194, 0, 188, 119, 5, 181, 211, 164, 71, 19]"

definition fraud_usdc_key :: pubkey where
  "fraud_usdc_key = pubkey_of_bytes
     [200, 10, 231, 104, 202, 185, 44, 47, 53, 183, 46, 65, 103, 202, 188, 48, 215, 2, 113, 102, 199, 65, 65,
      132, 31, 75, 141, 29, 129, 20, 253, 248]"

definition crime_hype_key :: pubkey where
  "crime_hype_key = pubkey_of_bytes
     [251, 63, 208, 178, 2, 232, 206, 140, 191, 217, 92, 19, 65, 124, 88, 2, 232, 94, 194, 227, 219, 190, 84,
      102, 150, 74, 194, 250, 123, 33, 171, 42]"

definition fraud_hype_key :: pubkey where
  "fraud_hype_key = pubkey_of_bytes
     [18, 80, 65, 214, 11, 160, 247, 107, 209, 154, 107, 187, 236, 142, 72, 234, 98, 253, 154, 234, 106, 156,
      187, 146, 186, 135, 204, 131, 98, 193, 51, 231]"

lemmas snapshot_key_defs = usdc_key_def hype_key_def crime_usdc_key_def fraud_usdc_key_def crime_hype_key_def fraud_hype_key_def

definition crime_usdc_pool :: pool_state where
  "crime_usdc_pool = \<lparr>mint_a = CRIME_MINT, mint_b = usdc_key, 
      vault_a = pubkey_of_bytes
        [88, 147, 0, 57, 145, 147, 25, 62, 27, 239, 35, 47, 1, 99, 139, 20, 235, 17, 206, 168, 75, 175,
         193, 192, 59, 139, 99, 250, 34, 76, 153, 213], 
      vault_b = pubkey_of_bytes
        [251, 178, 191, 199, 20, 77, 43, 144, 236, 131, 158, 29, 20, 168, 150, 156, 46, 132, 163, 160,
         244, 112, 82, 140, 33, 235, 137, 8, 221, 103, 107, 247],
      reserve_a = 13500517903036, reserve_b = 15193515764, lp_fee_bps = 100, initialized = True, locked = False,
      bump = 254, vault_a_bump = 255, vault_b_bump = 247,
      token_program_a = TOKEN_2022_PROGRAM_ID, token_program_b = SPL_TOKEN_PROGRAM_ID\<rparr>"

definition fraud_usdc_pool :: pool_state where
  "fraud_usdc_pool = \<lparr>mint_a = usdc_key, mint_b = FRAUD_MINT, 
      vault_a = pubkey_of_bytes
        [58, 108, 184, 33, 180, 110, 184, 249, 225, 245, 34, 109, 106, 36, 147, 78, 204, 11, 206, 233,
         64, 96, 187, 126, 83, 198, 53, 43, 246, 188, 179, 1], 
      vault_b = pubkey_of_bytes
        [199, 124, 110, 97, 107, 166, 170, 86, 85, 175, 17, 225, 167, 242, 11, 124, 242, 8, 41, 205, 200,
         57, 53, 213, 189, 129, 36, 250, 167, 147, 94, 85],
      reserve_a = 14496647252, reserve_b = 13769280998445, lp_fee_bps = 100, initialized = True, locked = False,
      bump = 255, vault_a_bump = 253, vault_b_bump = 255,
      token_program_a = SPL_TOKEN_PROGRAM_ID, token_program_b = TOKEN_2022_PROGRAM_ID\<rparr>"

definition crime_hype_pool :: pool_state where
  "crime_hype_pool = \<lparr>mint_a = CRIME_MINT, mint_b = hype_key, 
      vault_a = pubkey_of_bytes
        [183, 96, 187, 118, 181, 64, 191, 53, 113, 19, 16, 130, 227, 35, 49, 4, 51, 61, 239, 34, 153, 48,
         19, 54, 57, 1, 254, 34, 12, 124, 83, 25], 
      vault_b = pubkey_of_bytes
        [153, 66, 217, 206, 187, 190, 191, 89, 29, 34, 255, 141, 193, 221, 74, 138, 136, 115, 66, 1, 139,
         161, 113, 218, 13, 46, 61, 160, 97, 85, 236, 251],
      reserve_a = 26467837596849, reserve_b = 313822578542, lp_fee_bps = 100, initialized = True, locked = False,
      bump = 254, vault_a_bump = 255, vault_b_bump = 254,
      token_program_a = TOKEN_2022_PROGRAM_ID, token_program_b = SPL_TOKEN_PROGRAM_ID\<rparr>"

definition fraud_hype_pool :: pool_state where
  "fraud_hype_pool = \<lparr>mint_a = hype_key, mint_b = FRAUD_MINT, 
      vault_a = pubkey_of_bytes
        [213, 167, 244, 144, 90, 114, 148, 163, 186, 155, 22, 106, 229, 189, 124, 203, 220, 240, 175, 39,
         45, 241, 132, 152, 67, 15, 128, 158, 200, 144, 83, 186], 
      vault_b = pubkey_of_bytes
        [168, 120, 12, 164, 220, 10, 152, 139, 77, 103, 228, 65, 160, 244, 250, 65, 195, 58, 26, 70, 234,
         82, 118, 50, 102, 192, 120, 125, 10, 77, 243, 98],
      reserve_a = 307831705792, reserve_b = 27002076332508, lp_fee_bps = 100, initialized = True, locked = False,
      bump = 254, vault_a_bump = 255, vault_b_bump = 255,
      token_program_a = SPL_TOKEN_PROGRAM_ID, token_program_b = TOKEN_2022_PROGRAM_ID\<rparr>"

definition snapshot_epoch :: epoch_state where
  "snapshot_epoch = \<lparr>crime_buy_tax_bps = 400, crime_sell_tax_bps = 1400, fraud_buy_tax_bps = 1300, fraud_sell_tax_bps = 100,
      pause_end_slot = 449787142, trading_paused = False, epoch_initialized = True\<rparr>"

lemma crime_usdc_parsed: "pool_data_of (case_pool_data crime_usdc_case) crime_usdc_pool"
proof -
  have "decode_hex (case_pool_data crime_usdc_case) = Ok
    [247, 237, 227, 245, 215, 195, 222, 70, 0, 9, 19, 69, 115, 173, 101, 170, 214, 136, 227, 165, 157, 186,
       193, 2, 46, 169, 21, 47, 62, 100, 230, 117, 60, 108, 139, 143, 76, 136, 216, 93, 39, 198, 250, 122, 243,
       190, 219, 173, 58, 61, 101, 243, 106, 171, 201, 116, 49, 177, 187, 228, 194, 210, 246, 224, 228, 124, 166,
       2, 3, 69, 47, 93, 97, 88, 147, 0, 57, 145, 147, 25, 62, 27, 239, 35, 47, 1, 99, 139, 20, 235, 17, 206,
       168, 75, 175, 193, 192, 59, 139, 99, 250, 34, 76, 153, 213, 251, 178, 191, 199, 20, 77, 43, 144, 236, 131,
       158, 29, 20, 168, 150, 156, 46, 132, 163, 160, 244, 112, 82, 140, 33, 235, 137, 8, 221, 103, 107, 247,
       188, 234, 146, 85, 71, 12, 0, 0, 244, 166, 154, 137, 3, 0, 0, 0, 100, 0, 1, 0, 254, 255, 247, 6, 221, 246,
       225, 238, 117, 143, 222, 24, 66, 93, 188, 228, 108, 205, 218, 182, 26, 252, 77, 131, 185, 13, 39, 254,
       189, 249, 40, 216, 161, 139, 252, 6, 221, 246, 225, 215, 101, 161, 147, 217, 203, 225, 70, 206, 235, 121,
       172, 28, 180, 133, 237, 95, 91, 55, 145, 58, 140, 245, 133, 126, 255, 0, 169]"
    by (simp add: crime_usdc_case_def decoding del: hex_digit.simps)
  also have "\<dots> = Ok (pool_bytes 0 (CRIME_MINT) (usdc_key) (pubkey_of_bytes [88, 147, 0, 57, 145, 147, 25,
        62, 27, 239, 35, 47, 1, 99, 139, 20, 235, 17, 206, 168, 75, 175, 193, 192, 59, 139, 99, 250, 34, 76,
        153, 213]) (pubkey_of_bytes [251, 178, 191, 199, 20, 77, 43, 144, 236, 131, 158, 29, 20, 168, 150, 156,
        46, 132, 163, 160, 244, 112, 82, 140, 33, 235, 137, 8, 221, 103, 107, 247])
      [188, 234, 146, 85, 71, 12, 0, 0] [244, 166, 154, 137, 3, 0, 0, 0] [100, 0] 254 255 247 (TOKEN_2022_PROGRAM_ID) (SPL_TOKEN_PROGRAM_ID))"
    by (simp add: pool_bytes_def address_bytes as_ref_pubkey_of_bytes_code snapshot_key_defs POOL_STATE_DISCRIMINATOR_def)
  finally show ?thesis
    by (simp add: pool_data_of_def pool_bytes_parsed crime_usdc_pool_def from_le_bytes_def)
qed

lemma fraud_usdc_parsed: "pool_data_of (case_pool_data fraud_usdc_case) fraud_usdc_pool"
proof -
  have "decode_hex (case_pool_data fraud_usdc_case) = Ok
    [247, 237, 227, 245, 215, 195, 222, 70, 0, 198, 250, 122, 243, 190, 219, 173, 58, 61, 101, 243, 106, 171,
       201, 116, 49, 177, 187, 228, 194, 210, 246, 224, 228, 124, 166, 2, 3, 69, 47, 93, 97, 220, 182, 237, 182,
       158, 108, 85, 104, 64, 27, 92, 190, 78, 243, 159, 179, 73, 242, 138, 33, 96, 10, 243, 255, 101, 112, 198,
       78, 196, 21, 143, 16, 58, 108, 184, 33, 180, 110, 184, 249, 225, 245, 34, 109, 106, 36, 147, 78, 204, 11,
       206, 233, 64, 96, 187, 126, 83, 198, 53, 43, 246, 188, 179, 1, 199, 124, 110, 97, 107, 166, 170, 86, 85,
       175, 17, 225, 167, 242, 11, 124, 242, 8, 41, 205, 200, 57, 53, 213, 189, 129, 36, 250, 167, 147, 94, 85,
       84, 72, 17, 96, 3, 0, 0, 0, 45, 76, 26, 233, 133, 12, 0, 0, 100, 0, 1, 0, 255, 253, 255, 6, 221, 246, 225,
       215, 101, 161, 147, 217, 203, 225, 70, 206, 235, 121, 172, 28, 180, 133, 237, 95, 91, 55, 145, 58, 140,
       245, 133, 126, 255, 0, 169, 6, 221, 246, 225, 238, 117, 143, 222, 24, 66, 93, 188, 228, 108, 205, 218,
       182, 26, 252, 77, 131, 185, 13, 39, 254, 189, 249, 40, 216, 161, 139, 252]"
    by (simp add: fraud_usdc_case_def decoding del: hex_digit.simps)
  also have "\<dots> = Ok (pool_bytes 0 (usdc_key) (FRAUD_MINT) (pubkey_of_bytes [58, 108, 184, 33, 180, 110,
        184, 249, 225, 245, 34, 109, 106, 36, 147, 78, 204, 11, 206, 233, 64, 96, 187, 126, 83, 198, 53, 43,
        246, 188, 179, 1]) (pubkey_of_bytes [199, 124, 110, 97, 107, 166, 170, 86, 85, 175, 17, 225, 167, 242,
        11, 124, 242, 8, 41, 205, 200, 57, 53, 213, 189, 129, 36, 250, 167, 147, 94, 85])
      [84, 72, 17, 96, 3, 0, 0, 0] [45, 76, 26, 233, 133, 12, 0, 0] [100, 0] 255 253 255 (SPL_TOKEN_PROGRAM_ID) (TOKEN_2022_PROGRAM_ID))"
    by (simp add: pool_bytes_def address_bytes as_ref_pubkey_of_bytes_code snapshot_key_defs POOL_STATE_DISCRIMINATOR_def)
  finally show ?thesis
    by (simp add: pool_data_of_def pool_bytes_parsed fraud_usdc_pool_def from_le_bytes_def)
qed

lemma crime_hype_parsed: "pool_data_of (case_pool_data crime_hype_case) crime_hype_pool"
proof -
  have "decode_hex (case_pool_data crime_hype_case) = Ok
    [247, 237, 227, 245, 215, 195, 222, 70, 0, 9, 19, 69, 115, 173, 101, 170, 214, 136, 227, 165, 157, 186,
       193, 2, 46, 169, 21, 47, 62, 100, 230, 117, 60, 108, 139, 143, 76, 136, 216, 93, 39, 120, 225, 127, 249,
       207, 158, 242, 139, 21, 227, 213, 131, 39, 65, 236, 231, 128, 78, 7, 213, 201, 127, 66, 239, 51, 237, 95,
       5, 156, 116, 146, 95, 183, 96, 187, 118, 181, 64, 191, 53, 113, 19, 16, 130, 227, 35, 49, 4, 51, 61, 239,
       34, 153, 48, 19, 54, 57, 1, 254, 34, 12, 124, 83, 25, 153, 66, 217, 206, 187, 190, 191, 89, 29, 34, 255,
       141, 193, 221, 74, 138, 136, 115, 66, 1, 139, 161, 113, 218, 13, 46, 61, 160, 97, 85, 236, 251, 177, 212,
       14, 134, 18, 24, 0, 0, 110, 135, 72, 17, 73, 0, 0, 0, 100, 0, 1, 0, 254, 255, 254, 6, 221, 246, 225, 238,
       117, 143, 222, 24, 66, 93, 188, 228, 108, 205, 218, 182, 26, 252, 77, 131, 185, 13, 39, 254, 189, 249, 40,
       216, 161, 139, 252, 6, 221, 246, 225, 215, 101, 161, 147, 217, 203, 225, 70, 206, 235, 121, 172, 28, 180,
       133, 237, 95, 91, 55, 145, 58, 140, 245, 133, 126, 255, 0, 169]"
    by (simp add: crime_hype_case_def decoding del: hex_digit.simps)
  also have "\<dots> = Ok (pool_bytes 0 (CRIME_MINT) (hype_key) (pubkey_of_bytes [183, 96, 187, 118, 181, 64,
        191, 53, 113, 19, 16, 130, 227, 35, 49, 4, 51, 61, 239, 34, 153, 48, 19, 54, 57, 1, 254, 34, 12, 124,
        83, 25]) (pubkey_of_bytes [153, 66, 217, 206, 187, 190, 191, 89, 29, 34, 255, 141, 193, 221, 74, 138,
        136, 115, 66, 1, 139, 161, 113, 218, 13, 46, 61, 160, 97, 85, 236, 251])
      [177, 212, 14, 134, 18, 24, 0, 0] [110, 135, 72, 17, 73, 0, 0, 0] [100, 0] 254 255 254 (TOKEN_2022_PROGRAM_ID) (SPL_TOKEN_PROGRAM_ID))"
    by (simp add: pool_bytes_def address_bytes as_ref_pubkey_of_bytes_code snapshot_key_defs POOL_STATE_DISCRIMINATOR_def)
  finally show ?thesis
    by (simp add: pool_data_of_def pool_bytes_parsed crime_hype_pool_def from_le_bytes_def)
qed

lemma fraud_hype_parsed: "pool_data_of (case_pool_data fraud_hype_case) fraud_hype_pool"
proof -
  have "decode_hex (case_pool_data fraud_hype_case) = Ok
    [247, 237, 227, 245, 215, 195, 222, 70, 0, 120, 225, 127, 249, 207, 158, 242, 139, 21, 227, 213, 131, 39,
       65, 236, 231, 128, 78, 7, 213, 201, 127, 66, 239, 51, 237, 95, 5, 156, 116, 146, 95, 220, 182, 237, 182,
       158, 108, 85, 104, 64, 27, 92, 190, 78, 243, 159, 179, 73, 242, 138, 33, 96, 10, 243, 255, 101, 112, 198,
       78, 196, 21, 143, 16, 213, 167, 244, 144, 90, 114, 148, 163, 186, 155, 22, 106, 229, 189, 124, 203, 220,
       240, 175, 39, 45, 241, 132, 152, 67, 15, 128, 158, 200, 144, 83, 186, 168, 120, 12, 164, 220, 10, 152,
       139, 77, 103, 228, 65, 160, 244, 250, 65, 195, 58, 26, 70, 234, 82, 118, 50, 102, 192, 120, 125, 10, 77,
       243, 98, 192, 16, 51, 172, 71, 0, 0, 0, 220, 1, 43, 233, 142, 24, 0, 0, 100, 0, 1, 0, 254, 255, 255, 6,
       221, 246, 225, 215, 101, 161, 147, 217, 203, 225, 70, 206, 235, 121, 172, 28, 180, 133, 237, 95, 91, 55,
       145, 58, 140, 245, 133, 126, 255, 0, 169, 6, 221, 246, 225, 238, 117, 143, 222, 24, 66, 93, 188, 228, 108,
       205, 218, 182, 26, 252, 77, 131, 185, 13, 39, 254, 189, 249, 40, 216, 161, 139, 252]"
    by (simp add: fraud_hype_case_def decoding del: hex_digit.simps)
  also have "\<dots> = Ok (pool_bytes 0 (hype_key) (FRAUD_MINT) (pubkey_of_bytes [213, 167, 244, 144, 90, 114,
        148, 163, 186, 155, 22, 106, 229, 189, 124, 203, 220, 240, 175, 39, 45, 241, 132, 152, 67, 15, 128, 158,
        200, 144, 83, 186]) (pubkey_of_bytes [168, 120, 12, 164, 220, 10, 152, 139, 77, 103, 228, 65, 160, 244,
        250, 65, 195, 58, 26, 70, 234, 82, 118, 50, 102, 192, 120, 125, 10, 77, 243, 98])
      [192, 16, 51, 172, 71, 0, 0, 0] [220, 1, 43, 233, 142, 24, 0, 0] [100, 0] 254 255 255 (SPL_TOKEN_PROGRAM_ID) (TOKEN_2022_PROGRAM_ID))"
    by (simp add: pool_bytes_def address_bytes as_ref_pubkey_of_bytes_code snapshot_key_defs POOL_STATE_DISCRIMINATOR_def)
  finally show ?thesis
    by (simp add: pool_data_of_def pool_bytes_parsed fraud_hype_pool_def from_le_bytes_def)
qed

lemma snapshot_epoch_parsed:
  "\<exists>data. decode_hex EPOCH_HEX = Ok data \<and> epoch_from_bytes data = Ok snapshot_epoch"
proof -
  have "decode_hex EPOCH_HEX = Ok
    [191, 63, 139, 237, 144, 12, 223, 210, 12, 240, 60, 24, 0, 0, 0, 0, 55, 37, 0, 0, 237, 52, 207, 26, 0, 0,
       0, 0, 0, 100, 0, 120, 5, 144, 1, 120, 5, 20, 5, 100, 0, 0, 0, 0, 0, 0, 0, 0, 0, 0, 1, 0, 0, 0, 0, 0, 0, 0,
       0, 0, 0, 0, 0, 0, 0, 0, 0, 0, 0, 0, 0, 0, 0, 0, 0, 0, 0, 0, 0, 0, 0, 0, 0, 0, 1, 0, 0, 0, 0, 0, 0, 0, 0,
       0, 0, 0, 0, 0, 0, 0, 0, 0, 53, 37, 0, 0, 6, 53, 207, 26, 0, 0, 0, 0, 0, 1, 237, 52, 207, 26, 0, 0, 0, 0,
       0, 0, 0, 0, 0, 0, 0, 0, 1, 0, 0, 0, 0, 67, 36, 0, 0, 2, 0, 0, 0, 0, 0, 0, 0, 0, 0, 0, 0, 0, 0, 0, 0, 0, 0,
       0, 0, 0, 0, 0, 0, 0, 0, 0, 0, 0, 1, 254]"
    by (simp add: EPOCH_HEX_def decoding del: hex_digit.simps)
  then show ?thesis
    by (simp add: epoch_from_bytes_full EPOCH_STATE_DISCRIMINATOR_def epoch_view_def sub_slice_def from_le_bytes_def
        snapshot_epoch_def)
qed

text \<open>The cases, with what their bytes are parsed to.\<close>

definition snapshot_table :: "(snapshot_case \<times> pubkey \<times> pubkey \<times> pool_state) list" where
  "snapshot_table =
     [(crime_usdc_case, crime_usdc_key, usdc_key, crime_usdc_pool),
      (fraud_usdc_case, fraud_usdc_key, usdc_key, fraud_usdc_pool),
      (crime_hype_case, crime_hype_key, hype_key, crime_hype_pool),
      (fraud_hype_case, fraud_hype_key, hype_key, fraud_hype_pool)]"

text \<open>The library's answers the test relies on.\<close>

definition snapshot_answers :: "pda_fn \<Rightarrow> 'm mint_lib \<Rightarrow> (string \<Rightarrow> pubkey option) \<Rightarrow> bool" where
  "snapshot_answers pda lib parse_pubkey \<longleftrightarrow>
     (\<forall>(c, key, q, p) \<in> set snapshot_table.
        parse_pubkey (case_pool c) = Some key \<and> parse_pubkey (case_quote c) = Some q \<and>
        fst (pda [ascii_bytes ''pool'', as_ref (mint_a p), as_ref (mint_b p)] AMM_PROGRAM_ID) = key \<and>
        unwrap (decode_hex (case_quote_data c)) (spl_mint_unpacks lib))"

lemma snapshot_answersD:
  assumes "snapshot_answers pda lib parse_pubkey" and "(c, key, q, p) \<in> set snapshot_table"
  shows "parse_pubkey (case_pool c) = Some key" and "parse_pubkey (case_quote c) = Some q"
    and "fst (pda [ascii_bytes ''pool'', as_ref (mint_a p), as_ref (mint_b p)] AMM_PROGRAM_ID) = key"
    and "unwrap (decode_hex (case_quote_data c)) (spl_mint_unpacks lib)"
  using assms unfolding snapshot_answers_def by blast+

lemma quote_mint_bytes: "\<exists>data. decode_hex USDC_HEX = Ok data" "\<exists>data. decode_hex HYPE_HEX = Ok data"
  by (simp_all add: USDC_HEX_def HYPE_HEX_def decoding del: hex_digit.simps)

lemma case_quote_bytes:
  "(c, key, q, p) \<in> set snapshot_table \<Longrightarrow> \<exists>data. decode_hex (case_quote_data c) = Ok data"
  using quote_mint_bytes
  by (auto simp: snapshot_table_def crime_usdc_case_def fraud_usdc_case_def crime_hype_case_def fraud_hype_case_def)

text \<open>What a test of one case asks for, once its bytes are parsed.\<close>

lemma snapshot_test_parsed:
  assumes answers: "snapshot_answers pda lib parse_pubkey" "(c, key, q, p) \<in> set snapshot_table"
    and parsed: "pool_data_of (case_pool_data c) p" "distinct [key, EPOCH_STATE_PDA, q]"
    and canonical: "fst (pda [ascii_bytes ''pool'', as_ref (mint_a p), as_ref (mint_b p)] AMM_PROGRAM_ID) = key \<Longrightarrow>
      admissible_pool pda key p"
    and fresh: "amm_quote_mint (fresh_amm key p 0) = q" "quote_token_program (fresh_amm key p 0) = SPL_TOKEN_PROGRAM_ID"
  defines "amm \<equiv> fresh_amm key p 0"
  defines "later \<equiv> refreshed p snapshot_epoch amm"
  assumes asked: "pool_get_reserve_mints amm = [q, case_faction c]"
      "pool_get_accounts_to_update amm = [key, EPOCH_STATE_PDA, q]" "pool_is_active (clocks_at u64_MAX) later"
      "snapshot_direction pda ata (clocks_at u64_MAX) user src dst c key q later
         (q, case_faction c, buy_out c, buy_fee c, 21, SplBuy)"
      "snapshot_direction pda ata (clocks_at u64_MAX) user src dst c key q later
         (case_faction c, q, sell_out c, sell_fee c, 22, SplSell)"
  shows "snapshot_test pda ata lib parse_pubkey user src dst c"
proof -
  note answered = snapshot_answersD [OF answers]
  obtain quote_data where quote_bytes: "decode_hex (case_quote_data c) = Ok quote_data"
    using case_quote_bytes [OF answers(2)] by blast
  obtain data epoch where bytes: "decode_hex (case_pool_data c) = Ok data" "pool_from_bytes data = Ok p"
      "decode_hex EPOCH_HEX = Ok epoch" "epoch_from_bytes epoch = Ok snapshot_epoch"
    using parsed(1) snapshot_epoch_parsed by (auto simp: pool_data_of_def)
  have updated: "pool_update lib
      (build_account_map [(key, data, AMM_PROGRAM_ID), (EPOCH_STATE_PDA, epoch, EPOCH_PROGRAM_ID),
         (q, quote_data, SPL_TOKEN_PROGRAM_ID)] Map.empty) amm = (later, Ok ())"
    unfolding pool_update_Ok later_def amm_def using fresh parsed(2) bytes answered(4) quote_bytes
    by (auto simp: refresh_reads_def fresh_amm_def quote_mint_admitted_def split_beta)
  show ?thesis
    using parsed(1) canonical [OF answered(3)] answered(1,2) quote_bytes asked updated
    by (simp add: snapshot_test_def bytes constructed_unwrap amm_def pool_program_id_def split_beta)
qed

lemma snapshot_keys_distinct:
  "distinct [crime_usdc_key, EPOCH_STATE_PDA, usdc_key]"
  "distinct [fraud_usdc_key, EPOCH_STATE_PDA, usdc_key]"
  "distinct [crime_hype_key, EPOCH_STATE_PDA, hype_key]"
  "distinct [fraud_hype_key, EPOCH_STATE_PDA, hype_key]"
  by (simp_all add: pubkey_eq_iff address_bytes as_ref_pubkey_of_bytes_code snapshot_key_defs)

lemma snapshot_mints:
  "usdc_key \<noteq> NATIVE_MINT" "usdc_key \<noteq> CRIME_MINT" "usdc_key \<noteq> FRAUD_MINT"
  "hype_key \<noteq> NATIVE_MINT" "hype_key \<noteq> CRIME_MINT" "hype_key \<noteq> FRAUD_MINT"
  by (simp_all add: pubkey_eq_iff address_bytes as_ref_pubkey_of_bytes_code snapshot_key_defs)

lemma snapshot_key_order:
  "CRIME_MINT < usdc_key" "usdc_key < FRAUD_MINT" "CRIME_MINT < hype_key" "hype_key < FRAUD_MINT"
  by (simp_all add: less_pubkey_def address_bytes as_ref_pubkey_of_bytes_code snapshot_key_defs)

lemmas snapshot_view =
  refreshed_def with_epoch_def fresh_amm_def is_crime_def get_tax_bps_def faction_mint_def snapshot_mints
  snapshot_mints [THEN not_sym] quote_token_program_def pool_get_reserve_mints_def pool_get_accounts_to_update_def
  admissible_pool_def supported_token_program_def less_imp_neq snapshot_key_order

lemmas snapshot_lists =
  snapshot_direction_def swap_request_def pool_get_swap_and_account_metas_def for_mints_def
  spl_build_buy_account_metas_generic_def spl_build_sell_account_metas_generic_def sweep_accounts_def
  resolve_faction_sides_def length_hook_metas split_beta

lemmas snapshot_evaluation =
  snapshot_table_def snapshot_view snapshot_epoch_def snapshot_lists amm_evaluation

lemma snapshots_pass:
  assumes "snapshot_answers pda lib parse_pubkey"
  shows "snapshot_test pda ata lib parse_pubkey user src dst crime_usdc_case"
    and "snapshot_test pda ata lib parse_pubkey user src dst fraud_usdc_case"
    and "snapshot_test pda ata lib parse_pubkey user src dst crime_hype_case"
    and "snapshot_test pda ata lib parse_pubkey user src dst fraud_hype_case"
proof -
  show "snapshot_test pda ata lib parse_pubkey user src dst crime_usdc_case"
    by (rule snapshot_test_parsed [OF assms _ crime_usdc_parsed snapshot_keys_distinct(1)];
        simp add: crime_usdc_case_def crime_usdc_pool_def snapshot_evaluation)
  show "snapshot_test pda ata lib parse_pubkey user src dst fraud_usdc_case"
    by (rule snapshot_test_parsed [OF assms _ fraud_usdc_parsed snapshot_keys_distinct(2)];
        simp add: fraud_usdc_case_def fraud_usdc_pool_def snapshot_evaluation)
  show "snapshot_test pda ata lib parse_pubkey user src dst crime_hype_case"
    by (rule snapshot_test_parsed [OF assms _ crime_hype_parsed snapshot_keys_distinct(3)];
        simp add: crime_hype_case_def crime_hype_pool_def snapshot_evaluation)
  show "snapshot_test pda ata lib parse_pubkey user src dst fraud_hype_case"
    by (rule snapshot_test_parsed [OF assms _ fraud_hype_parsed snapshot_keys_distinct(4)];
        simp add: fraud_hype_case_def fraud_hype_pool_def snapshot_evaluation)
qed

text \<open>The answers can be as assumed.\<close>

lemma length_ascii_pool: "length (ascii_bytes ''pool'') \<noteq> 32"
  by (simp add: ascii_bytes_def)

definition snapshot_pda :: pda_fn where
  "snapshot_pda = (\<lambda>seeds _.
     (if as_ref CRIME_MINT \<in> set seeds
      then (if as_ref usdc_key \<in> set seeds then crime_usdc_key else crime_hype_key)
      else (if as_ref usdc_key \<in> set seeds then fraud_usdc_key else fraud_hype_key), 255))"

definition snapshot_parse_pubkey :: "string \<Rightarrow> pubkey option" where
  "snapshot_parse_pubkey = map_of
     [(''EPjFWdd5AufqSSqeM2qN1xzybapC8G4wEGGkZwyTDt1v'', usdc_key), (''98sMhvDwXj1RQi5c5Mndm3vPe9cBqPrbLaufMXFNMh5g'', hype_key),
      (''HyJReAfMzABjEgZQNLrkdSR4pD5P78G5ucEXWRoVDNUa'', crime_usdc_key),
      (''ETtBco8RUWNaNE9YozMg2KrpbJN7oqCjdd94QgwsAgzB'', fraud_usdc_key),
      (''HummhRt6eZLVDRT3NNCRgTs3Mouje4EypQvQbXKD5Mvy'', crime_hype_key),
      (''2EVKU8ZmuZRXc6baRUHZVUjry1AaBJ9mwDgUJDZxrDGz'', fraud_hype_key)]"

definition snapshot_lib :: "unit mint_lib" where
  "snapshot_lib =
     \<lparr>spl_mint_unpacks = \<lambda>_. True, t22_unpack = \<lambda>_. None, get_extension_types = \<lambda>_. None,
      get_transfer_fee_config = \<lambda>_. None, hook_program_id = \<lambda>_. None, get_default_account_state = \<lambda>_. None,
      get_pausable_paused = \<lambda>_. None\<rparr>"

lemma snapshot_answers_can_hold: "snapshot_answers snapshot_pda snapshot_lib snapshot_parse_pubkey"
proof -
  have pool_seed: "as_ref k \<noteq> ascii_bytes ''pool''" for k
    using length_as_ref [of k] by (metis length_ascii_pool)
  have "usdc_key \<noteq> hype_key"
    by (simp add: pubkey_eq_iff as_ref_pubkey_of_bytes_code snapshot_key_defs)
  moreover obtain usdc hype where "decode_hex USDC_HEX = Ok usdc" "decode_hex HYPE_HEX = Ok hype"
    using quote_mint_bytes by blast
  ultimately show ?thesis
    by (simp add: pool_seed snapshot_answers_def snapshot_table_def snapshot_pda_def snapshot_parse_pubkey_def snapshot_lib_def
        as_ref_inject snapshot_mints snapshot_mints [THEN not_sym] crime_usdc_pool_def crime_usdc_case_def
        fraud_usdc_pool_def fraud_usdc_case_def crime_hype_pool_def crime_hype_case_def fraud_hype_pool_def
        fraud_hype_case_def)
qed

text \<open>C39: The snapshots of the four live SPL pools.  Their bytes, captured from mainnet, are accepted by the
  constructor and by a refresh; the instances find their quote mint and its token program, list the
  three accounts to fetch, are active, quote both directions with exactly the recorded amounts and
  fees, and build account lists of the right length and sides, for every user and all token accounts.\<close>

theorem live_snapshots_pass:
  assumes "snapshot_answers pda lib parse_pubkey"
  shows "it_live_spl_poolstates_discover_quote_and_build_both_directions pda ata lib parse_pubkey user src dst"
  by (simp add: it_live_spl_poolstates_discover_quote_and_build_both_directions_def snapshot_cases_def
      snapshots_pass [OF assms])

theorem live_snapshots_pass_witness:
  "it_live_spl_poolstates_discover_quote_and_build_both_directions snapshot_pda (\<lambda>_ mint _. mint) snapshot_lib
     snapshot_parse_pubkey CRIME_MINT FRAUD_MINT PROFIT_MINT"
  by (rule live_snapshots_pass [OF snapshot_answers_can_hold])

end
