(* ===== verification/Spec2Isabelle.thy ===== *)
theory Spec2Isabelle
  imports Price_Accuracy Amm_Swaps Sol_Pool_Trades Quote_Example Test_Vectors_Mint Integration_Speed
    Integration_Snapshots
begin

text \<open>
  A verification library for the Dr. Fraudsworth Jupiter adapter, a Rust crate with which the Jupiter
  aggregator prices and builds swaps of the protocol's pools.  This header says what is modelled and
  where, what the theorems show, and what is left out.

  \<^bold>\<open>The program.\<close>  Two types implement Jupiter's \<open>Amm\<close> trait.  \<open>SolPoolAmm\<close>
  (\<open>src/sol_pool_amm.rs\<close>) prices the constant-product pools of a faction token, CRIME or FRAUD,
  against WSOL or another quote mint, with an epoch-dependent tax; \<open>VaultAmm\<close> (\<open>src/vault_amm.rs\<close>) prices
  the fixed-rate conversions between the factions and PROFIT.  Jupiter constructs an instance from an
  account, refreshes it with maps of accounts (\<open>update\<close>), asks it for quotes, and has it list the
  accounts of a swap.  Both rest on pure modules: integer arithmetic (\<open>src/math\<close>), parsers of account
  bytes (\<open>src/state\<close>), account-list builders (\<open>src/accounts\<close>) and instruction encoders
  (\<open>src/instruction.rs\<close>).

  \<^bold>\<open>The theories, in the order of the code.\<close>
  \<^item> \<open>Rust_Prelude\<close>: machine integers at their width with the checked, saturating and converting
    operations of the standard library; \<open>outcome\<close>, a result that is a value, an error or a panic, with
    the question-mark operator (\<open>and_then\<close>, and \<open>try_in\<close> where a method owns mutable state), \<open>expect\<close> and loops
    of fallible steps.  The collections \<open>checked\<close> and \<open>outcome\<close> carry most proofs.
  \<^item> \<open>Byte_Codec\<close>: slices, indexes and writes of byte buffers, panicking out of range; little-endian
    conversion; the locale \<open>fixed_codec\<close> of fixed-width encodings, interpreted for \<open>u16\<close>, \<open>u64\<close> and keys.
  \<^item> \<open>Pubkeys\<close>, \<open>Addresses\<close>, \<open>Errors\<close>: 32-byte keys as a type of their own with their order; accounts and
    account metas; \<open>accounts/addresses.rs\<close> and \<open>constants.rs\<close>, every address proved to be what its Base58
    literal decodes to; the error values, one constructor for each place that raises one.
  \<^item> \<open>Amm_Math\<close>, \<open>Tax_Math\<close>, \<open>Vault_Math\<close>: \<open>math/*.rs\<close>.  \<open>Amm_Trades\<close>: a pool over time, as the sequences of
    trades that this arithmetic prices.
  \<^item> \<open>Pool_State\<close>, \<open>Epoch_State\<close>, \<open>Token_Account\<close>, \<open>Mint_State\<close>: \<open>state/*.rs\<close>, parsers and quote-mint policy,
    with the serialisers of the tests.
  \<^item> \<open>Instruction\<close>: \<open>instruction.rs\<close>.
  \<^item> \<open>Hook_Accounts\<close>, \<open>Sol_Pool_Accounts\<close>, \<open>Spl_Pool_Accounts\<close>, \<open>Vault_Accounts\<close>: \<open>accounts/*.rs\<close>.  The locale
    \<open>lane_builder\<close> states what a swap lane's builder owes its caller and is interpreted for the five lanes.
  \<^item> \<open>Jupiter_Interface\<close>: the values of the trait, and what routing relies on as the locales \<open>jupiter_amm\<close>
    (identity, locality and panic-freedom over whole histories of refreshes) and \<open>liquid_amm\<close> (quotes
    within a liquidity, and monotone); \<open>mono_stage\<close> and \<open>two_stages\<close> compose monotone pricing stages.
  \<^item> \<open>Sol_Pool_Amm\<close> (definitions), \<open>Sol_Pool_State\<close> (construction, refresh, activity), \<open>Sol_Pool_Quotes\<close> (prices),
    \<open>Sol_Pool_Routing\<close> (account lists, interpretation of the interface), \<open>Sol_Pool_Lifecycle\<close> (a
    transition system of refreshes and clock slots): \<open>sol_pool_amm.rs\<close>.  A method on \<open>&mut self\<close> takes
    the record \<open>sol_pool_amm\<close> and returns the new one beside its result, so the partial effects of a
    failing refresh are part of the model.  \<open>Price_Accuracy\<close> compares the integer prices and the
    reported fees with exact rational ones.  \<open>Sol_Pool_Trades\<close> settles sequences of quotes against a pool.
  \<^item> \<open>Vault_Amm\<close> (definitions and interpretation), \<open>Vault_Properties\<close>: \<open>vault_amm.rs\<close>.
  \<^item> \<open>Market_Spec\<close>: the abstract specification.  A market is what a pool or a vault offers now, in natural
    numbers; the locale \<open>simulation\<close> is the contract of a detailed and an abstract system that answer
    the same events.
  \<^item> \<open>Amm_Fleet\<close>: instances of both adapters behind \<open>Box<dyn Amm>\<close>, with \<open>clone_amm\<close>, refreshed and asked in
    any order over shared clocks; the simulation is interpreted on it, so the fleet refines the
    markets.  \<open>Amm_Routes\<close>: multi-hop routes through a fleet, out and back.  \<open>Amm_Swaps\<close>: the account
    lists of a route's hops; the locale \<open>buildable_amm\<close> states that what an instance has quoted it can
    build, and is interpreted for both adapters.
  \<^item> \<open>Quote_Example\<close>: \<open>examples/quote_example.rs\<close>, with the lines it prints computed.
  \<^item> \<open>Test_Vectors_Math\<close>, \<open>Test_Vectors_State\<close>, \<open>Test_Vectors_Accounts\<close>, \<open>Test_Vectors_Vault\<close>,
    \<open>Test_Vectors_Pool\<close>, \<open>Test_Vectors_Mint\<close>: the crate's own unit tests, one executable predicate for each
    test function, which the model passes.  They tie the definitions to the results the authors
    expect, including a live account's bytes, and are proved for all keys where the tests draw fresh ones.
  \<^item> \<open>Integration_Gauntlet\<close>, \<open>Integration_Quoting\<close>, \<open>Integration_Speed\<close>, \<open>Integration_Lifecycle\<close>,
    \<open>Integration_Structure\<close>, \<open>Integration_Mainnet\<close>, \<open>Integration_Snapshots\<close>: the integration tests of \<open>tests/\<close>, likewise.  The
    accounts captured from mainnet are decoded and parsed, and the quotes on them come out exactly.
    The two properties that the discovery tests sample are settled for all inputs.
  \<^item> This theory: the properties that span components.

  \<^bold>\<open>What the theorems show.\<close>  An active pool is never stale, and a quote is, down to the last unit, the
  test-suite's reference pipeline on the bytes of the accounts of the latest refresh (C1, C2).  Any
  interleaving of what Jupiter does with any number of instances is answered as the abstract markets
  would, without a panic, and never breaks an instance's shape (C3, C16); routes are monotone and
  liquid, give no profit out and back, and can be built once they are priced (C4, C11, C12).  A refresh
  either takes everything or deactivates, and good accounts always reopen a pool, at its pause's end
  (C5, C18, C19); the constructors accept exactly the canonical
  pools and conversions (C6, C25); prices, fees and failure conditions are exact, monotone and within
  the reserves (C7 to C10, C23, C26), less than a unit and the worth of a unit of input from the
  unrounded price (C14, C27); the arithmetic keeps the product of the reserves
  and gives the most that does, leaves no profit to
  splitting a swap, and never drains a pool over any sequence of quoted trades (C13, C28 to C31); the tax split
  is exact (C32); parsers accept exactly the well-shaped accounts, lose nothing and never panic (C20 to
  C22, C38); account lists have the right lengths, slots and the user as only signer (C17, C34 to C37);
  encodings decode, and agree only where what they carry agrees (C33); all this survives any history of refreshes (C15, C24).
  The live SPL pools come out as recorded (C39), and the example runs to its end (C40).

  \<^bold>\<open>Parameters.\<close>  Code that is not in the repository is an argument: \<open>pda\<close> for
  \<open>find_program_address\<close>, \<open>ata\<close> for the associated token address, \<open>lib\<close> (record \<open>mint_lib\<close>) for the mint
  unpacking of \<open>spl-token\<close> and \<open>spl-token-2022\<close>, \<open>sha256\<close>, \<open>parse_pubkey\<close> for reading a key from text, and the
  shared clocks \<open>clk\<close>, a store from clock references to slots.  No property assumes anything of them
  except C39; two of the test vectors, and the lemma that the factory's instances are found by their
  keys, want the four synthetic keys to differ.
  The mint tests also need functions that write mints (record \<open>mint_writer\<close>), and the hypothesis \<open>reads_back\<close>
  that \<open>lib\<close> reads what they write, for which \<open>Test_Vectors_Mint\<close> gives an instance.  In the integration
  tests, \<open>exp_of\<close> stands for the floating-point part of a sampler, of which nothing is assumed,
  \<open>elapsed\<close> for the time a speed benchmark takes, and \<open>default_unidirectional\<close> for a default method of the
  trait; the tests on mainnet pools hold for derivations \<open>pda\<close> that give the pools their keys, and the SPL
  snapshots, further, for a \<open>parse_pubkey\<close> that reads their six keys and a \<open>lib\<close> that unpacks their two
  quote mints (\<open>snapshot_answers\<close>, which can hold).  An \<open>AccountMap\<close> is a partial function from keys to
  accounts, as its accessors present it.

  \<^bold>\<open>Bounds.\<close>  There is no fuel: every loop of the crate runs over a fixed list, so every definition is
  total by its structure; what can still go wrong is a panic, and that it does not is part of the
  theorems, for a whole program in C40.  Integers have the
  widths of the code (\<open>u64\<close> amounts, \<open>u128\<close> intermediates, \<open>u32\<close> fee sums), and \<open>Decimal\<close> fee rates, which are exact
  multiples of a ten-thousandth, are rationals.

  \<^bold>\<open>Not modelled.\<close>  Texts of error messages; the text that \<open>Display\<close> makes of printed values; fields of
  the interface types the crate never reads; module files, which only declare and re-export; how
  long anything takes; the IDL files, which describe on-chain programs outside the crate.
\<close>

section \<open>From account bytes to prices\<close>

text \<open>The pool's two reserves, quote side first, and its faction, read off the parsed account.\<close>

definition quote_and_faction_reserves :: "pool_state \<Rightarrow> u64 \<times> u64" where
  "quote_and_faction_reserves p =
     (if faction_mint (mint_a p) then (reserve_b p, reserve_a p) else (reserve_a p, reserve_b p))"

definition is_crime_pool :: "pool_state \<Rightarrow> bool" where
  "is_crime_pool p \<longleftrightarrow> CRIME_MINT \<in> {mint_a p, mint_b p}"

lemma wf_pool_view:
  assumes "amm_wf s" and "amm_pool s = p"
  shows "reserves s = quote_and_faction_reserves p" and "is_crime s = is_crime_pool p"
proof -
  have f: "faction_mint (amm_faction_mint s)" "\<not> faction_mint (amm_quote_mint s)"
    by (rule amm_wf_mints [OF assms(1)])+
  have mints: "mint_a p = amm_quote_mint s \<and> mint_b p = amm_faction_mint s \<or>
      mint_a p = amm_faction_mint s \<and> mint_b p = amm_quote_mint s"
    using assms by (auto simp: amm_wf_def Let_def)
  show "reserves s = quote_and_faction_reserves p"
    using mints f amm_wf_mints(1) [OF assms(1)] assms(2)
    by (auto simp: reserves_def quote_and_faction_reserves_def)
  have "amm_faction s = Crime \<longleftrightarrow> amm_faction_mint s = CRIME_MINT"
    using assms(1) by (auto simp: amm_wf_def faction_from_mint_iff)
  moreover have "amm_quote_mint s \<noteq> CRIME_MINT" using f(2) by auto
  ultimately show "is_crime s = is_crime_pool p"
    using mints by (auto simp: is_crime_def is_crime_pool_def)
qed

text \<open>C2: From account bytes to prices.  Construct an instance from any account, refresh it
  successfully with any account map, and ask for any quote: if there is one, then the pause has ended
  on the instance's clock, and the output is that of the reference pipeline of the quoting tests,
  run on the reserves and the fee in the pool account's bytes and on the epoch account's tax rate for
  the pool's faction and the direction.\<close>

theorem quotes_come_from_the_accounts:
  assumes "pool_from_keyed_account pda ka clock = Ok s" and "pool_update lib m s = (s', Ok ())"
    and "pool_quote clk s' q = Ok r"
  shows "\<exists>pa ea p e. m (ka_key ka) = Some pa \<and> pool_from_bytes (acc_data pa) = Ok p \<and>
    m EPOCH_STATE_PDA = Some ea \<and> epoch_from_bytes (acc_data ea) = Ok e \<and>
    pause_end_slot e \<le> clk clock \<and>
    {q_input_mint q, q_output_mint q} = {mint_a p, mint_b p} \<and>
    (let (r_quote, r_faction) = quote_and_faction_reserves p; is_buy = faction_mint (q_output_mint q);
         tax = get_tax_bps e (is_crime_pool p) is_buy
     in (if is_buy then reference_buy_output else reference_sell_output)
          r_quote r_faction (q_amount q) tax (lp_fee_bps p) = Ok (out_amount r))"
proof -
  have wf: "amm_wf s" and key: "amm_key s = ka_key ka" "amm_clock_ref s = clock"
    using constructed(1-3) [OF assms(1)] by simp_all
  obtain p e where reads: "refresh_reads lib m s p e" and s': "s' = refreshed p e s"
    using assms(2) by (auto simp: pool_update_Ok)
  have wf': "amm_wf s'" using wf pool_update_wf [of lib m s] assms(2) by simp
  note view = wf_pool_view [OF wf', of p]
  have pool: "amm_pool s' = p" by (simp add: s')
  have rates: "amm_buy_tax_bps s' = get_tax_bps e (is_crime s') True"
    "amm_sell_tax_bps s' = get_tax_bps e (is_crime s') False"
    by (simp_all add: s' refreshed_def with_epoch_def is_crime_def)
  have "pool_is_active clk s'" using assms(3) pool_quote_Ok [OF wf'] by blast
  then have active: "pause_end_slot e \<le> clk clock"
    using active_refreshed [of clk p e s] key(2) by (simp add: s')
  have mints: "{amm_quote_mint s', amm_faction_mint s'} = {mint_a p, mint_b p}"
    using wf' pool by (auto simp: amm_wf_def Let_def)
  have prices: "(if faction_mint (q_output_mint q) then reference_buy_output else reference_sell_output)
      (fst (reserves s')) (snd (reserves s')) (q_amount q)
      (get_tax_bps e (is_crime s') (faction_mint (q_output_mint q))) (lp_fee_bps p) = Ok (out_amount r)"
    using assms(3) amm_wf_mints(2,3) [OF wf'] buy_matches [of s' "q_amount q"] sell_matches [of s' "q_amount q"]
    by (auto simp: pool_quote_Ok [OF wf'] rates pool)
  have pair: "{q_input_mint q, q_output_mint q} = {mint_a p, mint_b p}"
    using assms(3) mints by (auto simp: pool_quote_Ok [OF wf'])
  have price: "let (r_quote, r_faction) = quote_and_faction_reserves p; is_buy = faction_mint (q_output_mint q);
         tax = get_tax_bps e (is_crime_pool p) is_buy
     in (if is_buy then reference_buy_output else reference_sell_output)
          r_quote r_faction (q_amount q) tax (lp_fee_bps p) = Ok (out_amount r)"
    using prices unfolding view [OF pool] by (simp only: Let_def split_beta)
  show ?thesis
    using reads active pair price unfolding refresh_reads_def key(1) by blast
qed

theorem quotes_come_from_the_accounts_witness:
  "\<exists>s' r. pool_update no_mints crime_map crime_amm = (s', Ok ()) \<and>
     pool_quote (\<lambda>_. 0) s' (quote_request 100 NATIVE_MINT CRIME_MINT) = Ok r \<and>
     reference_buy_output 1000 5000 100 400 100 = Ok (out_amount r)"
proof -
  obtain e where reads: "refresh_reads no_mints crime_map crime_amm (amm_pool crime_amm) e"
    and ok: "epoch_initialized e" "\<not> trading_paused e" "pause_end_slot e = 0"
      "initialized (amm_pool crime_amm)" "\<not> locked (amm_pool crime_amm)"
    by (rule crime_refresh_epoch)
  define s' where "s' = refreshed (amm_pool crime_amm) e crime_amm"
  have upd: "pool_update no_mints crime_map crime_amm = (s', Ok ())"
    using reads by (auto simp: pool_update_Ok s'_def)
  have pool: "amm_pool s' = amm_pool crime_amm" by (simp add: s'_def)
  have parsed: "amm_pool crime_amm = \<lparr>mint_a = NATIVE_MINT, mint_b = CRIME_MINT, vault_a = CRIME_SOL_VAULT_A,
      vault_b = CRIME_SOL_VAULT_B, reserve_a = 1000, reserve_b = 5000, lp_fee_bps = 100, initialized = True,
      locked = False, bump = 254, vault_a_bump = 253, vault_b_bump = 252,
      token_program_a = SPL_TOKEN_PROGRAM_ID, token_program_b = TOKEN_2022_PROGRAM_ID\<rparr>"
    using crime_amm_pool by (simp add: crime_pool_parsed)
  have wf': "amm_wf s'"
    using constructed(1) [OF crime_constructed] pool_update_wf [of no_mints crime_map crime_amm] upd by simp
  have mints: "amm_quote_mint s' = NATIVE_MINT" "amm_faction_mint s' = CRIME_MINT"
    by (simp_all add: s'_def refreshed_def with_epoch_def crime_amm_eq(3,4))
  have rates: "amm_buy_tax_bps s' = 400"
    using reads by (auto simp: s'_def refreshed_def with_epoch_def is_crime_def crime_amm_eq(2,5) get_tax_bps_def
        refresh_reads_def crime_map_def epoch_parsed)
  have res: "reserves s' = (1000, 5000)"
    by (simp add: reserves_def mints(1) pool parsed)
  have "buy_priced s' 100"
    by (simp add: buy_priced_def rates pool parsed res Let_def)
  then obtain r where buy: "quote_buy s' 100 = Ok r" using quote_buy_exists by blast
  have "pool_is_active (\<lambda>_. 0) s'" using ok by (simp add: s'_def active_refreshed)
  then have quote: "pool_quote (\<lambda>_. 0) s' (quote_request 100 NATIVE_MINT CRIME_MINT) = Ok r"
    using buy by (simp add: pool_quote_Ok [OF wf'] mints quote_request_def)
  from quotes_come_from_the_accounts [OF crime_constructed upd quote]
  have "reference_buy_output 1000 5000 100 400 100 = Ok (out_amount r)"
    by (auto simp: crime_keyed_account_def crime_map_def crime_pool_parsed epoch_parsed quote_request_def
        quote_and_faction_reserves_def is_crime_pool_def get_tax_bps_def)
  then show ?thesis using upd quote by blast
qed

end
